(* ===== verification/Prelude.thy ===== *)
theory Prelude
  imports Complex_Main
begin

text \<open>
  Shared vocabulary of the development.

  \<^item> \<open>('s, 'e, 'a) eff\<close> is the type of an effectful Python function: it takes the state
    it reads and writes and returns either the exception it raised (\<open>Inl\<close>) or its value
    (\<open>Inr\<close>), with the state as the call left it. State written before an exception is
    raised stays written, as in the code, where a committed transaction survives a later raise.
  \<^item> \<open>keeps P m\<close> says that \<open>m\<close> preserves the state predicate \<open>P\<close> on every path, the
    exceptional ones included. Its composition rules are collected in \<open>keeps_intros\<close>.
  \<^item> \<open>sbnd\<close> and \<open>smap\<close> chain pure computations that may raise, and \<open>of_sum\<close> is such a
    computation inside an effectful one.
  \<^item> \<open>first_row\<close>, \<open>upd_rows\<close> and \<open>del_rows\<close> are \<open>SELECT ... LIMIT 1\<close>, \<open>UPDATE\<close>
    and \<open>DELETE\<close> on a table held as the list of its rows in insertion order.
  \<^item> \<open>py_trunc\<close> is Python's \<open>int()\<close> on a number.

  Strings are lists of \<open>char\<close>; a \<open>char\<close> stands for a code point below 256, and
  the few literals of the source that need more are written as their UTF-8 bytes.
\<close>

named_theorems keeps_intros \<open>composition rules for preserved state predicates\<close>
named_theorems row_simps \<open>equations for row updates on tables\<close>

section \<open>Effects\<close>

type_synonym ('s, 'e, 'a) eff = "'s \<Rightarrow> ('e + 'a) \<times> 's"

definition ret :: "'a \<Rightarrow> ('s, 'e, 'a) eff" where
  "ret a = (\<lambda>s. (Inr a, s))"

definition throw :: "'e \<Rightarrow> ('s, 'e, 'a) eff" where
  "throw e = (\<lambda>s. (Inl e, s))"

definition bnd :: "('s, 'e, 'a) eff \<Rightarrow> ('a \<Rightarrow> ('s, 'e, 'b) eff) \<Rightarrow> ('s, 'e, 'b) eff" where
  "bnd m f = (\<lambda>s. case m s of (Inl e, t) \<Rightarrow> (Inl e, t) | (Inr a, t) \<Rightarrow> f a t)"

definition catching :: "('s, 'e, 'a) eff \<Rightarrow> ('e \<Rightarrow> ('s, 'e, 'a) eff) \<Rightarrow> ('s, 'e, 'a) eff" where
  "catching m h = (\<lambda>s. case m s of (Inl e, t) \<Rightarrow> h e t | (Inr a, t) \<Rightarrow> (Inr a, t))"

definition gets :: "('s \<Rightarrow> 'a) \<Rightarrow> ('s, 'e, 'a) eff" where
  "gets f = (\<lambda>s. (Inr (f s), s))"

definition modify :: "('s \<Rightarrow> 's) \<Rightarrow> ('s, 'e, unit) eff" where
  "modify f = (\<lambda>s. (Inr (), f s))"

text \<open>\<open>try: m finally: c\<close>, where \<open>c\<close> itself does not raise.\<close>

definition finalizing :: "('s, 'e, 'a) eff \<Rightarrow> ('s \<Rightarrow> 's) \<Rightarrow> ('s, 'e, 'a) eff" where
  "finalizing m c = (\<lambda>s. case m s of (r, t) \<Rightarrow> (r, c t))"

text \<open>\<open>try: m finally: c\<close>, where an exception of \<open>c\<close> takes the place of what \<open>m\<close> did.\<close>

definition finally_do :: "('s, 'e, 'a) eff \<Rightarrow> ('s, 'e, 'b) eff \<Rightarrow> ('s, 'e, 'a) eff" where
  "finally_do m c = (\<lambda>s. case m s of (r, t) \<Rightarrow>
     (case c t of (Inl e, u) \<Rightarrow> (Inl e, u) | (Inr _, u) \<Rightarrow> (r, u)))"

text \<open>A loop \<open>for x in xs: acc = f(x, acc)\<close> that stops at the first exception.\<close>

fun fold_eff :: "('x \<Rightarrow> 'a \<Rightarrow> ('s, 'e, 'a) eff) \<Rightarrow> 'x list \<Rightarrow> 'a \<Rightarrow> ('s, 'e, 'a) eff" where
  "fold_eff f [] acc = ret acc"
| "fold_eff f (x # xs) acc = bnd (f x acc) (\<lambda>acc'. fold_eff f xs acc')"

lemma ret_apply [simp]: "ret a s = (Inr a, s)"
  by (simp add: ret_def)

lemma throw_apply [simp]: "throw e s = (Inl e, s)"
  by (simp add: throw_def)

lemma gets_apply [simp]: "gets f s = (Inr (f s), s)"
  by (simp add: gets_def)

lemma modify_apply [simp]: "modify f s = (Inr (), f s)"
  by (simp add: modify_def)

lemma bnd_Inr [simp]: "m s = (Inr a, t) \<Longrightarrow> bnd m f s = f a t"
  by (simp add: bnd_def)

lemma bnd_Inl [simp]: "m s = (Inl e, t) \<Longrightarrow> bnd m f s = (Inl e, t)"
  by (simp add: bnd_def)

lemma catching_Inr [simp]: "m s = (Inr a, t) \<Longrightarrow> catching m h s = (Inr a, t)"
  by (simp add: catching_def)

lemma catching_Inl [simp]: "m s = (Inl e, t) \<Longrightarrow> catching m h s = h e t"
  by (simp add: catching_def)

lemma finalizing_apply [simp]: "m s = (r, t) \<Longrightarrow> finalizing m c s = (r, c t)"
  by (simp add: finalizing_def)

lemma finally_do_apply [simp]: "m s = (r, t) \<Longrightarrow> c t = (Inr b, u) \<Longrightarrow> finally_do m c s = (r, u)"
  by (simp add: finally_do_def)

lemma bnd_eq_Inr:
  "bnd m f s = (Inr b, u) \<longleftrightarrow> (\<exists>a t. m s = (Inr a, t) \<and> f a t = (Inr b, u))"
  by (auto simp: bnd_def split: prod.splits sum.splits)

lemma bnd_eq_Inl:
  "bnd m f s = (Inl e, u) \<longleftrightarrow>
     m s = (Inl e, u) \<or> (\<exists>a t. m s = (Inr a, t) \<and> f a t = (Inl e, u))"
  by (auto simp: bnd_def split: prod.splits sum.splits)

lemma bnd_assoc: "bnd (bnd m f) g = bnd m (\<lambda>a. bnd (f a) g)"
  by (rule ext) (simp add: bnd_def split: prod.splits sum.splits)

lemma bnd_ret_left [simp]: "bnd (ret a) f = f a"
  by (rule ext) (simp add: bnd_def)

lemma bnd_ret_right [simp]: "bnd m ret = m"
  by (rule ext) (simp add: bnd_def split: prod.splits sum.splits)

subsection \<open>Pure computations that may raise\<close>

definition sbnd :: "'e + 'a \<Rightarrow> ('a \<Rightarrow> 'e + 'b) \<Rightarrow> 'e + 'b" where
  "sbnd r f = (case r of Inl e \<Rightarrow> Inl e | Inr a \<Rightarrow> f a)"

fun smap :: "('a \<Rightarrow> 'e + 'b) \<Rightarrow> 'a list \<Rightarrow> 'e + 'b list" where
  "smap f [] = Inr []"
| "smap f (x # xs) = sbnd (f x) (\<lambda>y. sbnd (smap f xs) (\<lambda>ys. Inr (y # ys)))"

definition of_sum :: "'e + 'a \<Rightarrow> ('s, 'e, 'a) eff" where
  "of_sum r = (\<lambda>s. (r, s))"

lemma sbnd_simps [simp]: "sbnd (Inl e) f = Inl e" "sbnd (Inr a) f = f a"
  by (simp_all add: sbnd_def)

lemma sbnd_eq_Inr: "sbnd r f = Inr b \<longleftrightarrow> (\<exists>a. r = Inr a \<and> f a = Inr b)"
  by (cases r) auto

lemma smap_eq_Inr: "smap f xs = Inr ys \<longleftrightarrow> list_all2 (\<lambda>x y. f x = Inr y) xs ys"
  by (induction xs arbitrary: ys) (auto simp: sbnd_eq_Inr list_all2_Cons1)

lemma smap_total: "(\<And>x. x \<in> set xs \<Longrightarrow> \<exists>y. f x = Inr y) \<Longrightarrow> \<exists>ys. smap f xs = Inr ys"
  by (induction xs) (auto simp: sbnd_eq_Inr)

lemma of_sum_apply [simp]: "of_sum r s = (r, s)"
  by (simp add: of_sum_def)

text \<open>What each round of a loop establishes, the whole loop establishes.\<close>

lemma fold_eff_rounds:
  assumes "fold_eff f xs acc s = (Inr acc', s')" and "I n acc"
    and "\<And>x k a t b u. x \<in> set xs \<Longrightarrow> f x a t = (Inr b, u) \<Longrightarrow> I k a \<Longrightarrow> I (Suc k) b"
  shows "I (n + length xs) acc'"
  using assms
proof (induction xs arbitrary: acc s n)
  case (Cons x xs)
  then obtain a t where "f x acc s = (Inr a, t)" "fold_eff f xs a t = (Inr acc', s')"
    by (auto simp: bnd_eq_Inr)
  moreover have "I (Suc n) a" by (rule Cons.prems(3) [OF _ \<open>f x acc s = (Inr a, t)\<close> Cons.prems(2)]) simp
  moreover have "I (Suc k) b" if "y \<in> set xs" "f y e u = (Inr b, v)" "I k e" for y k e u b v
    by (rule Cons.prems(3) [OF _ that(2,3)]) (simp add: that(1))
  ultimately have "I (Suc n + length xs) acc'" by (intro Cons.IH)
  then show ?case by simp
qed (simp add: ret_def)

subsection \<open>Preserved predicates\<close>

definition keeps :: "('s \<Rightarrow> bool) \<Rightarrow> ('s, 'e, 'a) eff \<Rightarrow> bool" where
  "keeps P m \<longleftrightarrow> (\<forall>s. P s \<longrightarrow> P (snd (m s)))"

lemma keepsI: "(\<And>s. P s \<Longrightarrow> P (snd (m s))) \<Longrightarrow> keeps P m"
  by (simp add: keeps_def)

lemma keepsD: "keeps P m \<Longrightarrow> m s = (r, t) \<Longrightarrow> P s \<Longrightarrow> P t"
  by (metis keeps_def snd_conv)

lemma keeps_ret [keeps_intros]: "keeps P (ret a)"
  by (simp add: keeps_def)

lemma keeps_Pair [keeps_intros]: "keeps P (Pair r)"
  by (simp add: keeps_def)

lemma keeps_throw [keeps_intros]: "keeps P (throw e)"
  by (simp add: keeps_def)

lemma keeps_gets [keeps_intros]: "keeps P (gets f)"
  by (simp add: keeps_def)

lemma keeps_of_sum [keeps_intros]: "keeps P (of_sum r)"
  by (simp add: keeps_def)

lemma keeps_modify [keeps_intros]: "(\<And>s. P s \<Longrightarrow> P (f s)) \<Longrightarrow> keeps P (modify f)"
  by (simp add: keeps_def)

lemma keeps_bnd [keeps_intros]:
  "keeps P m \<Longrightarrow> (\<And>a. keeps P (f a)) \<Longrightarrow> keeps P (bnd m f)"
  by (auto simp: keeps_def bnd_def split: prod.splits sum.splits)

lemma keeps_catching [keeps_intros]:
  "keeps P m \<Longrightarrow> (\<And>e. keeps P (h e)) \<Longrightarrow> keeps P (catching m h)"
  by (auto simp: keeps_def catching_def split: prod.splits sum.splits)

lemma keeps_finalizing [keeps_intros]:
  "keeps P m \<Longrightarrow> (\<And>s. P s \<Longrightarrow> P (c s)) \<Longrightarrow> keeps P (finalizing m c)"
  by (auto simp: keeps_def finalizing_def split: prod.splits)

lemma keeps_finally_do [keeps_intros]: "keeps P m \<Longrightarrow> keeps P c \<Longrightarrow> keeps P (finally_do m c)"
  by (auto simp: keeps_def finally_do_def split: prod.splits sum.splits)

lemma keeps_fold_eff [keeps_intros]:
  "(\<And>x acc. keeps P (f x acc)) \<Longrightarrow> keeps P (fold_eff f xs acc)"
  by (induction xs arbitrary: acc) (auto intro: keeps_intros)

lemma keeps_if [keeps_intros]:
  "(b \<Longrightarrow> keeps P m) \<Longrightarrow> (\<not> b \<Longrightarrow> keeps P n) \<Longrightarrow> keeps P (if b then m else n)"
  by simp

lemma keeps_option [keeps_intros]:
  "keeps P m \<Longrightarrow> (\<And>x. keeps P (f x)) \<Longrightarrow> keeps P (case z of None \<Rightarrow> m | Some x \<Rightarrow> f x)"
  by (cases z) auto

lemma keeps_prod [keeps_intros]:
  "(\<And>a b. keeps P (f a b)) \<Longrightarrow> keeps P (case z of (a, b) \<Rightarrow> f a b)"
  by (cases z) auto

subsection \<open>Lists in pieces\<close>

text \<open>\<open>xs[i : i + n] for i in range(0, len(xs), n)\<close>.\<close>

fun chunks :: "nat \<Rightarrow> 'a list \<Rightarrow> 'a list list" where
  "chunks n [] = []"
| "chunks n (x # xs) = (x # take (n - 1) xs) # chunks n (drop (n - 1) xs)"

lemma concat_chunks: "0 < n \<Longrightarrow> concat (chunks n xs) = xs"
proof (induction n xs rule: chunks.induct)
  case (2 n x xs)
  then show ?case by (simp add: append_take_drop_id)
qed simp

section \<open>Tables\<close>

definition first_row :: "('r \<Rightarrow> bool) \<Rightarrow> 'r list \<Rightarrow> 'r option" where
  "first_row p rows = List.find p rows"

definition upd_rows :: "('r \<Rightarrow> bool) \<Rightarrow> ('r \<Rightarrow> 'r) \<Rightarrow> 'r list \<Rightarrow> 'r list" where
  "upd_rows p f rows = map (\<lambda>r. if p r then f r else r) rows"

definition del_rows :: "('r \<Rightarrow> bool) \<Rightarrow> 'r list \<Rightarrow> 'r list" where
  "del_rows p rows = filter (\<lambda>r. \<not> p r) rows"

lemma first_row_Some_iff:
  "first_row p rows = Some r \<longleftrightarrow>
     (\<exists>i < length rows. p (rows ! i) \<and> r = rows ! i \<and> (\<forall>j < i. \<not> p (rows ! j)))"
  by (simp add: first_row_def find_Some_iff)

lemma first_row_SomeD: "first_row p rows = Some r \<Longrightarrow> r \<in> set rows \<and> p r"
  by (auto simp: first_row_def find_Some_iff)

lemma first_row_None [simp]: "first_row p rows = None \<longleftrightarrow> (\<forall>r \<in> set rows. \<not> p r)"
  by (auto simp: first_row_def find_None_iff)

lemma first_row_Nil [row_simps]: "first_row p [] = None"
  by simp

lemma first_row_Cons [row_simps]:
  "first_row p (r # rows) = (if p r then Some r else first_row p rows)"
  by (simp add: first_row_def)

lemma first_row_append [row_simps]:
  "first_row p (xs @ ys) = (case first_row p xs of None \<Rightarrow> first_row p ys | Some r \<Rightarrow> Some r)"
  by (induction xs) (auto simp: row_simps)

text \<open>A table keyed by \<open>k\<close>: no two rows share a key.\<close>

definition keyed :: "('r \<Rightarrow> 'k) \<Rightarrow> 'r list \<Rightarrow> bool" where
  "keyed k rows \<longleftrightarrow> distinct (map k rows)"

lemma keyed_first_row:
  "keyed k rows \<Longrightarrow> r \<in> set rows \<Longrightarrow> first_row (\<lambda>x. k x = k r) rows = Some r"
  by (induction rows) (auto simp: keyed_def row_simps image_iff)

lemma set_upd_rows: "set (upd_rows p f rows) = (\<lambda>r. if p r then f r else r) ` set rows"
  by (simp add: upd_rows_def)

lemma upd_rows_Nil [row_simps]: "upd_rows p f [] = []"
  by (simp add: upd_rows_def)

lemma upd_rows_Cons [row_simps]:
  "upd_rows p f (r # rows) = (if p r then f r else r) # upd_rows p f rows"
  by (simp add: upd_rows_def)

lemma length_upd_rows [simp]: "length (upd_rows p f rows) = length rows"
  by (simp add: upd_rows_def)

lemma keyed_upd_rows:
  "keyed k rows \<Longrightarrow> (\<And>r. k (f r) = k r) \<Longrightarrow> keyed k (upd_rows p f rows)"
  by (simp add: keyed_def upd_rows_def comp_def if_distrib cong: if_cong)

lemma keyed_del_rows: "keyed k rows \<Longrightarrow> keyed k (del_rows p rows)"
  by (simp add: keyed_def del_rows_def distinct_map_filter)

lemma first_row_upd_rows_other:
  "(\<And>r. p r \<Longrightarrow> q (f r) = q r) \<Longrightarrow> (\<And>r. p r \<Longrightarrow> \<not> q r) \<Longrightarrow>
   first_row q (upd_rows p f rows) = first_row q rows"
  by (induction rows) (auto simp: row_simps)

lemma first_row_upd_rows_same:
  "(\<And>r. q (f r) = q r) \<Longrightarrow> first_row q (upd_rows q f rows) = map_option f (first_row q rows)"
  by (induction rows) (auto simp: row_simps)

section \<open>Numbers\<close>

text \<open>Python's \<open>int(x)\<close> on a float or a Decimal: truncation towards zero.\<close>

definition py_trunc :: "rat \<Rightarrow> int" where
  "py_trunc x = (if 0 \<le> x then \<lfloor>x\<rfloor> else \<lceil>x\<rceil>)"

lemma py_trunc_of_int [simp]: "py_trunc (of_int k) = k"
  by (simp add: py_trunc_def)

lemma py_trunc_nonneg: "0 \<le> x \<Longrightarrow> 0 \<le> py_trunc x"
  by (simp add: py_trunc_def)

lemma py_trunc_nonpos: "x \<le> 0 \<Longrightarrow> py_trunc x \<le> 0"
  by (cases "x = 0") (auto simp: py_trunc_def ceiling_le_iff)

lemma py_trunc_mono: "x \<le> y \<Longrightarrow> py_trunc x \<le> py_trunc y"
  by (cases "0 \<le> x"; cases "0 \<le> y")
    (auto simp: py_trunc_def intro: floor_mono ceiling_mono order.trans [of _ 0] ceiling_le_iff)

section \<open>Transition systems\<close>

text \<open>What the step relations of the components are proved to be: systems with an invariant, and
  implementations of a more abstract system.\<close>

locale transition_invariant =
  fixes step :: "'s \<Rightarrow> 's \<Rightarrow> bool"
    and inv :: "'s \<Rightarrow> bool"
  assumes step_inv: "step s t \<Longrightarrow> inv s \<Longrightarrow> inv t"
begin

lemma steps_inv: "step\<^sup>*\<^sup>* s t \<Longrightarrow> inv s \<Longrightarrow> inv t"
  by (induction rule: rtranclp_induct) (auto intro: step_inv)

end

locale forward_simulation = transition_invariant step inv
  for step :: "'s \<Rightarrow> 's \<Rightarrow> bool" and inv :: "'s \<Rightarrow> bool" +
  fixes spec_step :: "'a \<Rightarrow> 'a \<Rightarrow> bool"
    and view :: "'s \<Rightarrow> 'a"
  assumes step_simulated: "step s t \<Longrightarrow> inv s \<Longrightarrow> spec_step\<^sup>*\<^sup>* (view s) (view t)"
begin

lemma steps_simulated: "step\<^sup>*\<^sup>* s t \<Longrightarrow> inv s \<Longrightarrow> spec_step\<^sup>*\<^sup>* (view s) (view t)"
proof (induction rule: rtranclp_induct)
  case (step t u)
  then have "inv t" using steps_inv by blast
  with step have "spec_step\<^sup>*\<^sup>* (view t) (view u)" by (intro step_simulated)
  with step show ?case by (meson rtranclp_trans)
qed simp

end

end
