(* ===== verification/Rounding.thy ===== *)
theory Rounding
  imports Prelude
begin

text \<open>
  The two inexact arithmetics the program computes with: IEEE binary64 (Python \<open>float\<close>) and the
  default decimal context (Python \<open>decimal\<close>, 28 significant digits, ties to even). Both
  are instances of one function: \<open>rnd b p emin x\<close> rounds the exact rational \<open>x\<close> to the
  nearest number with \<open>p\<close> digits in base \<open>b\<close> and least exponent \<open>emin\<close>, ties to even.
  A float or Decimal operation is the exact operation followed by the rounding, which is how
  both standards define it. Overflow to infinity and the not-a-number values are outside the
  model: stock counts, percentages and prices stay far from them.

  The locale \<open>rounding\<close> states what the components rely on (monotone, odd, exact on
  integers up to a bound), and is interpreted on both instances.
\<close>

section \<open>Rounding to an integer\<close>

text \<open>\<open>ROUND_HALF_EVEN\<close> to an integer.\<close>

definition half_even :: "rat \<Rightarrow> int" where
  "half_even x =
     (let f = \<lfloor>x\<rfloor>; d = x - of_int f
      in if d < 1 / 2 then f else if 1 / 2 < d then f + 1 else if even f then f else f + 1)"

text \<open>\<open>ROUND_HALF_UP\<close> to an integer: ties go away from zero.\<close>

definition half_up :: "rat \<Rightarrow> int" where
  "half_up x = (if 0 \<le> x then \<lfloor>x + 1 / 2\<rfloor> else - \<lfloor>- x + 1 / 2\<rfloor>)"

lemma half_even_of_int [simp]: "half_even (of_int k) = k"
  by (simp add: half_even_def Let_def)

lemma half_even_bounds: "\<lfloor>x\<rfloor> \<le> half_even x" "half_even x \<le> \<lfloor>x\<rfloor> + 1"
  by (auto simp: half_even_def Let_def)

lemma half_even_error: "\<bar>of_int (half_even x) - x\<bar> \<le> 1 / 2"
proof -
  have f: "of_int \<lfloor>x\<rfloor> \<le> x" "x < of_int \<lfloor>x\<rfloor> + 1" by linarith+
  then show ?thesis by (auto simp: half_even_def Let_def abs_le_iff)
qed

lemma half_even_mono:
  assumes "x \<le> y"
  shows "half_even x \<le> half_even y"
proof (cases "\<lfloor>x\<rfloor> = \<lfloor>y\<rfloor>")
  case True
  with assms show ?thesis by (auto simp: half_even_def Let_def)
next
  case False
  with assms have "\<lfloor>x\<rfloor> + 1 \<le> \<lfloor>y\<rfloor>" using floor_mono [OF assms] by linarith
  with half_even_bounds [of x] half_even_bounds [of y] show ?thesis by linarith
qed

lemma half_even_minus: "half_even (- x) = - half_even x"
proof (cases "of_int \<lfloor>x\<rfloor> = x")
  case True
  then obtain k where "x = of_int k" by metis
  then show ?thesis by (metis half_even_of_int of_int_minus)
next
  case False
  have f: "of_int \<lfloor>x\<rfloor> \<le> x" "x < of_int \<lfloor>x\<rfloor> + 1"
    using floor_correct [of x] by simp_all
  moreover from f(1) False have "of_int \<lfloor>x\<rfloor> < x" by (simp add: less_le)
  ultimately have "\<lfloor>- x\<rfloor> = - \<lfloor>x\<rfloor> - 1" by (intro floor_unique) auto
  with f show ?thesis by (auto simp: half_even_def Let_def)
qed

lemma half_up_of_int [simp]: "half_up (of_int k) = k"
proof -
  have "\<lfloor>of_int k + 1 / 2 :: rat\<rfloor> = k" "\<lfloor>- of_int k + 1 / 2 :: rat\<rfloor> = - k"
    by (simp_all add: floor_unique)
  then show ?thesis by (simp add: half_up_def)
qed

lemma half_up_error: "\<bar>of_int (half_up x) - x\<bar> \<le> 1 / 2"
proof -
  have "of_int \<lfloor>x + 1 / 2\<rfloor> \<le> x + 1 / 2" "x + 1 / 2 < of_int \<lfloor>x + 1 / 2\<rfloor> + 1"
    "of_int \<lfloor>- x + 1 / 2\<rfloor> \<le> - x + 1 / 2" "- x + 1 / 2 < of_int \<lfloor>- x + 1 / 2\<rfloor> + 1"
    using floor_correct [of "x + 1 / 2"] floor_correct [of "- x + 1 / 2"] by simp_all
  then show ?thesis unfolding half_up_def abs_le_iff
    by (simp only: of_int_minus split: if_split) linarith
qed

lemma half_up_nonneg: "0 \<le> x \<Longrightarrow> 0 \<le> half_up x"
  by (simp add: half_up_def)

lemma half_up_le: "x \<le> of_int k \<Longrightarrow> half_up x \<le> k"
  using half_up_error [of x] unfolding abs_le_iff by linarith

section \<open>Rounding to \<open>p\<close> digits\<close>

text \<open>The number of times a positive integer can be divided by \<open>b\<close>: its logarithm, rounded down.\<close>

function ilog :: "int \<Rightarrow> int \<Rightarrow> nat" where
  "ilog b n = (if b < 2 \<or> n < b then 0 else Suc (ilog b (n div b)))"
  by pat_completeness auto
termination
  by (relation "measure (\<lambda>(b, n). nat n)") (auto simp: int_div_less_self)

declare ilog.simps [simp del]

lemma ilog_bounds:
  "2 \<le> b \<Longrightarrow> 0 < n \<Longrightarrow> b ^ ilog b n \<le> n \<and> n < b ^ Suc (ilog b n)"
proof (induction b n rule: ilog.induct)
  case (1 b n)
  show ?case
  proof (cases "n < b")
    case True
    with "1.prems" show ?thesis by (simp add: ilog.simps [of b n])
  next
    case False
    with "1.prems" have "0 < n div b" by (simp add: pos_imp_zdiv_pos_iff)
    with False "1.IH" "1.prems" have "b ^ ilog b (n div b) \<le> n div b"
      "n div b < b ^ Suc (ilog b (n div b))" by auto
    then have "b * b ^ ilog b (n div b) \<le> b * (n div b)"
      "b * (n div b + 1) \<le> b * b ^ Suc (ilog b (n div b))"
      using "1.prems" by (auto intro!: mult_left_mono simp del: power_Suc)
    moreover have "b * (n div b + 1) = b * (n div b) + b" by (simp add: distrib_left)
    moreover note mult_div_mod_eq [of b n]
    moreover have "0 \<le> n mod b" "n mod b < b" using "1.prems" by simp_all
    ultimately have "b * b ^ ilog b (n div b) \<le> n" "n < b * b ^ Suc (ilog b (n div b))"
      by linarith+
    with False "1.prems" show ?thesis by (simp add: ilog.simps [of b n])
  qed
qed

text \<open>The exponent of \<open>x \<noteq> 0\<close>: \<open>b powi expo b x \<le> \<bar>x\<bar> < b powi (expo b x + 1)\<close>.\<close>

definition expo :: "nat \<Rightarrow> rat \<Rightarrow> int" where
  "expo b x =
     (let n = int (ilog (int b) \<bar>fst (quotient_of x)\<bar>);
          m = int (ilog (int b) (snd (quotient_of x)))
      in if of_nat b powi (n - m) \<le> \<bar>x\<bar> then n - m else n - m - 1)"

definition quantum :: "nat \<Rightarrow> nat \<Rightarrow> int \<Rightarrow> rat \<Rightarrow> int" where
  "quantum b p emin x = max emin (expo b x - int p + 1)"

definition rnd :: "nat \<Rightarrow> nat \<Rightarrow> int \<Rightarrow> rat \<Rightarrow> rat" where
  "rnd b p emin x =
     (if x = 0 then 0
      else let u = of_nat b powi quantum b p emin x in of_int (half_even (x / u)) * u)"

lemma powi_pos: "2 \<le> b \<Longrightarrow> (0 :: rat) < of_nat b powi i"
  by (simp add: zero_less_power_int)

lemma powi_mono: "2 \<le> b \<Longrightarrow> i \<le> j \<Longrightarrow> (of_nat b :: rat) powi i \<le> of_nat b powi j"
  by (rule power_int_increasing) auto

lemma powi_less_iff:
  assumes "2 \<le> b"
  shows "(of_nat b :: rat) powi i < of_nat b powi j \<longleftrightarrow> i < j"
proof
  assume "(of_nat b :: rat) powi i < of_nat b powi j"
  with powi_mono [OF assms, of j i] show "i < j" by linarith
next
  assume "i < j"
  with assms show "(of_nat b :: rat) powi i < of_nat b powi j"
    by (intro power_int_strict_increasing) auto
qed

lemma powi_add: "2 \<le> b \<Longrightarrow> (of_nat b :: rat) powi (i + j) = of_nat b powi i * of_nat b powi j"
  by (simp add: power_int_add)

lemma powi_nat_int: "0 \<le> i \<Longrightarrow> (of_nat b :: rat) powi i = of_int (int b ^ nat i)"
  by (simp add: power_int_def)

lemma powi_ratio:
  "2 \<le> b \<Longrightarrow> (of_nat b :: rat) powi (int i - int j) = of_nat b ^ i / of_nat b ^ j"
  by (simp add: power_int_diff)

lemma powi_split:
  "2 \<le> b \<Longrightarrow> q \<le> g \<Longrightarrow>
   (of_nat b :: rat) powi g = of_int (int b ^ nat (g - q)) * of_nat b powi q"
  using powi_add [of b "g - q" q] by (simp add: powi_nat_int)

lemma expo_bounds:
  assumes "2 \<le> b" "x \<noteq> 0"
  shows "of_nat b powi expo b x \<le> \<bar>x\<bar>" "\<bar>x\<bar> < of_nat b powi (expo b x + 1)"
proof -
  obtain p q where pq: "quotient_of x = (p, q)" by force
  then have q: "0 < q" and x: "x = of_int p / of_int q"
    by (simp_all add: quotient_of_denom_pos quotient_of_div)
  with assms have p: "p \<noteq> 0" by auto
  define n m where "n = ilog (int b) \<bar>p\<bar>" and "m = ilog (int b) q"
  have ax: "\<bar>x\<bar> = of_int \<bar>p\<bar> / of_int q"
    using q by (simp add: x abs_divide)
  have nm: "int b ^ n \<le> \<bar>p\<bar>" "\<bar>p\<bar> < int b ^ Suc n" "int b ^ m \<le> q" "q < int b ^ Suc m"
    using ilog_bounds [of "int b" "\<bar>p\<bar>"] ilog_bounds [of "int b" q] p q assms
    by (simp_all add: n_def m_def)
  have c: "(of_nat b :: rat) ^ n \<le> of_int \<bar>p\<bar>" "(of_int \<bar>p\<bar> :: rat) < of_nat b ^ Suc n"
    "(of_nat b :: rat) ^ m \<le> of_int q" "(of_int q :: rat) < of_nat b ^ Suc m"
    using nm by (metis of_int_le_iff of_int_less_iff of_int_power of_int_of_nat_eq)+
  have eq: "int n - int m - 1 = int n - int (Suc m)" "int n - int m + 1 = int (Suc n) - int m"
    by simp_all
  have lo: "of_nat b powi (int n - int m - 1) \<le> \<bar>x\<bar>"
    unfolding eq powi_ratio [OF assms(1)] ax using c p q by (intro frac_le) auto
  have hi: "\<bar>x\<bar> < of_nat b powi (int n - int m + 1)"
    unfolding eq powi_ratio [OF assms(1)] ax using c p q assms by (intro frac_less) auto
  have e: "expo b x = (if of_nat b powi (int n - int m) \<le> \<bar>x\<bar> then int n - int m else int n - int m - 1)"
    by (simp add: expo_def pq n_def m_def Let_def)
  show "of_nat b powi expo b x \<le> \<bar>x\<bar>" "\<bar>x\<bar> < of_nat b powi (expo b x + 1)"
    using lo hi by (auto simp: e)
qed

lemma expo_minus [simp]: "expo b (- x) = expo b x"
  by (simp add: expo_def rat_uminus_code Let_def split_beta)

lemma expo_mono:
  assumes "2 \<le> b" "x \<noteq> 0" "\<bar>x\<bar> \<le> \<bar>y\<bar>"
  shows "expo b x \<le> expo b y"
proof -
  from assms have "y \<noteq> 0" by auto
  with assms have "(of_nat b :: rat) powi expo b x < of_nat b powi (expo b y + 1)"
    using expo_bounds [of b x] expo_bounds [of b y] by linarith
  then show ?thesis using powi_less_iff [OF assms(1)] by simp
qed

lemma quantum_mono:
  "2 \<le> b \<Longrightarrow> x \<noteq> 0 \<Longrightarrow> \<bar>x\<bar> \<le> \<bar>y\<bar> \<Longrightarrow> quantum b p emin x \<le> quantum b p emin y"
  using expo_mono [of b x y] by (auto simp: quantum_def)

lemma quantum_minus [simp]: "quantum b p emin (- x) = quantum b p emin x"
  by (simp add: quantum_def)

lemma rnd_0 [simp]: "rnd b p emin 0 = 0"
  by (simp add: rnd_def)

lemma rnd_minus: "rnd b p emin (- x) = - rnd b p emin x"
  by (simp add: rnd_def Let_def half_even_minus)

text \<open>A power of the base that is no finer than the quantum is a rounding barrier.\<close>

lemma rnd_le_power:
  assumes "2 \<le> b" "x \<noteq> 0" "quantum b p emin x \<le> g" "x \<le> of_nat b powi g"
  shows "rnd b p emin x \<le> of_nat b powi g"
proof -
  define q where "q = quantum b p emin x"
  have u: "(0 :: rat) < of_nat b powi q" using assms by (intro powi_pos)
  have g: "(of_nat b :: rat) powi g = of_int (int b ^ nat (g - q)) * of_nat b powi q"
    using assms by (intro powi_split) (simp_all add: q_def)
  have "x / of_nat b powi q \<le> of_int (int b ^ nat (g - q))"
    using assms(4) u unfolding g by (simp add: pos_divide_le_eq)
  then have "half_even (x / of_nat b powi q) \<le> int b ^ nat (g - q)"
    using half_even_mono half_even_of_int by metis
  with u show ?thesis using assms(2)
    by (simp add: rnd_def Let_def q_def [symmetric] g del: of_int_power)
qed

lemma rnd_ge_power:
  assumes "2 \<le> b" "x \<noteq> 0" "quantum b p emin x \<le> g" "of_nat b powi g \<le> x"
  shows "of_nat b powi g \<le> rnd b p emin x"
proof -
  define q where "q = quantum b p emin x"
  have u: "(0 :: rat) < of_nat b powi q" using assms by (intro powi_pos)
  have g: "(of_nat b :: rat) powi g = of_int (int b ^ nat (g - q)) * of_nat b powi q"
    using assms by (intro powi_split) (simp_all add: q_def)
  have "of_int (int b ^ nat (g - q)) \<le> x / of_nat b powi q"
    using assms(4) u unfolding g by (simp add: pos_le_divide_eq)
  then have "int b ^ nat (g - q) \<le> half_even (x / of_nat b powi q)"
    using half_even_mono half_even_of_int by metis
  with u show ?thesis using assms(2)
    by (simp add: rnd_def Let_def q_def [symmetric] g del: of_int_power)
qed

lemma rnd_nonneg: "2 \<le> b \<Longrightarrow> 0 \<le> x \<Longrightarrow> 0 \<le> rnd b p emin x"
proof -
  assume b: "2 \<le> b" and x: "0 \<le> x"
  have "0 \<le> x / of_nat b powi quantum b p emin x" using x by simp
  then have "0 \<le> half_even (x / of_nat b powi quantum b p emin x)"
    using half_even_mono [of 0] half_even_of_int [of 0] by simp
  then show ?thesis by (simp add: rnd_def Let_def)
qed

lemma rnd_mono_pos:
  assumes b: "2 \<le> b" and p: "1 \<le> p" and xy: "0 < x" "x \<le> y"
  shows "rnd b p emin x \<le> rnd b p emin y"
proof (cases "quantum b p emin x = quantum b p emin y")
  case True
  have "half_even (x / of_nat b powi quantum b p emin y)
      \<le> half_even (y / of_nat b powi quantum b p emin y)"
    using xy by (intro half_even_mono divide_right_mono) simp_all
  with True xy show ?thesis
    by (simp add: rnd_def Let_def mult_right_mono)
next
  case False
  with quantum_mono [of b x y p emin] b xy have lt: "quantum b p emin x < quantum b p emin y"
    by simp
  then have g: "quantum b p emin y \<le> expo b y" "expo b x + 1 \<le> expo b y"
    "quantum b p emin x \<le> expo b y"
    using p by (auto simp: quantum_def max_def split: if_splits)
  have "x \<le> of_nat b powi (expo b x + 1)"
    using expo_bounds(2) [OF b, of x] xy by simp
  also have "\<dots> \<le> of_nat b powi expo b y" using b g by (intro powi_mono)
  finally have "rnd b p emin x \<le> of_nat b powi expo b y"
    using b xy g by (intro rnd_le_power) auto
  also have "\<dots> \<le> rnd b p emin y"
    using b xy g expo_bounds(1) [OF b, of y] by (intro rnd_ge_power) auto
  finally show ?thesis .
qed

lemma rnd_mono:
  assumes b: "2 \<le> b" "1 \<le> p" and "x \<le> y"
  shows "rnd b p emin x \<le> rnd b p emin y"
proof -
  consider "0 < x" | "x \<le> 0" "0 \<le> y" | "y < 0" by linarith
  then show ?thesis
  proof cases
    case 1
    with assms show ?thesis by (intro rnd_mono_pos)
  next
    case 2
    then have "0 \<le> rnd b p emin (- x)" "0 \<le> rnd b p emin y" using b by (auto intro: rnd_nonneg)
    then show ?thesis by (simp add: rnd_minus)
  next
    case 3
    with assms have "rnd b p emin (- y) \<le> rnd b p emin (- x)" by (intro rnd_mono_pos) auto
    then show ?thesis by (simp add: rnd_minus)
  qed
qed

text \<open>Numbers that fit in the precision are not changed.\<close>

lemma rnd_exact:
  assumes b: "2 \<le> b" and k: "\<bar>k\<bar> < int b ^ p" and e: "emin \<le> e"
  shows "rnd b p emin (of_int k * of_nat b powi e) = of_int k * of_nat b powi e"
proof (cases "k = 0")
  case False
  define x :: rat where "x = of_int k * of_nat b powi e"
  define q where "q = quantum b p emin x"
  have u: "(0 :: rat) < of_nat b powi i" for i using b by (rule powi_pos)
  have "(of_nat b :: rat) powi e \<noteq> 0" using u [of e] by (rule less_imp_neq [THEN not_sym])
  with False have x0: "x \<noteq> 0" by (simp add: x_def del: power_int_eq_0_iff)
  have "\<bar>x\<bar> = of_int \<bar>k\<bar> * of_nat b powi e" using u [of e] by (simp add: x_def abs_mult)
  also have "\<dots> < of_int (int b ^ p) * of_nat b powi e"
    using k u [of e] by (intro mult_strict_right_mono) (simp_all only: of_int_less_iff)
  also have "\<dots> = of_nat b powi (int p + e)" using powi_add [OF b] by simp
  finally have "expo b x < int p + e"
    using expo_bounds(1) [OF b x0] powi_less_iff [OF b] by (metis le_less_trans)
  with e have q: "q \<le> e" by (simp add: q_def quantum_def)
  then have "(of_nat b :: rat) powi e = of_int (int b ^ nat (e - q)) * of_nat b powi q"
    by (rule powi_split [OF b])
  then have "x / of_nat b powi q = of_int (k * int b ^ nat (e - q))"
    using less_imp_neq [OF u [of q], THEN not_sym]
    by (simp add: x_def del: power_int_eq_0_iff)
  then have "of_int (half_even (x / of_nat b powi q)) = x / of_nat b powi q"
    by (simp only: half_even_of_int)
  with x0 have "rnd b p emin x = x / of_nat b powi q * of_nat b powi q"
    by (simp only: rnd_def Let_def q_def [symmetric] if_False)
  with less_imp_neq [OF u [of q], THEN not_sym] have "rnd b p emin x = x"
    by (simp del: power_int_eq_0_iff)
  then show ?thesis by (simp add: x_def)
qed simp

lemma rnd_error:
  assumes "2 \<le> b" "x \<noteq> 0"
  shows "\<bar>rnd b p emin x - x\<bar> \<le> of_nat b powi quantum b p emin x / 2"
proof -
  define u :: rat where "u = of_nat b powi quantum b p emin x"
  have u: "0 < u" using assms by (simp add: u_def powi_pos)
  have "rnd b p emin x - x = (of_int (half_even (x / u)) - x / u) * u"
    using assms u by (simp add: rnd_def Let_def u_def [symmetric] left_diff_distrib)
  then have "\<bar>rnd b p emin x - x\<bar> = \<bar>of_int (half_even (x / u)) - x / u\<bar> * u"
    using u by (simp add: abs_mult)
  also have "\<dots> \<le> 1 / 2 * u"
    using u half_even_error by (intro mult_right_mono) auto
  finally show ?thesis by (simp add: u_def)
qed

section \<open>binary64 and the decimal context\<close>

text \<open>The result of a Python \<open>float\<close> operation whose exact result is \<open>x\<close>.\<close>

definition fl :: "rat \<Rightarrow> rat" where
  "fl x = rnd 2 53 (- 1074) x"

text \<open>The result of a Python \<open>Decimal\<close> operation whose exact result is \<open>x\<close>.\<close>

definition dec :: "rat \<Rightarrow> rat" where
  "dec x = rnd 10 28 (- 1000026) x"

locale rounding =
  fixes R :: "rat \<Rightarrow> rat" and N :: int
  assumes R_mono: "x \<le> y \<Longrightarrow> R x \<le> R y"
    and R_minus: "R (- x) = - R x"
    and R_int: "\<bar>k\<bar> < N \<Longrightarrow> R (of_int k) = of_int k"
    and N_large: "1 < N"
begin

lemma R_0 [simp]: "R 0 = 0"
  using R_int [of 0] N_large by simp

lemma R_1 [simp]: "R 1 = 1"
  using R_int [of 1] N_large by simp

lemma R_nonneg: "0 \<le> x \<Longrightarrow> 0 \<le> R x"
  using R_mono [of 0 x] by simp

lemma R_le_1: "x \<le> 1 \<Longrightarrow> R x \<le> 1"
  using R_mono [of x 1] by simp

lemma R_le_int: "x \<le> of_int k \<Longrightarrow> \<bar>k\<bar> < N \<Longrightarrow> R x \<le> of_int k"
  using R_mono [of x "of_int k"] by (simp add: R_int)

text \<open>Scaling an integer by a fraction of one rounds into the range it came from.\<close>

lemma R_scale:
  assumes "0 \<le> k" "k < N" "0 \<le> c" "c \<le> 1"
  shows "0 \<le> R (of_int k * c)" "R (of_int k * c) \<le> of_int k"
proof -
  show "0 \<le> R (of_int k * c)" using assms by (intro R_nonneg) simp
  have "of_int k * c \<le> of_int k * 1" using assms by (intro mult_left_mono) auto
  then show "R (of_int k * c) \<le> of_int k" using assms by (intro R_le_int) auto
qed

lemma R_complement: "0 \<le> c \<Longrightarrow> c \<le> 1 \<Longrightarrow> 0 \<le> R (1 - R c) \<and> R (1 - R c) \<le> 1"
  using R_nonneg [of c] R_le_1 [of c] R_nonneg [of "1 - R c"] R_le_1 [of "1 - R c"] by simp

end

lemma rounding_rnd:
  assumes "2 \<le> b" "1 \<le> p" "emin \<le> 0"
  shows "rounding (rnd b p emin) (int b ^ p)"
proof
  show "1 < int b ^ p" using assms by (simp add: one_less_power)
qed (use assms rnd_exact [of b _ p emin 0] in \<open>auto simp: rnd_mono rnd_minus\<close>)

interpretation b64: rounding fl "2 ^ 53"
  unfolding fl_def [abs_def] using rounding_rnd [of 2 53 "- 1074"] by simp

interpretation d28: rounding dec "10 ^ 28"
  unfolding dec_def [abs_def] using rounding_rnd [of 10 28 "- 1000026"] by simp

lemma dec_exact:
  assumes "\<bar>k\<bar> < 10 ^ 28" "j \<le> 1000026"
  shows "dec (of_int k / 10 ^ j) = of_int k / 10 ^ j"
  using rnd_exact [of 10 k 28 "- 1000026" "- int j"] assms
  by (simp add: dec_def power_int_minus field_simps)

text \<open>Below \<open>10 ^ g\<close> a Decimal operation is off by at most half a unit of digit \<open>28\<close>.\<close>

lemma dec_error:
  assumes "\<bar>x\<bar> < 10 ^ g"
  shows "\<bar>dec x - x\<bar> \<le> 10 powi (int g - 28) / 2"
proof (cases "x = 0")
  case False
  have "(of_nat 10 :: rat) powi expo 10 x < of_nat 10 powi int g"
    using expo_bounds(1) [of 10 x] False assms by simp
  then have "expo 10 x < int g" by (subst (asm) powi_less_iff) simp_all
  then have "quantum 10 28 (- 1000026) x \<le> int g - 28" by (simp add: quantum_def)
  then have "(of_nat 10 :: rat) powi quantum 10 28 (- 1000026) x \<le> of_nat 10 powi (int g - 28)"
    by (intro powi_mono) auto
  with rnd_error [of 10 x 28 "- 1000026"] False show ?thesis by (simp add: dec_def)
qed (simp add: dec_def)

text \<open>Numerals round to themselves.\<close>

lemma rounded_numerals [simp]:
  "(numeral n :: int) < 10 ^ 28 \<Longrightarrow> dec (numeral n) = numeral n"
  "(numeral n :: int) < 10 ^ 28 \<Longrightarrow> dec (- numeral n) = - numeral n"
  "(numeral n :: int) < 2 ^ 53 \<Longrightarrow> fl (numeral n) = numeral n"
  "(numeral n :: int) < 2 ^ 53 \<Longrightarrow> fl (- numeral n) = - numeral n"
  "dec (- 1) = - 1" "fl (- 1) = - 1"
  using d28.R_int [of "numeral n"] d28.R_int [of "- numeral n"] b64.R_int [of "numeral n"]
    b64.R_int [of "- numeral n"] d28.R_int [of "- 1"] b64.R_int [of "- 1"]
  by simp_all

lemma half_up_numerals [simp]:
  "half_up (numeral n) = numeral n" "half_up (- numeral n) = - numeral n"
  "half_up 0 = 0" "half_up 1 = 1" "half_up (- 1) = - 1"
  using half_up_of_int [of "numeral n"] half_up_of_int [of "- numeral n"] half_up_of_int [of 0]
    half_up_of_int [of 1] half_up_of_int [of "- 1"]
  by simp_all

lemma dec_half: "dec (1 / 2) = 1 / 2"
  using dec_exact [of 5 1] by simp

lemma half_up_half: "half_up (1 / 2) = 1"
  by code_simp

end
