(* ===== verification/Errors.thy ===== *)
theory Errors
  imports Prelude
begin

text \<open>
  The exception hierarchy of \<open>src/core/exceptions.py\<close>, with the built-in and library exceptions
  the program lets through.

  \<^item> \<open>exc_class\<close> is the class, \<open>exc\<close> the instance with the attributes its handlers read
    (the SKU, the service name, the retry delay, the error code kept in \<open>context\<close>).
  \<^item> \<open>parent\<close> is the declared base class, \<open>mro\<close> the resolution order it gives, and
    \<open>isinstance\<close> what an \<open>except\<close> clause tests.
  \<^item> \<open>retryable\<close> resolves the class attribute of the same name along the \<open>mro\<close>.
\<close>

datatype exc_class =
    CException | CMiddlewareError | CConfigError | CPlatformError | CShopeeError
  | CShopeeAuthError | CShopeeRateLimitError | CShopeeSignatureError | COdooError
  | COdooConnectionError | COdooValidationError | COdooPermissionError
  | CProductNotFoundError | CDuplicateOrderError | CCircuitOpenError | CWebhookReplayError
  | CValueError | CTypeError | CKeyError | CIndexError | CAttributeError | COverflowError | CInvalidOperation
  | CRedisError | CHTTPError | CDatabaseError

text \<open>The declared base classes; the built-in and library classes are only ever caught as
  themselves or as \<open>Exception\<close>.\<close>

fun parent :: "exc_class \<Rightarrow> exc_class option" where
  "parent CException = None"
| "parent CConfigError = Some CMiddlewareError"
| "parent CPlatformError = Some CMiddlewareError"
| "parent CShopeeError = Some CPlatformError"
| "parent CShopeeAuthError = Some CShopeeError"
| "parent CShopeeRateLimitError = Some CShopeeError"
| "parent CShopeeSignatureError = Some CShopeeError"
| "parent COdooError = Some CMiddlewareError"
| "parent COdooConnectionError = Some COdooError"
| "parent COdooValidationError = Some COdooError"
| "parent COdooPermissionError = Some COdooError"
| "parent CProductNotFoundError = Some CMiddlewareError"
| "parent CDuplicateOrderError = Some CMiddlewareError"
| "parent CCircuitOpenError = Some CMiddlewareError"
| "parent CWebhookReplayError = Some CMiddlewareError"
| "parent _ = Some CException"

fun class_depth :: "exc_class \<Rightarrow> nat" where
  "class_depth CException = 0"
| "class_depth CShopeeError = 3"
| "class_depth CShopeeAuthError = 4"
| "class_depth CShopeeRateLimitError = 4"
| "class_depth CShopeeSignatureError = 4"
| "class_depth COdooConnectionError = 3"
| "class_depth COdooValidationError = 3"
| "class_depth COdooPermissionError = 3"
| "class_depth c = (if parent c = Some CException then 1 else 2)"

lemma class_depth_parent: "parent c = Some d \<Longrightarrow> class_depth d < class_depth c"
  by (cases c) auto

function mro :: "exc_class \<Rightarrow> exc_class list" where
  "mro c = c # (case parent c of None \<Rightarrow> [] | Some d \<Rightarrow> mro d)"
  by pat_completeness auto
termination
  by (relation "measure class_depth") (auto simp: class_depth_parent)

declare mro.simps [simp del]

lemma mro_unfold [simp]:
  "parent c = None \<Longrightarrow> mro c = [c]"
  "parent c = Some d \<Longrightarrow> mro c = c # mro d"
  by (simp_all add: mro.simps [of c])

text \<open>A class body that assigns \<open>retryable\<close>.\<close>

fun own_retryable :: "exc_class \<Rightarrow> bool option" where
  "own_retryable CMiddlewareError = Some True"
| "own_retryable CConfigError = Some False"
| "own_retryable CShopeeAuthError = Some False"
| "own_retryable CShopeeSignatureError = Some False"
| "own_retryable COdooValidationError = Some False"
| "own_retryable COdooPermissionError = Some False"
| "own_retryable CProductNotFoundError = Some False"
| "own_retryable CDuplicateOrderError = Some False"
| "own_retryable CCircuitOpenError = Some True"
| "own_retryable CWebhookReplayError = Some False"
| "own_retryable _ = None"

text \<open>Attribute lookup: the first class of the resolution order that assigns it.\<close>

fun first_own :: "exc_class list \<Rightarrow> bool option" where
  "first_own [] = None"
| "first_own (c # cs) = (case own_retryable c of Some b \<Rightarrow> Some b | None \<Rightarrow> first_own cs)"

definition class_retryable :: "exc_class \<Rightarrow> bool option" where
  "class_retryable c = first_own (mro c)"

section \<open>Instances\<close>

text \<open>
  \<open>ShopeeError m code\<close> carries the \<open>code\<close> keyword of its \<open>context\<close>, when it was given.
  \<open>PyError c m\<close> is a built-in or library exception.
\<close>

datatype exc =
    ConfigError string
  | ShopeeError string "string option"
  | ShopeeAuthError string
  | ShopeeRateLimitError int
  | OdooError string
  | OdooConnectionError string
  | OdooValidationError string
  | OdooPermissionError string
  | ProductNotFoundError string
  | DuplicateOrderError string
  | CircuitOpenError string string
  | PyError exc_class string

fun class_of :: "exc \<Rightarrow> exc_class" where
  "class_of (ConfigError m) = CConfigError"
| "class_of (ShopeeError m c) = CShopeeError"
| "class_of (ShopeeAuthError m) = CShopeeAuthError"
| "class_of (ShopeeRateLimitError n) = CShopeeRateLimitError"
| "class_of (OdooError m) = COdooError"
| "class_of (OdooConnectionError m) = COdooConnectionError"
| "class_of (OdooValidationError m) = COdooValidationError"
| "class_of (OdooPermissionError m) = COdooPermissionError"
| "class_of (ProductNotFoundError s) = CProductNotFoundError"
| "class_of (DuplicateOrderError m) = CDuplicateOrderError"
| "class_of (CircuitOpenError s m) = CCircuitOpenError"
| "class_of (PyError c m) = c"

definition isinstance :: "exc \<Rightarrow> exc_class \<Rightarrow> bool" where
  "isinstance e c \<longleftrightarrow> c \<in> set (mro (class_of e))"

definition retryable :: "exc \<Rightarrow> bool option" where
  "retryable e = class_retryable (class_of e)"

text \<open>\<open>str(e)\<close>: the message the constructor passed to \<open>Exception\<close>. The two constructors
  that build their message do it from the attributes they store.\<close>

definition digit_char :: "int \<Rightarrow> char" where
  "digit_char d = char_of (nat (48 + d mod 10))"

function nat_digits :: "int \<Rightarrow> string" where
  "nat_digits n = (if n < 10 then [digit_char n] else nat_digits (n div 10) @ [digit_char n])"
  by pat_completeness auto
termination
  by (relation "measure nat") auto

declare nat_digits.simps [simp del]

definition int_str :: "int \<Rightarrow> string" where
  "int_str n = (if n < 0 then ''-'' @ nat_digits (- n) else nat_digits n)"

fun exc_str :: "exc \<Rightarrow> string" where
  "exc_str (ConfigError m) = m"
| "exc_str (ShopeeError m c) = m"
| "exc_str (ShopeeAuthError m) = m"
| "exc_str (ShopeeRateLimitError n) = ''Rate limited, retry after '' @ int_str n @ ''s''"
| "exc_str (OdooError m) = m"
| "exc_str (OdooConnectionError m) = m"
| "exc_str (OdooValidationError m) = m"
| "exc_str (OdooPermissionError m) = m"
| "exc_str (ProductNotFoundError s) = ''SKU not found in Odoo: '' @ s"
| "exc_str (DuplicateOrderError m) = m"
| "exc_str (CircuitOpenError s m) = m"
| "exc_str (PyError c m) = m"

lemma isinstance_simps [simp]:
  "isinstance (ShopeeError m k) c \<longleftrightarrow> c \<in> {CShopeeError, CPlatformError, CMiddlewareError, CException}"
  "isinstance (ShopeeAuthError m) c \<longleftrightarrow>
     c \<in> {CShopeeAuthError, CShopeeError, CPlatformError, CMiddlewareError, CException}"
  "isinstance (ShopeeRateLimitError n) c \<longleftrightarrow>
     c \<in> {CShopeeRateLimitError, CShopeeError, CPlatformError, CMiddlewareError, CException}"
  "isinstance (OdooError m) c \<longleftrightarrow> c \<in> {COdooError, CMiddlewareError, CException}"
  "isinstance (OdooConnectionError m) c \<longleftrightarrow>
     c \<in> {COdooConnectionError, COdooError, CMiddlewareError, CException}"
  "isinstance (OdooValidationError m) c \<longleftrightarrow>
     c \<in> {COdooValidationError, COdooError, CMiddlewareError, CException}"
  "isinstance (OdooPermissionError m) c \<longleftrightarrow>
     c \<in> {COdooPermissionError, COdooError, CMiddlewareError, CException}"
  "isinstance (ProductNotFoundError s) c \<longleftrightarrow>
     c \<in> {CProductNotFoundError, CMiddlewareError, CException}"
  "isinstance (CircuitOpenError s m) c \<longleftrightarrow>
     c \<in> {CCircuitOpenError, CMiddlewareError, CException}"
  "isinstance (ConfigError m) c \<longleftrightarrow> c \<in> {CConfigError, CMiddlewareError, CException}"
  "isinstance (DuplicateOrderError m) c \<longleftrightarrow>
     c \<in> {CDuplicateOrderError, CMiddlewareError, CException}"
  by (auto simp: isinstance_def)

text \<open>Every class is an \<open>Exception\<close>, so \<open>except Exception\<close> catches every instance.\<close>

lemma mro_Exception: "CException \<in> set (mro c)"
  by (cases c) simp_all

lemma isinstance_Exception [simp]: "isinstance e CException"
  by (simp add: isinstance_def mro_Exception)

text \<open>The attribute exists exactly on the classes below \<open>MiddlewareError\<close>.\<close>

lemma class_retryable_defined:
  "class_retryable c \<noteq> None \<longleftrightarrow> CMiddlewareError \<in> set (mro c)"
  by (cases c) (simp_all add: class_retryable_def)

text \<open>An exception instance has a \<open>retryable\<close> attribute exactly when it is a
  \<open>MiddlewareError\<close>, and the attribute is \<open>True\<close> exactly for the generic Shopee and Odoo errors,
  the rate limit, the Odoo connection error, an open circuit and the two abstract bases.\<close>

theorem retryable_exact:
  "(retryable e \<noteq> None \<longleftrightarrow> isinstance e CMiddlewareError) \<and>
   (retryable e = Some True \<longleftrightarrow>
      class_of e \<in> {CMiddlewareError, CPlatformError, CShopeeError, CShopeeRateLimitError,
        COdooError, COdooConnectionError, CCircuitOpenError})"
proof -
  have "class_retryable c = Some True \<longleftrightarrow>
      c \<in> {CMiddlewareError, CPlatformError, CShopeeError, CShopeeRateLimitError,
        COdooError, COdooConnectionError, CCircuitOpenError}" for c
    by (cases c) (simp_all add: class_retryable_def)
  then show ?thesis
    by (simp add: retryable_def isinstance_def class_retryable_defined del: not_None_eq)
qed

end
