(* ===== verification/Pyval.thy ===== *)
theory Pyval
  imports Errors
begin

text \<open>
  The Python values that cross the program's borders (JSON bodies, XML-RPC results, dictionaries)
  and the pieces of Python's standard library the program applies to them: truthiness, \<open>or\<close>,
  \<open>dict.get\<close>, \<open>int()\<close>, \<open>str.strip\<close>, \<open>str.lower\<close>, \<open>str.startswith\<close>,
  \<open>hmac.compare_digest\<close>. A dictionary is the list of its items in insertion order with distinct
  keys. A failing operation is the exception it raises.
\<close>

datatype pyval =
    PNone
  | PBool bool
  | PInt int
  | PFloat rat
  | PStr string
  | PList "pyval list"
  | PDict "(string \<times> pyval) list"

fun truthy :: "pyval \<Rightarrow> bool" where
  "truthy PNone = False"
| "truthy (PBool b) = b"
| "truthy (PInt n) = (n \<noteq> 0)"
| "truthy (PFloat x) = (x \<noteq> 0)"
| "truthy (PStr s) = (s \<noteq> [])"
| "truthy (PList xs) = (xs \<noteq> [])"
| "truthy (PDict d) = (d \<noteq> [])"

definition py_or :: "pyval \<Rightarrow> pyval \<Rightarrow> pyval" where
  "py_or a b = (if truthy a then a else b)"

definition dict_get :: "(string \<times> pyval) list \<Rightarrow> string \<Rightarrow> pyval \<Rightarrow> pyval" where
  "dict_get d k v = (case map_of d k of None \<Rightarrow> v | Some x \<Rightarrow> x)"

text \<open>\<open>d[k] = v\<close> and \<open>d.update(e)\<close>: a key that is there keeps its place.\<close>

fun dict_set :: "(string \<times> pyval) list \<Rightarrow> string \<Rightarrow> pyval \<Rightarrow> (string \<times> pyval) list" where
  "dict_set [] k v = [(k, v)]"
| "dict_set ((j, x) # d) k v = (if j = k then (k, v) # d else (j, x) # dict_set d k v)"

definition dict_update :: "(string \<times> pyval) list \<Rightarrow> (string \<times> pyval) list \<Rightarrow> (string \<times> pyval) list" where
  "dict_update d e = foldl (\<lambda>d (k, v). dict_set d k v) d e"

lemma map_of_dict_set: "map_of (dict_set d k v) = (map_of d)(k \<mapsto> v)"
  by (induction d k v rule: dict_set.induct) (auto intro!: ext)

definition type_name :: "pyval \<Rightarrow> string" where
  "type_name v = (case v of PNone \<Rightarrow> ''NoneType'' | PBool _ \<Rightarrow> ''bool'' | PInt _ \<Rightarrow> ''int''
     | PFloat _ \<Rightarrow> ''float'' | PStr _ \<Rightarrow> ''str'' | PList _ \<Rightarrow> ''list'' | PDict _ \<Rightarrow> ''dict'')"

text \<open>\<open>v.get(k, default)\<close>, which only a dictionary has.\<close>

definition py_get :: "pyval \<Rightarrow> string \<Rightarrow> pyval \<Rightarrow> exc + pyval" where
  "py_get v k dflt =
     (case v of PDict d \<Rightarrow> Inr (dict_get d k dflt)
      | _ \<Rightarrow> Inl (PyError CAttributeError (type_name v)))"

text \<open>\<open>v[k]\<close> with a string key.\<close>

definition py_item :: "pyval \<Rightarrow> string \<Rightarrow> exc + pyval" where
  "py_item v k =
     (case v of PDict d \<Rightarrow> (case map_of d k of None \<Rightarrow> Inl (PyError CKeyError k) | Some x \<Rightarrow> Inr x)
      | _ \<Rightarrow> Inl (PyError CTypeError (type_name v)))"

lemma dict_get_Cons [simp]:
  "dict_get ((j, x) # d) k v = (if j = k then x else dict_get d k v)"
  by (auto simp: dict_get_def)

lemma dict_get_Nil [simp]: "dict_get [] k v = v"
  by (simp add: dict_get_def)

text \<open>An optional string inside an f-string.\<close>

definition opt_str :: "string option \<Rightarrow> string" where
  "opt_str s = (case s of None \<Rightarrow> ''None'' | Some t \<Rightarrow> t)"

section \<open>Strings\<close>

definition is_digit :: "char \<Rightarrow> bool" where
  "is_digit c \<longleftrightarrow> 48 \<le> (of_char c :: nat) \<and> (of_char c :: nat) \<le> 57"

definition digit_val :: "char \<Rightarrow> int" where
  "digit_val c = int (of_char c) - 48"

definition is_ascii :: "char \<Rightarrow> bool" where
  "is_ascii c \<longleftrightarrow> (of_char c :: nat) < 128"

text \<open>\<open>str.isspace\<close> on the code points below 256.\<close>

definition is_space :: "char \<Rightarrow> bool" where
  "is_space c \<longleftrightarrow>
     (of_char c :: nat) \<in> {9, 10, 11, 12, 13, 28, 29, 30, 31, 32, 133, 160}"

definition lstrip :: "(char \<Rightarrow> bool) \<Rightarrow> string \<Rightarrow> string" where
  "lstrip p s = dropWhile p s"

definition strip_chars :: "(char \<Rightarrow> bool) \<Rightarrow> string \<Rightarrow> string" where
  "strip_chars p s = rev (dropWhile p (rev (dropWhile p s)))"

definition py_strip :: "string \<Rightarrow> string" where
  "py_strip s = strip_chars is_space s"

text \<open>\<open>str.lower\<close> on the code points below 256.\<close>

definition lower_char :: "char \<Rightarrow> char" where
  "lower_char c =
     (let n = (of_char c :: nat)
      in if 65 \<le> n \<and> n \<le> 90 \<or> 192 \<le> n \<and> n \<le> 222 \<and> n \<noteq> 215 then char_of (n + 32) else c)"

definition py_lower :: "string \<Rightarrow> string" where
  "py_lower s = map lower_char s"

definition startswith :: "string \<Rightarrow> string \<Rightarrow> bool" where
  "startswith s p \<longleftrightarrow> take (length p) s = p"

text \<open>\<open>hmac.compare_digest\<close> on two strings raises unless both are ASCII.\<close>

definition compare_digest :: "string \<Rightarrow> string \<Rightarrow> exc + bool" where
  "compare_digest a b =
     (if list_all is_ascii a \<and> list_all is_ascii b then Inr (a = b)
      else Inl (PyError CTypeError ''comparing strings with non-ASCII characters is not supported''))"

lemma compare_digest_True [simp]:
  "compare_digest a b = Inr True \<longleftrightarrow> list_all is_ascii a \<and> a = b"
  by (auto simp: compare_digest_def)

lemma compare_digest_Inl:
  "compare_digest a b = Inl e \<Longrightarrow> \<not> (list_all is_ascii a \<and> list_all is_ascii b)"
  by (auto simp: compare_digest_def split: if_splits)

section \<open>Decimal strings\<close>

text \<open>
  \<open>int(s)\<close> on a string: surrounding white space, an optional sign, then digits with single
  underscores between them. \<open>digits_val acc ok s\<close> reads the digits after \<open>acc\<close>; \<open>ok\<close> says
  that the last character was a digit.
\<close>

fun digits_val :: "int \<Rightarrow> bool \<Rightarrow> string \<Rightarrow> int option" where
  "digits_val acc ok [] = (if ok then Some acc else None)"
| "digits_val acc ok (c # s) =
     (if is_digit c then digits_val (10 * acc + digit_val c) True s
      else if c = CHR ''_'' \<and> ok then digits_val acc False s
      else None)"

definition int_of_str :: "string \<Rightarrow> int option" where
  "int_of_str s =
     (case py_strip s of
        [] \<Rightarrow> None
      | c # t \<Rightarrow>
          if c = CHR ''-'' then map_option uminus (digits_val 0 False t)
          else if c = CHR ''+'' then digits_val 0 False t
          else digits_val 0 False (c # t))"

text \<open>\<open>int(v)\<close>.\<close>

definition py_int :: "pyval \<Rightarrow> exc + int" where
  "py_int v =
     (case v of
        PInt n \<Rightarrow> Inr n
      | PBool b \<Rightarrow> Inr (if b then 1 else 0)
      | PFloat x \<Rightarrow> Inr (py_trunc x)
      | PStr s \<Rightarrow> (case int_of_str s of
            None \<Rightarrow> Inl (PyError CValueError ''invalid literal for int() with base 10'')
          | Some n \<Rightarrow> Inr n)
      | _ \<Rightarrow> Inl (PyError CTypeError (type_name v)))"

subsection \<open>Printing and reading an integer\<close>

lemma of_char_digit_char: "of_char (digit_char d) = (nat (48 + d mod 10) :: nat)"
proof -
  have "nat (48 + d mod 10) < 256" using pos_mod_bound [of 10 d] by linarith
  then show ?thesis by (simp add: digit_char_def of_char_of)
qed

lemma digit_char_props:
  "is_digit (digit_char d)" "digit_val (digit_char d) = d mod 10" "is_ascii (digit_char d)"
proof -
  have "0 \<le> d mod 10" "d mod 10 < 10" by simp_all
  then show "is_digit (digit_char d)" "digit_val (digit_char d) = d mod 10"
    "is_ascii (digit_char d)"
    by (auto simp: is_digit_def digit_val_def is_ascii_def of_char_digit_char nat_le_iff)
qed

lemma nat_digits_digit: "0 \<le> n \<Longrightarrow> list_all is_digit (nat_digits n)"
  by (induction n rule: nat_digits.induct) (subst nat_digits.simps, simp add: digit_char_props)

lemma nat_digits_nonempty [simp]: "nat_digits n \<noteq> []"
  by (subst nat_digits.simps) simp

lemma digits_val_append:
  "list_all is_digit s \<Longrightarrow> s \<noteq> [] \<Longrightarrow> digits_val acc ok (s @ t) =
     (case digits_val acc ok s of None \<Rightarrow> None | Some m \<Rightarrow> digits_val m True t)"
proof (induction s arbitrary: acc ok)
  case (Cons c s)
  then show ?case by (cases "s = []") simp_all
qed simp

lemma digits_val_nat_digits: "0 \<le> n \<Longrightarrow> digits_val 0 ok (nat_digits n) = Some n"
proof (induction n arbitrary: ok rule: nat_digits.induct)
  case (1 n)
  show ?case
  proof (cases "n < 10")
    case True
    with "1.prems" show ?thesis by (subst nat_digits.simps) (simp add: digit_char_props)
  next
    case False
    with "1" have "digits_val 0 ok (nat_digits (n div 10)) = Some (n div 10)" by simp
    with False "1.prems" show ?thesis
      by (subst nat_digits.simps)
        (simp add: digits_val_append nat_digits_digit digit_char_props)
  qed
qed

lemma digit_not_space: "is_digit c \<Longrightarrow> \<not> is_space c"
  by (auto simp: is_digit_def is_space_def)

lemma digit_not_sign: "is_digit c \<Longrightarrow> c \<noteq> CHR ''-'' \<and> c \<noteq> CHR ''+''"
  by (auto simp: is_digit_def)

lemma strip_chars_id:
  "s = [] \<or> (\<not> p (hd s) \<and> \<not> p (last s)) \<Longrightarrow> strip_chars p s = s"
proof -
  assume a: "s = [] \<or> (\<not> p (hd s) \<and> \<not> p (last s))"
  then have "dropWhile p s = s" "dropWhile p (rev s) = rev s"
    by (auto simp: dropWhile_eq_self_iff hd_rev)
  then show ?thesis by (simp add: strip_chars_def)
qed

lemma strip_chars_Nil: "strip_chars p s = [] \<longleftrightarrow> (\<forall>c \<in> set s. p c)"
proof
  assume "strip_chars p s = []"
  then have "\<forall>c \<in> set (dropWhile p s). p c" by (simp add: strip_chars_def)
  then have "dropWhile p s = []" by (metis hd_dropWhile list.set_sel(1))
  then show "\<forall>c \<in> set s. p c" by (simp only: dropWhile_eq_Nil_conv)
next
  assume "\<forall>c \<in> set s. p c"
  then have "dropWhile p s = []" by (simp only: dropWhile_eq_Nil_conv)
  then show "strip_chars p s = []" by (simp only: strip_chars_def rev.simps dropWhile.simps)
qed

text \<open>Reading back what \<open>str\<close> printed gives the integer again.\<close>

lemma int_of_str_int_str: "int_of_str (int_str n) = Some n"
proof -
  define m where "m = \<bar>n\<bar>"
  have d: "list_all is_digit (nat_digits m)" by (simp add: nat_digits_digit m_def)
  obtain c t where ct: "nat_digits m = c # t"
    by (cases "nat_digits m") simp_all
  with d have c: "is_digit c" by simp
  have "is_digit (last (nat_digits m))"
    using d nat_digits_nonempty [of m] by (metis last_in_set list_all_iff)
  then have l: "is_digit (last (c # t))" by (simp only: ct)
  have v: "digits_val 0 False (c # t) = Some m"
    using digits_val_nat_digits [of m False, unfolded ct] by (simp del: digits_val.simps add: m_def)
  show ?thesis
  proof (cases "n < 0")
    case True
    have "\<not> is_space CHR ''-''" by (simp add: is_space_def)
    with l have "py_strip (CHR ''-'' # c # t) = CHR ''-'' # c # t"
      unfolding py_strip_def by (intro strip_chars_id) (simp add: digit_not_space)
    with True v show ?thesis by (simp add: int_str_def ct [symmetric] int_of_str_def m_def)
  next
    case False
    from c l have "py_strip (c # t) = c # t"
      unfolding py_strip_def by (intro strip_chars_id) (simp add: digit_not_space)
    with False v c show ?thesis
      using digit_not_sign [OF c] ct by (simp add: int_str_def int_of_str_def m_def)
  qed
qed

lemma int_str_inject [simp]: "int_str m = int_str n \<longleftrightarrow> m = n"
  by (metis int_of_str_int_str option.inject)

end
