(* ===== verification/Utils.thy ===== *)
theory Utils
  imports Pyval
begin

text \<open>
  The helpers of \<open>src/core/utils.py\<close> and \<open>src/core/csrf.py\<close>: phone normalisation, \<open>safe_int\<close>
  and the double-submit CSRF check. The random token itself (\<open>secrets.token_hex\<close>) is an input.
\<close>

section \<open>Vietnamese phone numbers\<close>

definition normalize_vn_phone :: "string \<Rightarrow> string" where
  "normalize_vn_phone phone =
     (if phone = [] then []
      else let digits = filter is_digit phone;
               digits = (if startswith digits ''84'' then ''0'' @ drop 2 digits
                         else if \<not> startswith digits ''0'' then ''0'' @ digits
                         else digits)
           in if length digits \<notin> {10, 11} then [] else digits)"

lemma normalize_digits_cases:
  "normalize_vn_phone p \<noteq> [] \<Longrightarrow>
     \<exists>d. normalize_vn_phone p = CHR ''0'' # d \<and> list_all is_digit d \<and> length d \<in> {9, 10}"
proof -
  assume ne: "normalize_vn_phone p \<noteq> []"
  define ds where "ds = filter is_digit p"
  have ds: "list_all is_digit ds" by (simp add: ds_def list_all_iff)
  show ?thesis
  proof (cases "startswith ds ''84''")
    case True
    with ne ds show ?thesis
      by (auto simp: normalize_vn_phone_def Let_def ds_def [symmetric] list_all_iff
          split: if_splits dest: in_set_dropD)
  next
    case False
    show ?thesis
    proof (cases "startswith ds ''0''")
      case True
      then obtain d where "ds = CHR ''0'' # d" by (cases ds) (auto simp: startswith_def)
      with ne ds False show ?thesis
        by (auto simp: normalize_vn_phone_def Let_def ds_def [symmetric] split: if_splits)
    next
      case False
      with ne ds \<open>\<not> startswith ds ''84''\<close> show ?thesis
        by (auto simp: normalize_vn_phone_def Let_def ds_def [symmetric] split: if_splits)
    qed
  qed
qed

text \<open>A normalised phone is empty or a zero followed by nine or ten digits.\<close>

theorem normalize_vn_phone_shape:
  "normalize_vn_phone p = [] \<or>
   (\<exists>d. normalize_vn_phone p = CHR ''0'' # d \<and> list_all is_digit d \<and> length d \<in> {9, 10})"
  using normalize_digits_cases by blast

text \<open>Normalising twice changes nothing, so a phone that was stored normalised is found again.\<close>

theorem normalize_vn_phone_idem: "normalize_vn_phone (normalize_vn_phone p) = normalize_vn_phone p"
proof (cases "normalize_vn_phone p = []")
  case False
  then obtain d where d: "normalize_vn_phone p = CHR ''0'' # d" "list_all is_digit d"
    "length d \<in> {9, 10}"
    using normalize_digits_cases by blast
  have "filter is_digit (CHR ''0'' # d) = CHR ''0'' # d"
    using d(2) by (simp add: is_digit_def list_all_iff)
  with d(3) show ?thesis unfolding d(1)
    by (auto simp: normalize_vn_phone_def startswith_def)
qed (simp add: normalize_vn_phone_def)

text \<open>The three accepted prefixes of one subscriber number, with any punctuation between the
  digits, all normalise to the same string.\<close>

theorem normalize_vn_phone_prefixes:
  assumes "filter is_digit p = ''84'' @ d \<or> filter is_digit p = ''0'' @ d"
    and "list_all is_digit d" and "length d \<in> {9, 10}"
  shows "normalize_vn_phone p = ''0'' @ d"
proof -
  from assms(1) have "p \<noteq> []" by auto
  with assms show ?thesis
    by (auto simp: normalize_vn_phone_def Let_def startswith_def)
qed

theorem normalize_vn_phone_prefixes_witness:
  "normalize_vn_phone ''(+84) 901.234.567'' = ''0901234567''"
  using normalize_vn_phone_prefixes [of "''(+84) 901.234.567''" "''901234567''"]
  by (simp add: is_digit_def)

text \<open>\<open>safe_int(value, default)\<close>: every value has a result.\<close>

definition safe_int :: "pyval \<Rightarrow> int \<Rightarrow> int" where
  "safe_int v dflt = (case py_int v of Inr n \<Rightarrow> n | Inl e \<Rightarrow> dflt)"

lemma safe_int_simps [simp]:
  "safe_int (PInt n) d = n"
  "safe_int (PStr (int_str n)) d = n"
  "safe_int PNone d = d"
  "safe_int (PBool b) d = (if b then 1 else 0)"
  "safe_int (PFloat x) d = py_trunc x"
  by (simp_all add: safe_int_def py_int_def int_of_str_int_str)

section \<open>CSRF tokens\<close>

text \<open>\<open>not token\<close> for an optional string.\<close>

definition str_truthy :: "string option \<Rightarrow> bool" where
  "str_truthy s = (case s of None \<Rightarrow> False | Some t \<Rightarrow> t \<noteq> [])"

definition verify_csrf_token :: "string option \<Rightarrow> string option \<Rightarrow> exc + bool" where
  "verify_csrf_token cookie form =
     (if \<not> str_truthy cookie \<or> \<not> str_truthy form then Inr False
      else compare_digest (the cookie) (the form))"

lemma verify_csrf_token_True:
  "verify_csrf_token cookie form = Inr True \<longleftrightarrow>
     (\<exists>t. cookie = Some t \<and> form = Some t \<and> t \<noteq> [] \<and> list_all is_ascii t)"
  by (cases cookie; cases form) (auto simp: verify_csrf_token_def str_truthy_def)

end
