(* ===== verification/Config.thy ===== *)
theory Config
  imports Utils
begin

text \<open>
  \<open>Settings\<close> of \<open>src/core/config.py\<close>: the fields the program reads, its derived properties and
  the validator that refuses unsafe production defaults. Reading the environment and checking the
  declared field types is pydantic's work; a value of the record is what it hands to the validator.
\<close>

datatype environment = Development | Staging | Production | Test

record settings =
  ENVIRONMENT :: environment
  SECRET_KEY :: string
  ADMIN_SECRET_TOKEN :: string
  MIDDLEWARE_DRY_RUN :: bool
  ODOO_URL :: string
  ODOO_DB :: string
  ODOO_USER :: string
  ODOO_PASSWORD :: string
  SHOPEE_PARTNER_ID :: string
  SHOPEE_PARTNER_KEY :: string
  SHOPEE_SHOP_ID :: string
  SHOPEE_IS_SANDBOX :: bool
  SHOPEE_WEBHOOK_URL :: string
  SLACK_WEBHOOK_URL :: "string option"
  DEFAULT_STOCK_BUFFER_PCT :: int
  DEFAULT_SHOPEE_ALLOCATION_PCT :: int
  ENABLE_AUTO_CONFIRM_ORDER :: bool
  ENABLE_STOCK_SYNC :: bool
  ENABLE_POLLING_FALLBACK :: bool
  ENABLE_RECONCILIATION :: bool
  ENABLE_PRICE_SYNC :: bool
  CREDENTIAL_KEYS :: string
  SHOPEE_BASE_URL_PROD :: string
  SHOPEE_BASE_URL_SANDBOX :: string

definition DEFAULT_SECRET_KEY :: string where
  "DEFAULT_SECRET_KEY = ''change-me-in-production''"

definition DEFAULT_ADMIN_TOKEN :: string where
  "DEFAULT_ADMIN_TOKEN = ''change-me-admin''"

text \<open>\<open>str.split(c)\<close> for a one-character separator.\<close>

fun split_on :: "char \<Rightarrow> string \<Rightarrow> string list" where
  "split_on c [] = [[]]"
| "split_on c (x # s) =
     (if x = c then [] # split_on c s
      else case split_on c s of [] \<Rightarrow> [[x]] | w # ws \<Rightarrow> (x # w) # ws)"

definition shopee_base_url :: "settings \<Rightarrow> string" where
  "shopee_base_url s = (if SHOPEE_IS_SANDBOX s then SHOPEE_BASE_URL_SANDBOX s else SHOPEE_BASE_URL_PROD s)"

definition credential_keys_list :: "settings \<Rightarrow> string list" where
  "credential_keys_list s =
     [py_strip k. k \<leftarrow> split_on CHR '','' (CREDENTIAL_KEYS s), py_strip k \<noteq> []]"

text \<open>The list \<open>unsafe\<close> the validator builds, in its order.\<close>

definition unsafe_values :: "settings \<Rightarrow> string list" where
  "unsafe_values s =
     (let strict = (ENVIRONMENT s = Production \<or> ENVIRONMENT s = Staging) in
      (if SECRET_KEY s = DEFAULT_SECRET_KEY then [''SECRET_KEY (sentinel default)''] else []) @
      (if ADMIN_SECRET_TOKEN s = DEFAULT_ADMIN_TOKEN
       then [''ADMIN_SECRET_TOKEN (sentinel default)''] else []) @
      (if strict then
        (if length (SECRET_KEY s) < 32 then [''SECRET_KEY (length < 32)''] else []) @
        (if length (ADMIN_SECRET_TOKEN s) < 32 then [''ADMIN_SECRET_TOKEN (length < 32)''] else []) @
        (if card (set (SECRET_KEY s)) < 8 then [''SECRET_KEY (unique chars < 8)''] else []) @
        (if card (set (ADMIN_SECRET_TOKEN s)) < 8
         then [''ADMIN_SECRET_TOKEN (unique chars < 8)''] else []) @
        (if py_strip (CREDENTIAL_KEYS s) = [] then [''CREDENTIAL_KEYS (empty)''] else [])
       else []))"

fun join :: "string \<Rightarrow> string list \<Rightarrow> string" where
  "join sep [] = []"
| "join sep [w] = w"
| "join sep (w # ws) = w @ sep @ join sep ws"

fun env_str :: "environment \<Rightarrow> string" where
  "env_str Development = ''development''"
| "env_str Staging = ''staging''"
| "env_str Production = ''production''"
| "env_str Test = ''test''"

definition reject_unsafe_production_defaults :: "settings \<Rightarrow> exc + settings" where
  "reject_unsafe_production_defaults s =
     (if ENVIRONMENT s = Test then Inr s
      else if unsafe_values s \<noteq> [] then
        Inl (PyError CValueError (''Refusing to start in ENVIRONMENT='' @ env_str (ENVIRONMENT s) @
          '' with unsafe values for: '' @ join '', '' (unsafe_values s) @
          ''. Set strong secrets (>= 32 chars, >= 8 unique chars, no sentinel defaults) '' @
          ''via environment variables before launching.''))
      else Inr s)"

text \<open>A concrete configuration with the defaults of the class, for the witnesses.\<close>

definition dev_settings :: settings where
  "dev_settings = \<lparr>ENVIRONMENT = Development, SECRET_KEY = ''k'', ADMIN_SECRET_TOKEN = ''admin'',
     MIDDLEWARE_DRY_RUN = False, ODOO_URL = ''http://odoo'', ODOO_DB = ''db'', ODOO_USER = ''u'',
     ODOO_PASSWORD = ''p'', SHOPEE_PARTNER_ID = ''1'', SHOPEE_PARTNER_KEY = ''key'',
     SHOPEE_SHOP_ID = ''9'', SHOPEE_IS_SANDBOX = False, SHOPEE_WEBHOOK_URL = ''https://hook'',
     SLACK_WEBHOOK_URL = None, DEFAULT_STOCK_BUFFER_PCT = 10, DEFAULT_SHOPEE_ALLOCATION_PCT = 100,
     ENABLE_AUTO_CONFIRM_ORDER = True, ENABLE_STOCK_SYNC = True, ENABLE_POLLING_FALLBACK = True,
     ENABLE_RECONCILIATION = True, ENABLE_PRICE_SYNC = False, CREDENTIAL_KEYS = [],
     SHOPEE_BASE_URL_PROD = ''https://partner.shopeemobile.com/api/v2'',
     SHOPEE_BASE_URL_SANDBOX = ''https://partner.test-stable.shopeemobile.com/api/v2''\<rparr>"

text \<open>What an accepted secret satisfies outside the test environment.\<close>

definition strong_secret :: "string \<Rightarrow> bool" where
  "strong_secret k \<longleftrightarrow> 32 \<le> length k \<and> 8 \<le> card (set k)"

text \<open>The validator accepts exactly the settings that are a test environment, or carry no
  sentinel default and, in production and staging, strong secrets and a credential key string that
  is not blank.\<close>

theorem validator_accepts_iff:
  "(\<exists>t. reject_unsafe_production_defaults s = Inr t) \<longleftrightarrow>
     ENVIRONMENT s = Test \<or>
     (SECRET_KEY s \<noteq> DEFAULT_SECRET_KEY \<and> ADMIN_SECRET_TOKEN s \<noteq> DEFAULT_ADMIN_TOKEN \<and>
      (ENVIRONMENT s = Development \<or>
       strong_secret (SECRET_KEY s) \<and> strong_secret (ADMIN_SECRET_TOKEN s) \<and>
       \<not> list_all is_space (CREDENTIAL_KEYS s)))"
proof -
  show ?thesis
    by (cases "ENVIRONMENT s")
      (auto simp: reject_unsafe_production_defaults_def unsafe_values_def strong_secret_def not_less
        list_all_iff py_strip_def strip_chars_Nil)
qed

text \<open>The validator checks that the credential key string is not blank, not that it holds a
  key: production settings whose string is a single comma are accepted with no key in the list.\<close>

theorem blank_key_list_accepted:
  "\<exists>s. ENVIRONMENT s = Production \<and> reject_unsafe_production_defaults s = Inr s \<and>
       credential_keys_list s = []"
proof -
  let ?k = "''abcdefghabcdefghabcdefghabcdefgh''"
  define s where "s = \<lparr>ENVIRONMENT = Production, SECRET_KEY = ?k, ADMIN_SECRET_TOKEN = ?k,
    MIDDLEWARE_DRY_RUN = False, ODOO_URL = [], ODOO_DB = [], ODOO_USER = [], ODOO_PASSWORD = [],
    SHOPEE_PARTNER_ID = [], SHOPEE_PARTNER_KEY = [], SHOPEE_SHOP_ID = [], SHOPEE_IS_SANDBOX = False,
    SHOPEE_WEBHOOK_URL = [], SLACK_WEBHOOK_URL = None, DEFAULT_STOCK_BUFFER_PCT = 10,
    DEFAULT_SHOPEE_ALLOCATION_PCT = 100, ENABLE_AUTO_CONFIRM_ORDER = True, ENABLE_STOCK_SYNC = True,
    ENABLE_POLLING_FALLBACK = True, ENABLE_RECONCILIATION = True, ENABLE_PRICE_SYNC = False,
    CREDENTIAL_KEYS = '','', SHOPEE_BASE_URL_PROD = [], SHOPEE_BASE_URL_SANDBOX = []\<rparr>"
  have "set ?k = {CHR ''a'', CHR ''b'', CHR ''c'', CHR ''d'', CHR ''e'', CHR ''f'', CHR ''g'', CHR ''h''}"
    by auto
  then have "card (set ?k) = 8" by (simp only:) simp
  moreover have "\<not> (\<forall>c \<in> set '',''. is_space c)" by (simp add: is_space_def)
  ultimately have "unsafe_values s = []"
    by (simp add: unsafe_values_def s_def DEFAULT_SECRET_KEY_def DEFAULT_ADMIN_TOKEN_def
        py_strip_def strip_chars_Nil del: set_simps)
  then have "reject_unsafe_production_defaults s = Inr s" "ENVIRONMENT s = Production"
    by (simp_all add: reject_unsafe_production_defaults_def s_def)
  moreover have "credential_keys_list s = []"
    by (simp add: credential_keys_list_def s_def py_strip_def strip_chars_def)
  ultimately show ?thesis by blast
qed

end
