(* ===== verification/Breaker.thy ===== *)
theory Breaker
  imports Utils
begin

text \<open>
  The circuit breaker of \<open>src/core/circuit_breaker.py\<close> and the retry countdowns of
  \<open>src/workers/retry_policy.py\<close>.

  \<^item> \<open>breaker\<close> is the object's state; times are the readings of \<open>time.time()\<close>, in seconds.
  \<^item> \<open>gate\<close>, \<open>record_failure\<close> and \<open>record_success\<close> are the three critical sections of
    \<open>call\<close>; \<open>cb_call\<close> composes them around the wrapped function, for a breaker kept anywhere in
    the state (\<open>getb\<close>, \<open>putb\<close>) and a clock read from it.
  \<^item> \<open>cb_step\<close> interleaves the critical sections of any number of concurrent calls.
\<close>

datatype cb_state = CLOSED | OPEN | HALF_OPEN

record breaker =
  cb_service :: string
  failure_threshold :: int
  rolling_window :: int
  open_timeout :: int
  half_open_success_required :: int
  cb_state :: cb_state
  cb_failures :: "rat list"
  opened_at :: "rat option"
  half_open_passes :: int

definition new_breaker :: "string \<Rightarrow> int \<Rightarrow> int \<Rightarrow> int \<Rightarrow> int \<Rightarrow> breaker" where
  "new_breaker service threshold window timeout required =
     \<lparr>cb_service = service, failure_threshold = threshold, rolling_window = window,
      open_timeout = timeout, half_open_success_required = required, cb_state = CLOSED,
      cb_failures = [], opened_at = None, half_open_passes = 0\<rparr>"

definition maybe_transition_to_half_open :: "rat \<Rightarrow> breaker \<Rightarrow> breaker" where
  "maybe_transition_to_half_open now b =
     (case opened_at b of
        None \<Rightarrow> b
      | Some t \<Rightarrow>
          if cb_state b = OPEN \<and> now - t \<ge> of_int (open_timeout b)
          then b\<lparr>cb_state := HALF_OPEN, half_open_passes := 0\<rparr> else b)"

definition open_circuit :: "rat \<Rightarrow> breaker \<Rightarrow> breaker" where
  "open_circuit now b = b\<lparr>cb_state := OPEN, opened_at := Some now\<rparr>"

definition close_circuit :: "breaker \<Rightarrow> breaker" where
  "close_circuit b =
     b\<lparr>cb_state := CLOSED, cb_failures := [], opened_at := None, half_open_passes := 0\<rparr>"

definition record_failure :: "rat \<Rightarrow> breaker \<Rightarrow> breaker" where
  "record_failure now b =
     (let fs = [t \<leftarrow> cb_failures b. now - t < of_int (rolling_window b)] @ [now];
          b' = b\<lparr>cb_failures := fs\<rparr>
      in if cb_state b' = HALF_OPEN \<or> int (length fs) \<ge> failure_threshold b'
         then open_circuit now b' else b')"

definition record_success :: "breaker \<Rightarrow> breaker" where
  "record_success b =
     (if cb_state b = HALF_OPEN then
        let b' = b\<lparr>half_open_passes := half_open_passes b + 1\<rparr>
        in if half_open_passes b' \<ge> half_open_success_required b' then close_circuit b' else b'
      else if cb_state b = CLOSED then b\<lparr>cb_failures := []\<rparr>
      else b)"

text \<open>The first critical section of \<open>call\<close>: the transition, then the verdict.\<close>

definition gate :: "rat \<Rightarrow> breaker \<Rightarrow> (exc + unit) \<times> breaker" where
  "gate now b =
     (let b' = maybe_transition_to_half_open now b
      in if cb_state b' = OPEN
         then (Inl (CircuitOpenError (cb_service b')
                     (''Circuit '' @ cb_service b' @ '' is OPEN'')), b')
         else (Inr (), b'))"

definition cb_call ::
  "('s \<Rightarrow> breaker) \<Rightarrow> (breaker \<Rightarrow> 's \<Rightarrow> 's) \<Rightarrow> ('s \<Rightarrow> rat) \<Rightarrow> ('s, exc, 'a) eff \<Rightarrow> ('s, exc, 'a) eff" where
  "cb_call getb putb clock fn s =
     (case gate (clock s) (getb s) of
        (Inl e, b) \<Rightarrow> (Inl e, putb b s)
      | (Inr _, b) \<Rightarrow>
          (case fn (putb b s) of
             (Inl e, t) \<Rightarrow> (Inl e, putb (record_failure (clock t) (getb t)) t)
           | (Inr a, t) \<Rightarrow> (Inr a, putb (record_success (getb t)) t)))"

text \<open>The registered breakers. Retry policy looks a service up by name.\<close>

definition odoo_breaker :: breaker where
  "odoo_breaker = new_breaker ''odoo'' 3 60 60 1"

definition shopee_breaker :: breaker where
  "shopee_breaker = new_breaker ''shopee'' 5 60 30 1"

definition BREAKER_REGISTRY :: "(string \<times> breaker) list" where
  "BREAKER_REGISTRY = [(''odoo'', odoo_breaker), (''shopee'', shopee_breaker)]"

section \<open>Retry countdowns\<close>

definition MAX_RETRIES :: int where "MAX_RETRIES = 8"

definition ODOO_CONN_COUNTDOWN :: int where "ODOO_CONN_COUNTDOWN = 10"

definition SHOPEE_RL_COUNTDOWN_FALLBACK :: int where "SHOPEE_RL_COUNTDOWN_FALLBACK = 30"

definition circuit_retry_countdown :: "string option \<Rightarrow> int" where
  "circuit_retry_countdown service =
     (case service of
        Some s \<Rightarrow>
          (case map_of BREAKER_REGISTRY s of
             Some b \<Rightarrow> if s \<noteq> [] then open_timeout b + 5
                       else Max (set (map (open_timeout \<circ> snd) BREAKER_REGISTRY)) + 5
           | None \<Rightarrow> Max (set (map (open_timeout \<circ> snd) BREAKER_REGISTRY)) + 5)
      | None \<Rightarrow> Max (set (map (open_timeout \<circ> snd) BREAKER_REGISTRY)) + 5)"

definition circuit_service_from_error :: "exc \<Rightarrow> string option" where
  "circuit_service_from_error e =
     (case e of
        CircuitOpenError s m \<Rightarrow> if s \<noteq> [] \<and> s \<in> fst ` set BREAKER_REGISTRY then Some s else None
      | _ \<Rightarrow> None)"

lemmas breaker_defs =
  maybe_transition_to_half_open_def open_circuit_def close_circuit_def record_failure_def
  record_success_def gate_def

text \<open>The settings of a breaker never change.\<close>

definition cb_params :: "breaker \<Rightarrow> string \<times> int \<times> int \<times> int \<times> int" where
  "cb_params b = (cb_service b, failure_threshold b, rolling_window b, open_timeout b,
     half_open_success_required b)"

lemma cb_params_ops [simp]:
  "cb_params (maybe_transition_to_half_open now b) = cb_params b"
  "cb_params (record_failure now b) = cb_params b"
  "cb_params (record_success b) = cb_params b"
  by (simp_all add: breaker_defs cb_params_def Let_def split: option.splits)

section \<open>The invariant\<close>

text \<open>
  With positive thresholds: an open breaker knows when it opened, a closed one has counted fewer
  failures than the threshold, a half-open one fewer successes than required, and no recorded time
  lies after the clock.
\<close>

definition cb_inv :: "rat \<Rightarrow> breaker \<Rightarrow> bool" where
  "cb_inv now b \<longleftrightarrow>
     0 < failure_threshold b \<and> 0 < half_open_success_required b \<and>
     (\<forall>t \<in> set (cb_failures b). t \<le> now) \<and>
     (\<forall>t. opened_at b = Some t \<longrightarrow> t \<le> now) \<and>
     (cb_state b = CLOSED \<longleftrightarrow> opened_at b = None) \<and>
     (cb_state b = CLOSED \<longrightarrow> int (length (cb_failures b)) < failure_threshold b) \<and>
     (cb_state b = HALF_OPEN \<longrightarrow> half_open_passes b < half_open_success_required b)"

lemma cb_inv_new: "0 < n \<Longrightarrow> 0 < k \<Longrightarrow> cb_inv now (new_breaker s n w t k)"
  by (simp add: cb_inv_def new_breaker_def)

lemma cb_inv_later: "cb_inv now b \<Longrightarrow> now \<le> later \<Longrightarrow> cb_inv later b"
  unfolding cb_inv_def by fastforce

lemma cb_inv_half_open: "cb_inv now b \<Longrightarrow> cb_inv now (maybe_transition_to_half_open now b)"
  by (auto simp: cb_inv_def breaker_defs split: option.splits)

lemma cb_inv_failure: "cb_inv now b \<Longrightarrow> cb_inv now (record_failure now b)"
  by (cases "cb_state b") (auto simp: cb_inv_def breaker_defs Let_def)

lemma cb_inv_success: "cb_inv now b \<Longrightarrow> cb_inv now (record_success b)"
  by (cases "cb_state b") (auto simp: cb_inv_def breaker_defs Let_def)

lemma cb_inv_gate: "cb_inv now b \<Longrightarrow> cb_inv now (snd (gate now b))"
  using cb_inv_half_open [of now b] by (simp add: gate_def Let_def)

lemma gate_admits:
  assumes "gate now b = (Inr (), b')" and "cb_inv now b"
  shows "cb_state b = OPEN \<Longrightarrow> \<exists>t. opened_at b = Some t \<and> of_int (open_timeout b) \<le> now - t"
    and "cb_state b' \<noteq> OPEN"
  using assms
  by (auto simp: gate_def Let_def maybe_transition_to_half_open_def cb_inv_def
      split: option.splits if_splits)

section \<open>Concurrent calls\<close>

text \<open>
  The system: the breaker, the clock and the number of calls between their first and last critical
  section. The lock makes each section one step; anything may happen between them.
\<close>

record cb_sys =
  cs_breaker :: breaker
  cs_now :: rat
  cs_inflight :: nat

datatype cb_event = Tick | Admit | Reject exc | Fail | Succeed

inductive cb_step :: "cb_sys \<Rightarrow> cb_event \<Rightarrow> cb_sys \<Rightarrow> bool" where
  tick: "0 \<le> d \<Longrightarrow> cb_step s Tick (s\<lparr>cs_now := cs_now s + d\<rparr>)"
| admit: "gate (cs_now s) (cs_breaker s) = (Inr (), b) \<Longrightarrow>
     cb_step s Admit (s\<lparr>cs_breaker := b, cs_inflight := cs_inflight s + 1\<rparr>)"
| reject: "gate (cs_now s) (cs_breaker s) = (Inl e, b) \<Longrightarrow>
     cb_step s (Reject e) (s\<lparr>cs_breaker := b\<rparr>)"
| fail: "0 < cs_inflight s \<Longrightarrow>
     cb_step s Fail (s\<lparr>cs_breaker := record_failure (cs_now s) (cs_breaker s),
       cs_inflight := cs_inflight s - 1\<rparr>)"
| succeed: "0 < cs_inflight s \<Longrightarrow>
     cb_step s Succeed (s\<lparr>cs_breaker := record_success (cs_breaker s),
       cs_inflight := cs_inflight s - 1\<rparr>)"

inductive_cases cb_stepE: "cb_step s e t"

inductive cb_run :: "cb_sys \<Rightarrow> cb_event list \<Rightarrow> cb_sys \<Rightarrow> bool" where
  stop: "cb_run s [] s"
| more: "cb_step s e t \<Longrightarrow> cb_run t es u \<Longrightarrow> cb_run s (e # es) u"

inductive_simps cb_run_Nil: "cb_run s [] u"
inductive_simps cb_run_Cons: "cb_run s (e # es) u"

lemma cb_step_inv:
  "cb_step s e t \<Longrightarrow> cb_inv (cs_now s) (cs_breaker s) \<Longrightarrow> cb_inv (cs_now t) (cs_breaker t)"
proof (induction rule: cb_step.induct)
  case (admit s b)
  then show ?case using cb_inv_gate [of "cs_now s" "cs_breaker s"] by simp
next
  case (reject s e b)
  then show ?case using cb_inv_gate [of "cs_now s" "cs_breaker s"] by simp
qed (auto intro: cb_inv_later cb_inv_failure cb_inv_success)

lemma cb_step_params: "cb_step s e t \<Longrightarrow> cb_params (cs_breaker t) = cb_params (cs_breaker s)"
proof (induction rule: cb_step.induct)
  case (admit s b)
  then have "b = snd (gate (cs_now s) (cs_breaker s))" by simp
  then show ?case by (simp add: gate_def Let_def)
next
  case (reject s e b)
  then have "b = snd (gate (cs_now s) (cs_breaker s))" by simp
  then show ?case by (simp add: gate_def Let_def)
qed simp_all

interpretation breaker_system:
    transition_invariant "\<lambda>s t. \<exists>e. cb_step s e t" "\<lambda>s. cb_inv (cs_now s) (cs_breaker s)"
  by unfold_locales (blast intro: cb_step_inv)

lemma cb_run_steps: "cb_run s es t \<Longrightarrow> (\<lambda>s t. \<exists>e. cb_step s e t)\<^sup>*\<^sup>* s t"
  by (induction rule: cb_run.induct) (blast intro: converse_rtranclp_into_rtranclp)+

lemma cb_run_inv:
  "cb_run s es t \<Longrightarrow> cb_inv (cs_now s) (cs_breaker s) \<Longrightarrow> cb_inv (cs_now t) (cs_breaker t)"
  using breaker_system.steps_inv [of s t] cb_run_steps by blast

text \<open>C31: whatever calls overlap, the breaker's state stays consistent: closed exactly when it holds
  no opening time, fewer counted failures than the threshold while closed, and no time from the
  future.\<close>

theorem breaker_invariant:
  assumes "0 < threshold" and "0 < required"
    and "cb_run \<lparr>cs_breaker = new_breaker service threshold window timeout required,
                 cs_now = t0, cs_inflight = 0\<rparr> es u"
  shows "cb_inv (cs_now u) (cs_breaker u)"
  using cb_run_inv [OF assms(3)] assms(1,2) by (simp add: cb_inv_new)

theorem breaker_invariant_witness:
  "cb_inv 7 (new_breaker ''odoo'' 3 60 60 1)"
proof -
  let ?s = "\<lparr>cs_breaker = new_breaker ''odoo'' 3 60 60 1, cs_now = 5, cs_inflight = 0\<rparr>"
  have "cb_step ?s Tick (?s\<lparr>cs_now := cs_now ?s + 2\<rparr>)" by (rule cb_step.tick) simp
  then have "cb_run ?s [Tick] (?s\<lparr>cs_now := 7\<rparr>)"
    by (auto intro: cb_run.intros)
  from breaker_invariant [OF _ _ this] show ?thesis by simp
qed

text \<open>While a breaker is open, only a failure that was already in flight changes it, and it can
  only move the opening time forward.\<close>

lemma open_step:
  assumes "cb_step s e t" and "cb_inv (cs_now s) (cs_breaker s)"
    and "cb_state (cs_breaker s) = OPEN" "opened_at (cs_breaker s) = Some a" "a0 \<le> a"
    and "cs_now t < a0 + of_int (open_timeout (cs_breaker s))"
  shows "e \<noteq> Admit \<and> cb_state (cs_breaker t) = OPEN \<and>
    (\<exists>a'. opened_at (cs_breaker t) = Some a' \<and> a0 \<le> a') \<and>
    open_timeout (cs_breaker t) = open_timeout (cs_breaker s)"
  using assms
  by (cases rule: cb_stepE)
    (auto simp: breaker_defs Let_def cb_inv_def split: if_splits)

lemma cb_step_time: "cb_step s e t \<Longrightarrow> cs_now s \<le> cs_now t"
  by (induction rule: cb_step.induct) auto

lemma cb_run_time: "cb_run s es t \<Longrightarrow> cs_now s \<le> cs_now t"
  by (induction rule: cb_run.induct) (auto dest: cb_step_time)

lemma open_run:
  "cb_run s es u \<Longrightarrow> cb_inv (cs_now s) (cs_breaker s) \<Longrightarrow>
   cb_state (cs_breaker s) = OPEN \<Longrightarrow> opened_at (cs_breaker s) = Some a \<Longrightarrow> a0 \<le> a \<Longrightarrow>
   cs_now u < a0 + of_int (open_timeout (cs_breaker s)) \<Longrightarrow>
   Admit \<notin> set es \<and> cb_state (cs_breaker u) = OPEN"
proof (induction arbitrary: a rule: cb_run.induct)
  case (more s e t es u)
  have "cs_now t < a0 + of_int (open_timeout (cs_breaker s))"
    using more.prems(5) cb_run_time [OF more.hyps(2)] by linarith
  with open_step [OF more.hyps(1) more.prems(1-4)]
  obtain a' where "e \<noteq> Admit" "cb_state (cs_breaker t) = OPEN"
    "opened_at (cs_breaker t) = Some a'" "a0 \<le> a'"
    "open_timeout (cs_breaker t) = open_timeout (cs_breaker s)" by blast
  with more.IH [of a'] more.prems cb_step_inv [OF more.hyps(1)] show ?case by simp
qed simp

text \<open>Once the breaker has opened at time \<open>a\<close>, no call reaches the service before the open
  timeout has passed, however many calls are tried and whatever the calls still in flight do.\<close>

theorem open_breaker_admits_nobody:
  assumes "cb_run s es u" and "cb_inv (cs_now s) (cs_breaker s)"
    and "cb_state (cs_breaker s) = OPEN" and "opened_at (cs_breaker s) = Some a"
    and "cs_now u < a + of_int (open_timeout (cs_breaker s))"
  shows "Admit \<notin> set es"
  using open_run [OF assms(1-4) order.refl assms(5)] by simp

theorem open_breaker_admits_nobody_witness:
  "\<exists>e. Admit \<notin> set [Tick, Reject e]"
proof -
  let ?b = "odoo_breaker\<lparr>cb_state := OPEN, opened_at := Some 100, cb_failures := [98, 99, 100]\<rparr>"
  let ?s = "\<lparr>cs_breaker = ?b, cs_now = 100, cs_inflight = 0\<rparr>"
  have "cb_step ?s Tick (?s\<lparr>cs_now := cs_now ?s + 59\<rparr>)" by (rule cb_step.tick) simp
  moreover obtain e where g: "gate 159 ?b = (Inl e, ?b)"
    by (simp add: gate_def maybe_transition_to_half_open_def odoo_breaker_def new_breaker_def Let_def)
  then have "cb_step (?s\<lparr>cs_now := 159\<rparr>) (Reject e) (?s\<lparr>cs_now := 159\<rparr>)"
    using cb_step.reject [of "?s\<lparr>cs_now := 159\<rparr>" e ?b] by simp
  ultimately have "cb_run ?s [Tick, Reject e] (?s\<lparr>cs_now := 159\<rparr>)"
    by (auto intro: cb_run.intros)
  from open_breaker_admits_nobody [OF this, of 100] show ?thesis
    by (auto simp: cb_inv_def odoo_breaker_def new_breaker_def)
qed

section \<open>Tripping and recovering\<close>

text \<open>A burst of failures, each recorded at its own time.\<close>

fun failures :: "rat list \<Rightarrow> breaker \<Rightarrow> breaker" where
  "failures [] b = b"
| "failures (t # ts) b = failures ts (record_failure t b)"

lemma failures_append: "failures (xs @ ys) b = failures ys (failures xs b)"
  by (induction xs arbitrary: b) simp_all

lemma failures_params: "cb_params (failures ts b) = cb_params b"
  by (induction ts arbitrary: b) simp_all

lemma record_failure_open: "cb_state b = OPEN \<Longrightarrow> cb_state (record_failure t b) = OPEN"
  by (simp add: record_failure_def open_circuit_def Let_def)

lemma failures_suffix:
  "cb_state b \<noteq> HALF_OPEN \<Longrightarrow> \<forall>x \<in> set ts. \<forall>y \<in> set ts. x - y < of_int (rolling_window b) \<Longrightarrow>
   cb_state (failures ts b) = OPEN \<or>
   (cb_state (failures ts b) = CLOSED \<and> (\<exists>pre. cb_failures (failures ts b) = pre @ ts) \<and>
    (ts \<noteq> [] \<longrightarrow> int (length (cb_failures (failures ts b))) < failure_threshold b))"
proof (induction ts rule: rev_induct)
  case Nil
  then show ?case by (cases "cb_state b") simp_all
next
  case (snoc t ts)
  let ?b = "failures ts b"
  have w: "rolling_window ?b = rolling_window b" "failure_threshold ?b = failure_threshold b"
    using failures_params [of ts b] by (simp_all add: cb_params_def)
  consider "cb_state ?b = OPEN"
    | pre where "cb_state ?b = CLOSED" "cb_failures ?b = pre @ ts"
    using snoc by auto
  then show ?case
  proof cases
    case 1
    then show ?thesis by (simp add: failures_append record_failure_open)
  next
    case 2
    have "[x \<leftarrow> ts. t - x < of_int (rolling_window b)] = ts"
      using snoc.prems(2) by (auto intro: filter_True)
    with 2 w show ?thesis
      by (auto simp: failures_append record_failure_def open_circuit_def Let_def not_le)
  qed
qed

text \<open>From a breaker that is not half-open, as many failures as the threshold, all within one
  rolling window, leave it open, whatever it had recorded before.\<close>

theorem burst_trips_breaker:
  assumes "cb_state b \<noteq> HALF_OPEN" and "0 < failure_threshold b"
    and "failure_threshold b \<le> int (length ts)"
    and "\<forall>x \<in> set ts. \<forall>y \<in> set ts. x - y < of_int (rolling_window b)"
  shows "cb_state (failures ts b) = OPEN"
proof (rule ccontr)
  assume no: "cb_state (failures ts b) \<noteq> OPEN"
  with failures_suffix [OF assms(1,4)] obtain pre
    where pre: "cb_failures (failures ts b) = pre @ ts"
      and lt: "ts \<noteq> [] \<Longrightarrow> int (length (cb_failures (failures ts b))) < failure_threshold b"
    by blast
  from assms(2,3) have "ts \<noteq> []" by auto
  with lt pre assms(3) show False by simp
qed

theorem burst_trips_breaker_witness:
  "cb_state (failures [100, 110, 159] odoo_breaker) = OPEN"
  by (rule burst_trips_breaker) (simp_all add: odoo_breaker_def new_breaker_def)

text \<open>A half-open breaker reopens on the first failure, and closes with an empty record after
  the required number of successes.\<close>

theorem half_open_verdict:
  assumes "cb_state b = HALF_OPEN"
  shows "cb_state (record_failure now b) = OPEN \<and> opened_at (record_failure now b) = Some now \<and>
    (half_open_success_required b \<le> half_open_passes b + 1 \<longrightarrow>
       record_success b = close_circuit (b\<lparr>half_open_passes := half_open_passes b + 1\<rparr>)) \<and>
    (half_open_passes b + 1 < half_open_success_required b \<longrightarrow>
       cb_state (record_success b) = HALF_OPEN \<and>
       half_open_passes (record_success b) = half_open_passes b + 1)"
  using assms by (auto simp: record_failure_def record_success_def open_circuit_def Let_def)

theorem half_open_verdict_witness:
  "cb_state (record_failure 7 (odoo_breaker\<lparr>cb_state := HALF_OPEN\<rparr>)) = OPEN"
  using half_open_verdict [of "odoo_breaker\<lparr>cb_state := HALF_OPEN\<rparr>" 7] by simp

text \<open>Nothing limits the probes of a half-open breaker: from an open registered breaker whose
  timeout has passed, any number of calls are admitted before the first of them ends.\<close>

theorem half_open_admits_any_number:
  "\<exists>s u. cb_state (cs_breaker s) = OPEN \<and> cb_params (cs_breaker s) = cb_params odoo_breaker \<and>
     cb_inv (cs_now s) (cs_breaker s) \<and>
     cb_run s (replicate n Admit) u \<and> cs_inflight u = cs_inflight s + n"
proof -
  define b where "b = odoo_breaker\<lparr>cb_state := OPEN, opened_at := Some 100\<rparr>"
  define h where "h = b\<lparr>cb_state := HALF_OPEN, half_open_passes := 0\<rparr>"
  define s where "s k c = \<lparr>cs_breaker = c, cs_now = 160, cs_inflight = k\<rparr>" for k c
  have g: "gate 160 b = (Inr (), h)" "gate 160 h = (Inr (), h)"
    by (simp_all add: gate_def maybe_transition_to_half_open_def b_def h_def odoo_breaker_def
        new_breaker_def Let_def)
  have step: "cb_step (s k b) Admit (s (Suc k) h)" "cb_step (s k h) Admit (s (Suc k) h)" for k
    using cb_step.admit [of "s k b" h] cb_step.admit [of "s k h" h] g by (simp_all add: s_def)
  have run: "\<exists>c. cb_run (s k h) (replicate n Admit) (s (k + n) c)" for n k
  proof (induction n arbitrary: k)
    case 0
    show ?case using cb_run.stop by fastforce
  next
    case (Suc n)
    from Suc [of "Suc k"] step(2) show ?case by (auto intro: cb_run.more)
  qed
  have "\<exists>c. cb_run (s 0 b) (replicate n Admit) (s n c)"
  proof (cases n)
    case 0
    then show ?thesis using cb_run.stop by fastforce
  next
    case (Suc m)
    with run [of 1 m] step(1) [of 0] show ?thesis by (auto intro: cb_run.more)
  qed
  then obtain c where "cb_run (s 0 b) (replicate n Admit) (s n c)" by blast
  moreover have "cb_inv 160 b" "cb_state b = OPEN" "cb_params b = cb_params odoo_breaker"
    by (simp_all add: b_def cb_inv_def cb_params_def odoo_breaker_def new_breaker_def)
  ultimately show ?thesis
    by (intro exI [of _ "s 0 b"] exI [of _ "s n c"]) (simp add: s_def)
qed

section \<open>Waiting out an open breaker\<close>

lemma registry_timeouts [simp]:
  "map_of BREAKER_REGISTRY ''odoo'' = Some odoo_breaker"
  "map_of BREAKER_REGISTRY ''shopee'' = Some shopee_breaker"
  "open_timeout odoo_breaker = 60" "open_timeout shopee_breaker = 30"
  "cb_service odoo_breaker = ''odoo''" "cb_service shopee_breaker = ''shopee''"
  by (simp_all add: BREAKER_REGISTRY_def odoo_breaker_def shopee_breaker_def new_breaker_def)

lemma circuit_retry_countdown_simps [simp]:
  "circuit_retry_countdown (Some ''odoo'') = 65"
  "circuit_retry_countdown (Some ''shopee'') = 35"
  "circuit_retry_countdown None = 65"
  by (simp_all add: circuit_retry_countdown_def) (simp add: BREAKER_REGISTRY_def)

text \<open>C32: when a registered breaker rejects a call, the countdown computed from that error is long
  enough: unless the breaker changes in between, the retried call is admitted, as a probe.\<close>

theorem retry_countdown_admits:
  assumes "cb_params b = cb_params odoo_breaker \<or> cb_params b = cb_params shopee_breaker"
    and "cb_inv now b" and "gate now b = (Inl e, b')"
    and "now + of_int (circuit_retry_countdown (circuit_service_from_error e)) \<le> later"
  shows "fst (gate later b') = Inr () \<and> cb_state (snd (gate later b')) = HALF_OPEN"
proof -
  have s: "cb_service b = ''odoo'' \<and> open_timeout b = 60 \<or> cb_service b = ''shopee'' \<and> open_timeout b = 30"
    using assms(1) by (auto simp: cb_params_def)
  have r: "b' = b" "cb_state b = OPEN" "\<exists>m. e = CircuitOpenError (cb_service b) m"
    using assms(3)
    by (auto simp: gate_def maybe_transition_to_half_open_def Let_def split: option.splits if_splits)
  then obtain t where t: "opened_at b = Some t" "t \<le> now"
    using assms(2) by (auto simp: cb_inv_def)
  have "circuit_service_from_error e = Some (cb_service b)"
    using r(3) s by (auto simp: circuit_service_from_error_def BREAKER_REGISTRY_def)
  then have "t + of_int (open_timeout b) \<le> later" using assms(4) t s by auto
  with r t show ?thesis by (simp add: gate_def maybe_transition_to_half_open_def Let_def)
qed

theorem retry_countdown_admits_witness:
  "fst (gate 170 (odoo_breaker\<lparr>cb_state := OPEN, opened_at := Some 100\<rparr>)) = Inr ()"
proof -
  let ?b = "odoo_breaker\<lparr>cb_state := OPEN, opened_at := Some 100\<rparr>"
  have "gate 101 ?b = (Inl (CircuitOpenError ''odoo'' ''Circuit odoo is OPEN''), ?b)"
    by (simp add: gate_def maybe_transition_to_half_open_def Let_def)
  moreover have "circuit_service_from_error (CircuitOpenError ''odoo'' m) = Some ''odoo''" for m
    by (simp add: circuit_service_from_error_def BREAKER_REGISTRY_def)
  ultimately show ?thesis
    using retry_countdown_admits [of ?b 101 "CircuitOpenError ''odoo'' ''Circuit odoo is OPEN''" ?b 170]
    by (simp add: cb_params_def cb_inv_def odoo_breaker_def new_breaker_def)
qed

end
