(* ===== verification/World.thy ===== *)
theory World
  imports Breaker Config
begin

text \<open>
  The state the program works on.

  \<^item> One record per table of \<open>src/models/\<close>, with the columns the program reads or writes. Text
    columns are strings, also the status columns, which the database does not restrict. A nullable
    column is an option. Times are seconds.
  \<^item> \<open>db\<close> holds the tables in insertion order and the next value of the id sequence. A
    committed transaction is one function from \<open>db\<close> to \<open>db\<close>.
  \<^item> \<open>'x services\<close> are the operations of the systems outside the repository (Odoo's XML-RPC
    endpoint, Shopee's HTTP API, Redis, the Celery broker, Slack, the clock, the JSON codec,
    rapidfuzz): they
    are parameters of the model and act on a state \<open>'x\<close> the model knows nothing about.
  \<^item> \<open>'x world\<close> joins the tables, the two breakers of the process, the user ids cached by the
    \<open>OdooClient\<close> objects (by object number) and the outside state.
\<close>

type_synonym instant = rat

section \<open>Tables\<close>

record outbox =
  ob_id :: int
  ob_platform :: string
  ob_event_type :: string
  ob_event_code :: pyval
  ob_platform_order_id :: "string option"
  ob_payload :: pyval
  ob_signature :: "string option"
  ob_status :: string
  ob_retry_count :: int
  ob_max_retries :: int
  ob_last_error :: "string option"
  ob_process_after :: instant
  ob_published_at :: "instant option"
  ob_created_at :: instant

record event_log =
  el_id :: int
  el_platform :: string
  el_received_at :: instant
  el_source_ip :: "string option"
  el_signature :: "string option"
  el_signature_valid :: bool
  el_body_raw :: string
  el_body_size :: int
  el_event_code :: pyval
  el_platform_order_id :: "string option"
  el_outbox_id :: "int option"
  el_parse_error :: "string option"

record order_mapping =
  om_id :: int
  om_platform :: string
  om_platform_order_id :: string
  om_platform_order_sn :: "string option"
  om_odoo_order_id :: "int option"
  om_odoo_order_name :: "string option"
  om_status :: string
  om_retry_count :: int
  om_last_error :: "string option"
  om_created_at :: instant
  om_updated_at :: instant

record product_mapping =
  pm_id :: int
  pm_platform :: string
  pm_platform_product_id :: string
  pm_platform_sku_id :: "string option"
  pm_odoo_product_id :: int
  pm_odoo_sku :: string
  pm_mapping_type :: string
  pm_is_active :: bool
  pm_created_at :: instant

record bundle_component =
  bc_id :: int
  bc_mapping_id :: int
  bc_odoo_sku :: string
  bc_quantity :: int

record stock_config =
  sc_id :: int
  sc_odoo_sku :: string
  sc_platform :: string
  sc_allocation_pct :: rat
  sc_buffer_pct :: rat
  sc_is_active :: bool

record platform_config =
  pc_id :: int
  pc_platform :: string
  pc_shop_id :: "string option"
  pc_credentials :: "(string \<times> pyval) list"
  pc_is_active :: bool
  pc_dry_run :: bool
  pc_price_master :: string

record audit_log =
  al_id :: int
  al_actor :: string
  al_action :: string
  al_target :: "string option"
  al_ip :: "string option"
  al_user_agent :: "string option"
  al_payload :: pyval
  al_success :: bool
  al_created_at :: instant

record order_sync_log =
  ol_id :: int
  ol_created_at :: instant

record reconciliation_log =
  rl_platform :: string
  rl_run_date :: int
  rl_orders_checked :: int
  rl_orders_matched :: int
  rl_orders_missing :: int
  rl_orders_extra :: int
  rl_auto_fixed :: int
  rl_needs_review :: int
  rl_details :: pyval

record db =
  db_outbox :: "outbox list"
  db_event_log :: "event_log list"
  db_orders :: "order_mapping list"
  db_products :: "product_mapping list"
  db_components :: "bundle_component list"
  db_stock :: "stock_config list"
  db_platforms :: "platform_config list"
  db_audit :: "audit_log list"
  db_sync_log :: "order_sync_log list"
  db_reconciliation :: "reconciliation_log list"
  db_next_id :: int

definition empty_db :: db where
  "empty_db = \<lparr>db_outbox = [], db_event_log = [], db_orders = [], db_products = [],
     db_components = [], db_stock = [], db_platforms = [], db_audit = [], db_sync_log = [],
     db_reconciliation = [], db_next_id = 1\<rparr>"

section \<open>Services outside the repository\<close>

text \<open>What an XML-RPC call can raise, as \<open>OdooClient._execute\<close> tells the cases apart.\<close>

datatype rpc_error =
    Fault string
  | ConnectionFailed string
  | ProtocolFailed string
  | OtherRpcError exc

record http_response =
  hr_status :: int
  hr_headers :: "(string \<times> string) list"
  hr_json :: "exc + pyval"

record 'x services =
  sv_now :: "'x \<Rightarrow> instant"
  sv_authenticate :: "string \<Rightarrow> string \<Rightarrow> string \<Rightarrow> ('x, rpc_error, pyval) eff"
  sv_execute_kw :: "string \<Rightarrow> pyval \<Rightarrow> string \<Rightarrow> string \<Rightarrow> string \<Rightarrow> pyval list \<Rightarrow>
     (string \<times> pyval) list \<Rightarrow> ('x, rpc_error, pyval) eff"
  sv_http :: "string \<Rightarrow> string \<Rightarrow> (string \<times> pyval) list \<Rightarrow> pyval \<Rightarrow> ('x, exc, http_response) eff"
  sv_send_task :: "string \<Rightarrow> (string \<times> pyval) list \<Rightarrow> string \<Rightarrow> string option \<Rightarrow> ('x, exc, unit) eff"
  sv_slack_post :: "string \<Rightarrow> string \<Rightarrow> ('x, exc, unit) eff"
  sv_get :: "string \<Rightarrow> ('x, exc, string option) eff"
  sv_setex :: "string \<Rightarrow> int \<Rightarrow> string \<Rightarrow> ('x, exc, unit) eff"
  sv_set_nx_ex :: "string \<Rightarrow> string \<Rightarrow> int \<Rightarrow> ('x, exc, bool) eff"
  sv_delete :: "string \<Rightarrow> ('x, exc, int) eff"
  sv_exists :: "string \<Rightarrow> ('x, exc, int) eff"
  sv_sadd :: "string \<Rightarrow> string \<Rightarrow> ('x, exc, int) eff"
  sv_expire :: "string \<Rightarrow> int \<Rightarrow> ('x, exc, unit) eff"
  sv_ttl :: "string \<Rightarrow> ('x, exc, int) eff"
  sv_sleep :: "rat \<Rightarrow> ('x, exc, unit) eff"
  sv_json_dumps :: "pyval \<Rightarrow> string"
  sv_json_loads :: "string \<Rightarrow> exc + pyval"
  sv_fuzz_ratio :: "string \<Rightarrow> string \<Rightarrow> rat"

record 'x world =
  w_db :: db
  w_odoo_breaker :: breaker
  w_shopee_breaker :: breaker
  w_uids :: "nat \<Rightarrow> pyval option"
  w_ext :: 'x

text \<open>A call to a service: it can change the outside state only.\<close>

definition ext :: "('x, 'e, 'a) eff \<Rightarrow> ('x world, 'e, 'a) eff" where
  "ext m = (\<lambda>w. case m (w_ext w) of (r, x) \<Rightarrow> (r, w\<lparr>w_ext := x\<rparr>))"

text \<open>A transaction: one atomic step on the tables, which may read the clock.\<close>

definition txn :: "'x services \<Rightarrow> (instant \<Rightarrow> db \<Rightarrow> 'a \<times> db) \<Rightarrow> ('x world, exc, 'a) eff" where
  "txn S f = (\<lambda>w. case f (sv_now S (w_ext w)) (w_db w) of (a, d) \<Rightarrow> (Inr a, w\<lparr>w_db := d\<rparr>))"

definition now_w :: "'x services \<Rightarrow> 'x world \<Rightarrow> instant" where
  "now_w S w = sv_now S (w_ext w)"

lemma ext_db [simp]: "w_db (snd (ext m w)) = w_db w"
  by (simp add: ext_def split: prod.splits)

lemma ext_breakers [simp]:
  "w_odoo_breaker (snd (ext m w)) = w_odoo_breaker w"
  "w_shopee_breaker (snd (ext m w)) = w_shopee_breaker w"
  by (simp_all add: ext_def split: prod.splits)

lemma ext_eq: "ext m w = (r, w') \<longleftrightarrow> (\<exists>x. m (w_ext w) = (r, x) \<and> w' = w\<lparr>w_ext := x\<rparr>)"
  by (auto simp: ext_def split: prod.splits)

lemma txn_eq:
  "txn S f w = (r, w') \<longleftrightarrow>
     (\<exists>a d. f (now_w S w) (w_db w) = (a, d) \<and> r = Inr a \<and> w' = w\<lparr>w_db := d\<rparr>)"
  by (auto simp: txn_def now_w_def split: prod.splits)

lemma txn_ext [simp]: "w_ext (snd (txn S f w)) = w_ext w"
  by (simp add: txn_def split: prod.splits)

text \<open>\<open>scalar_one_or_none()\<close> on the selected rows.\<close>

definition scalar_one_or_none :: "'r list \<Rightarrow> exc + 'r option" where
  "scalar_one_or_none rows =
     (case rows of [] \<Rightarrow> Inr None | [r] \<Rightarrow> Inr (Some r)
      | _ \<Rightarrow> Inl (PyError CDatabaseError ''Multiple rows were found when one or none was required''))"

text \<open>What the driver and the server accept for an \<open>Integer\<close> column and for a \<open>String(n)\<close>.\<close>

definition db_error :: exc where
  "db_error = PyError CDatabaseError ''invalid input for query argument''"

definition int_column :: "pyval \<Rightarrow> exc + int option" where
  "int_column v =
     (case v of
        PInt n \<Rightarrow> if - (2 ^ 31) \<le> n \<and> n < 2 ^ 31 then Inr (Some n) else Inl db_error
      | PNone \<Rightarrow> Inr None
      | _ \<Rightarrow> Inl db_error)"

definition text_column :: "nat \<Rightarrow> pyval \<Rightarrow> exc + string option" where
  "text_column n v =
     (case v of
        PStr s \<Rightarrow> if length s \<le> n then Inr (Some s) else Inl db_error
      | PNone \<Rightarrow> Inr None
      | _ \<Rightarrow> Inl db_error)"

lemma column_Inl:
  "int_column v = Inl e \<Longrightarrow> class_of e = CDatabaseError"
  "text_column n v = Inl e \<Longrightarrow> class_of e = CDatabaseError"
  by (auto simp: int_column_def text_column_def db_error_def split: pyval.splits if_splits)

text \<open>A transaction that the server may refuse: then nothing of it is kept.\<close>

definition txn_e :: "'x services \<Rightarrow> (instant \<Rightarrow> db \<Rightarrow> exc + ('a \<times> db)) \<Rightarrow> ('x world, exc, 'a) eff" where
  "txn_e S f = (\<lambda>w. case f (sv_now S (w_ext w)) (w_db w) of
     Inl e \<Rightarrow> (Inl e, w) | Inr (a, d) \<Rightarrow> (Inr a, w\<lparr>w_db := d\<rparr>))"

lemma txn_e_eq:
  "txn_e S f w = (r, w') \<longleftrightarrow>
     (case f (now_w S w) (w_db w) of
        Inl e \<Rightarrow> r = Inl e \<and> w' = w | Inr (a, d) \<Rightarrow> r = Inr a \<and> w' = w\<lparr>w_db := d\<rparr>)"
  by (auto simp: txn_e_def now_w_def split: sum.splits)

text \<open>A read-only transaction.\<close>

definition query :: "(db \<Rightarrow> exc + 'a) \<Rightarrow> ('x world, exc, 'a) eff" where
  "query f = (\<lambda>w. (f (w_db w), w))"

lemma query_apply [simp]: "query f w = (f (w_db w), w)"
  by (simp add: query_def)

lemma cb_call_keeps:
  assumes "keeps P fn" and "\<And>b w. P w \<Longrightarrow> P (putb b w)"
  shows "keeps P (cb_call getb putb clock fn)"
proof (rule keepsI)
  fix s assume "P s"
  show "P (snd (cb_call getb putb clock fn s))"
  proof (cases "gate (clock s) (getb s)")
    case (Pair r b)
    then show ?thesis
    proof (cases r)
      case (Inr u)
      obtain x t where fn: "fn (putb b s) = (x, t)" by fastforce
      then have "P t" using assms \<open>P s\<close> keepsD by metis
      with Pair Inr fn show ?thesis by (cases x) (auto simp: cb_call_def intro: assms(2))
    qed (auto simp: cb_call_def intro: assms(2) \<open>P s\<close>)
  qed
qed

text \<open>A predicate on the tables alone.\<close>

definition on_db :: "(db \<Rightarrow> bool) \<Rightarrow> 'x world \<Rightarrow> bool" where
  "on_db P w \<longleftrightarrow> P (w_db w)"

lemma keeps_ext [keeps_intros]: "keeps (on_db P) (ext m)"
  by (simp add: keeps_def on_db_def)

lemma keeps_query [keeps_intros]: "keeps P (query f)"
  by (simp add: keeps_def)

lemma keeps_txn [keeps_intros]:
  "(\<And>now d. P d \<Longrightarrow> P (snd (f now d))) \<Longrightarrow> keeps (on_db P) (txn S f)"
  by (auto simp: keeps_def on_db_def txn_def split: prod.splits) (metis snd_conv)

lemma keeps_txn_e [keeps_intros]:
  "(\<And>now d a d'. P d \<Longrightarrow> f now d = Inr (a, d') \<Longrightarrow> P d') \<Longrightarrow> keeps (on_db P) (txn_e S f)"
  by (auto simp: keeps_def on_db_def txn_e_def split: sum.splits prod.splits)

lemma on_db_eqD: "on_db (\<lambda>d. d = d0) w \<Longrightarrow> w_db w = d0"
  by (simp add: on_db_def)

text \<open>\<open>touches_no_table m\<close>: the call leaves every table as it found it.\<close>

definition touches_no_table :: "('x world, exc, 'a) eff \<Rightarrow> bool" where
  "touches_no_table m \<longleftrightarrow> (\<forall>w. w_db (snd (m w)) = w_db w)"

lemma touches_no_table_iff: "touches_no_table m \<longleftrightarrow> (\<forall>d. keeps (on_db (\<lambda>d'. d' = d)) m)"
  by (auto simp: touches_no_table_def keeps_def on_db_def)

lemma touches_no_tableI: "(\<And>d. keeps (on_db (\<lambda>d'. d' = d)) m) \<Longrightarrow> touches_no_table m"
  by (simp add: touches_no_table_iff)

lemma touches_no_tableD: "touches_no_table m \<Longrightarrow> m w = (r, w') \<Longrightarrow> w_db w' = w_db w"
  by (metis touches_no_table_def snd_conv)

section \<open>Redis keys\<close>

text \<open>The documented behaviour of \<open>GET\<close>, \<open>SETEX\<close> and \<open>DEL\<close> on a reachable server, while no key expires:
  \<open>kv\<close> reads the keys out of the outside state.\<close>

definition redis_kv :: "'x services \<Rightarrow> ('x \<Rightarrow> string \<Rightarrow> string option) \<Rightarrow> bool" where
  "redis_kv S kv \<longleftrightarrow>
     (\<forall>k x. sv_get S k x = (Inr (kv x k), x)) \<and>
     (\<forall>k t v x. \<exists>y. sv_setex S k t v x = (Inr (), y) \<and> kv y = (kv x)(k \<mapsto> v)) \<and>
     (\<forall>k x. \<exists>y. sv_delete S k x = (Inr (if kv x k = None then 0 else 1), y) \<and> kv y = (kv x)(k := None))"

lemma redis_get: "redis_kv S kv \<Longrightarrow> sv_get S k x = (Inr (kv x k), x)"
  by (simp add: redis_kv_def)

lemma redis_delete:
  assumes "redis_kv S kv"
  obtains y where "sv_delete S k x = (Inr (if kv x k = None then 0 else 1), y)" "kv y = (kv x)(k := None)"
  using assms unfolding redis_kv_def by blast

lemma redis_setex:
  assumes "redis_kv S kv"
  obtains y where "sv_setex S k t v x = (Inr (), y)" "kv y = (kv x)(k \<mapsto> v)"
  using assms unfolding redis_kv_def by blast

section \<open>A concrete environment\<close>

text \<open>
  Services that accept everything and know nothing, over a clock as their whole state: the
  environment in which the witnesses run the model. Odoo finds no record and creates number 7.
\<close>

definition null_services :: "rat services" where
  "null_services = \<lparr>sv_now = (\<lambda>t. t),
     sv_authenticate = (\<lambda>_ _ _ x. (Inr (PInt 2), x)),
     sv_execute_kw = (\<lambda>_ _ _ _ m _ _ x.
       (Inr (if m = ''create'' then PInt 7 else if m = ''search_read'' then PList [] else PBool True), x)),
     sv_http = (\<lambda>_ _ _ _ x.
       (Inr \<lparr>hr_status = 200, hr_headers = [], hr_json = Inr (PDict [])\<rparr>, x)),
     sv_send_task = (\<lambda>_ _ _ _ x. (Inr (), x)), sv_slack_post = (\<lambda>_ _ x. (Inr (), x)),
     sv_get = (\<lambda>_ x. (Inr None, x)), sv_setex = (\<lambda>_ _ _ x. (Inr (), x)),
     sv_set_nx_ex = (\<lambda>_ _ _ x. (Inr True, x)), sv_delete = (\<lambda>_ x. (Inr 0, x)),
     sv_exists = (\<lambda>_ x. (Inr 0, x)), sv_sadd = (\<lambda>_ _ x. (Inr 1, x)),
     sv_expire = (\<lambda>_ _ x. (Inr (), x)), sv_ttl = (\<lambda>_ x. (Inr (-2), x)),
     sv_sleep = (\<lambda>d x. (Inr (), x + d)), sv_json_dumps = (\<lambda>_. ''{}''),
     sv_json_loads = (\<lambda>_. Inr (PDict [])), sv_fuzz_ratio = (\<lambda>a b. if a = b then 100 else 0)\<rparr>"

text \<open>The same services with an Odoo that finds one record, number 7, for every search.\<close>

definition found_services :: "rat services" where
  "found_services = null_services\<lparr>sv_execute_kw := (\<lambda>_ _ _ _ m _ _ x.
     (Inr (if m = ''create'' then PInt 7
           else if m = ''search_read'' then PList [PDict [(''id'', PInt 7), (''name'', PStr ''SO7'')]]
           else PBool True), x))\<rparr>"

definition null_world :: "db \<Rightarrow> rat \<Rightarrow> rat world" where
  "null_world d now = \<lparr>w_db = d, w_odoo_breaker = odoo_breaker, w_shopee_breaker = shopee_breaker,
     w_uids = (\<lambda>_. None), w_ext = now\<rparr>"

lemma null_world_simps [simp]:
  "w_db (null_world d now) = d" "now_w null_services (null_world d now) = now"
  "w_odoo_breaker (null_world d now) = odoo_breaker"
  "w_shopee_breaker (null_world d now) = shopee_breaker" "w_uids (null_world d now) c = None"
  "w_ext (null_world d now) = now"
  by (simp_all add: null_world_def null_services_def now_w_def)

text \<open>A catalogue with one bundle: two of the component \<open>X\<close> sold as \<open>COMBO\<close>.\<close>

definition sample_db :: db where
  "sample_db = empty_db
     \<lparr>db_products := [\<lparr>pm_id = 1, pm_platform = ''shopee'', pm_platform_product_id = ''100'',
        pm_platform_sku_id = Some ''100:5'', pm_odoo_product_id = 3, pm_odoo_sku = ''COMBO'',
        pm_mapping_type = ''bundle'', pm_is_active = True, pm_created_at = 0\<rparr>],
      db_components := [\<lparr>bc_id = 2, bc_mapping_id = 1, bc_odoo_sku = ''X'', bc_quantity = 2\<rparr>],
      db_next_id := 3\<rparr>"

text \<open>The same services over a clock and a store of keys.\<close>

definition kv_services :: "(rat \<times> (string \<Rightarrow> string option)) services" where
  "kv_services = \<lparr>sv_now = fst, sv_authenticate = (\<lambda>_ _ _ x. (Inr (PInt 2), x)),
     sv_execute_kw = (\<lambda>_ _ _ _ _ _ _ x. (Inr (PList []), x)),
     sv_http = (\<lambda>_ _ _ _ x. (Inr \<lparr>hr_status = 200, hr_headers = [],
       hr_json = Inr (PDict [(''access_token'', PStr ''a''), (''refresh_token'', PStr ''r'')])\<rparr>, x)),
     sv_send_task = (\<lambda>_ _ _ _ x. (Inr (), x)), sv_slack_post = (\<lambda>_ _ x. (Inr (), x)),
     sv_get = (\<lambda>k x. (Inr (snd x k), x)),
     sv_setex = (\<lambda>k t v x. (Inr (), (fst x, (snd x)(k \<mapsto> v)))),
     sv_set_nx_ex = (\<lambda>k v t x. (Inr (snd x k = None), (fst x, if snd x k = None then (snd x)(k \<mapsto> v) else snd x))),
     sv_delete = (\<lambda>k x. (Inr (if snd x k = None then 0 else 1), (fst x, (snd x)(k := None)))),
     sv_exists = (\<lambda>k x. (Inr (if snd x k = None then 0 else 1), x)), sv_sadd = (\<lambda>_ _ x. (Inr 1, x)),
     sv_expire = (\<lambda>_ _ x. (Inr (), x)), sv_ttl = (\<lambda>k x. (Inr (if snd x k = None then -2 else 60), x)),
     sv_sleep = (\<lambda>t x. (Inr (), (fst x + t, snd x))), sv_json_dumps = (\<lambda>_. ''{}''),
     sv_json_loads = (\<lambda>_. Inr (PDict [])), sv_fuzz_ratio = (\<lambda>a b. 0)\<rparr>"

lemma kv_services_redis: "redis_kv kv_services snd"
  by (auto simp: redis_kv_def kv_services_def)

lemma kv_services_simps [simp]:
  "sv_now kv_services = fst" "sv_get kv_services k x = (Inr (snd x k), x)"
  "sv_setex kv_services k t v x = (Inr (), (fst x, (snd x)(k \<mapsto> v)))"
  "sv_delete kv_services k x = (Inr (if snd x k = None then 0 else 1), (fst x, (snd x)(k := None)))"
  "sv_http kv_services m u p b x = (Inr \<lparr>hr_status = 200, hr_headers = [],
     hr_json = Inr (PDict [(''access_token'', PStr ''a''), (''refresh_token'', PStr ''r'')])\<rparr>, x)"
  "sv_ttl kv_services k x = (Inr (if snd x k = None then -2 else 60), x)"
  by (simp_all add: kv_services_def)

definition kv_world :: "db \<Rightarrow> (string \<Rightarrow> string option) \<Rightarrow> (rat \<times> (string \<Rightarrow> string option)) world" where
  "kv_world d keys = \<lparr>w_db = d, w_odoo_breaker = odoo_breaker, w_shopee_breaker = shopee_breaker,
     w_uids = (\<lambda>_. None), w_ext = (0, keys)\<rparr>"

lemma kv_world_simps [simp]: "w_db (kv_world d keys) = d" "w_ext (kv_world d keys) = (0, keys)"
  by (simp_all add: kv_world_def)

end
