(* ===== verification/Alerts.thy ===== *)
theory Alerts
  imports World
begin

text \<open>
  The Slack alerts of \<open>src/services/alert_service.py\<close>. An alert is best effort: with no
  webhook URL nothing is sent, and a failing post is logged and dropped, so that no alert raises
  (\<open>post_slack_total\<close>) or touches a table. Letters beyond code point
  255 are written as their UTF-8 bytes.
\<close>

definition post_slack :: "'x services \<Rightarrow> settings \<Rightarrow> string \<Rightarrow> ('x world, exc, unit) eff" where
  "post_slack S cfg text =
     (case SLACK_WEBHOOK_URL cfg of
        None \<Rightarrow> ret ()
      | Some url \<Rightarrow>
          if url = [] then ret () else catching (ext (sv_slack_post S url text)) (\<lambda>e. ret ()))"

definition send_dead_letter_alert ::
  "'x services \<Rightarrow> settings \<Rightarrow> outbox \<Rightarrow> ('x world, exc, unit) eff" where
  "send_dead_letter_alert S cfg r = post_slack S cfg
     ('':skull: *Outbox dead letter*'' @ [CHR 10] @
      ''id=`'' @ int_str (ob_id r) @ ''` platform=`'' @ ob_platform r @ ''` '' @
      ''event=`'' @ ob_event_type r @ ''` order_id=`'' @ opt_str (ob_platform_order_id r) @ ''`'' @
      [CHR 10] @ ''error: `'' @ opt_str (ob_last_error r) @ ''`'')"

definition send_missing_sku :: "'x services \<Rightarrow> settings \<Rightarrow> string \<Rightarrow> ('x world, exc, unit) eff" where
  "send_missing_sku S cfg sku =
     post_slack S cfg ('':warning: SKU `'' @ sku @ ''` not found in Odoo'')"

definition send_reconciliation_alert ::
  "'x services \<Rightarrow> settings \<Rightarrow> string \<Rightarrow> nat \<Rightarrow> ('x world, exc, unit) eff" where
  "send_reconciliation_alert S cfg platform n = post_slack S cfg
     ('':mag: Reconciliation `'' @ platform @ ''` '' @ [CHR 0xE2, CHR 0x80, CHR 0x94] @ '' '' @
      int_str (int n) @ '' '' @ [CHR 0xC4, CHR 0x91, CHR 0xC6, CHR 0xA1] @ ''n c'' @
      [CHR 0xE1, CHR 0xBA, CHR 0xA7] @ ''n review'')"

definition send_token_expiring ::
  "'x services \<Rightarrow> settings \<Rightarrow> string \<Rightarrow> int \<Rightarrow> ('x world, exc, unit) eff" where
  "send_token_expiring S cfg shop_id days_left = post_slack S cfg
     ('':key: Shopee refresh_token shop_id=`'' @ shop_id @ ''` h'' @
      [CHR 0xE1, CHR 0xBA, CHR 0xBF] @ ''t h'' @ [CHR 0xE1, CHR 0xBA, CHR 0xA1] @ ''n sau '' @
      int_str days_left @ '' ng'' @ [CHR 0xC3, CHR 0xA0] @ ''y'')"

lemmas alert_defs =
  send_dead_letter_alert_def send_missing_sku_def send_reconciliation_alert_def
  send_token_expiring_def

lemma post_slack_total: "\<exists>x. post_slack S cfg t w = (Inr (), w\<lparr>w_ext := x\<rparr>)"
proof (cases "SLACK_WEBHOOK_URL cfg")
  case None
  then show ?thesis by (auto simp: post_slack_def intro: exI [of _ "w_ext w"])
next
  case (Some url)
  show ?thesis
  proof (cases "url = []")
    case True
    with Some show ?thesis by (auto simp: post_slack_def intro: exI [of _ "w_ext w"])
  next
    case False
    with Some show ?thesis
      by (cases "sv_slack_post S url t (w_ext w)"; cases "fst (sv_slack_post S url t (w_ext w))")
        (auto simp: post_slack_def catching_def ext_def)
  qed
qed

lemma post_slack_db [simp]: "w_db (snd (post_slack S cfg t w)) = w_db w"
  using post_slack_total [of S cfg t w] by auto

lemma keeps_post_slack [keeps_intros]: "keeps (on_db P) (post_slack S cfg t)"
  by (simp add: keeps_def on_db_def)

lemma alert_total: "\<exists>x. send_dead_letter_alert S cfg r w = (Inr (), w\<lparr>w_ext := x\<rparr>)"
  by (simp add: alert_defs post_slack_total)

end
