(* ===== verification/Outbox.thy ===== *)
theory Outbox
  imports Alerts
begin

text \<open>
  The transactional outbox: \<open>src/services/outbox_service.py\<close>, \<open>src/models/outbox.py\<close> and the
  outbox tasks of \<open>src/workers/scheduled.py\<close>.

  \<^item> Each transaction of the service is one function on the tables (\<open>claim_pending\<close>,
    \<open>claim_due\<close>, \<open>record_published\<close>, \<open>record_failure_row\<close>, \<open>reset_for_retry\<close>); the service's
    operations compose them with the broker and the alerts. \<open>locked\<close> says which rows another
    transaction holds, for \<open>SKIP LOCKED\<close>.
  \<^item> \<open>ox_step\<close> interleaves the transactions of any number of publishers, lets a publisher die
    between any two of them, and lets the consumer dead-letter a row. \<open>row_ok\<close> is what every
    reachable row satisfies.
\<close>

definition QUEUE_MAP :: "((string \<times> string) \<times> string) list" where
  "QUEUE_MAP =
     [((''shopee'', ''order''), ''orders.created.normal''),
      ((''shopee'', ''logistics''), ''orders.created.normal''),
      ((''shopee'', ''stock''), ''orders.created.normal''),
      ((''lazada'', ''order''), ''orders.created.normal''),
      ((''tiktok'', ''order''), ''orders.created.normal'')]"

definition RETRY_DELAYS_SEC :: "int list" where
  "RETRY_DELAYS_SEC = [60, 300, 1800, 7200, 14400]"

definition PROCESSING_LEASE_SEC :: int where
  "PROCESSING_LEASE_SEC = 300"

record dispatch =
  dp_outbox_id :: int
  dp_queue :: string
  dp_kwargs :: "(string \<times> pyval) list"

definition opt_val :: "string option \<Rightarrow> pyval" where
  "opt_val s = (case s of None \<Rightarrow> PNone | Some t \<Rightarrow> PStr t)"

definition prepare_publish :: "instant \<Rightarrow> outbox \<Rightarrow> dispatch option \<times> outbox" where
  "prepare_publish now r =
     (case map_of QUEUE_MAP (ob_platform r, ob_event_type r) of
        None \<Rightarrow>
          (None, r\<lparr>ob_status := ''dead_letter'',
                   ob_last_error := Some (''No queue mapping for '' @ ob_platform r @ ''/'' @
                     ob_event_type r)\<rparr>)
      | Some queue \<Rightarrow>
          (Some \<lparr>dp_outbox_id = ob_id r, dp_queue = queue,
                 dp_kwargs = [(''outbox_id'', PInt (ob_id r)), (''platform'', PStr (ob_platform r)),
                   (''event_type'', PStr (ob_event_type r)),
                   (''platform_order_id'', opt_val (ob_platform_order_id r)),
                   (''payload'', ob_payload r)]\<rparr>,
           r\<lparr>ob_status := ''processing'', ob_process_after := now + of_int PROCESSING_LEASE_SEC\<rparr>))"

text \<open>The claim phase of \<open>try_publish_immediately\<close>: was there a row, its dispatch, dead letters.\<close>

definition claim_pending ::
  "(int \<Rightarrow> bool) \<Rightarrow> int \<Rightarrow> instant \<Rightarrow> db \<Rightarrow> (bool \<times> dispatch option \<times> int list) \<times> db" where
  "claim_pending locked oid now d =
     (case first_row (\<lambda>r. ob_id r = oid \<and> ob_status r = ''pending'' \<and> \<not> locked (ob_id r))
             (db_outbox d) of
        None \<Rightarrow> ((False, None, []), d)
      | Some r \<Rightarrow>
          (case prepare_publish now r of
             (dp, r') \<Rightarrow>
               ((True, dp, if dp = None \<and> ob_status r' = ''dead_letter'' then [ob_id r'] else []),
                d\<lparr>db_outbox :=
                  upd_rows (\<lambda>x. ob_id x = ob_id r) (\<lambda>x. snd (prepare_publish now x))
                    (db_outbox d)\<rparr>)))"

definition relayable :: "instant \<Rightarrow> outbox \<Rightarrow> bool" where
  "relayable now r \<longleftrightarrow>
     ob_status r \<in> {''pending'', ''failed'', ''processing''} \<and> ob_process_after r \<le> now \<and>
     ob_retry_count r < ob_max_retries r"

definition due_batch :: "(int \<Rightarrow> bool) \<Rightarrow> nat \<Rightarrow> instant \<Rightarrow> outbox list \<Rightarrow> outbox list" where
  "due_batch locked batch now rows =
     take batch (sort_key ob_created_at [r \<leftarrow> rows. relayable now r \<and> \<not> locked (ob_id r)])"

text \<open>The claim phase of \<open>relay_pending\<close>: rows scanned, dispatches, dead letters.\<close>

definition claim_due ::
  "(int \<Rightarrow> bool) \<Rightarrow> nat \<Rightarrow> instant \<Rightarrow> db \<Rightarrow> (nat \<times> dispatch list \<times> int list) \<times> db" where
  "claim_due locked batch now d =
     (let entries = due_batch locked batch now (db_outbox d);
          prepared = map (prepare_publish now) entries
      in ((length entries, List.map_filter fst prepared,
           [ob_id r'. (dp, r') \<leftarrow> prepared, dp = None \<and> ob_status r' = ''dead_letter'']),
          d\<lparr>db_outbox :=
            upd_rows (\<lambda>x. ob_id x \<in> ob_id ` set entries) (\<lambda>x. snd (prepare_publish now x))
              (db_outbox d)\<rparr>))"

definition record_published :: "int \<Rightarrow> instant \<Rightarrow> db \<Rightarrow> unit \<times> db" where
  "record_published oid now d =
     ((), d\<lparr>db_outbox := upd_rows (\<lambda>r. ob_id r = oid)
             (\<lambda>r. r\<lparr>ob_status := ''published'', ob_published_at := Some now\<rparr>) (db_outbox d)\<rparr>)"

definition fail_row :: "string \<Rightarrow> instant \<Rightarrow> outbox \<Rightarrow> outbox" where
  "fail_row err now r0 =
     (let r = r0\<lparr>ob_retry_count := ob_retry_count r0 + 1, ob_last_error := Some err\<rparr>
      in if ob_retry_count r \<ge> ob_max_retries r then r\<lparr>ob_status := ''dead_letter''\<rparr>
         else r\<lparr>ob_status := ''failed'',
                ob_process_after := now +
                  of_int (RETRY_DELAYS_SEC ! nat (min (ob_retry_count r - 1)
                    (int (length RETRY_DELAYS_SEC) - 1)))\<rparr>)"

definition record_failure_row :: "int \<Rightarrow> string \<Rightarrow> instant \<Rightarrow> db \<Rightarrow> int option \<times> db" where
  "record_failure_row oid err now d =
     (case first_row (\<lambda>r. ob_id r = oid) (db_outbox d) of
        None \<Rightarrow> (None, d)
      | Some r \<Rightarrow>
          (if ob_retry_count (fail_row err now r) \<ge> ob_max_retries r then Some oid else None,
           d\<lparr>db_outbox := upd_rows (\<lambda>r. ob_id r = oid) (fail_row err now) (db_outbox d)\<rparr>))"

definition dispatch_row :: "'x services \<Rightarrow> dispatch \<Rightarrow> ('x world, exc, bool \<times> int option) eff" where
  "dispatch_row S dp =
     (\<lambda>w. case ext (sv_send_task S ''workers.process_webhook_event'' (dp_kwargs dp) (dp_queue dp)
                     (Some (''outbox-'' @ int_str (dp_outbox_id dp)))) w of
        (Inl e, w') \<Rightarrow>
          bnd (txn S (record_failure_row (dp_outbox_id dp) (exc_str e))) (\<lambda>dl. ret (False, dl)) w'
      | (Inr _, w') \<Rightarrow>
          bnd (txn S (record_published (dp_outbox_id dp))) (\<lambda>_. ret (True, None)) w')"

definition fire_dead_letter_alerts ::
  "'x services \<Rightarrow> settings \<Rightarrow> int list \<Rightarrow> ('x world, exc, unit) eff" where
  "fire_dead_letter_alerts S cfg ids =
     (if ids = [] then ret ()
      else bnd (gets (\<lambda>w. [r \<leftarrow> db_outbox (w_db w). ob_id r \<in> set ids]))
        (\<lambda>entries. fold_eff
           (\<lambda>r _. catching (send_dead_letter_alert S cfg r) (\<lambda>e. ret ())) entries ()))"

definition try_publish_immediately ::
  "'x services \<Rightarrow> settings \<Rightarrow> (int \<Rightarrow> bool) \<Rightarrow> int \<Rightarrow> ('x world, exc, bool) eff" where
  "try_publish_immediately S cfg locked oid =
     bnd (txn S (claim_pending locked oid)) (\<lambda>(found, dp, dead).
       if \<not> found then ret False
       else case dp of
         None \<Rightarrow> bnd (fire_dead_letter_alerts S cfg dead) (\<lambda>_. ret False)
       | Some dispatch \<Rightarrow>
           bnd (dispatch_row S dispatch) (\<lambda>(ok, dl).
             bnd (fire_dead_letter_alerts S cfg
                    (dead @ (case dl of None \<Rightarrow> [] | Some i \<Rightarrow> [i]))) (\<lambda>_. ret ok)))"

record relay_stats =
  rs_published :: int
  rs_failed :: int
  rs_skipped :: int
  rs_scanned :: int

definition relay_one ::
  "'x services \<Rightarrow> dispatch \<Rightarrow> relay_stats \<times> int list \<Rightarrow> ('x world, exc, relay_stats \<times> int list) eff"
where
  "relay_one S dp = (\<lambda>(st, dead).
     bnd (dispatch_row S dp) (\<lambda>(ok, dl).
       if ok then ret (st\<lparr>rs_published := rs_published st + 1\<rparr>, dead)
       else ret (st\<lparr>rs_failed := rs_failed st + 1\<rparr>,
                 dead @ (case dl of None \<Rightarrow> [] | Some i \<Rightarrow> [i]))))"

definition relay_pending ::
  "'x services \<Rightarrow> settings \<Rightarrow> (int \<Rightarrow> bool) \<Rightarrow> nat \<Rightarrow> ('x world, exc, relay_stats) eff" where
  "relay_pending S cfg locked batch =
     bnd (txn S (claim_due locked batch)) (\<lambda>(scanned, dispatches, dead).
     bnd (fold_eff (relay_one S) dispatches
            (\<lparr>rs_published = 0, rs_failed = 0, rs_skipped = 0, rs_scanned = int scanned\<rparr>, dead))
       (\<lambda>(st, dead). bnd (fire_dead_letter_alerts S cfg dead) (\<lambda>_. ret st)))"

text \<open>The first transaction of \<open>manual_retry\<close>: was there such a row.\<close>

definition reset_for_retry :: "int \<Rightarrow> instant \<Rightarrow> db \<Rightarrow> bool \<times> db" where
  "reset_for_retry oid now d =
     (case first_row (\<lambda>r. ob_id r = oid) (db_outbox d) of
        None \<Rightarrow> (False, d)
      | Some _ \<Rightarrow>
          (True, d\<lparr>db_outbox := upd_rows (\<lambda>r. ob_id r = oid)
             (\<lambda>r. r\<lparr>ob_status := ''pending'', ob_process_after := now, ob_retry_count := 0,
                    ob_last_error := None\<rparr>) (db_outbox d)\<rparr>))"

definition manual_retry ::
  "'x services \<Rightarrow> settings \<Rightarrow> (int \<Rightarrow> bool) \<Rightarrow> int \<Rightarrow> ('x world, exc, bool) eff" where
  "manual_retry S cfg locked oid =
     bnd (txn S (reset_for_retry oid)) (\<lambda>found.
       if found then try_publish_immediately S cfg locked oid else ret False)"

definition get_stats :: "db \<Rightarrow> (string \<times> nat) list" where
  "get_stats d =
     (let ss = map ob_status (db_outbox d)
      in map (\<lambda>s. (s, length (filter (\<lambda>t. t = s) ss))) (remdups ss))"

section \<open>Scheduled tasks on the outbox\<close>

definition relay_outbox :: "'x services \<Rightarrow> settings \<Rightarrow> (int \<Rightarrow> bool) \<Rightarrow> ('x world, exc, relay_stats) eff" where
  "relay_outbox S cfg locked = relay_pending S cfg locked 200"

definition days :: "int \<Rightarrow> rat" where
  "days n = of_int (n * 86400)"

definition cleanup_outbox :: "instant \<Rightarrow> db \<Rightarrow> nat \<times> db" where
  "cleanup_outbox now d =
     (let cutoff = now - days 7;
          targets = [ob_id r. r \<leftarrow> db_outbox d,
            ob_status r = ''published'' \<and>
            (case ob_published_at r of None \<Rightarrow> False | Some t \<Rightarrow> t < cutoff)]
      in if targets = [] then (0, d)
         else
           (length (filter (\<lambda>r. ob_id r \<in> set targets) (db_outbox d)),
            d\<lparr>db_event_log := upd_rows
                (\<lambda>l. case el_outbox_id l of None \<Rightarrow> False | Some i \<Rightarrow> i \<in> set targets)
                (\<lambda>l. l\<lparr>el_outbox_id := None\<rparr>) (db_event_log d),
              db_outbox := del_rows (\<lambda>r. ob_id r \<in> set targets) (db_outbox d)\<rparr>))"

definition retention_cleanup :: "instant \<Rightarrow> db \<Rightarrow> (nat \<times> nat) \<times> db" where
  "retention_cleanup now d =
     (let old_log = (\<lambda>l. el_received_at l < now - days 30);
          old_sync = (\<lambda>l. ol_created_at l < now - days 90)
      in ((length (filter old_log (db_event_log d)), length (filter old_sync (db_sync_log d))),
          d\<lparr>db_event_log := del_rows old_log (db_event_log d),
            db_sync_log := del_rows old_sync (db_sync_log d)\<rparr>))"

section \<open>Writers of the table\<close>

text \<open>\<open>db.add(WebhookOutbox(...))\<close> with the column defaults; the id is the sequence's next value.\<close>

definition add_outbox ::
  "string \<Rightarrow> string \<Rightarrow> pyval \<Rightarrow> string option \<Rightarrow> pyval \<Rightarrow> string option \<Rightarrow> instant \<Rightarrow> db \<Rightarrow> int \<times> db" where
  "add_outbox platform event_type code poid payload signature now d =
     (db_next_id d,
      d\<lparr>db_outbox := db_outbox d @
          [\<lparr>ob_id = db_next_id d, ob_platform = platform, ob_event_type = event_type,
            ob_event_code = code, ob_platform_order_id = poid, ob_payload = payload,
            ob_signature = signature, ob_status = ''pending'', ob_retry_count = 0,
            ob_max_retries = 5, ob_last_error = None, ob_process_after = now,
            ob_published_at = None, ob_created_at = now\<rparr>],
        db_next_id := db_next_id d + 1\<rparr>)"

text \<open>What \<open>process_webhook_event\<close> writes when a SKU does not exist in Odoo.\<close>

definition mark_dead_letter ::
  "int \<Rightarrow> string \<Rightarrow> string option \<Rightarrow> string \<Rightarrow> instant \<Rightarrow> db \<Rightarrow> unit \<times> db" where
  "mark_dead_letter oid platform poid sku now d =
     (let err = Some (''ProductNotFound: sku='' @ sku);
          d' = d\<lparr>db_outbox := upd_rows (\<lambda>r. ob_id r = oid)
                 (\<lambda>r. r\<lparr>ob_status := ''dead_letter'', ob_last_error := err\<rparr>) (db_outbox d)\<rparr>
      in ((), case poid of
            None \<Rightarrow> d'
          | Some i \<Rightarrow> d'\<lparr>db_orders := upd_rows
              (\<lambda>m. om_platform m = platform \<and> om_platform_order_id m = i)
              (\<lambda>m. m\<lparr>om_status := ''dead_letter'', om_last_error := err, om_updated_at := now\<rparr>)
              (db_orders d')\<rparr>))"

section \<open>Interleaved publishers\<close>

text \<open>
  \<open>os_claimed\<close>, \<open>os_sent\<close> and \<open>os_refused\<close> hold the dispatches of live publishers: claimed and
  not sent, taken by the broker and not recorded, refused and not recorded. \<open>os_delivered\<close> are
  the ids the broker has ever taken.
\<close>

record ox_sys =
  os_db :: db
  os_now :: instant
  os_claimed :: "dispatch list"
  os_sent :: "dispatch list"
  os_refused :: "(dispatch \<times> string) list"
  os_delivered :: "int set"

inductive ox_step :: "ox_sys \<Rightarrow> ox_sys \<Rightarrow> bool" where
  tick: "0 \<le> t \<Longrightarrow> ox_step s (s\<lparr>os_now := os_now s + t\<rparr>)"
| arrive: "ox_step s (s\<lparr>os_db :=
     snd (add_outbox platform event_type code poid payload signature (os_now s) (os_db s))\<rparr>)"
| claim_one: "claim_pending locked oid (os_now s) (os_db s) = ((found, dp, dead), d) \<Longrightarrow>
     ox_step s (s\<lparr>os_db := d,
       os_claimed := (case dp of None \<Rightarrow> [] | Some x \<Rightarrow> [x]) @ os_claimed s\<rparr>)"
| claim_batch: "claim_due locked batch (os_now s) (os_db s) = ((n, dps, dead), d) \<Longrightarrow>
     ox_step s (s\<lparr>os_db := d, os_claimed := dps @ os_claimed s\<rparr>)"
| broker_takes: "dp \<in> set (os_claimed s) \<Longrightarrow>
     ox_step s (s\<lparr>os_claimed := remove1 dp (os_claimed s), os_sent := dp # os_sent s,
       os_delivered := insert (dp_outbox_id dp) (os_delivered s)\<rparr>)"
| broker_refuses: "dp \<in> set (os_claimed s) \<Longrightarrow>
     ox_step s (s\<lparr>os_claimed := remove1 dp (os_claimed s), os_refused := (dp, err) # os_refused s\<rparr>)"
| record_ok: "dp \<in> set (os_sent s) \<Longrightarrow>
     ox_step s (s\<lparr>os_sent := remove1 dp (os_sent s),
       os_db := snd (record_published (dp_outbox_id dp) (os_now s) (os_db s))\<rparr>)"
| record_fail: "(dp, err) \<in> set (os_refused s) \<Longrightarrow>
     ox_step s (s\<lparr>os_refused := remove1 (dp, err) (os_refused s),
       os_db := snd (record_failure_row (dp_outbox_id dp) err (os_now s) (os_db s))\<rparr>)"
| crash: "set cl \<subseteq> set (os_claimed s) \<Longrightarrow> set sn \<subseteq> set (os_sent s) \<Longrightarrow>
     set rf \<subseteq> set (os_refused s) \<Longrightarrow>
     ox_step s (s\<lparr>os_claimed := cl, os_sent := sn, os_refused := rf\<rparr>)"
| consumer_rejects: "oid \<in> os_delivered s \<Longrightarrow>
     ox_step s (s\<lparr>os_db := snd (mark_dead_letter oid platform poid sku (os_now s) (os_db s))\<rparr>)"
| operator_retries: "ox_step s (s\<lparr>os_db := snd (reset_for_retry oid (os_now s) (os_db s))\<rparr>)"
| clean: "ox_step s (s\<lparr>os_db := snd (cleanup_outbox (os_now s) (os_db s))\<rparr>)"

inductive ox_run :: "ox_sys \<Rightarrow> ox_sys \<Rightarrow> bool" where
  stop: "ox_run s s"
| more: "ox_run s t \<Longrightarrow> ox_step t u \<Longrightarrow> ox_run s u"

definition ox_init :: "instant \<Rightarrow> ox_sys" where
  "ox_init now = \<lparr>os_db = empty_db, os_now = now, os_claimed = [], os_sent = [], os_refused = [],
     os_delivered = {}\<rparr>"

definition row_ok :: "instant \<Rightarrow> int set \<Rightarrow> outbox \<Rightarrow> bool" where
  "row_ok now delivered r \<longleftrightarrow>
     0 \<le> ob_retry_count r \<and> 0 < ob_max_retries r \<and>
     (ob_status r \<in> {''pending'', ''failed'', ''processing''} \<and>
        ob_retry_count r < ob_max_retries r \<and> ob_process_after r \<le> now + 14400 \<or>
      ob_status r = ''published'' \<and> ob_id r \<in> delivered \<or>
      ob_status r = ''dead_letter'' \<and> ob_last_error r \<noteq> None)"

definition ox_inv :: "ox_sys \<Rightarrow> bool" where
  "ox_inv s \<longleftrightarrow>
     keyed ob_id (db_outbox (os_db s)) \<and>
     (\<forall>r \<in> set (db_outbox (os_db s)).
        ob_id r < db_next_id (os_db s) \<and> row_ok (os_now s) (os_delivered s) r) \<and>
     dp_outbox_id ` set (os_sent s) \<subseteq> os_delivered s"

lemma row_ok_later:
  "row_ok now D r \<Longrightarrow> now \<le> later \<Longrightarrow> D \<subseteq> E \<Longrightarrow> row_ok later E r"
  by (auto simp: row_ok_def)

lemma row_ok_prepare:
  assumes "row_ok now D r" and "ob_retry_count r < ob_max_retries r"
  shows "row_ok now D (snd (prepare_publish now r))"
  using assms
  by (auto simp: row_ok_def prepare_publish_def PROCESSING_LEASE_SEC_def split: option.split)

lemma retry_delay_bounds:
  assumes "1 \<le> k"
  shows "60 \<le> RETRY_DELAYS_SEC ! nat (min (k - 1) (int (length RETRY_DELAYS_SEC) - 1))"
    and "RETRY_DELAYS_SEC ! nat (min (k - 1) (int (length RETRY_DELAYS_SEC) - 1)) \<le> 14400"
proof -
  define i where "i = nat (min (k - 1) (int (length RETRY_DELAYS_SEC) - 1))"
  have "i < length RETRY_DELAYS_SEC" using assms by (auto simp: i_def RETRY_DELAYS_SEC_def)
  then have "RETRY_DELAYS_SEC ! i \<in> set RETRY_DELAYS_SEC" by simp
  then have "60 \<le> RETRY_DELAYS_SEC ! i \<and> RETRY_DELAYS_SEC ! i \<le> 14400"
    by (auto simp: RETRY_DELAYS_SEC_def)
  then show "60 \<le> RETRY_DELAYS_SEC ! nat (min (k - 1) (int (length RETRY_DELAYS_SEC) - 1))"
    and "RETRY_DELAYS_SEC ! nat (min (k - 1) (int (length RETRY_DELAYS_SEC) - 1)) \<le> 14400"
    by (simp_all add: i_def)
qed

lemma row_ok_fail: "row_ok now D r \<Longrightarrow> row_ok now D (fail_row err now r)"
  using retry_delay_bounds(2) [of "ob_retry_count r + 1"]
  by (auto simp: row_ok_def fail_row_def Let_def)

lemma prepare_publish_id [simp]:
  "ob_id (snd (prepare_publish now r)) = ob_id r"
  "(fst (prepare_publish now r) = Some dp \<Longrightarrow> dp_outbox_id dp = ob_id r)"
  by (auto simp: prepare_publish_def split: option.splits)

lemma fail_row_id [simp]: "ob_id (fail_row err now r) = ob_id r"
  by (simp add: fail_row_def Let_def)

text \<open>Every transaction on the table is an update of some of its rows.\<close>

lemma rows_updated:
  assumes "keyed ob_id rows" and "\<And>r. ob_id (f r) = ob_id r"
    and "\<And>r. r \<in> set rows \<Longrightarrow> ob_id r < n \<and> row_ok now D r"
    and "\<And>r. r \<in> set rows \<Longrightarrow> p r \<Longrightarrow> row_ok now D r \<Longrightarrow> row_ok now D (f r)"
  shows "keyed ob_id (upd_rows p f rows) \<and>
     (\<forall>r \<in> set (upd_rows p f rows). ob_id r < n \<and> row_ok now D r)"
  using assms by (auto simp: keyed_upd_rows set_upd_rows)

text \<open>Rows picked by id are the rows themselves.\<close>

lemma keyed_same:
  "keyed k rows \<Longrightarrow> r \<in> set rows \<Longrightarrow> r' \<in> set rows \<Longrightarrow> k r = k r' \<Longrightarrow> r = r'"
  unfolding keyed_def distinct_map by (meson inj_onD)

lemma due_batch_sub:
  "r \<in> set (due_batch locked batch now rows) \<Longrightarrow>
     r \<in> set rows \<and> relayable now r \<and> \<not> locked (ob_id r)"
  by (auto simp: due_batch_def dest!: in_set_takeD)

definition table_ok :: "instant \<Rightarrow> int set \<Rightarrow> db \<Rightarrow> bool" where
  "table_ok now D d \<longleftrightarrow>
     keyed ob_id (db_outbox d) \<and>
     (\<forall>r \<in> set (db_outbox d). ob_id r < db_next_id d \<and> row_ok now D r)"

lemma ox_inv_table:
  "ox_inv s \<longleftrightarrow> table_ok (os_now s) (os_delivered s) (os_db s) \<and>
     dp_outbox_id ` set (os_sent s) \<subseteq> os_delivered s"
  by (auto simp: ox_inv_def table_ok_def)

lemma table_ok_later:
  "table_ok now D d \<Longrightarrow> now \<le> later \<Longrightarrow> D \<subseteq> E \<Longrightarrow> table_ok later E d"
  by (auto simp: table_ok_def intro: row_ok_later)

lemma table_ok_upd:
  assumes "table_ok now D d" and "\<And>r. ob_id (f r) = ob_id r"
    and "\<And>r. r \<in> set (db_outbox d) \<Longrightarrow> p r \<Longrightarrow> row_ok now D r \<Longrightarrow> row_ok now D (f r)"
  shows "table_ok now D (d\<lparr>db_outbox := upd_rows p f (db_outbox d)\<rparr>)"
proof -
  have "keyed ob_id (upd_rows p f (db_outbox d)) \<and>
      (\<forall>r \<in> set (upd_rows p f (db_outbox d)). ob_id r < db_next_id d \<and> row_ok now D r)"
    using assms(1) by (intro rows_updated assms(2,3)) (simp_all add: table_ok_def)
  then show ?thesis by (simp add: table_ok_def)
qed

lemma table_ok_add:
  assumes "table_ok now D d"
  shows "table_ok now D (snd (add_outbox pl et cd pid py sg now d))"
proof -
  have less: "\<forall>r \<in> set (db_outbox d). ob_id r < db_next_id d" using assms by (simp add: table_ok_def)
  then have "db_next_id d \<notin> ob_id ` set (db_outbox d)" by fastforce
  with assms less show ?thesis
    by (simp add: table_ok_def add_outbox_def keyed_def row_ok_def ball_Un zless_add1_eq)
      (simp add: less_imp_le)
qed

lemma table_ok_claim_pending:
  assumes "table_ok now D d"
  shows "table_ok now D (snd (claim_pending locked oid now d))"
proof (cases "first_row (\<lambda>r. ob_id r = oid \<and> ob_status r = ''pending'' \<and> \<not> locked (ob_id r))
    (db_outbox d)")
  case None
  with assms show ?thesis by (simp add: claim_pending_def del: first_row_None)
next
  case (Some r)
  then have r: "r \<in> set (db_outbox d)" "ob_id r = oid" "ob_status r = ''pending''"
    by (auto dest: first_row_SomeD)
  have "table_ok now D (d\<lparr>db_outbox :=
      upd_rows (\<lambda>x. ob_id x = ob_id r) (\<lambda>x. snd (prepare_publish now x)) (db_outbox d)\<rparr>)"
  proof (rule table_ok_upd [OF assms])
    fix x assume x: "x \<in> set (db_outbox d)" "ob_id x = ob_id r" "row_ok now D x"
    then have "x = r" using assms r keyed_same by (metis table_ok_def)
    with x r show "row_ok now D (snd (prepare_publish now x))"
      by (intro row_ok_prepare) (auto simp: row_ok_def)
  qed simp
  with Some show ?thesis by (simp add: claim_pending_def split: prod.split)
qed

lemma table_ok_claim_due:
  assumes "table_ok now D d"
  shows "table_ok now D (snd (claim_due locked batch now d))"
proof -
  let ?E = "due_batch locked batch now (db_outbox d)"
  have "table_ok now D (d\<lparr>db_outbox :=
      upd_rows (\<lambda>x. ob_id x \<in> ob_id ` set ?E) (\<lambda>x. snd (prepare_publish now x)) (db_outbox d)\<rparr>)"
  proof (rule table_ok_upd [OF assms])
    fix x assume x: "x \<in> set (db_outbox d)" "ob_id x \<in> ob_id ` set ?E" "row_ok now D x"
    then obtain r where r: "r \<in> set ?E" "ob_id x = ob_id r" by auto
    then have "x = r" using assms x(1) due_batch_sub [OF r(1)] keyed_same by (metis table_ok_def)
    with x due_batch_sub [OF r(1)] show "row_ok now D (snd (prepare_publish now x))"
      by (intro row_ok_prepare) (auto simp: relayable_def)
  qed simp
  then show ?thesis by (simp add: claim_due_def Let_def)
qed

lemma table_ok_record_published:
  "table_ok now D d \<Longrightarrow> oid \<in> D \<Longrightarrow> table_ok now D (snd (record_published oid now d))"
  by (simp add: record_published_def) (rule table_ok_upd, auto simp: row_ok_def)

lemma table_ok_record_failure:
  assumes "table_ok now D d"
  shows "table_ok now D (snd (record_failure_row oid err now d))"
proof -
  have "table_ok now D (d\<lparr>db_outbox :=
      upd_rows (\<lambda>r. ob_id r = oid) (fail_row err now) (db_outbox d)\<rparr>)"
    by (rule table_ok_upd [OF assms]) (auto intro: row_ok_fail)
  with assms show ?thesis
    by (auto simp: record_failure_row_def simp del: first_row_None split: option.splits)
qed

lemma table_ok_reset:
  assumes "table_ok now D d"
  shows "table_ok now D (snd (reset_for_retry oid now d))"
proof -
  have "table_ok now D (d\<lparr>db_outbox := upd_rows (\<lambda>r. ob_id r = oid)
      (\<lambda>r. r\<lparr>ob_status := ''pending'', ob_process_after := now, ob_retry_count := 0,
        ob_last_error := None\<rparr>) (db_outbox d)\<rparr>)"
    by (rule table_ok_upd [OF assms]) (auto simp: row_ok_def)
  with assms show ?thesis
    by (auto simp: reset_for_retry_def simp del: first_row_None split: option.splits)
qed

lemma table_ok_orders [simp]: "table_ok now D (db_orders_update f d) = table_ok now D d"
  by (simp add: table_ok_def)

lemma table_ok_mark_dead_letter:
  assumes "table_ok now D d"
  shows "table_ok now D (snd (mark_dead_letter oid platform poid sku t d))"
proof -
  have "table_ok now D (d\<lparr>db_outbox := upd_rows (\<lambda>r. ob_id r = oid)
      (\<lambda>r. r\<lparr>ob_status := ''dead_letter'', ob_last_error := Some (''ProductNotFound: sku='' @ sku)\<rparr>)
      (db_outbox d)\<rparr>)"
    by (rule table_ok_upd [OF assms]) (auto simp: row_ok_def)
  then show ?thesis
    by (simp add: mark_dead_letter_def Let_def split: option.split)
qed

lemma table_ok_cleanup: "table_ok now D d \<Longrightarrow> table_ok now D (snd (cleanup_outbox t d))"
  by (auto simp: table_ok_def cleanup_outbox_def Let_def keyed_del_rows del_rows_def keyed_def
      distinct_map_filter)

lemmas table_ok_intros =
  table_ok_add table_ok_claim_pending table_ok_claim_due table_ok_record_published
  table_ok_record_failure table_ok_reset table_ok_mark_dead_letter table_ok_cleanup

lemma ox_step_inv: "ox_step s t \<Longrightarrow> ox_inv s \<Longrightarrow> ox_inv t"
proof (induction rule: ox_step.induct)
  case (claim_one locked oid s found dp dead d)
  then show ?case
    using table_ok_claim_pending [of "os_now s" "os_delivered s" "os_db s" locked oid]
    by (auto simp: ox_inv_table)
next
  case (claim_batch locked batch s n dps dead d)
  then show ?case
    using table_ok_claim_due [of "os_now s" "os_delivered s" "os_db s" locked batch]
    by (auto simp: ox_inv_table)
next
  case (crash cl s sn rf)
  then show ?case by (auto simp: ox_inv_table) blast
next
  case (record_ok dp s)
  then have "set (remove1 dp (os_sent s)) \<subseteq> set (os_sent s)" by (simp add: set_remove1_subset)
  with record_ok show ?case by (auto simp: ox_inv_table intro!: table_ok_record_published)
qed (auto simp: ox_inv_table intro: table_ok_intros table_ok_later)

interpretation outbox_system: transition_invariant ox_step ox_inv
  by unfold_locales (rule ox_step_inv)

lemma ox_run_steps: "ox_run s t \<Longrightarrow> ox_step\<^sup>*\<^sup>* s t"
  by (induction rule: ox_run.induct) (auto intro: rtranclp.rtrancl_into_rtrancl)

lemma ox_run_inv: "ox_run s t \<Longrightarrow> ox_inv s \<Longrightarrow> ox_inv t"
  using outbox_system.steps_inv ox_run_steps by blast

lemma ox_inv_init: "ox_inv (ox_init now)"
  by (simp add: ox_inv_def ox_init_def empty_db_def keyed_def)

section \<open>Properties\<close>

text \<open>C7: however publishers interleave or die, no accepted event is lost or forgotten: every row of
  the table was taken by the broker, or is dead-lettered with its error kept, or will be picked up
  by the relay four hours later at the latest.\<close>

theorem outbox_never_strands:
  assumes "ox_run (ox_init now) s" and "r \<in> set (db_outbox (os_db s))"
  shows "ob_status r = ''published'' \<and> ob_id r \<in> os_delivered s \<or>
         ob_status r = ''dead_letter'' \<and> ob_last_error r \<noteq> None \<or>
         relayable (os_now s + 14400) r"
  using ox_run_inv [OF assms(1) ox_inv_init] assms(2)
  by (auto simp: ox_inv_def row_ok_def relayable_def)

theorem outbox_never_strands_witness:
  "\<exists>s r. ox_run (ox_init 0) s \<and> db_outbox (os_db s) = [r] \<and> relayable (os_now s + 14400) r"
proof -
  define s where "s = (ox_init 0)\<lparr>os_db := snd (add_outbox ''shopee'' ''order'' PNone None PNone None
    (os_now (ox_init 0)) (os_db (ox_init 0)))\<rparr>"
  have run: "ox_run (ox_init 0) s"
    unfolding s_def by (rule ox_run.more [OF ox_run.stop ox_step.arrive])
  obtain r where r: "db_outbox (os_db s) = [r]" "ob_status r = ''pending''"
    by (simp add: s_def add_outbox_def ox_init_def empty_db_def)
  have "relayable (os_now s + 14400) r"
    using outbox_never_strands [OF run, of r] r by simp
  with run r show ?thesis by blast
qed

text \<open>The failures of one row, each recorded at its own time with its own message.\<close>

fun fail_row_times :: "(string \<times> instant) list \<Rightarrow> outbox \<Rightarrow> outbox" where
  "fail_row_times [] r = r"
| "fail_row_times ((err, now) # fs) r = fail_row_times fs (fail_row err now r)"

lemma fail_row_times_counts:
  "ob_retry_count (fail_row_times fs r) = ob_retry_count r + int (length fs)"
  "ob_max_retries (fail_row_times fs r) = ob_max_retries r"
  by (induction fs r rule: fail_row_times.induct) (simp_all add: fail_row_def Let_def)

lemma fail_row_times_snoc:
  "fail_row_times (fs @ [(err, now)]) r = fail_row err now (fail_row_times fs r)"
  by (induction fs r rule: fail_row_times.induct) simp_all

text \<open>The retry schedule of a fresh row: its k-th failed dispatch schedules the next attempt
  after the k-th delay of the table, counted from the failure, while attempts are left, and the
  failure that uses up the last one dead-letters the row with the broker's message.\<close>

theorem retry_schedule:
  assumes "ob_retry_count r = 0" and "ob_max_retries r = 5" and "length fs < 5"
  shows "let r' = fail_row_times (fs @ [(err, now)]) r
         in ob_last_error r' = Some err \<and>
            (if length fs < 4
             then ob_status r' = ''failed'' \<and>
                  ob_process_after r' = now + [60, 300, 1800, 7200] ! length fs
             else ob_status r' = ''dead_letter'')"
proof -
  have n: "ob_retry_count (fail_row_times fs r) = int (length fs)"
      "ob_max_retries (fail_row_times fs r) = 5"
    using assms by (simp_all add: fail_row_times_counts)
  consider "length fs = 0" | "length fs = 1" | "length fs = 2" | "length fs = 3" | "length fs = 4"
    using assms(3) by linarith
  then show ?thesis
    by cases (use n in \<open>simp_all add: fail_row_times_snoc fail_row_def Let_def RETRY_DELAYS_SEC_def\<close>)
qed

theorem retry_schedule_witness:
  "ob_process_after (fail_row_times [(''down'', 10), (''still down'', 80)]
     (hd (db_outbox (snd (add_outbox ''shopee'' ''order'' PNone None PNone None 0 empty_db))))) = 380"
  using retry_schedule [of "hd (db_outbox (snd (add_outbox ''shopee'' ''order'' PNone None PNone None
      0 empty_db)))" "[(''down'', 10)]" "''still down''" 80]
  by (simp add: add_outbox_def empty_db_def Let_def)

text \<open>The consumer's dead letter can be lost: when the worker rejects an event before the
  publisher records its dispatch, the row ends as published, and neither the dashboards nor the
  retry page show the failure any more.\<close>

theorem dead_letter_overwritten:
  "\<exists>s t u r. ox_run (ox_init 0) s \<and> ox_run s t \<and> ox_run t u \<and>
     (\<exists>q. db_outbox (os_db t) = [q] \<and> ob_status q = ''dead_letter'') \<and>
     db_outbox (os_db u) = [r] \<and> ob_status r = ''published'' \<and>
     ob_last_error r = Some ''ProductNotFound: sku=X''"
proof -
  define dp where "dp = \<lparr>dp_outbox_id = 1, dp_queue = ''orders.created.normal'',
    dp_kwargs = [(''outbox_id'', PInt 1), (''platform'', PStr ''shopee''), (''event_type'', PStr ''order''),
      (''platform_order_id'', PNone), (''payload'', PNone)]\<rparr>"
  define a where "a = (ox_init 0)\<lparr>os_db := snd (add_outbox ''shopee'' ''order'' PNone None PNone None
    (os_now (ox_init 0)) (os_db (ox_init 0)))\<rparr>"
  define d where "d = snd (claim_pending (\<lambda>_. False) 1 0 (os_db a))"
  define b where "b = a\<lparr>os_db := d, os_claimed := [dp]\<rparr>"
  define c where "c = b\<lparr>os_claimed := [], os_sent := [dp], os_delivered := {1}\<rparr>"
  define t where "t = c\<lparr>os_db := snd (mark_dead_letter 1 ''shopee'' None ''X'' (os_now c) (os_db c))\<rparr>"
  define u where "u = t\<lparr>os_sent := [],
    os_db := snd (record_published (dp_outbox_id dp) (os_now t) (os_db t))\<rparr>"
  note simps = ox_init_def empty_db_def add_outbox_def claim_pending_def prepare_publish_def
    QUEUE_MAP_def row_simps opt_val_def
  have "ox_step (ox_init 0) a" unfolding a_def by (rule ox_step.arrive)
  moreover have "ox_step a b"
  proof -
    have "claim_pending (\<lambda>_. False) 1 (os_now a) (os_db a) = ((True, Some dp, []), d)"
      by (simp add: a_def d_def dp_def simps)
    from ox_step.claim_one [OF this] show ?thesis
      by (simp add: b_def a_def ox_init_def)
  qed
  moreover have "ox_step b c"
    using ox_step.broker_takes [of dp b] by (simp add: c_def b_def a_def ox_init_def dp_def)
  moreover have "ox_step c t"
    unfolding t_def by (rule ox_step.consumer_rejects) (simp add: c_def)
  moreover have "ox_step t u"
    using ox_step.record_ok [of dp t] by (simp add: u_def t_def c_def)
  ultimately have "ox_run (ox_init 0) c" "ox_run c t" "ox_run t u"
    by (meson ox_run.intros)+
  moreover have "\<exists>q. db_outbox (os_db t) = [q] \<and> ob_status q = ''dead_letter''"
    "\<exists>r. db_outbox (os_db u) = [r] \<and> ob_status r = ''published'' \<and>
      ob_last_error r = Some ''ProductNotFound: sku=X''"
    by (simp_all add: u_def t_def c_def b_def d_def a_def dp_def simps mark_dead_letter_def
        record_published_def)
  ultimately show ?thesis by blast
qed

lemma dispatch_ids:
  "dp \<in> set (List.map_filter fst (map (prepare_publish now) es)) \<Longrightarrow>
     \<exists>r \<in> set es. dp_outbox_id dp = ob_id r"
  by (auto simp: map_filter_def)



subsection \<open>The relay with a working broker\<close>

lemma fold_eff_ext_total:
  assumes "\<And>x acc w. \<exists>e. f x acc w = (Inr (), w\<lparr>w_ext := e\<rparr>)"
  shows "\<exists>e. fold_eff f xs acc w = (Inr (), w\<lparr>w_ext := e\<rparr>)"
proof (induction xs arbitrary: acc w)
  case Nil
  show ?case by (auto intro: exI [of _ "w_ext w"])
next
  case (Cons x xs)
  obtain e where "f x acc w = (Inr (), w\<lparr>w_ext := e\<rparr>)" using assms by blast
  moreover obtain e' where "fold_eff f xs () (w\<lparr>w_ext := e\<rparr>) = (Inr (), w\<lparr>w_ext := e'\<rparr>)"
    using Cons.IH [of "()" "w\<lparr>w_ext := e\<rparr>"] by auto
  ultimately show ?case by auto
qed

lemma fire_dead_letter_alerts_total:
  "\<exists>e. fire_dead_letter_alerts S cfg ids w = (Inr (), w\<lparr>w_ext := e\<rparr>)"
proof (cases "ids = []")
  case True
  then show ?thesis by (auto simp: fire_dead_letter_alerts_def intro: exI [of _ "w_ext w"])
next
  case False
  have "\<exists>e. catching (send_dead_letter_alert S cfg r) (\<lambda>e. ret ()) w = (Inr (), w\<lparr>w_ext := e\<rparr>)"
    for r and w :: "'a world"
    using alert_total [of S cfg r w] by auto
  then have "\<exists>e. fold_eff (\<lambda>r _. catching (send_dead_letter_alert S cfg r) (\<lambda>e. ret ()))
      [r \<leftarrow> db_outbox (w_db w). ob_id r \<in> set ids] () w = (Inr (), w\<lparr>w_ext := e\<rparr>)"
    by (intro fold_eff_ext_total) blast
  with False show ?thesis by (simp add: fire_dead_letter_alerts_def)
qed

text \<open>\<open>broker_up S\<close>: every \<open>send_task\<close> is accepted.\<close>

definition broker_up :: "'x services \<Rightarrow> bool" where
  "broker_up S \<longleftrightarrow> (\<forall>n k q t x. \<exists>x'. sv_send_task S n k q t x = (Inr (), x'))"

definition publishes :: "int set \<Rightarrow> outbox \<Rightarrow> outbox \<Rightarrow> bool" where
  "publishes ids r r' \<longleftrightarrow>
     (if ob_id r \<in> ids then \<exists>t. r' = r\<lparr>ob_status := ''published'', ob_published_at := Some t\<rparr>
      else r' = r)"

lemma dispatch_row_up:
  assumes "broker_up S"
  shows "\<exists>e t. dispatch_row S dp w =
    (Inr (True, None), w\<lparr>w_ext := e, w_db := snd (record_published (dp_outbox_id dp) t (w_db w))\<rparr>)"
proof -
  from assms obtain x where "sv_send_task S ''workers.process_webhook_event'' (dp_kwargs dp)
      (dp_queue dp) (Some (''outbox-'' @ int_str (dp_outbox_id dp))) (w_ext w) = (Inr (), x)"
    by (meson broker_up_def)
  then show ?thesis
    by (auto simp: dispatch_row_def ext_def bnd_def txn_def record_published_def
        intro!: exI [of _ x] exI [of _ "sv_now S x"])
qed

lemma relay_all_up:
  assumes "broker_up S"
  shows "\<exists>st' w'. fold_eff (relay_one S) dps (st, dead) w = (Inr (st', dead), w') \<and>
     st' = st\<lparr>rs_published := rs_published st + int (length dps)\<rparr> \<and>
     list_all2 (publishes (dp_outbox_id ` set dps)) (db_outbox (w_db w)) (db_outbox (w_db w'))"
proof (induction dps arbitrary: st w)
  case Nil
  show ?case by (simp add: publishes_def list_all2_refl)
next
  case (Cons dp dps)
  obtain e t where one: "dispatch_row S dp w =
    (Inr (True, None), w\<lparr>w_ext := e, w_db := snd (record_published (dp_outbox_id dp) t (w_db w))\<rparr>)"
    (is "_ = (_, ?w1)") using dispatch_row_up [OF assms] by blast
  let ?st = "st\<lparr>rs_published := rs_published st + 1\<rparr>"
  obtain st' w' where rest: "fold_eff (relay_one S) dps (?st, dead) ?w1 = (Inr (st', dead), w')"
    "st' = ?st\<lparr>rs_published := rs_published ?st + int (length dps)\<rparr>"
    "list_all2 (publishes (dp_outbox_id ` set dps)) (db_outbox (w_db ?w1)) (db_outbox (w_db w'))"
    using Cons.IH by blast
  have "list_all2 (publishes {dp_outbox_id dp}) (db_outbox (w_db w)) (db_outbox (w_db ?w1))"
    by (auto simp: record_published_def upd_rows_def list_all2_map2 publishes_def intro!: list_all2_refl)
  from list_all2_trans [OF _ this rest(3), of "publishes (dp_outbox_id ` set (dp # dps))"]
  have "list_all2 (publishes (dp_outbox_id ` set (dp # dps))) (db_outbox (w_db w)) (db_outbox (w_db w'))"
    by (fastforce simp: publishes_def split: if_splits)
  moreover have "relay_one S dp (st, dead) w = (Inr (?st, dead), ?w1)"
    by (simp add: relay_one_def one)
  then have "fold_eff (relay_one S) (dp # dps) (st, dead) w = (Inr (st', dead), w')"
    using rest(1) by simp
  ultimately show ?case using rest(2) by (auto simp: algebra_simps)
qed

text \<open>The row \<open>relay_pending\<close> leaves for a row it scanned, when the broker takes every message.\<close>

definition relayed :: "outbox \<Rightarrow> outbox \<Rightarrow> bool" where
  "relayed r r' \<longleftrightarrow> ob_id r' = ob_id r \<and> ob_payload r' = ob_payload r \<and>
     ob_retry_count r' = ob_retry_count r \<and>
     ob_status r' = (if (ob_platform r, ob_event_type r) \<in> dom (map_of QUEUE_MAP)
                     then ''published'' else ''dead_letter'')"

lemma due_batch_all:
  assumes "length [r \<leftarrow> rows. relayable now r \<and> \<not> locked (ob_id r)] \<le> batch"
  shows "set (due_batch locked batch now rows) = {r \<in> set rows. relayable now r \<and> \<not> locked (ob_id r)}"
    and "length (due_batch locked batch now rows) =
      length [r \<leftarrow> rows. relayable now r \<and> \<not> locked (ob_id r)]"
  using assms by (auto simp: due_batch_def)

lemma claimed_ids:
  "dp_outbox_id ` set (List.map_filter fst (map (prepare_publish now) es)) =
     ob_id ` {r \<in> set es. (ob_platform r, ob_event_type r) \<in> dom (map_of QUEUE_MAP)}"
proof -
  have "(\<exists>y. fst (prepare_publish now r) = Some y) \<longleftrightarrow>
      (ob_platform r, ob_event_type r) \<in> dom (map_of QUEUE_MAP)"
    for r by (simp add: prepare_publish_def dom_def split: option.split)
  then have "List.map_filter fst (map (prepare_publish now) es) =
      map (\<lambda>r. the (fst (prepare_publish now r)))
        [r \<leftarrow> es. (ob_platform r, ob_event_type r) \<in> dom (map_of QUEUE_MAP)]"
    by (simp add: map_filter_def filter_map comp_def)
  moreover have "dp_outbox_id (the (fst (prepare_publish now r))) = ob_id r"
    if "(ob_platform r, ob_event_type r) \<in> dom (map_of QUEUE_MAP)" for r
    using that by (auto simp: prepare_publish_def split: option.split)
  ultimately show ?thesis by (force simp: image_iff)
qed

lemma relay_pending_up:
  assumes "broker_up S" and "claim_due locked batch (now_w S w) (w_db w) = ((n, dps, dead), d)"
  shows "\<exists>st w'. relay_pending S cfg locked batch w = (Inr st, w') \<and>
     st = \<lparr>rs_published = int (length dps), rs_failed = 0, rs_skipped = 0, rs_scanned = int n\<rparr> \<and>
     list_all2 (publishes (dp_outbox_id ` set dps)) (db_outbox d) (db_outbox (w_db w'))"
proof -
  obtain st1 w1 where fold: "fold_eff (relay_one S) dps
      (\<lparr>rs_published = 0, rs_failed = 0, rs_skipped = 0, rs_scanned = int n\<rparr>, dead)
      (w\<lparr>w_db := d\<rparr>) = (Inr (st1, dead), w1)"
    and st1: "st1 = \<lparr>rs_published = int (length dps), rs_failed = 0, rs_skipped = 0, rs_scanned = int n\<rparr>"
    and rows: "list_all2 (publishes (dp_outbox_id ` set dps)) (db_outbox d) (db_outbox (w_db w1))"
    using relay_all_up [OF assms(1), of dps "\<lparr>rs_published = 0, rs_failed = 0, rs_skipped = 0,
        rs_scanned = int n\<rparr>" dead "w\<lparr>w_db := d\<rparr>"] by auto
  obtain e where fire: "fire_dead_letter_alerts S cfg dead w1 = (Inr (), w1\<lparr>w_ext := e\<rparr>)"
    using fire_dead_letter_alerts_total [of S cfg dead w1] by auto
  have "txn S (claim_due locked batch) w = (Inr (n, dps, dead), w\<lparr>w_db := d\<rparr>)"
    using assms(2) by (simp add: txn_def now_w_def)
  with fold fire have "relay_pending S cfg locked batch w = (Inr st1, w1\<lparr>w_ext := e\<rparr>)"
    by (simp add: relay_pending_def)
  with st1 rows show ?thesis by auto
qed

lemma relayed_if:
  assumes "publishes ids (if due then snd (prepare_publish now r) else r) r'"
    and "ob_id r \<in> ids \<longleftrightarrow> due \<and> (ob_platform r, ob_event_type r) \<in> dom (map_of QUEUE_MAP)"
  shows "if due then relayed r r' else r' = r"
proof (cases due)
  case False
  with assms show ?thesis by (simp add: publishes_def)
next
  case True
  show ?thesis
  proof (cases "map_of QUEUE_MAP (ob_platform r, ob_event_type r)")
    case None
    with True assms show ?thesis by (simp add: publishes_def relayed_def prepare_publish_def dom_def)
  next
    case (Some q)
    with True assms show ?thesis
      by (auto simp: publishes_def relayed_def prepare_publish_def dom_def)
  qed
qed



subsection \<open>Publication at once\<close>

text \<open>With a broker that takes the message, a pending row nobody holds is published.\<close>

lemma try_publish_up:
  assumes "broker_up S" and "first_row (\<lambda>r. ob_id r = oid \<and> ob_status r = ''pending'' \<and> \<not> locked (ob_id r)) (db_outbox (w_db w)) = Some r"
    and "map_of QUEUE_MAP (ob_platform r, ob_event_type r) = Some queue"
  shows "\<exists>w' t u. try_publish_immediately S cfg locked oid w = (Inr True, w') \<and>
    db_outbox (w_db w') = map (\<lambda>x. if ob_id x = ob_id r
      then (snd (prepare_publish u x))\<lparr>ob_status := ''published'', ob_published_at := Some t\<rparr> else x) (db_outbox (w_db w))"
proof -
  obtain dp where dp: "prepare_publish (now_w S w) r = (Some dp, snd (prepare_publish (now_w S w) r))" "dp_outbox_id dp = ob_id r"
    using assms(3) by (simp add: prepare_publish_def)
  define d where "d = (w_db w)\<lparr>db_outbox := upd_rows (\<lambda>x. ob_id x = ob_id r) (\<lambda>x. snd (prepare_publish (now_w S w) x)) (db_outbox (w_db w))\<rparr>"
  have claim: "claim_pending locked oid (now_w S w) (w_db w) = ((True, Some dp, []), d)"
    by (simp add: claim_pending_def assms(2) dp(1) [unfolded prod_eq_iff] d_def split: prod.split) (use dp in auto)
  obtain e t where disp: "dispatch_row S dp (w\<lparr>w_db := d\<rparr>) =
      (Inr (True, None), w\<lparr>w_ext := e, w_db := snd (record_published (dp_outbox_id dp) t d)\<rparr>)"
    using dispatch_row_up [OF assms(1), of dp "w\<lparr>w_db := d\<rparr>"] by auto
  let ?w2 = "w\<lparr>w_ext := e, w_db := snd (record_published (dp_outbox_id dp) t d)\<rparr>"
  obtain e' where "fire_dead_letter_alerts S cfg [] ?w2 = (Inr (), ?w2\<lparr>w_ext := e'\<rparr>)"
    using fire_dead_letter_alerts_total [of S cfg "[]" ?w2] by blast
  with claim disp have "try_publish_immediately S cfg locked oid w = (Inr True, ?w2\<lparr>w_ext := e'\<rparr>)"
    by (simp add: try_publish_immediately_def bnd_def txn_def now_w_def)
  moreover have "db_outbox (w_db (?w2\<lparr>w_ext := e'\<rparr>)) = map (\<lambda>x. if ob_id x = ob_id r
      then (snd (prepare_publish (now_w S w) x))\<lparr>ob_status := ''published'', ob_published_at := Some t\<rparr> else x) (db_outbox (w_db w))"
    by (auto simp: record_published_def d_def upd_rows_def dp(2) prepare_publish_id)
  ultimately show ?thesis by blast
qed

lemma try_publish_returns:
  assumes "broker_up S" shows "\<exists>b w'. try_publish_immediately S cfg locked oid w = (Inr b, w')"
proof -
  obtain found dp dead d where c: "claim_pending locked oid (now_w S w) (w_db w) = ((found, dp, dead), d)"
    by (cases "claim_pending locked oid (now_w S w) (w_db w)") auto
  let ?w1 = "w\<lparr>w_db := d\<rparr>"
  have alerts: "\<exists>e. fire_dead_letter_alerts S cfg ids u = (Inr (), u\<lparr>w_ext := e\<rparr>)" for ids u
    by (rule fire_dead_letter_alerts_total)
  show ?thesis
  proof (cases dp)
    case None
    with c alerts [of dead ?w1] show ?thesis
      by (auto simp: try_publish_immediately_def bnd_def txn_def now_w_def ret_def)
  next
    case (Some disp)
    obtain e t where s: "dispatch_row S disp ?w1 =
        (Inr (True, None), ?w1\<lparr>w_ext := e, w_db := snd (record_published (dp_outbox_id disp) t (w_db ?w1))\<rparr>)"
      using dispatch_row_up [OF assms] by blast
    let ?w2 = "?w1\<lparr>w_ext := e, w_db := snd (record_published (dp_outbox_id disp) t (w_db ?w1))\<rparr>"
    from Some c s alerts [of dead ?w2] show ?thesis
      by (auto simp: try_publish_immediately_def bnd_def txn_def now_w_def ret_def)
  qed
qed

text \<open>The order row a dead letter leaves.\<close>

lemma dead_lettered_row:
  "first_row (\<lambda>m. (om_platform m, om_platform_order_id m) = (platform, i)) (db_orders d) = Some m \<Longrightarrow>
   first_row (\<lambda>m. (om_platform m, om_platform_order_id m) = (platform, i))
     (db_orders (snd (mark_dead_letter oid platform (Some i) sku now d))) =
   Some (m\<lparr>om_status := ''dead_letter'', om_last_error := Some (''ProductNotFound: sku='' @ sku), om_updated_at := now\<rparr>)"
  by (simp add: mark_dead_letter_def Let_def first_row_upd_rows_same)

subsection \<open>Retention\<close>

text \<open>Every outbox reference of the event log points at an existing row.\<close>

definition refs_ok :: "db \<Rightarrow> bool" where
  "refs_ok d \<longleftrightarrow>
     (\<forall>l \<in> set (db_event_log d). \<forall>i. el_outbox_id l = Some i \<longrightarrow> i \<in> ob_id ` set (db_outbox d))"

text \<open>The daily clean-up deletes exactly the rows published more than seven days ago and clears
  the references to them, so that the foreign key of the event log never dangles and no event log
  entry is lost.\<close>

theorem cleanup_keeps_references:
  assumes "refs_ok d" and "keyed ob_id (db_outbox d)" and "cleanup_outbox now d = (n, d')"
  shows "refs_ok d' \<and> length (db_event_log d') = length (db_event_log d) \<and>
    db_outbox d' = [r \<leftarrow> db_outbox d. \<not> (ob_status r = ''published'' \<and>
      (\<exists>t. ob_published_at r = Some t \<and> t < now - days 7))] \<and>
    n = length (db_outbox d) - length (db_outbox d')"
proof -
  define old where "old = (\<lambda>r :: outbox. ob_status r = ''published'' \<and>
      (case ob_published_at r of None \<Rightarrow> False | Some t \<Rightarrow> t < now - days 7))"
  have old: "old r \<longleftrightarrow> ob_status r = ''published'' \<and>
      (\<exists>t. ob_published_at r = Some t \<and> t < now - days 7)" for r
    by (simp add: old_def split: option.split)
  define targets where "targets = [ob_id r. r \<leftarrow> db_outbox d, old r]"
  have t: "ob_id r \<in> set targets \<longleftrightarrow> old r" if "r \<in> set (db_outbox d)" for r
    using that keyed_same [OF assms(2)] by (auto simp: targets_def)
  have kept: "[r \<leftarrow> db_outbox d. ob_id r \<notin> set targets] = [r \<leftarrow> db_outbox d. \<not> old r]"
    using t by (auto intro: filter_cong)
  have gone: "length [r \<leftarrow> db_outbox d. ob_id r \<in> set targets] =
      length (db_outbox d) - length [r \<leftarrow> db_outbox d. ob_id r \<notin> set targets]"
    using sum_length_filter_compl [of "\<lambda>r. ob_id r \<in> set targets" "db_outbox d"] by simp
  have eq: "cleanup_outbox now d = (if targets = [] then (0, d) else
      (length [r \<leftarrow> db_outbox d. ob_id r \<in> set targets],
       d\<lparr>db_event_log := upd_rows
           (\<lambda>l. case el_outbox_id l of None \<Rightarrow> False | Some i \<Rightarrow> i \<in> set targets)
           (\<lambda>l. l\<lparr>el_outbox_id := None\<rparr>) (db_event_log d),
         db_outbox := del_rows (\<lambda>r. ob_id r \<in> set targets) (db_outbox d)\<rparr>))"
    unfolding cleanup_outbox_def Let_def targets_def old_def by (rule refl)
  show ?thesis
  proof (cases "targets = []")
    case True
    then have "\<forall>r \<in> set (db_outbox d). \<not> old r" by (auto simp: targets_def)
    with True eq assms(1,3) show ?thesis by (auto simp: old [symmetric])
  next
    case False
    with eq assms(3) have d': "db_event_log d' = upd_rows
           (\<lambda>l. case el_outbox_id l of None \<Rightarrow> False | Some i \<Rightarrow> i \<in> set targets)
           (\<lambda>l. l\<lparr>el_outbox_id := None\<rparr>) (db_event_log d)"
        "db_outbox d' = [r \<leftarrow> db_outbox d. ob_id r \<notin> set targets]"
        "n = length [r \<leftarrow> db_outbox d. ob_id r \<in> set targets]"
      by (auto simp: del_rows_def)
    have "refs_ok d'"
      using assms(1)
      by (force simp: refs_ok_def d' set_upd_rows split: option.splits if_splits)
    with d' kept gone show ?thesis by (simp add: old [symmetric])
  qed
qed

theorem cleanup_keeps_references_witness:
  "refs_ok (snd (cleanup_outbox 1000000 (snd (record_published 1 0
     (snd (add_outbox ''shopee'' ''order'' PNone None PNone None 0 empty_db))))))"
proof -
  define d where "d = snd (record_published 1 0
    (snd (add_outbox ''shopee'' ''order'' PNone None PNone None 0 empty_db)))"
  have "refs_ok d" "keyed ob_id (db_outbox d)"
    by (simp_all add: d_def add_outbox_def record_published_def empty_db_def refs_ok_def keyed_def
        row_simps)
  with cleanup_keeps_references [of d 1000000 "fst (cleanup_outbox 1000000 d)"
      "snd (cleanup_outbox 1000000 d)"] show ?thesis by (simp add: d_def)
qed

end
