(* ===== verification/Pystr.thy ===== *)
theory Pystr
  imports Pyval Rounding
begin

text \<open>
  Printing and reading of Python values: \<open>str(v)\<close> and \<open>repr(v)\<close> of every value, the shortest
  decimal that prints a float, and \<open>Decimal(s)\<close> on a string. A Decimal is the rational it
  denotes, so \<open>NaN\<close> and the infinities, which \<open>Decimal\<close> also reads, count as malformed here.
\<close>

section \<open>Printing floats\<close>

text \<open>The shortest decimal that rounds to the float \<open>x\<close>, and the nearest of those.\<close>

definition round_digits :: "nat \<Rightarrow> rat \<Rightarrow> rat" where
  "round_digits n x = rnd 10 n (- 2000) x"

definition shortest :: "rat \<Rightarrow> nat \<times> rat" where
  "shortest x = (case List.find (\<lambda>n. fl (round_digits n x) = x) [1..<17] of
      None \<Rightarrow> (17, round_digits 17 x) | Some n \<Rightarrow> (n, round_digits n x))"

definition zeros :: "int \<Rightarrow> string" where
  "zeros n = replicate (nat n) CHR ''0''"

definition exp_str :: "int \<Rightarrow> string" where
  "exp_str e =
     (let d = nat_digits \<bar>e\<bar>
      in (if e < 0 then ''-'' else ''+'') @ (if length d < 2 then ''0'' @ d else d))"

definition float_str :: "rat \<Rightarrow> string" where
  "float_str x =
     (if x = 0 then ''0.0''
      else case shortest \<bar>x\<bar> of (n, r) \<Rightarrow>
        let e = expo 10 r;
            ds = nat_digits \<lfloor>r * 10 powi (int n - 1 - e)\<rfloor>;
            point = e + 1;
            body =
              (if -4 < point \<and> point \<le> 16 then
                 (if point \<le> 0 then ''0.'' @ zeros (- point) @ ds
                  else if point \<ge> int (length ds) then ds @ zeros (point - int (length ds)) @ ''.0''
                  else take (nat point) ds @ ''.'' @ drop (nat point) ds)
               else take 1 ds @ (if length ds > 1 then ''.'' @ drop 1 ds else []) @ ''e'' @ exp_str e)
        in (if x < 0 then ''-'' else []) @ body)"

section \<open>Printing values\<close>

definition hex_digit :: "nat \<Rightarrow> char" where
  "hex_digit n = char_of (if n < 10 then 48 + n else 87 + n)"

definition printable :: "char \<Rightarrow> bool" where
  "printable c \<longleftrightarrow> (let n = (of_char c :: nat) in 32 \<le> n \<and> n < 127 \<or> 161 \<le> n \<and> n \<noteq> 173)"

definition repr_char :: "char \<Rightarrow> char \<Rightarrow> string" where
  "repr_char quote c =
     (if c = quote \<or> c = CHR 92 then [CHR 92, c]
      else if c = CHR 10 then [CHR 92] @ ''n''
      else if c = CHR 13 then [CHR 92] @ ''r''
      else if c = CHR 9 then [CHR 92] @ ''t''
      else if printable c then [c]
      else [CHR 92] @ ''x'' @ [hex_digit (of_char c div 16), hex_digit (of_char c mod 16)])"

definition str_repr :: "string \<Rightarrow> string" where
  "str_repr s =
     (let quote = (if CHR 39 \<in> set s \<and> CHR 34 \<notin> set s then CHR 34 else CHR 39)
      in [quote] @ concat (map (repr_char quote) s) @ [quote])"

fun comma_sep :: "string list \<Rightarrow> string" where
  "comma_sep [] = []"
| "comma_sep [w] = w"
| "comma_sep (w # ws) = w @ '', '' @ comma_sep ws"

fun py_repr :: "pyval \<Rightarrow> string" where
  "py_repr PNone = ''None''"
| "py_repr (PBool b) = (if b then ''True'' else ''False'')"
| "py_repr (PInt n) = int_str n"
| "py_repr (PFloat x) = float_str x"
| "py_repr (PStr s) = str_repr s"
| "py_repr (PList xs) = ''['' @ comma_sep (map py_repr xs) @ '']''"
| "py_repr (PDict d) =
     ''{'' @ comma_sep (map (\<lambda>kv. str_repr (fst kv) @ '': '' @ py_repr (snd kv)) d) @ ''}''"

fun py_str :: "pyval \<Rightarrow> string" where
  "py_str (PStr s) = s"
| "py_str v = py_repr v"

section \<open>Reading decimals\<close>

text \<open>The leading digits, with their value after \<open>acc\<close> and how many there are.\<close>

fun span_digits :: "int \<Rightarrow> nat \<Rightarrow> string \<Rightarrow> int \<times> nat \<times> string" where
  "span_digits acc n [] = (acc, n, [])"
| "span_digits acc n (c # s) =
     (if is_digit c then span_digits (10 * acc + digit_val c) (Suc n) s else (acc, n, c # s))"

definition read_exponent :: "string \<Rightarrow> int option" where
  "read_exponent s =
     (case s of
        [] \<Rightarrow> Some 0
      | c # t \<Rightarrow>
          if c = CHR ''e'' \<or> c = CHR ''E'' then
            (let neg = (t \<noteq> [] \<and> hd t = CHR ''-'');
                 u = (if t \<noteq> [] \<and> (hd t = CHR ''-'' \<or> hd t = CHR ''+'') then tl t else t)
             in case span_digits 0 0 u of
                  (m, n, rest) \<Rightarrow>
                    if n > 0 \<and> rest = [] then Some (if neg then - m else m) else None)
          else None)"

definition read_unsigned :: "string \<Rightarrow> rat option" where
  "read_unsigned s =
     (case span_digits 0 0 s of
        (whole, n, rest) \<Rightarrow>
          (case (if rest \<noteq> [] \<and> hd rest = CHR ''.'' then span_digits whole 0 (tl rest)
                 else (whole, 0, rest)) of
             (m, k, rest') \<Rightarrow>
               if n + k = 0 then None
               else map_option (\<lambda>e. of_int m * 10 powi (e - int k)) (read_exponent rest')))"

definition dec_of_str :: "string \<Rightarrow> rat option" where
  "dec_of_str s =
     (let t = filter (\<lambda>c. c \<noteq> CHR ''_'') (py_strip s)
      in if t \<noteq> [] \<and> hd t = CHR ''-'' then map_option uminus (read_unsigned (tl t))
         else if t \<noteq> [] \<and> hd t = CHR ''+'' then read_unsigned (tl t)
         else read_unsigned t)"

text \<open>\<open>Decimal(str(v))\<close>.\<close>

definition py_decimal :: "pyval \<Rightarrow> exc + rat" where
  "py_decimal v = (case dec_of_str (py_str v) of
      None \<Rightarrow> Inl (PyError CInvalidOperation ''[<class 'decimal.ConversionSyntax'>]'')
    | Some q \<Rightarrow> Inr q)"

subsection \<open>Integers read back\<close>

lemma span_digits_all:
  "list_all is_digit s \<Longrightarrow> \<exists>m. digits_val acc ok s = (if s = [] \<and> \<not> ok then None else Some m) \<and>
     span_digits acc n s = (m, n + length s, [])"
proof (induction s arbitrary: acc ok n)
  case (Cons c s)
  then show ?case using Cons.IH [of "10 * acc + digit_val c" True "Suc n"] by auto
qed simp

lemma read_unsigned_digits: "0 \<le> n \<Longrightarrow> read_unsigned (nat_digits n) = Some (of_int n)"
  using span_digits_all [OF nat_digits_digit [of n], of 0 False 0]
  by (auto simp: read_unsigned_def read_exponent_def digits_val_nat_digits)

lemma digit_not_special: "is_digit c \<Longrightarrow> c \<noteq> CHR ''-'' \<and> c \<noteq> CHR ''+'' \<and> c \<noteq> CHR ''_''"
  by (auto simp: is_digit_def)

lemma dec_of_str_int_str: "dec_of_str (int_str n) = Some (of_int n)"
proof -
  define m where "m = \<bar>n\<bar>"
  have d: "list_all is_digit (nat_digits m)" by (simp add: nat_digits_digit m_def)
  have hd: "is_digit (hd (nat_digits m))" and last: "is_digit (last (nat_digits m))"
    using d by (simp_all add: list_all_iff)
  have f: "filter (\<lambda>c. c \<noteq> CHR ''_'') (nat_digits m) = nat_digits m"
    using d by (auto simp: filter_id_conv list_all_iff dest: digit_not_special)
  show ?thesis
  proof (cases "n < 0")
    case True
    then have i: "int_str n = CHR ''-'' # nat_digits m" by (simp add: int_str_def m_def)
    have "\<not> is_space CHR ''-''" by (simp add: is_space_def)
    then have "py_strip (int_str n) = int_str n"
      unfolding i py_strip_def by (intro strip_chars_id) (use last in \<open>simp add: digit_not_space\<close>)
    with True f show ?thesis
      by (simp add: dec_of_str_def i read_unsigned_digits m_def)
  next
    case False
    then have i: "int_str n = nat_digits m" by (simp add: int_str_def m_def)
    have "py_strip (int_str n) = int_str n"
      unfolding i py_strip_def by (intro strip_chars_id) (use last hd in \<open>simp add: digit_not_space\<close>)
    with False f hd show ?thesis
      using digit_not_special [OF hd]
      by (simp add: dec_of_str_def i read_unsigned_digits m_def)
  qed
qed

lemma py_decimal_int [simp]: "py_decimal (PInt n) = Inr (of_int n)"
  by (simp add: py_decimal_def dec_of_str_int_str)

end
