(* ===== verification/Unified.thy ===== *)
theory Unified
  imports Pystr
begin

text \<open>
  The platform-agnostic schemas of \<open>src/schemas/unified.py\<close>. A field the transformer copies
  out of a JSON body without a conversion keeps the JSON value (\<open>pyval\<close>): a dataclass checks no
  types. Decimals are the rationals they denote; times are seconds.
\<close>

datatype platform = SHOPEE | LAZADA | TIKTOK

datatype order_status =
    PENDING | CONFIRMED | PROCESSING | SHIPPED | DELIVERED | CANCELLED | RETURN_REQUESTED | RETURNED

datatype payment_method = COD | ONLINE | INSTALLMENT | UNKNOWN

fun platform_value :: "platform \<Rightarrow> string" where
  "platform_value SHOPEE = ''shopee''"
| "platform_value LAZADA = ''lazada''"
| "platform_value TIKTOK = ''tiktok''"

fun STATUS_ORDER :: "order_status \<Rightarrow> int" where
  "STATUS_ORDER PENDING = 0"
| "STATUS_ORDER CONFIRMED = 1"
| "STATUS_ORDER PROCESSING = 2"
| "STATUS_ORDER SHIPPED = 3"
| "STATUS_ORDER DELIVERED = 4"
| "STATUS_ORDER RETURN_REQUESTED = 5"
| "STATUS_ORDER RETURNED = 6"
| "STATUS_ORDER CANCELLED = 99"

fun status_value :: "order_status \<Rightarrow> string" where
  "status_value PENDING = ''pending''"
| "status_value CONFIRMED = ''confirmed''"
| "status_value PROCESSING = ''processing''"
| "status_value SHIPPED = ''shipped''"
| "status_value DELIVERED = ''delivered''"
| "status_value CANCELLED = ''cancelled''"
| "status_value RETURN_REQUESTED = ''return_requested''"
| "status_value RETURNED = ''returned''"

definition should_update_status :: "order_status \<Rightarrow> order_status \<Rightarrow> bool" where
  "should_update_status current new =
     (if new = CANCELLED then current = PENDING \<or> current = CONFIRMED
      else STATUS_ORDER new > STATUS_ORDER current)"

record unified_address =
  ua_full_name :: pyval
  ua_phone :: string
  ua_address_line :: pyval
  ua_district :: pyval
  ua_province :: pyval
  ua_ward :: pyval
  ua_country :: string
  ua_postal_code :: pyval

record unified_item =
  ui_platform_item_id :: string
  ui_sku :: pyval
  ui_product_name :: pyval
  ui_quantity :: int
  ui_unit_price :: rat
  ui_discounted_price :: rat
  ui_discount_amount :: rat
  ui_platform_variant_id :: "string option"
  ui_variant_name :: pyval
  ui_image_url :: pyval

record unified_logistics =
  ug_shipping_fee :: rat
  ug_tracking_number :: pyval
  ug_carrier_name :: pyval
  ug_carrier_code :: pyval
  ug_shipping_fee_discount :: rat

record unified_order =
  uo_platform :: platform
  uo_platform_order_id :: string
  uo_platform_order_sn :: string
  uo_status :: order_status
  uo_payment_method :: payment_method
  uo_buyer_platform_id :: string
  uo_buyer_username :: pyval
  uo_shipping_address :: unified_address
  uo_items :: "unified_item list"
  uo_subtotal :: rat
  uo_shipping_fee :: rat
  uo_platform_discount :: rat
  uo_seller_discount :: rat
  uo_total_amount :: rat
  uo_logistics :: "unified_logistics option"
  uo_created_at :: rat
  uo_updated_at :: rat
  uo_paid_at :: "rat option"
  uo_raw_payload :: pyval

record stock_update_request =
  su_platform :: platform
  su_sku :: "string option"
  su_quantity :: int
  su_reason :: string

section \<open>Status updates\<close>

text \<open>The statuses in the order of their ranks.\<close>

lemma STATUS_ORDER_inj: "STATUS_ORDER s = STATUS_ORDER t \<longleftrightarrow> s = t"
  by (cases s; cases t) simp_all

instantiation order_status :: linorder
begin

definition less_eq_order_status :: "order_status \<Rightarrow> order_status \<Rightarrow> bool" where
  "less_eq_order_status s t \<longleftrightarrow> STATUS_ORDER s \<le> STATUS_ORDER t"

definition less_order_status :: "order_status \<Rightarrow> order_status \<Rightarrow> bool" where
  "less_order_status s t \<longleftrightarrow> STATUS_ORDER s < STATUS_ORDER t"

instance
  by standard (auto simp: less_eq_order_status_def less_order_status_def STATUS_ORDER_inj)

end

text \<open>An order's status history: every change was accepted by \<open>should_update_status\<close>.\<close>

fun accepted_history :: "order_status list \<Rightarrow> bool" where
  "accepted_history (s # t # ss) \<longleftrightarrow> should_update_status s t \<and> accepted_history (t # ss)"
| "accepted_history _ \<longleftrightarrow> True"

lemma should_update_increases: "should_update_status s t \<Longrightarrow> s < t"
  by (cases t) (auto simp: should_update_status_def less_order_status_def split: if_splits)

lemma cancelled_is_final: "\<not> should_update_status CANCELLED t"
  by (cases t) (simp_all add: should_update_status_def)

lemma accepted_history_sorted: "accepted_history ss \<Longrightarrow> sorted_wrt (<) ss"
proof (induction ss rule: accepted_history.induct)
  case (1 s t ss)
  then have "s < t" "sorted_wrt (<) (t # ss)" by (auto dest: should_update_increases)
  then show ?case by fastforce
qed simp_all

lemma all_statuses:
  "UNIV = {PENDING, CONFIRMED, PROCESSING, SHIPPED, DELIVERED, CANCELLED, RETURN_REQUESTED, RETURNED}"
proof -
  have "s \<in> {PENDING, CONFIRMED, PROCESSING, SHIPPED, DELIVERED, CANCELLED, RETURN_REQUESTED, RETURNED}"
    for s by (cases s) simp_all
  then show ?thesis by blast
qed

text \<open>C17: an order never comes back to a status it left, so it sees at most seven changes, and a
  cancelled order never changes again; late or repeated platform events cannot move it backwards.\<close>

theorem status_never_revisited:
  assumes "accepted_history ss"
  shows "distinct ss \<and> length ss \<le> 8 \<and> (CANCELLED \<in> set ss \<longrightarrow> last ss = CANCELLED)"
proof -
  have d: "distinct ss"
    using accepted_history_sorted [OF assms] by (simp add: strict_sorted_iff)
  have "finite (UNIV :: order_status set)" unfolding all_statuses by simp
  then have "card (set ss) \<le> card (UNIV :: order_status set)" by (simp add: card_mono)
  also have "\<dots> = 8" unfolding all_statuses by simp
  finally have "length ss \<le> 8" using d by (simp add: distinct_card)
  moreover have "CANCELLED \<in> set ss \<Longrightarrow> last ss = CANCELLED"
    using assms
  proof (induction ss rule: accepted_history.induct)
    case (1 s t ss)
    then show ?case by (cases "s = CANCELLED") (auto simp: cancelled_is_final)
  qed auto
  ultimately show ?thesis using d by simp
qed

theorem status_never_revisited_witness:
  "distinct [PENDING, CONFIRMED, CANCELLED] \<and> \<not> accepted_history [SHIPPED, CANCELLED]"
  using status_never_revisited [of "[PENDING, CONFIRMED, CANCELLED]"]
  by (simp add: should_update_status_def)

end
