(* ===== verification/Transformer.thy ===== *)
theory Transformer
  imports Unified Utils
begin

text \<open>
  \<open>ShopeeTransformer\<close> of \<open>src/transformers/shopee.py\<close>: from the JSON body of an order to a
  \<open>unified_order\<close>. Every access that can raise does so here: \<open>get\<close> on a value that is no
  dictionary, a loop over a value that is no iterable, \<open>Decimal\<close> of a malformed string.
\<close>

section \<open>Accesses\<close>

text \<open>\<open>for x in v\<close>: the elements of an iterable.\<close>

definition py_iter :: "pyval \<Rightarrow> exc + pyval list" where
  "py_iter v =
     (case v of
        PList xs \<Rightarrow> Inr xs
      | PDict d \<Rightarrow> Inr (map (PStr \<circ> fst) d)
      | PStr s \<Rightarrow> Inr (map (\<lambda>c. PStr [c]) s)
      | _ \<Rightarrow> Inl (PyError CTypeError (type_name v)))"

text \<open>\<open>v[0]\<close>; no dictionary that comes from JSON has the key \<open>0\<close>.\<close>

definition py_head :: "pyval \<Rightarrow> exc + pyval" where
  "py_head v =
     (case v of
        PList (x # xs) \<Rightarrow> Inr x
      | PStr (c # s) \<Rightarrow> Inr (PStr [c])
      | PList [] \<Rightarrow> Inl (PyError CIndexError ''list index out of range'')
      | PStr [] \<Rightarrow> Inl (PyError CIndexError ''string index out of range'')
      | PDict d \<Rightarrow> Inl (PyError CKeyError ''0'')
      | _ \<Rightarrow> Inl (PyError CTypeError (type_name v)))"

text \<open>\<open>m.get(v, default)\<close> on a dictionary with string keys.\<close>

definition table_get :: "(string \<times> 'a) list \<Rightarrow> pyval \<Rightarrow> 'a \<Rightarrow> exc + 'a" where
  "table_get m v dflt =
     (case v of
        PStr k \<Rightarrow> Inr (case map_of m k of None \<Rightarrow> dflt | Some x \<Rightarrow> x)
      | PList _ \<Rightarrow> Inl (PyError CTypeError ''unhashable type: list'')
      | PDict _ \<Rightarrow> Inl (PyError CTypeError ''unhashable type: dict'')
      | _ \<Rightarrow> Inr dflt)"

section \<open>Conversions\<close>

definition SHOPEE_STATUS_MAP :: "(string \<times> order_status) list" where
  "SHOPEE_STATUS_MAP =
     [(''UNPAID'', PENDING), (''READY_TO_SHIP'', CONFIRMED), (''PROCESSED'', PROCESSING),
      (''RETRY_SHIP'', PROCESSING), (''SHIPPED'', SHIPPED), (''TO_CONFIRM_RECEIVE'', SHIPPED),
      (''COMPLETED'', DELIVERED), (''IN_CANCEL'', CANCELLED), (''CANCELLED'', CANCELLED),
      (''TO_RETURN'', RETURN_REQUESTED), (''INVOICE_PENDING'', CONFIRMED)]"

definition SHOPEE_PAYMENT_MAP :: "(string \<times> payment_method) list" where
  "SHOPEE_PAYMENT_MAP = [(''COD'', COD), (''Cash on Delivery'', COD)]"

text \<open>\<open>datetime.fromtimestamp\<close> accepts the years 1 to 9999 and keeps microseconds.\<close>

definition from_timestamp :: "pyval \<Rightarrow> exc + rat" where
  "from_timestamp v =
     (case v of
        PInt n \<Rightarrow>
          if -62135596800 \<le> n \<and> n \<le> 253402300799 then Inr (of_int n)
          else Inl (PyError CValueError ''year is out of range'')
      | PBool b \<Rightarrow> Inr (if b then 1 else 0)
      | PFloat x \<Rightarrow>
          (let t = of_int (half_even (x * 1000000)) / 1000000
           in if -62135596800 \<le> t \<and> t < 253402300800 then Inr t
              else Inl (PyError CValueError ''year is out of range''))
      | _ \<Rightarrow> Inl (PyError CTypeError (type_name v)))"

definition ts_to_dt :: "pyval \<Rightarrow> exc + rat option" where
  "ts_to_dt ts =
     (if \<not> truthy ts then Inr None else sbnd (from_timestamp ts) (\<lambda>t. Inr (Some t)))"

definition D :: "pyval \<Rightarrow> exc + rat" where
  "D x = (if x = PNone \<or> x = PStr [] then Inr 0 else py_decimal x)"

definition normalize_phone_value :: "pyval \<Rightarrow> exc + string" where
  "normalize_phone_value v =
     (if \<not> truthy v then Inr []
      else case v of PStr s \<Rightarrow> Inr (normalize_vn_phone s)
        | _ \<Rightarrow> Inl (PyError CTypeError ''expected string or bytes-like object''))"

section \<open>The transformer\<close>

definition transform_address :: "pyval \<Rightarrow> exc + unified_address" where
  "transform_address recipient =
     sbnd (py_get recipient ''name'' (PStr [])) (\<lambda>name.
     sbnd (py_get recipient ''phone'' (PStr [])) (\<lambda>ph.
     sbnd (normalize_phone_value ph) (\<lambda>phone.
     sbnd (py_get recipient ''full_address'' (PStr [])) (\<lambda>line.
     sbnd (py_get recipient ''town'' PNone) (\<lambda>ward.
     sbnd (py_get recipient ''district'' (PStr [])) (\<lambda>district.
     sbnd (py_get recipient ''state'' (PStr [])) (\<lambda>province.
     sbnd (py_get recipient ''zipcode'' PNone) (\<lambda>zip_code.
       Inr \<lparr>ua_full_name = name, ua_phone = phone, ua_address_line = line, ua_district = district,
            ua_province = province, ua_ward = ward, ua_country = ''VN'',
            ua_postal_code = zip_code\<rparr>))))))))"

definition transform_item :: "pyval \<Rightarrow> exc + unified_item" where
  "transform_item it =
     (case it of
        PDict d \<Rightarrow>
          let g = (\<lambda>k. dict_get d k PNone);
              opt_str = (\<lambda>s. if s = [] then None else Some s)
          in sbnd (D (py_or (g ''model_original_price'') (g ''model_discounted_price''))) (\<lambda>unit.
             sbnd (D (py_or (g ''model_discounted_price'') (g ''model_original_price''))) (\<lambda>disc.
             sbnd (py_get (dict_get d ''image_info'' (PDict [])) ''image_url'' PNone) (\<lambda>image.
               Inr \<lparr>ui_platform_item_id = py_str (dict_get d ''item_id'' (PStr [])),
                    ui_sku = py_or (py_or (g ''model_sku'') (g ''item_sku'')) (PStr []),
                    ui_product_name = dict_get d ''item_name'' (PStr []),
                    ui_quantity = safe_int (g ''model_quantity_purchased'') 0,
                    ui_unit_price = unit, ui_discounted_price = disc,
                    ui_discount_amount = dec (unit - disc),
                    ui_platform_variant_id = opt_str (py_str (py_or (g ''model_id'') (PStr []))),
                    ui_variant_name = py_or (g ''model_name'') PNone,
                    ui_image_url = image\<rparr>)))
      | _ \<Rightarrow> Inl (PyError CAttributeError (type_name it)))"

text \<open>\<open>sum(it.discounted_price * it.quantity for it in items)\<close> in Decimal arithmetic.\<close>

definition order_subtotal :: "unified_item list \<Rightarrow> rat" where
  "order_subtotal items =
     foldl (\<lambda>acc it. dec (acc + dec (ui_discounted_price it * of_int (ui_quantity it)))) 0 items"

definition transform_logistics :: "pyval \<Rightarrow> pyval \<Rightarrow> exc + unified_logistics option" where
  "transform_logistics packages fee =
     (if \<not> truthy packages then Inr None
      else
        sbnd (py_head packages) (\<lambda>pkg.
        sbnd (D fee) (\<lambda>shipping.
        sbnd (py_get pkg ''tracking_number'' PNone) (\<lambda>tracking.
        sbnd (py_get pkg ''shipping_carrier'' PNone) (\<lambda>carrier.
          Inr (Some \<lparr>ug_shipping_fee = shipping, ug_tracking_number = tracking,
                 ug_carrier_name = carrier, ug_carrier_code = PNone,
                 ug_shipping_fee_discount = 0\<rparr>))))))"

definition transform :: "rat \<Rightarrow> pyval \<Rightarrow> exc + unified_order" where
  "transform now raw =
     (case raw of
        PDict d \<Rightarrow>
          let g = (\<lambda>k. dict_get d k PNone);
              fee = py_or (g ''actual_shipping_fee'') (g ''estimated_shipping_fee'')
          in sbnd (transform_address (py_or (g ''recipient_address'') (PDict []))) (\<lambda>address.
             sbnd (sbnd (py_iter (dict_get d ''item_list'' (PList []))) (smap transform_item)) (\<lambda>items.
             sbnd (transform_logistics (py_or (g ''package_list'') (PList [])) fee) (\<lambda>logistics.
             sbnd (table_get SHOPEE_STATUS_MAP (dict_get d ''order_status'' (PStr [])) PENDING) (\<lambda>status.
             sbnd (table_get SHOPEE_PAYMENT_MAP (dict_get d ''payment_method'' (PStr [])) ONLINE) (\<lambda>payment.
             sbnd (D fee) (\<lambda>shipping.
             sbnd (D (g ''voucher_from_shopee'')) (\<lambda>platform_discount.
             sbnd (D (g ''voucher_from_seller'')) (\<lambda>seller_discount.
             sbnd (D (g ''total_amount'')) (\<lambda>total.
             sbnd (ts_to_dt (g ''create_time'')) (\<lambda>created.
             sbnd (ts_to_dt (g ''update_time'')) (\<lambda>updated.
             sbnd (ts_to_dt (g ''pay_time'')) (\<lambda>paid.
               Inr \<lparr>uo_platform = SHOPEE,
                    uo_platform_order_id = py_str (dict_get d ''order_sn'' (PStr [])),
                    uo_platform_order_sn = py_str (dict_get d ''order_sn'' (PStr [])),
                    uo_status = status, uo_payment_method = payment,
                    uo_buyer_platform_id = py_str (dict_get d ''buyer_user_id'' (PStr [])),
                    uo_buyer_username = dict_get d ''buyer_username'' (PStr []),
                    uo_shipping_address = address, uo_items = items,
                    uo_subtotal = order_subtotal items, uo_shipping_fee = shipping,
                    uo_platform_discount = platform_discount, uo_seller_discount = seller_discount,
                    uo_total_amount = total, uo_logistics = logistics,
                    uo_created_at = (case created of None \<Rightarrow> now | Some t \<Rightarrow> t),
                    uo_updated_at = (case updated of None \<Rightarrow> now | Some t \<Rightarrow> t),
                    uo_paid_at = paid, uo_raw_payload = raw\<rparr>))))))))))))
      | _ \<Rightarrow> Inl (PyError CAttributeError (type_name raw)))"

section \<open>Well-typed orders\<close>

text \<open>What the fields the code converts must hold: an amount is absent, an integer, a decimal string
  or a float whose printed form reads as one; a time is absent or a second of the years 1 to 9999.\<close>

definition is_amount :: "pyval \<Rightarrow> bool" where
  "is_amount v \<longleftrightarrow> (case v of
      PNone \<Rightarrow> True | PInt _ \<Rightarrow> True | PStr s \<Rightarrow> s = [] \<or> dec_of_str s \<noteq> None
    | PFloat x \<Rightarrow> dec_of_str (float_str x) \<noteq> None | _ \<Rightarrow> False)"

definition is_time :: "pyval \<Rightarrow> bool" where
  "is_time v \<longleftrightarrow> (case v of
      PNone \<Rightarrow> True | PInt n \<Rightarrow> 0 \<le> n \<and> n \<le> 253402300799 | _ \<Rightarrow> False)"

definition is_dict :: "pyval \<Rightarrow> bool" where
  "is_dict v \<longleftrightarrow> (case v of PDict _ \<Rightarrow> True | _ \<Rightarrow> False)"

definition is_text :: "pyval \<Rightarrow> bool" where
  "is_text v \<longleftrightarrow> (case v of PNone \<Rightarrow> True | PStr _ \<Rightarrow> True | _ \<Rightarrow> False)"

definition typed_item :: "pyval \<Rightarrow> bool" where
  "typed_item it \<longleftrightarrow> (case it of
      PDict d \<Rightarrow> is_amount (dict_get d ''model_original_price'' PNone) \<and>
        is_amount (dict_get d ''model_discounted_price'' PNone) \<and>
        is_dict (dict_get d ''image_info'' (PDict []))
    | _ \<Rightarrow> False)"

definition typed_order :: "(string \<times> pyval) list \<Rightarrow> bool" where
  "typed_order d \<longleftrightarrow>
     (case dict_get d ''recipient_address'' PNone of
        PNone \<Rightarrow> True | PDict r \<Rightarrow> is_text (dict_get r ''phone'' (PStr [])) | _ \<Rightarrow> False) \<and>
     (case dict_get d ''item_list'' (PList []) of PList xs \<Rightarrow> list_all typed_item xs | _ \<Rightarrow> False) \<and>
     (case dict_get d ''package_list'' PNone of
        PNone \<Rightarrow> True | PList ps \<Rightarrow> list_all is_dict ps | _ \<Rightarrow> False) \<and>
     list_all (\<lambda>k. is_amount (dict_get d k PNone))
       [''actual_shipping_fee'', ''estimated_shipping_fee'', ''voucher_from_shopee'',
        ''voucher_from_seller'', ''total_amount''] \<and>
     list_all (\<lambda>k. is_time (dict_get d k PNone)) [''create_time'', ''update_time'', ''pay_time''] \<and>
     list_all (\<lambda>k. is_text (dict_get d k (PStr []))) [''order_status'', ''payment_method'']"

lemma D_amount: "is_amount v \<Longrightarrow> \<exists>q. D v = Inr q"
  by (cases v) (auto simp: is_amount_def D_def py_decimal_def dec_of_str_int_str split: option.split)

lemma amount_or: "is_amount v \<Longrightarrow> is_amount w \<Longrightarrow> is_amount (py_or v w)"
  by (simp add: py_or_def)

lemma ts_to_dt_time: "is_time v \<Longrightarrow> \<exists>t. ts_to_dt v = Inr t"
  by (cases v) (auto simp: is_time_def ts_to_dt_def from_timestamp_def)

lemma transform_address_total:
  "is_text (dict_get r ''phone'' (PStr [])) \<Longrightarrow> \<exists>a. transform_address (PDict r) = Inr a"
  by (cases "dict_get r ''phone'' (PStr [])")
    (simp_all add: transform_address_def py_get_def normalize_phone_value_def is_text_def)

lemma transform_item_total:
  assumes "typed_item it" shows "\<exists>i. transform_item it = Inr i"
proof -
  obtain d where d: "it = PDict d" using assms by (cases it) (auto simp: typed_item_def)
  obtain img where img: "dict_get d ''image_info'' (PDict []) = PDict img"
    using assms d by (cases "dict_get d ''image_info'' (PDict [])") (auto simp: typed_item_def is_dict_def)
  have "is_amount (dict_get d ''model_original_price'' PNone)"
    "is_amount (dict_get d ''model_discounted_price'' PNone)"
    using assms d by (simp_all add: typed_item_def)
  then show ?thesis
    using D_amount [OF amount_or, of "dict_get d ''model_original_price'' PNone"
        "dict_get d ''model_discounted_price'' PNone"]
      D_amount [OF amount_or, of "dict_get d ''model_discounted_price'' PNone"
        "dict_get d ''model_original_price'' PNone"] d img
    by (auto simp: transform_item_def py_get_def Let_def)
qed

lemma transform_logistics_total:
  assumes "v = PNone \<or> (\<exists>ps. v = PList ps \<and> list_all is_dict ps)" and "is_amount fee"
  shows "\<exists>l. transform_logistics (py_or v (PList [])) fee = Inr l"
proof (cases "truthy v")
  case False
  then show ?thesis by (simp add: py_or_def transform_logistics_def)
next
  case True
  with assms(1) obtain p ps where v: "v = PList (p # ps)" "is_dict p"
    by (cases v) (auto simp: neq_Nil_conv)
  then obtain d where "p = PDict d" by (cases p) (auto simp: is_dict_def)
  with v D_amount [OF assms(2)] show ?thesis
    by (auto simp: py_or_def transform_logistics_def py_head_def py_get_def)
qed

lemma table_get_total: "is_text v \<Longrightarrow> \<exists>x. table_get m v dflt = Inr x"
  by (cases v) (simp_all add: table_get_def is_text_def)

text \<open>C14: the transformer accepts every well-typed order, whatever fields are missing from it:
  a sparse or partial Shopee response never aborts the sync with an exception.\<close>

theorem transform_accepts_typed:
  assumes "typed_order d" shows "\<exists>ord. transform now (PDict d) = Inr ord"
proof -
  let ?g = "\<lambda>k. dict_get d k PNone"
  let ?fee = "py_or (?g ''actual_shipping_fee'') (?g ''estimated_shipping_fee'')"
  from assms have amounts: "is_amount (?g k)" if "k \<in> {''actual_shipping_fee'',
      ''estimated_shipping_fee'', ''voucher_from_shopee'', ''voucher_from_seller'', ''total_amount''}" for k
    using that by (auto simp: typed_order_def)
  have times: "\<exists>t. ts_to_dt (?g k) = Inr t" if "k \<in> {''create_time'', ''update_time'', ''pay_time''}" for k
    using that assms by (intro ts_to_dt_time) (auto simp: typed_order_def)
  have fee: "is_amount ?fee" using amounts by (intro amount_or) auto
  have "\<exists>a. transform_address (py_or (?g ''recipient_address'') (PDict [])) = Inr a"
  proof (cases "?g ''recipient_address''")
    case PNone
    then show ?thesis using transform_address_total [of "[]"] by (simp add: py_or_def is_text_def)
  next
    case (PDict r)
    with assms have "is_text (dict_get r ''phone'' (PStr []))" by (simp add: typed_order_def)
    with PDict show ?thesis
      using transform_address_total [of r] transform_address_total [of "[]"]
      by (auto simp: py_or_def is_text_def)
  qed (use assms in \<open>auto simp: typed_order_def\<close>)
  moreover have "\<exists>is. sbnd (py_iter (dict_get d ''item_list'' (PList []))) (smap transform_item) = Inr is"
  proof (cases "dict_get d ''item_list'' (PList [])")
    case (PList xs)
    with assms have "\<forall>x \<in> set xs. typed_item x" by (simp add: typed_order_def list_all_iff)
    with PList show ?thesis by (auto simp: py_iter_def intro: smap_total transform_item_total)
  qed (use assms in \<open>auto simp: typed_order_def\<close>)
  moreover have "\<exists>l. transform_logistics (py_or (?g ''package_list'') (PList [])) ?fee = Inr l"
    using assms fee
    by (intro transform_logistics_total) (auto simp: typed_order_def split: pyval.splits)
  moreover have "\<exists>st. table_get SHOPEE_STATUS_MAP (dict_get d ''order_status'' (PStr [])) PENDING = Inr st"
    "\<exists>p. table_get SHOPEE_PAYMENT_MAP (dict_get d ''payment_method'' (PStr [])) ONLINE = Inr p"
    using assms by (auto intro!: table_get_total simp: typed_order_def)
  moreover note D_amount [OF fee] D_amount [OF amounts [of "''voucher_from_shopee''"]]
    D_amount [OF amounts [of "''voucher_from_seller''"]] D_amount [OF amounts [of "''total_amount''"]]
    times [of "''create_time''"] times [of "''update_time''"] times [of "''pay_time''"]
  ultimately show ?thesis by (auto simp: transform_def Let_def)
qed

theorem transform_accepts_typed_witness:
  "\<exists>ord. transform 0 (PDict [(''order_sn'', PStr ''A1''), (''total_amount'', PStr ''125000''),
     (''item_list'', PList [PDict [(''model_discounted_price'', PInt 125000)]])]) = Inr ord"
  by (rule transform_accepts_typed)
    (code_simp)

section \<open>Amounts\<close>

lemma dec_of_int: "\<bar>k\<bar> < 10 ^ 28 \<Longrightarrow> dec (of_int k) = of_int k"
  using dec_exact [of k 0] by simp

definition whole_price :: "unified_item \<Rightarrow> int" where
  "whole_price it = \<lfloor>ui_discounted_price it\<rfloor>"

lemma subtotal_from:
  assumes "\<forall>it \<in> set items. ui_discounted_price it = of_int (whole_price it)"
    and "\<bar>a\<bar> + (\<Sum>it\<leftarrow>items. \<bar>whole_price it * ui_quantity it\<bar>) < 10 ^ 28"
  shows "foldl (\<lambda>acc it. dec (acc + dec (ui_discounted_price it * of_int (ui_quantity it)))) (of_int a) items
    = of_int (a + (\<Sum>it\<leftarrow>items. whole_price it * ui_quantity it))"
  using assms
proof (induction items arbitrary: a)
  case (Cons it items)
  let ?v = "whole_price it * ui_quantity it"
  have nonneg: "0 \<le> (\<Sum>it\<leftarrow>items. \<bar>whole_price it * ui_quantity it\<bar>)"
    by (intro sum_list_nonneg) auto
  have "\<bar>?v\<bar> < 10 ^ 28" "\<bar>a + ?v\<bar> + (\<Sum>it\<leftarrow>items. \<bar>whole_price it * ui_quantity it\<bar>) < 10 ^ 28"
    "\<bar>a + ?v\<bar> < 10 ^ 28"
    using Cons.prems(2) nonneg by simp_all
  moreover have "ui_discounted_price it * of_int (ui_quantity it) = of_int ?v"
    using Cons.prems(1) by simp
  ultimately show ?case
    using Cons.IH [of "a + ?v"] Cons.prems(1) dec_of_int [of ?v] dec_of_int [of "a + ?v"]
    by (simp add: algebra_simps)
qed simp

text \<open>On whole-dong prices, the subtotal computed in Decimal arithmetic is the exact sum of
  price times quantity over the items, up to 28 digits.\<close>

theorem order_subtotal_exact:
  assumes "\<forall>it \<in> set items. ui_discounted_price it = of_int (whole_price it)"
    and "(\<Sum>it\<leftarrow>items. \<bar>whole_price it * ui_quantity it\<bar>) < 10 ^ 28"
  shows "order_subtotal items = of_int (\<Sum>it\<leftarrow>items. whole_price it * ui_quantity it)"
  using subtotal_from [of items 0] assms by (simp add: order_subtotal_def)

theorem order_subtotal_exact_witness:
  "\<exists>items. smap transform_item [PDict [(''model_discounted_price'', PInt 125000),
       (''model_quantity_purchased'', PInt 3)], PDict [(''model_discounted_price'', PStr ''80000''),
       (''model_quantity_purchased'', PStr ''2'')]] = Inr items \<and> order_subtotal items = 535000"
proof -
  define items where "items = map (\<lambda>(p, q). \<lparr>ui_platform_item_id = [], ui_sku = PStr [],
    ui_product_name = PStr [], ui_quantity = q, ui_unit_price = of_int p, ui_discounted_price = of_int p,
    ui_discount_amount = 0, ui_platform_variant_id = None, ui_variant_name = PNone,
    ui_image_url = PNone\<rparr>) [(125000, 3), (80000, 2)]"
  have "smap transform_item [PDict [(''model_discounted_price'', PInt 125000),
       (''model_quantity_purchased'', PInt 3)], PDict [(''model_discounted_price'', PStr ''80000''),
       (''model_quantity_purchased'', PStr ''2'')]] = Inr items"
    unfolding items_def by code_simp
  moreover have "order_subtotal items = 535000"
    using order_subtotal_exact [of items] by (simp add: items_def whole_price_def)
  ultimately show ?thesis by blast
qed

end
