(* ===== verification/Mapping.thy ===== *)
theory Mapping
  imports World
begin

text \<open>
  \<open>MappingService\<close> of \<open>src/services/mapping_service.py\<close>: the product mappings and bundle
  components, read through a Redis cache. A cached value is whatever JSON the key holds, so these
  reads return a \<open>pyval\<close>, with \<open>PNone\<close> for Python's \<open>None\<close>. The lists the service builds and
  never caches are lists of \<open>mapping_view\<close>.
\<close>

definition CACHE_TTL :: int where "CACHE_TTL = 3600"

definition k_mapping :: "string \<Rightarrow> string option \<Rightarrow> string" where
  "k_mapping platform sku = ''mapping:platform_sku:'' @ platform @ '':'' @ opt_str sku"

definition k_bundle_components :: "int \<Rightarrow> string" where
  "k_bundle_components i = ''mapping:bundle:'' @ int_str i"

definition opt_pstr :: "string option \<Rightarrow> pyval" where
  "opt_pstr s = (case s of None \<Rightarrow> PNone | Some t \<Rightarrow> PStr t)"

definition mapping_dict :: "product_mapping \<Rightarrow> pyval" where
  "mapping_dict m = PDict
     [(''id'', PInt (pm_id m)), (''platform_product_id'', PStr (pm_platform_product_id m)),
      (''platform_sku_id'', opt_pstr (pm_platform_sku_id m)),
      (''odoo_product_id'', PInt (pm_odoo_product_id m)), (''odoo_sku'', PStr (pm_odoo_sku m)),
      (''mapping_type'', PStr (pm_mapping_type m))]"

text \<open>A comparison with \<open>None\<close> is \<open>IS NULL\<close>.\<close>

definition select_mapping :: "string \<Rightarrow> string option \<Rightarrow> db \<Rightarrow> product_mapping list" where
  "select_mapping platform sku d =
     [m \<leftarrow> db_products d.
        pm_platform m = platform \<and> pm_platform_sku_id m = sku \<and> pm_is_active m]"

definition cached_or ::
  "'x services \<Rightarrow> string \<Rightarrow> ('x world, exc, pyval) eff \<Rightarrow> ('x world, exc, pyval) eff" where
  "cached_or S key load =
     bnd (ext (sv_get S key)) (\<lambda>cached.
       case cached of
         Some c \<Rightarrow> if c \<noteq> [] then of_sum (sv_json_loads S c) else load
       | None \<Rightarrow> load)"

definition get_by_platform_sku ::
  "'x services \<Rightarrow> string \<Rightarrow> string option \<Rightarrow> ('x world, exc, pyval) eff" where
  "get_by_platform_sku S platform sku =
     cached_or S (k_mapping platform sku)
       (bnd (query (\<lambda>d. scalar_one_or_none (select_mapping platform sku d))) (\<lambda>found.
          case found of
            None \<Rightarrow> ret PNone
          | Some m \<Rightarrow>
              bnd (ext (sv_setex S (k_mapping platform sku) CACHE_TTL
                     (sv_json_dumps S (mapping_dict m)))) (\<lambda>_.
                ret (mapping_dict m))))"

record mapping_view =
  mv_id :: int
  mv_platform_product_id :: string
  mv_platform_sku_id :: "string option"
  mv_odoo_sku :: string
  mv_mapping_type :: string

definition view_of :: "product_mapping \<Rightarrow> mapping_view" where
  "view_of m = \<lparr>mv_id = pm_id m, mv_platform_product_id = pm_platform_product_id m,
     mv_platform_sku_id = pm_platform_sku_id m, mv_odoo_sku = pm_odoo_sku m,
     mv_mapping_type = pm_mapping_type m\<rparr>"

definition list_active_for_platform :: "string \<Rightarrow> db \<Rightarrow> mapping_view list" where
  "list_active_for_platform platform d =
     map view_of [m \<leftarrow> db_products d. pm_platform m = platform \<and> pm_is_active m]"

definition component_dict :: "bundle_component \<Rightarrow> pyval" where
  "component_dict c = PDict [(''odoo_sku'', PStr (bc_odoo_sku c)), (''quantity'', PInt (bc_quantity c))]"

definition components_of :: "int \<Rightarrow> db \<Rightarrow> bundle_component list" where
  "components_of i d = [c \<leftarrow> db_components d. bc_mapping_id c = i]"

definition get_bundle_components :: "'x services \<Rightarrow> int \<Rightarrow> ('x world, exc, pyval) eff" where
  "get_bundle_components S i =
     cached_or S (k_bundle_components i)
       (bnd (query (\<lambda>d. Inr (PList (map component_dict (components_of i d))))) (\<lambda>data.
          bnd (ext (sv_setex S (k_bundle_components i) CACHE_TTL (sv_json_dumps S data))) (\<lambda>_.
            ret data)))"

text \<open>The loop that drops the mappings whose id was seen.\<close>

fun first_by_id :: "int set \<Rightarrow> product_mapping list \<Rightarrow> mapping_view list" where
  "first_by_id seen [] = []"
| "first_by_id seen (m # ms) =
     (if pm_id m \<in> seen then first_by_id seen ms
      else view_of m # first_by_id (insert (pm_id m) seen) ms)"

definition find_mappings_using_component :: "string \<Rightarrow> string \<Rightarrow> db \<Rightarrow> mapping_view list" where
  "find_mappings_using_component platform sku d =
     (let direct = [m \<leftarrow> db_products d.
            pm_platform m = platform \<and> pm_odoo_sku m = sku \<and> pm_is_active m];
          comp_rows = [m. m \<leftarrow> db_products d, c \<leftarrow> db_components d,
            bc_mapping_id c = pm_id m \<and> pm_platform m = platform \<and> pm_is_active m \<and>
            bc_odoo_sku c = sku]
      in first_by_id {} (direct @ comp_rows))"

definition invalidate :: "'x services \<Rightarrow> string \<Rightarrow> string option \<Rightarrow> ('x world, exc, unit) eff" where
  "invalidate S platform sku = bnd (ext (sv_delete S (k_mapping platform sku))) (\<lambda>_. ret ())"

lemma keeps_cached_or [keeps_intros]:
  "keeps (on_db P) load \<Longrightarrow> keeps (on_db P) (cached_or S key load)"
  by (auto simp: cached_or_def intro!: keeps_intros split: option.split)

lemma keeps_get_by_platform_sku [keeps_intros]: "keeps (on_db P) (get_by_platform_sku S pl sku)"
  by (auto simp: get_by_platform_sku_def intro!: keeps_intros split: option.split)

lemma keeps_get_bundle_components [keeps_intros]: "keeps (on_db P) (get_bundle_components S i)"
  by (auto simp: get_bundle_components_def intro!: keeps_intros)

section \<open>Which mappings use a component\<close>

text \<open>The mapping sells the component: as its own product, or inside the bundle.\<close>

definition uses :: "db \<Rightarrow> string \<Rightarrow> product_mapping \<Rightarrow> bool" where
  "uses d sku m \<longleftrightarrow>
     pm_odoo_sku m = sku \<or> (\<exists>c \<in> set (components_of (pm_id m) d). bc_odoo_sku c = sku)"

lemma first_by_id_ids:
  "mv_id ` set (first_by_id seen ms) = pm_id ` set ms - seen"
  "distinct (map mv_id (first_by_id seen ms))"
proof (induction seen ms rule: first_by_id.induct)
  case (2 seen m ms)
  { case 1 with "2.IH" show ?case by (auto simp: view_of_def) }
  { case 2 with "2.IH" show ?case by (auto simp: view_of_def) }
qed simp_all

lemma first_by_id_views: "v \<in> set (first_by_id seen ms) \<Longrightarrow> \<exists>m \<in> set ms. v = view_of m"
  by (induction seen ms rule: first_by_id.induct) (auto split: if_splits)

lemma affected_mappings:
  assumes "keyed pm_id (db_products d)"
  shows "set (find_mappings_using_component platform sku d) =
           view_of ` {m \<in> set (db_products d). pm_platform m = platform \<and> pm_is_active m \<and> uses d sku m} \<and>
         distinct (map mv_id (find_mappings_using_component platform sku d))"
proof -
  let ?M = "{m \<in> set (db_products d). pm_platform m = platform \<and> pm_is_active m \<and> uses d sku m}"
  let ?rows = "[m \<leftarrow> db_products d. pm_platform m = platform \<and> pm_odoo_sku m = sku \<and> pm_is_active m] @
    [m. m \<leftarrow> db_products d, c \<leftarrow> db_components d, bc_mapping_id c = pm_id m \<and>
       pm_platform m = platform \<and> pm_is_active m \<and> bc_odoo_sku c = sku]"
  have find: "find_mappings_using_component platform sku d = first_by_id {} ?rows"
    by (simp add: find_mappings_using_component_def Let_def)
  have rows: "set ?rows = ?M"
    by (auto simp: uses_def components_of_def)
  have inj: "inj_on pm_id (set (db_products d))"
    using assms by (simp add: keyed_def distinct_map)
  have "set (first_by_id {} ?rows) = view_of ` ?M"
  proof
    show "set (first_by_id {} ?rows) \<subseteq> view_of ` ?M"
      using first_by_id_views rows by fastforce
    show "view_of ` ?M \<subseteq> set (first_by_id {} ?rows)"
    proof
      fix v assume "v \<in> view_of ` ?M"
      then obtain m where m: "m \<in> ?M" "v = view_of m" by blast
      then have "pm_id m \<in> mv_id ` set (first_by_id {} ?rows)"
        unfolding first_by_id_ids rows by simp
      then obtain u where u: "u \<in> set (first_by_id {} ?rows)" "mv_id u = pm_id m" by auto
      with first_by_id_views obtain m' where m': "m' \<in> set ?rows" "u = view_of m'" by blast
      with u(2) have "pm_id m' = pm_id m" by (simp add: view_of_def)
      moreover have "m' \<in> ?M" using m'(1) unfolding rows .
      ultimately have "m' = m" using m(1) inj by (auto dest: inj_onD)
      with u m' m show "v \<in> set (first_by_id {} ?rows)" by simp
    qed
  qed
  with find first_by_id_ids(2) [of "{}" ?rows] show ?thesis by simp
qed

text \<open>A change of one component's stock reaches every active mapping of the platform that sells
  it, directly or in a bundle, each exactly once however many components it matches, and reaches no
  other mapping.\<close>

theorem affected_mappings_exact:
  assumes "keyed pm_id (db_products d)"
  shows "set (find_mappings_using_component platform sku d) =
           view_of ` {m \<in> set (db_products d). pm_platform m = platform \<and> pm_is_active m \<and> uses d sku m} \<and>
         distinct (map mv_id (find_mappings_using_component platform sku d))"
  by (rule affected_mappings [OF assms])

theorem affected_mappings_exact_witness:
  "map mv_odoo_sku (find_mappings_using_component ''shopee'' ''X'' sample_db) = [''COMBO''] \<and>
   distinct (map mv_id (find_mappings_using_component ''shopee'' ''X'' sample_db))"
proof
  show "map mv_odoo_sku (find_mappings_using_component ''shopee'' ''X'' sample_db) = [''COMBO'']"
    by (simp add: find_mappings_using_component_def sample_db_def view_of_def Let_def)
  have "keyed pm_id (db_products sample_db)" by (simp add: keyed_def sample_db_def)
  from affected_mappings_exact [OF this]
  show "distinct (map mv_id (find_mappings_using_component ''shopee'' ''X'' sample_db))" by blast
qed

end
