(* ===== verification/Odoo.thy ===== *)
theory Odoo
  imports Mapping Transformer
begin

text \<open>
  \<open>OdooClient\<close> of \<open>src/odoo/client.py\<close>: every remote call runs through the Odoo breaker and
  maps the XML-RPC failures to the program's exceptions; the writing calls are skipped in dry-run
  mode. \<open>c\<close> is the number of the client object, whose cached user id is \<open>w_uids w c\<close>. XML-RPC
  results are \<open>pyval\<close>s; a tuple is sent as a list. rapidfuzz's similarity is a parameter
  (\<open>sv_fuzz_ratio\<close>).
\<close>

section \<open>Remote calls\<close>

fun contains_str :: "string \<Rightarrow> string \<Rightarrow> bool" where
  "contains_str p [] \<longleftrightarrow> p = []"
| "contains_str p (c # s) \<longleftrightarrow> startswith (c # s) p \<or> contains_str p s"

definition new_odoo_client :: "nat \<Rightarrow> ('x world, exc, unit) eff" where
  "new_odoo_client c = modify (\<lambda>w. w\<lparr>w_uids := (w_uids w)(c := None)\<rparr>)"

text \<open>The property \<open>uid\<close>: the login result is cached before it is tested.\<close>

definition rpc_text :: "rpc_error \<Rightarrow> string" where
  "rpc_text e = (case e of Fault m \<Rightarrow> m | ConnectionFailed m \<Rightarrow> m | ProtocolFailed m \<Rightarrow> m
     | OtherRpcError x \<Rightarrow> exc_str x)"

definition odoo_uid :: "'x services \<Rightarrow> settings \<Rightarrow> nat \<Rightarrow> ('x world, exc, pyval) eff" where
  "odoo_uid S cfg c = (\<lambda>w.
     case w_uids w c of
       Some u \<Rightarrow> (Inr u, w)
     | None \<Rightarrow>
         (case ext (sv_authenticate S (ODOO_DB cfg) (ODOO_USER cfg) (ODOO_PASSWORD cfg)) w of
            (Inl e, w') \<Rightarrow>
              (Inl (case e of
                 Fault m \<Rightarrow> OdooConnectionError (''Auth failed: '' @ m)
               | ConnectionFailed m \<Rightarrow> OdooConnectionError (''Auth failed: '' @ m)
               | ProtocolFailed m \<Rightarrow> PyError CException m
               | OtherRpcError x \<Rightarrow> x), w')
          | (Inr u, w') \<Rightarrow>
              let w'' = w'\<lparr>w_uids := (w_uids w')(c := Some u)\<rparr>
              in if truthy u then (Inr u, w'')
                 else (Inl (OdooPermissionError ''Odoo authentication returned no uid''), w'')))"

definition odoo_failure :: "rpc_error \<Rightarrow> exc" where
  "odoo_failure e =
     (case e of
        Fault m \<Rightarrow>
          if contains_str ''AccessError'' m then OdooPermissionError m
          else if contains_str ''ValidationError'' m \<or> contains_str ''ValueError'' m
          then OdooValidationError m
          else OdooError m
      | ConnectionFailed m \<Rightarrow> OdooConnectionError m
      | ProtocolFailed m \<Rightarrow> OdooConnectionError m
      | OtherRpcError x \<Rightarrow> x)"

definition run_rpc ::
  "'x services \<Rightarrow> settings \<Rightarrow> nat \<Rightarrow> string \<Rightarrow> string \<Rightarrow> pyval list \<Rightarrow> (string \<times> pyval) list \<Rightarrow>
     ('x world, exc, pyval) eff" where
  "run_rpc S cfg c model method args kwargs =
     bnd (odoo_uid S cfg c) (\<lambda>u w.
       case ext (sv_execute_kw S (ODOO_DB cfg) u (ODOO_PASSWORD cfg) model method args kwargs) w of
         (Inl e, w') \<Rightarrow> (Inl (odoo_failure e), w')
       | (Inr v, w') \<Rightarrow> (Inr v, w'))"

definition odoo_execute ::
  "'x services \<Rightarrow> settings \<Rightarrow> nat \<Rightarrow> string \<Rightarrow> string \<Rightarrow> pyval list \<Rightarrow> (string \<times> pyval) list \<Rightarrow>
     ('x world, exc, pyval) eff" where
  "odoo_execute S cfg c model method args kwargs =
     cb_call w_odoo_breaker (\<lambda>b w. w\<lparr>w_odoo_breaker := b\<rparr>) (now_w S)
       (run_rpc S cfg c model method args kwargs)"

definition search_read ::
  "'x services \<Rightarrow> settings \<Rightarrow> nat \<Rightarrow> string \<Rightarrow> pyval list \<Rightarrow> string list \<Rightarrow> int option \<Rightarrow>
     ('x world, exc, pyval) eff" where
  "search_read S cfg c model conds names limit =
     odoo_execute S cfg c model ''search_read'' [PList conds]
       ([(''fields'', PList (map PStr names))] @
        (case limit of None \<Rightarrow> [] | Some n \<Rightarrow> [(''limit'', PInt n)]))"

definition odoo_create ::
  "'x services \<Rightarrow> settings \<Rightarrow> nat \<Rightarrow> string \<Rightarrow> (string \<times> pyval) list \<Rightarrow> ('x world, exc, pyval) eff"
where
  "odoo_create S cfg c model vals =
     (if MIDDLEWARE_DRY_RUN cfg then ret (PInt (-1))
      else odoo_execute S cfg c model ''create'' [PDict vals] [])"

definition odoo_write ::
  "'x services \<Rightarrow> settings \<Rightarrow> nat \<Rightarrow> string \<Rightarrow> pyval list \<Rightarrow> (string \<times> pyval) list \<Rightarrow>
     ('x world, exc, pyval) eff" where
  "odoo_write S cfg c model ids vals =
     (if MIDDLEWARE_DRY_RUN cfg then ret (PBool True)
      else odoo_execute S cfg c model ''write'' [PList ids, PDict vals] [])"

definition call_method ::
  "'x services \<Rightarrow> settings \<Rightarrow> nat \<Rightarrow> string \<Rightarrow> string \<Rightarrow> pyval list \<Rightarrow> (string \<times> pyval) list \<Rightarrow>
     ('x world, exc, pyval) eff" where
  "call_method S cfg c model method ids kwargs =
     (if MIDDLEWARE_DRY_RUN cfg then ret (PBool True)
      else odoo_execute S cfg c model method [PList ids] kwargs)"

section \<open>Lookups\<close>

definition cond_eq :: "string \<Rightarrow> pyval \<Rightarrow> pyval" where
  "cond_eq k v = PList [PStr k, PStr ''='', v]"

text \<open>\<open>result[0][k] if result else d\<close>.\<close>

definition first_item :: "pyval \<Rightarrow> string \<Rightarrow> pyval \<Rightarrow> exc + pyval" where
  "first_item res k d =
     (if truthy res then sbnd (py_head res) (\<lambda>r. py_item r k) else Inr d)"

definition order_domain :: "string \<Rightarrow> string \<Rightarrow> pyval list" where
  "order_domain platform oid =
     [cond_eq ''x_platform'' (PStr platform), cond_eq ''x_platform_order_id'' (PStr oid)]"

definition check_order_exists ::
  "'x services \<Rightarrow> settings \<Rightarrow> nat \<Rightarrow> string \<Rightarrow> string \<Rightarrow> ('x world, exc, pyval) eff" where
  "check_order_exists S cfg c platform oid =
     bnd (search_read S cfg c ''sale.order'' (order_domain platform oid) [''id''] (Some 1)) (\<lambda>res.
       of_sum (first_item res ''id'' PNone))"

definition update_order_tracking ::
  "'x services \<Rightarrow> settings \<Rightarrow> nat \<Rightarrow> string \<Rightarrow> string \<Rightarrow> string \<Rightarrow> ('x world, exc, pyval) eff" where
  "update_order_tracking S cfg c platform oid tracking =
     bnd (search_read S cfg c ''sale.order'' (order_domain platform oid)
            [''id'', ''x_tracking_number''] (Some 1)) (\<lambda>res.
       if \<not> truthy res then ret (PBool False)
       else bnd (of_sum (py_head res)) (\<lambda>row.
            bnd (of_sum (py_item row ''id'')) (\<lambda>order_id.
            bnd (of_sum (py_get row ''x_tracking_number'' PNone)) (\<lambda>t.
              if t = PStr tracking then ret (PBool True)
              else odoo_write S cfg c ''sale.order'' [order_id]
                     [(''x_tracking_number'', PStr tracking)]))))"

definition get_product_id_by_sku ::
  "'x services \<Rightarrow> settings \<Rightarrow> nat \<Rightarrow> pyval \<Rightarrow> ('x world, exc, pyval) eff" where
  "get_product_id_by_sku S cfg c sku =
     bnd (search_read S cfg c ''product.product'' [cond_eq ''default_code'' sku] [''id''] (Some 1))
       (\<lambda>res. of_sum (first_item res ''id'' PNone))"

definition get_stock_quantity ::
  "'x services \<Rightarrow> settings \<Rightarrow> nat \<Rightarrow> string \<Rightarrow> ('x world, exc, int) eff" where
  "get_stock_quantity S cfg c sku =
     bnd (search_read S cfg c ''product.product'' [cond_eq ''default_code'' (PStr sku)]
            [''qty_available'', ''virtual_available'', ''id''] (Some 1)) (\<lambda>res.
       if \<not> truthy res then ret 0
       else of_sum (sbnd (py_head res) (\<lambda>row. sbnd (py_item row ''virtual_available'')
              (\<lambda>v. py_int (py_or v (PInt 0))))))"

definition get_product_marketplace_controls ::
  "'x services \<Rightarrow> settings \<Rightarrow> nat \<Rightarrow> string \<Rightarrow> ('x world, exc, pyval) eff" where
  "get_product_marketplace_controls S cfg c sku =
     bnd (search_read S cfg c ''product.product'' [cond_eq ''default_code'' (PStr sku)]
            [''id'', ''virtual_available'', ''lst_price'', ''x_marketplace_buffer_pct'',
             ''x_block_marketplace_sync''] (Some 1)) (\<lambda>res.
       if truthy res then of_sum (py_head res) else ret PNone)"

text \<open>\<open>float(v)\<close>; a string must hold a decimal.\<close>

definition py_float :: "pyval \<Rightarrow> exc + rat" where
  "py_float v =
     (case v of
        PFloat x \<Rightarrow> Inr x
      | PInt n \<Rightarrow> Inr (fl (of_int n))
      | PBool b \<Rightarrow> Inr (if b then 1 else 0)
      | PStr s \<Rightarrow> (case dec_of_str s of
            None \<Rightarrow> Inl (PyError CValueError ''could not convert string to float'')
          | Some q \<Rightarrow> Inr (fl q))
      | _ \<Rightarrow> Inl (PyError CTypeError (type_name v)))"

definition get_product_price ::
  "'x services \<Rightarrow> settings \<Rightarrow> nat \<Rightarrow> string \<Rightarrow> ('x world, exc, rat) eff" where
  "get_product_price S cfg c sku =
     bnd (search_read S cfg c ''product.product'' [cond_eq ''default_code'' (PStr sku)]
            [''lst_price''] (Some 1)) (\<lambda>res.
       if truthy res
       then of_sum (sbnd (py_head res) (\<lambda>row. sbnd (py_item row ''lst_price'') py_float))
       else ret 0)"

definition get_vietnam_id :: "'x services \<Rightarrow> settings \<Rightarrow> nat \<Rightarrow> ('x world, exc, pyval) eff" where
  "get_vietnam_id S cfg c =
     bnd (search_read S cfg c ''res.country'' [cond_eq ''code'' (PStr ''VN'')] [''id''] (Some 1)) (\<lambda>res.
       if truthy res then of_sum (first_item res ''id'' PNone)
       else throw (OdooError ''Vietnam country not found''))"

definition get_pricelist_vnd :: "'x services \<Rightarrow> settings \<Rightarrow> nat \<Rightarrow> ('x world, exc, pyval) eff" where
  "get_pricelist_vnd S cfg c =
     bnd (search_read S cfg c ''product.pricelist'' [cond_eq ''currency_id.name'' (PStr ''VND'')]
            [''id''] (Some 1)) (\<lambda>res.
       if truthy res then of_sum (first_item res ''id'' PNone)
       else throw (OdooError ''VND pricelist not found''))"

section \<open>Partners\<close>

definition py_lower_value :: "pyval \<Rightarrow> exc + string" where
  "py_lower_value v =
     (case v of PStr s \<Rightarrow> Inr (py_lower s) | _ \<Rightarrow> Inl (PyError CAttributeError (type_name v)))"

text \<open>The first candidate whose name is similar enough, as the loop finds it.\<close>

fun similar_candidate ::
  "'x services \<Rightarrow> pyval \<Rightarrow> pyval list \<Rightarrow> exc + pyval option" where
  "similar_candidate S full_name [] = Inr None"
| "similar_candidate S full_name (cand # cands) =
     sbnd (py_item cand ''name'') (\<lambda>n.
     sbnd (py_lower_value (py_or n (PStr []))) (\<lambda>a.
     sbnd (py_lower_value full_name) (\<lambda>b.
       if sv_fuzz_ratio S a b > 80 then Inr (Some cand)
       else similar_candidate S full_name cands)))"

definition get_or_create_partner ::
  "'x services \<Rightarrow> settings \<Rightarrow> nat \<Rightarrow> unified_address \<Rightarrow> string \<Rightarrow> string \<Rightarrow> ('x world, exc, pyval) eff"
where
  "get_or_create_partner S cfg c a platform buyer =
     (let norm = normalize_vn_phone (ua_phone a);
          phone = (if norm = [] then ''unknown-'' @ platform @ ''-'' @ buyer else norm);
          source = [(''x_platform_source'', PStr platform), (''x_platform_buyer_id'', PStr buyer)]
      in bnd (search_read S cfg c ''res.partner'' [cond_eq ''phone'' (PStr phone)]
                [''id'', ''name'', ''x_platform_source'', ''x_platform_buyer_id''] (Some 10)) (\<lambda>candidates.
         bnd (of_sum (py_iter candidates)) (\<lambda>cands.
         bnd (of_sum (similar_candidate S (ua_full_name a) cands)) (\<lambda>hit.
           case hit of
             Some cand \<Rightarrow>
               bnd (of_sum (py_get cand ''x_platform_source'' PNone)) (\<lambda>src.
               bnd (if truthy src then ret (PBool True)
                    else bnd (of_sum (py_item cand ''id'')) (\<lambda>i.
                           odoo_write S cfg c ''res.partner'' [i] source)) (\<lambda>_.
                 of_sum (py_item cand ''id'')))
           | None \<Rightarrow>
               bnd (get_vietnam_id S cfg c) (\<lambda>country.
                 odoo_create S cfg c ''res.partner''
                   ([(''name'',
                       if truthy candidates
                       then PStr (py_str (ua_full_name a) @ '' ['' @ platform @ '':'' @ take 8 buyer @ '']'')
                       else ua_full_name a),
                     (''phone'', PStr phone), (''street'', ua_address_line a),
                     (''city'', ua_district a),
                     (''comment'', PStr (py_str (py_or (ua_ward a) (PStr [])) @ '', '' @
                        py_str (ua_district a) @ '', '' @ py_str (ua_province a))),
                     (''country_id'', country)] @ source))))))"

section \<open>Order lines\<close>

text \<open>\<open>q.quantize(Decimal("1"), rounding=ROUND_HALF_UP)\<close>: the currency unit is one dong, since
  \<open>Settings\<close> has no \<open>CURRENCY_ROUNDING\<close>.\<close>

definition quantize_unit :: "rat \<Rightarrow> exc + rat" where
  "quantize_unit q =
     (if \<bar>half_up q\<bar> < 10 ^ 28 then Inr (of_int (half_up q))
      else Inl (PyError CInvalidOperation ''[<class 'decimal.InvalidOperation'>]''))"

text \<open>
  The price groups (quantity, unit price) of one component: \<open>qty\<close> is its total quantity,
  \<open>base\<close> the rounded price per unit, \<open>remaining\<close> what the lines before it left of the subtotal.
  The last component takes the remainder, split over two prices when one price would be off by more
  than the currency unit.
\<close>

definition component_groups ::
  "bool \<Rightarrow> int \<Rightarrow> rat \<Rightarrow> rat \<Rightarrow> exc + (int \<times> rat) list \<times> rat" where
  "component_groups is_last qty base remaining =
     (if is_last \<and> qty > 0 then
        sbnd (quantize_unit (dec (remaining / of_int qty))) (\<lambda>price.
          if \<bar>dec (dec (price * of_int qty) - remaining)\<bar> > 1 \<and> qty > 1 then
            let low = (if dec (price * of_int qty) > remaining then dec (price - 1) else price);
                high = dec (low + 1)
            in sbnd (quantize_unit (dec (dec (remaining - dec (low * of_int qty)) / 1))) (\<lambda>n.
                 let high_qty = max 0 (min qty (py_trunc n))
                 in Inr ([(qty - high_qty, low), (high_qty, high)], remaining))
          else Inr ([(qty, price)], remaining))
      else Inr ([(qty, base)], dec (remaining - dec (base * of_int qty))))"

definition line_vals :: "pyval \<Rightarrow> string \<Rightarrow> int \<Rightarrow> rat \<Rightarrow> pyval" where
  "line_vals product_id name qty price =
     PList [PInt 0, PInt 0, PDict
       [(''product_id'', product_id), (''name'', PStr name), (''product_uom_qty'', PInt qty),
        (''price_unit'', PFloat (fl price)), (''discount'', PInt 0)]]"

definition strip_dash :: "string \<Rightarrow> string" where
  "strip_dash s = strip_chars (\<lambda>c. c = CHR '' '' \<or> c = CHR ''-'') s"

definition item_title :: "unified_item \<Rightarrow> string" where
  "item_title it = py_str (ui_product_name it) @ '' - '' @ py_str (py_or (ui_variant_name it) (PStr []))"

definition require_product ::
  "'x services \<Rightarrow> settings \<Rightarrow> nat \<Rightarrow> pyval \<Rightarrow> ('x world, exc, pyval) eff" where
  "require_product S cfg c sku =
     bnd (get_product_id_by_sku S cfg c sku) (\<lambda>i.
       if truthy i then ret i else throw (ProductNotFoundError (py_str sku)))"

definition component_quantity :: "pyval \<Rightarrow> exc + int" where
  "component_quantity x = sbnd (py_item x ''quantity'') py_int"

text \<open>The loop over the components of a bundle.\<close>

fun bundle_lines ::
  "'x services \<Rightarrow> settings \<Rightarrow> nat \<Rightarrow> unified_item \<Rightarrow> rat \<Rightarrow> rat \<Rightarrow> pyval list \<Rightarrow>
     ('x world, exc, pyval list) eff" where
  "bundle_lines S cfg c it base remaining [] = ret []"
| "bundle_lines S cfg c it base remaining (x # comps) =
     bnd (of_sum (py_item x ''odoo_sku'')) (\<lambda>sku.
     bnd (of_sum (component_quantity x)) (\<lambda>per_unit.
     bnd (of_sum (component_groups (comps = []) (per_unit * ui_quantity it) base remaining)) (\<lambda>(groups, rest).
     bnd (require_product S cfg c sku) (\<lambda>product_id.
     bnd (bundle_lines S cfg c it base rest comps) (\<lambda>ls.
       ret ([line_vals product_id (strip_dash (item_title it @ '' [bundle:'' @ py_str sku @ '']'')) q p.
               (q, p) \<leftarrow> groups, q > 0] @ ls))))))"

text \<open>The lines of a bundle item: the price per unit, then the loop.\<close>

definition priced_bundle ::
  "'x services \<Rightarrow> settings \<Rightarrow> nat \<Rightarrow> unified_item \<Rightarrow> pyval list \<Rightarrow> ('x world, exc, pyval list) eff"
where
  "priced_bundle S cfg c it cs =
     bnd (of_sum (smap component_quantity cs)) (\<lambda>qs.
     bnd (of_sum (quantize_unit (dec (ui_discounted_price it /
            of_int (if sum_list qs = 0 then 1 else sum_list qs))))) (\<lambda>base.
       bundle_lines S cfg c it base (dec (ui_discounted_price it * of_int (ui_quantity it))) cs))"

definition mapping_for_item ::
  "'x services \<Rightarrow> string \<Rightarrow> unified_item \<Rightarrow> ('x world, exc, pyval) eff" where
  "mapping_for_item S platform it =
     bnd (case ui_platform_variant_id it of
            Some v \<Rightarrow>
              if platform \<noteq> [] \<and> v \<noteq> [] then
                get_by_platform_sku S platform (Some (ui_platform_item_id it @ '':'' @ v))
              else ret PNone
          | None \<Rightarrow> ret PNone) (\<lambda>m.
       if m = PNone \<and> platform \<noteq> [] \<and> ui_platform_item_id it \<noteq> []
       then get_by_platform_sku S platform (Some (ui_platform_item_id it)) else ret m)"

definition is_bundle :: "pyval \<Rightarrow> exc + bool" where
  "is_bundle m =
     (if truthy m then sbnd (py_get m ''mapping_type'' PNone) (\<lambda>t. Inr (t = PStr ''bundle'')) else Inr False)"

definition item_lines ::
  "'x services \<Rightarrow> settings \<Rightarrow> nat \<Rightarrow> string \<Rightarrow> unified_item \<Rightarrow> ('x world, exc, pyval list) eff" where
  "item_lines S cfg c platform it =
     bnd (mapping_for_item S platform it) (\<lambda>m.
     bnd (of_sum (is_bundle m)) (\<lambda>bundle.
       if bundle then
         bnd (of_sum (sbnd (py_item m ''id'') py_int)) (\<lambda>i.
         bnd (get_bundle_components S i) (\<lambda>found.
         bnd (if truthy found then ret found
              else bnd (of_sum (py_item m ''odoo_sku'')) (\<lambda>sku.
                     ret (PList [PDict [(''odoo_sku'', sku), (''quantity'', PInt 1)]]))) (\<lambda>comps.
         bnd (of_sum (py_iter comps)) (\<lambda>cs.
           priced_bundle S cfg c it cs))))
       else
         bnd (if truthy m then of_sum (py_item m ''odoo_sku'') else ret (ui_sku it)) (\<lambda>sku.
         bnd (require_product S cfg c sku) (\<lambda>product_id.
           ret [line_vals product_id (strip_dash (item_title it)) (ui_quantity it)
                  (ui_discounted_price it)]))))"

definition build_order_lines ::
  "'x services \<Rightarrow> settings \<Rightarrow> nat \<Rightarrow> unified_item list \<Rightarrow> string \<Rightarrow> ('x world, exc, pyval list) eff"
where
  "build_order_lines S cfg c items platform =
     fold_eff (\<lambda>it ls. bnd (item_lines S cfg c platform it) (\<lambda>new. ret (ls @ new))) items []"

section \<open>Sale orders\<close>

definition order_tracking :: "unified_order \<Rightarrow> pyval" where
  "order_tracking ord = (case uo_logistics ord of None \<Rightarrow> PNone | Some l \<Rightarrow> ug_tracking_number l)"

definition build_order_note :: "unified_order \<Rightarrow> string" where
  "build_order_note ord =
     join ('' '' @ [CHR 0xB7] @ '' '')
       ([''Platform: '' @ platform_value (uo_platform ord), ''Order: '' @ uo_platform_order_id ord] @
        (if truthy (order_tracking ord) then [''Tracking: '' @ py_str (order_tracking ord)] else []))"

definition create_sale_order ::
  "'x services \<Rightarrow> settings \<Rightarrow> nat \<Rightarrow> unified_order \<Rightarrow> ('x world, exc, pyval \<times> pyval) eff" where
  "create_sale_order S cfg c ord =
     (if MIDDLEWARE_DRY_RUN cfg then ret (PInt (-1), PStr ''DRY-RUN'')
      else
        (let pl = platform_value (uo_platform ord)
         in bnd (get_or_create_partner S cfg c (uo_shipping_address ord) pl (uo_buyer_platform_id ord)) (\<lambda>partner.
            bnd (get_pricelist_vnd S cfg c) (\<lambda>pricelist.
            bnd (build_order_lines S cfg c (uo_items ord) pl) (\<lambda>ls.
            bnd (odoo_create S cfg c ''sale.order''
                   ([(''partner_id'', partner), (''partner_invoice_id'', partner),
                     (''partner_shipping_id'', partner), (''pricelist_id'', pricelist),
                     (''origin'', PStr (pl @ ''/'' @ uo_platform_order_id ord)),
                     (''x_platform'', PStr pl), (''x_platform_order_id'', PStr (uo_platform_order_id ord)),
                     (''x_platform_order_sn'', PStr (uo_platform_order_sn ord)),
                     (''x_sync_status'', PStr ''synced''), (''note'', PStr (build_order_note ord)),
                     (''order_line'', PList ls)] @
                    (if truthy (order_tracking ord)
                     then [(''x_tracking_number'', order_tracking ord)] else []))) (\<lambda>so_id.
            bnd (search_read S cfg c ''sale.order'' [cond_eq ''id'' so_id] [''name''] (Some 1)) (\<lambda>so.
            bnd (if ENABLE_AUTO_CONFIRM_ORDER cfg
                 then call_method S cfg c ''sale.order'' ''action_confirm'' [so_id] []
                 else ret PNone) (\<lambda>_.
            bnd (of_sum (first_item so ''name'' (PStr (''SO'' @ py_str so_id)))) (\<lambda>name.
              ret (so_id, name))))))))))"

section \<open>What the client leaves alone\<close>

lemma keeps_odoo_uid [keeps_intros]: "keeps (on_db P) (odoo_uid S cfg c)"
  by (auto simp: keeps_def odoo_uid_def on_db_def ext_def Let_def
      split: option.splits prod.splits sum.splits)

lemma keeps_odoo_execute [keeps_intros]:
  "keeps (on_db P) (odoo_execute S cfg c model method args kwargs)"
proof -
  have "keeps (on_db P) (\<lambda>w. case ext (sv_execute_kw S (ODOO_DB cfg) u (ODOO_PASSWORD cfg) model method
      args kwargs) w of (Inl e, w') \<Rightarrow> (Inl (odoo_failure e), w') | (Inr v, w') \<Rightarrow> (Inr v, w'))" for u
    by (auto simp: keeps_def on_db_def ext_def split: prod.splits sum.splits)
  then have "keeps (on_db P) (run_rpc S cfg c model method args kwargs)"
    unfolding run_rpc_def by (intro keeps_intros)
  then show ?thesis
    unfolding odoo_execute_def by (rule cb_call_keeps) (simp add: on_db_def)
qed

lemma keeps_search_read [keeps_intros]: "keeps (on_db P) (search_read S cfg c m f n l)"
  by (simp add: search_read_def keeps_intros)

lemma keeps_writes [keeps_intros]:
  "keeps (on_db P) (odoo_create S cfg c m v)"
  "keeps (on_db P) (odoo_write S cfg c m i v)"
  "keeps (on_db P) (call_method S cfg c m f i k)"
  by (auto simp: odoo_create_def odoo_write_def call_method_def intro!: keeps_intros)

lemma keeps_new_odoo_client [keeps_intros]: "keeps (on_db P) (new_odoo_client c)"
  by (auto simp: new_odoo_client_def on_db_def intro!: keeps_intros)

lemma keeps_lookups [keeps_intros]:
  "keeps (on_db P) (check_order_exists S cfg c pl i)"
  "keeps (on_db P) (update_order_tracking S cfg c pl i t)"
  "keeps (on_db P) (get_product_id_by_sku S cfg c sku)"
  "keeps (on_db P) (get_stock_quantity S cfg c sk)"
  "keeps (on_db P) (get_product_marketplace_controls S cfg c sk)"
  "keeps (on_db P) (get_product_price S cfg c sk)"
  "keeps (on_db P) (get_vietnam_id S cfg c)"
  "keeps (on_db P) (get_pricelist_vnd S cfg c)"
  by (auto simp: check_order_exists_def update_order_tracking_def get_product_id_by_sku_def
      get_stock_quantity_def get_product_marketplace_controls_def get_product_price_def
      get_vietnam_id_def get_pricelist_vnd_def intro!: keeps_intros)

lemma keeps_partner [keeps_intros]: "keeps (on_db P) (get_or_create_partner S cfg c a pl b)"
  by (auto simp: get_or_create_partner_def Let_def intro!: keeps_intros split: option.split)

lemma keeps_require_product [keeps_intros]: "keeps (on_db P) (require_product S cfg c sku)"
  by (auto simp: require_product_def intro!: keeps_intros)

lemma keeps_bundle_lines [keeps_intros]: "keeps (on_db P) (bundle_lines S cfg c it base rem cs)"
  by (induction S cfg c it base rem cs rule: bundle_lines.induct)
    (auto intro!: keeps_intros split: prod.split)

lemma keeps_item_lines [keeps_intros]: "keeps (on_db P) (item_lines S cfg c pl it)"
  unfolding item_lines_def mapping_for_item_def priced_bundle_def
  by (intro keeps_intros)

lemma keeps_create_sale_order [keeps_intros]: "keeps (on_db P) (create_sale_order S cfg c ord)"
  unfolding create_sale_order_def build_order_lines_def Let_def
  by (intro keeps_intros)

section \<open>What a bundle costs\<close>

text \<open>The amount of an order line as Odoo computes it from the values sent, and the sum.\<close>

fun line_amount :: "pyval \<Rightarrow> rat" where
  "line_amount (PList [_, _, PDict d]) =
     (case (dict_get d ''product_uom_qty'' PNone, dict_get d ''price_unit'' PNone) of
        (PInt q, PFloat p) \<Rightarrow> of_int q * p | _ \<Rightarrow> 0)"
| "line_amount _ = 0"

definition lines_total :: "pyval list \<Rightarrow> rat" where
  "lines_total ls = sum_list (map line_amount ls)"

lemma lines_total_append: "lines_total (ls @ ms) = lines_total ls + lines_total ms"
  by (simp add: lines_total_def)

lemma fl_int: "\<bar>k\<bar> < 2 ^ 53 \<Longrightarrow> fl (of_int k) = of_int k"
  by (rule b64.R_int)

lemma dec_int: "\<bar>k\<bar> < 10 ^ 28 \<Longrightarrow> dec (of_int k) = of_int k"
  by (rule d28.R_int)

lemma line_amount_vals: "line_amount (line_vals i n q p) = of_int q * fl p"
  by (simp add: line_vals_def)

definition groups_total :: "(int \<times> rat) list \<Rightarrow> rat" where
  "groups_total gs = (\<Sum>(q, p) \<leftarrow> gs. of_int q * p)"

text \<open>Groups of whole prices with quantities that are not negative cost what their lines cost.\<close>

definition whole_groups :: "(int \<times> rat) list \<Rightarrow> bool" where
  "whole_groups gs \<longleftrightarrow> (\<forall>(q, p) \<in> set gs. 0 \<le> q \<and> (\<exists>k. p = of_int k \<and> \<bar>k\<bar> < 2 ^ 53))"

lemma lines_of_groups:
  "whole_groups gs \<Longrightarrow> lines_total [line_vals i n q p. (q, p) \<leftarrow> gs, q > 0] = groups_total gs"
proof (induction gs)
  case (Cons g gs)
  then show ?case
    by (cases g) (auto simp: whole_groups_def groups_total_def lines_total_def line_amount_vals fl_int)
qed (simp add: lines_total_def groups_total_def)

lemma quantize_unit_Inr: "quantize_unit q = Inr p \<Longrightarrow> p = of_int (half_up q)"
  by (simp add: quantize_unit_def split: if_splits)

lemma half_up_near:
  fixes q :: int and r :: int
  assumes "0 < q" "\<bar>r\<bar> < 10 ^ 15" "q < 10 ^ 12"
  defines "k \<equiv> half_up (dec (of_int r / of_int q))"
  shows "2 * \<bar>k * q - r\<bar> \<le> q" and "\<bar>k\<bar> \<le> \<bar>r\<bar> + 1"
proof -
  let ?x = "of_int r / of_int q :: rat"
  have q1: "1 \<le> (of_int q :: rat)" using assms(1) by simp
  have x: "\<bar>?x\<bar> \<le> \<bar>of_int r\<bar>"
    using divide_left_mono [OF q1, of "\<bar>of_int r\<bar>"] assms(1) by (simp add: abs_divide)
  have "\<bar>of_int r :: rat\<bar> < 10 ^ 15"
    using assms(2) by (metis of_int_abs of_int_less_iff of_int_numeral of_int_power)
  with x have "\<bar>?x\<bar> < 10 ^ 15" by linarith
  from dec_error [OF this] have "\<bar>dec ?x - ?x\<bar> \<le> 10 powi (int 15 - 28) / 2" .
  moreover have "int 15 - 28 = - 13" by simp
  ultimately have "\<bar>dec ?x - ?x\<bar> \<le> 10 powi (- 13) / 2" by metis
  moreover have "\<bar>of_int k - dec ?x\<bar> \<le> 1 / 2" unfolding k_def by (rule half_up_error)
  ultimately have d: "\<bar>of_int k - ?x\<bar> \<le> 1 / 2 + 10 powi (- 13) / 2" by linarith
  have "of_int (k * q - r) = (of_int k - ?x) * of_int q" using assms(1) by (simp add: field_simps)
  then have "\<bar>of_int (k * q - r)\<bar> = \<bar>of_int k - ?x\<bar> * (of_int q :: rat)"
    using assms(1) by (simp add: abs_mult)
  also have "\<dots> \<le> (1 / 2 + 10 powi (- 13) / 2) * of_int q"
    using d assms(1) by (intro mult_right_mono) auto
  also have "\<dots> < of_int q / 2 + 1 / 2"
  proof -
    have "of_int q < (10 ^ 12 :: rat)"
      using assms(3) by (metis of_int_less_iff of_int_numeral of_int_power)
    then show ?thesis by (simp add: power_int_minus field_simps)
  qed
  finally have "of_int (2 * \<bar>k * q - r\<bar>) < (of_int (q + 1) :: rat)" by simp
  then show "2 * \<bar>k * q - r\<bar> \<le> q" by linarith
  have "\<bar>of_int k :: rat\<bar> < \<bar>of_int r\<bar> + 2"
  proof -
    have "(1 / 2 + 10 powi (- 13) / 2 :: rat) < 2" by (simp add: power_int_minus)
    then show ?thesis using d x by linarith
  qed
  then have "of_int \<bar>k\<bar> < (of_int (\<bar>r\<bar> + 2) :: rat)" by simp
  then show "\<bar>k\<bar> \<le> \<bar>r\<bar> + 1" by linarith
qed

text \<open>The last component takes what is left, to within one dong.\<close>

lemma last_component_groups:
  assumes "0 < q" "\<bar>r\<bar> < 10 ^ 15" "q < 10 ^ 12" "component_groups True q base (of_int r) = Inr (gs, rest)"
  shows "whole_groups gs" and "\<bar>groups_total gs - of_int r\<bar> \<le> 1"
proof -
  define k where "k = half_up (dec (of_int r / of_int q))"
  have k: "2 * \<bar>k * q - r\<bar> \<le> q" "\<bar>k\<bar> \<le> \<bar>r\<bar> + 1"
    using half_up_near [OF assms(1-3)] by (simp_all add: k_def)
  have "\<bar>k * q\<bar> \<le> \<bar>k * q - r\<bar> + \<bar>r\<bar>" using abs_triangle_ineq [of "k * q - r" r] by simp
  moreover have "x \<le> y + z \<Longrightarrow> 2 * y \<le> q \<Longrightarrow> x \<le> z + q" for x y z :: int
    using assms(1) by linarith
  ultimately have kq: "\<bar>k * q\<bar> \<le> \<bar>r\<bar> + q" using k(1) by blast
  have "2 * y \<le> q \<Longrightarrow> y \<le> q" for y :: int using assms(1) by linarith
  then have kqr: "\<bar>k * q - r\<bar> \<le> q" using k(1) by blast
  have exact: "dec (of_int k * of_int q) = of_int (k * q)"
    "dec (of_int (k * q) - of_int r) = of_int (k * q - r)"
    "dec (of_int k - 1) = of_int (k - 1)"
    using dec_int [of "k * q"] dec_int [of "k * q - r"] dec_int [of "k - 1"] kq kqr k(2) assms(2,3) by simp_all
  have drift: "1 < \<bar>dec (dec (of_int k * of_int q) - of_int r)\<bar> \<longleftrightarrow> 1 < \<bar>k * q - r\<bar>"
    unfolding exact by (metis of_int_1 of_int_abs of_int_less_iff)
  have quant: "quantize_unit (dec (of_int r / of_int q)) = Inr (of_int k)"
  proof -
    have "\<bar>k\<bar> < 10 ^ 28" using k(2) assms(2) by simp
    then show ?thesis by (simp add: quantize_unit_def k_def)
  qed
  show "whole_groups gs" "\<bar>groups_total gs - of_int r\<bar> \<le> 1"
  proof -
    have "whole_groups gs \<and> \<bar>groups_total gs - of_int r\<bar> \<le> 1"
    proof (cases "\<bar>k * q - r\<bar> > 1 \<and> q > 1")
      case False
      then have gs: "gs = [(q, of_int k)]"
        using assms(1,4) quant by (auto simp: component_groups_def drift)
      have "\<not> (1 < y \<and> 1 < q) \<Longrightarrow> 2 * y \<le> q \<Longrightarrow> y \<le> 1" for y :: int
        using assms(1) by linarith
      then have "\<bar>k * q - r\<bar> \<le> 1" using False k(1) by blast
      then have "\<bar>of_int (k * q - r) :: rat\<bar> \<le> 1" by (metis of_int_1 of_int_abs of_int_le_iff)
      moreover have "\<bar>k\<bar> < 2 ^ 53" using k(2) assms(2) by simp
      ultimately show ?thesis using assms(1)
        by (auto simp: gs whole_groups_def groups_total_def algebra_simps)
    next
      case True
      define low where "low = (if k * q > r then k - 1 else k)"
      define h where "h = r - low * q"
      have h: "0 \<le> h" "h \<le> q"
        using k(1) assms(1) by (auto simp: h_def low_def algebra_simps)
      have lowb: "\<bar>low\<bar> \<le> \<bar>r\<bar> + 2" using k(2) by (auto simp: low_def)
      have lowq: "low * q = r - h" by (simp add: h_def)
      have "\<bar>low + 1\<bar> < 10 ^ 28" "\<bar>r - h\<bar> < 10 ^ 28" "\<bar>h\<bar> < 10 ^ 28"
        using lowb h assms(2,3) by simp_all
      moreover have "of_int low * of_int q = (of_int (r - h) :: rat)" using lowq by (metis of_int_mult)
      ultimately have e: "dec (of_int low + 1) = of_int (low + 1)" "dec (of_int low * of_int q) = of_int (r - h)"
        "dec (of_int h) = of_int h"
        using dec_int [of "low + 1"] dec_int [of "r - h"] dec_int [of h] by simp_all
      have e': "of_int r - of_int (r - h) = (of_int h :: rat)" by simp
      have "quantize_unit (of_int h) = Inr (of_int h)"
        using h assms(3) by (simp add: quantize_unit_def)
      moreover have "(if dec (of_int k * of_int q) > of_int r then dec (of_int k - 1) else of_int k)
          = (of_int low :: rat)"
        unfolding exact low_def of_int_less_iff by simp
      moreover have "max 0 (min q (py_trunc (of_int h))) = h" using h by simp
      ultimately have gs: "gs = [(q - h, of_int low), (h, of_int (low + 1))]"
        using assms(1,4) quant True e e' h
        by (simp add: component_groups_def Let_def drift del: of_int_diff of_int_add)
      have "groups_total gs = of_int ((q - h) * low + h * (low + 1))"
        by (simp add: gs groups_total_def)
      also have "(q - h) * low + h * (low + 1) = r" by (simp add: h_def algebra_simps)
      finally have "groups_total gs = of_int r" .
      moreover have "\<bar>low\<bar> < 2 ^ 53" "\<bar>low + 1\<bar> < 2 ^ 53" using lowb assms(2) by simp_all
      ultimately show ?thesis using h by (auto simp: gs whole_groups_def intro: exI [of _ "low + 1"])
    qed
    then show "whole_groups gs" "\<bar>groups_total gs - of_int r\<bar> \<le> 1" by auto
  qed
qed

lemma bundle_lines_Cons_Inr:
  assumes "bundle_lines S cfg c it base rem (x # cs) w = (Inr ls, w')"
    and "component_quantity x = Inr n"
  obtains gs rest i nm w1 ls' where
    "component_groups (cs = []) (n * ui_quantity it) base rem = Inr (gs, rest)"
    "bundle_lines S cfg c it base rest cs w1 = (Inr ls', w')"
    "ls = [line_vals i nm q p. (q, p) \<leftarrow> gs, q > 0] @ ls'"
  using assms by (auto simp: bnd_eq_Inr of_sum_def split: prod.splits)

lemma split_budget:
  fixes u v x y :: int
  assumes "u + (v + x) < 10 ^ 15" "0 \<le> x" "y \<le> u + v" "0 \<le> u"
  shows "v < 10 ^ 28" "y < 10 ^ 28" "y + x < 10 ^ 15"
  using assms by simp_all

lemma bundle_lines_total:
  assumes "bundle_lines S cfg c it (of_int b) (of_int r) cs w = (Inr ls, w')"
    and "smap component_quantity cs = Inr qs" and "\<forall>q \<in> set qs. 0 < q" and "cs \<noteq> []"
    and "0 < ui_quantity it" and "\<bar>b\<bar> < 2 ^ 53"
    and "\<bar>r\<bar> + \<bar>b\<bar> * (sum_list qs * ui_quantity it) < 10 ^ 15"
    and "sum_list qs * ui_quantity it < 10 ^ 12"
  shows "\<bar>lines_total ls - of_int r\<bar> \<le> 1"
  using assms
proof (induction cs arbitrary: r w ls qs)
  case (Cons x cs)
  obtain n qs' where qs: "qs = n # qs'" "component_quantity x = Inr n" "smap component_quantity cs = Inr qs'"
    using Cons.prems(2) by (auto simp: sbnd_eq_Inr)
  let ?Q = "ui_quantity it" and ?q = "n * ui_quantity it"
  have n: "0 < n" "0 < ?q" "\<forall>q \<in> set qs'. 0 < q" using Cons.prems(3,5) qs(1) by simp_all
  have pos: "0 \<le> sum_list qs' * ?Q"
    using n(3) Cons.prems(5) by (intro mult_nonneg_nonneg sum_list_nonneg) auto
  have sum: "sum_list qs * ?Q = ?q + sum_list qs' * ?Q" by (simp add: qs(1) algebra_simps)
  have q_small: "?q < 10 ^ 12" using Cons.prems(8) pos sum by linarith
  have absb: "\<bar>b\<bar> * (sum_list qs * ?Q) = \<bar>b * ?q\<bar> + \<bar>b\<bar> * (sum_list qs' * ?Q)"
  proof -
    have "\<bar>b * ?q\<bar> = \<bar>b\<bar> * ?q" using abs_mult [of b ?q] n(2) by linarith
    then show ?thesis unfolding sum by (simp add: distrib_left)
  qed
  have rest0: "0 \<le> \<bar>b\<bar> * (sum_list qs' * ?Q)" using pos by simp
  obtain gs rest i nm w1 ls' where step:
    "component_groups (cs = []) ?q (of_int b) (of_int r) = Inr (gs, rest)"
    "bundle_lines S cfg c it (of_int b) rest cs w1 = (Inr ls', w')"
    "ls = [line_vals i nm q p. (q, p) \<leftarrow> gs, q > 0] @ ls'"
    by (rule bundle_lines_Cons_Inr [OF Cons.prems(1) qs(2)])
  show ?case
  proof (cases "cs = []")
    case True
    have "\<bar>r\<bar> < 10 ^ 15" using Cons.prems(7) absb rest0 abs_ge_zero [of "b * ?q"] by linarith
    from last_component_groups [OF n(2) this q_small]
    have "whole_groups gs" "\<bar>groups_total gs - of_int r\<bar> \<le> 1"
      using step(1) unfolding True by simp_all
    moreover have "ls' = []" using step(2) True by simp
    ultimately show ?thesis using lines_of_groups step(3) by simp
  next
    case False
    have small: "\<bar>b * ?q\<bar> < 10 ^ 28" "\<bar>r - b * ?q\<bar> < 10 ^ 28"
      and bound: "\<bar>r - b * ?q\<bar> + \<bar>b\<bar> * (sum_list qs' * ?Q) < 10 ^ 15"
      using split_budget [OF Cons.prems(7) [unfolded absb] rest0 abs_triangle_ineq4 [of r "b * ?q"]
          abs_ge_zero [of r]] by blast+
    have e: "dec (of_int b * of_int ?q) = of_int (b * ?q)"
      "dec (of_int r - of_int (b * ?q)) = of_int (r - b * ?q)"
      using dec_int [OF small(1)] dec_int [OF small(2)] by simp_all
    have gs: "gs = [(?q, of_int b)]" "rest = of_int (r - b * ?q)"
      using step(1) False e by (auto simp: component_groups_def simp del: of_int_diff of_int_mult)
    have "\<bar>lines_total ls' - of_int (r - b * ?q)\<bar> \<le> 1"
      using Cons.IH [OF step(2) [unfolded gs(2)] qs(3) n(3) False Cons.prems(5,6) bound]
        Cons.prems(8) n(2) sum by linarith
    moreover have "whole_groups gs" using n(2) Cons.prems(6) by (auto simp: gs whole_groups_def)
    ultimately show ?thesis
      using lines_of_groups [of gs i nm] step(3)
      by (simp add: lines_total_append gs groups_total_def algebra_simps)
  qed
qed simp

text \<open>C15: the lines of a bundle charge what the platform charged: for a whole-dong price, the sum of
  quantity times price over all component lines differs from price times quantity by at most one
  dong, however the rounding of the price per unit falls and whatever ids Odoo returns.\<close>

theorem bundle_total_kept:
  assumes "priced_bundle S cfg c it cs w = (Inr ls, w')"
    and "smap component_quantity cs = Inr qs" and "\<forall>q \<in> set qs. 0 < q" and "cs \<noteq> []"
    and "ui_discounted_price it = of_int p" and "0 \<le> p" and "0 < ui_quantity it"
    and "p * ui_quantity it < 10 ^ 12" and "sum_list qs * ui_quantity it < 10 ^ 12"
  shows "\<bar>lines_total ls - of_int (p * ui_quantity it)\<bar> \<le> 1"
proof -
  let ?Q = "ui_quantity it" and ?T = "sum_list qs"
  have "qs \<noteq> []" using assms(2,4) by (cases cs) (auto simp: sbnd_eq_Inr)
  then have T: "0 < ?T" using assms(3) by (cases qs) (auto intro!: add_pos_nonneg sum_list_nonneg)
  have "p * 1 \<le> p * ?Q" using assms(6,7) by (intro mult_left_mono) auto
  then have p: "p < 10 ^ 12" using assms(8) by linarith
  have "?T * 1 \<le> ?T * ?Q" using T assms(7) by (intro mult_left_mono) auto
  then have T12: "?T < 10 ^ 12" using assms(9) by linarith
  define b where "b = half_up (dec (of_int p / of_int ?T))"
  have p15: "\<bar>p\<bar> < 10 ^ 15" using p assms(6) by simp
  have b: "2 * \<bar>b * ?T - p\<bar> \<le> ?T" "\<bar>b\<bar> \<le> \<bar>p\<bar> + 1"
    using half_up_near [OF T p15 T12] by (simp_all add: b_def)
  have b0: "0 \<le> b" unfolding b_def using T assms(6) by (intro half_up_nonneg d28.R_nonneg) simp
  have base: "quantize_unit (dec (of_int p / of_int ?T)) = Inr (of_int b)"
    using b(2) p15 by (simp add: quantize_unit_def b_def [symmetric])
  have sub: "dec (of_int p * of_int ?Q) = of_int (p * ?Q)"
  proof -
    have "0 \<le> p * ?Q" using assms(6,7) by simp
    then have "\<bar>p * ?Q\<bar> < 10 ^ 28" using assms(8) by simp
    from dec_int [OF this] show ?thesis by simp
  qed
  have "bundle_lines S cfg c it (of_int b) (of_int (p * ?Q)) cs w = (Inr ls, w')"
    using assms(1,2,5) T base sub by (simp add: priced_bundle_def bnd_def del: of_int_mult)
  moreover have "\<bar>b\<bar> < 2 ^ 53" using b(2) p15 by simp
  moreover have "\<bar>p * ?Q\<bar> + \<bar>b\<bar> * (?T * ?Q) < 10 ^ 15"
  proof -
    have "b * ?T - p \<le> \<bar>b * ?T - p\<bar>" by (rule abs_ge_self)
    moreover have "y - p \<le> z \<Longrightarrow> 2 * z \<le> ?T \<Longrightarrow> y \<le> p + ?T" for y z using T by linarith
    ultimately have "b * ?T \<le> p + ?T" using b(1) by blast
    then have "b * ?T * ?Q \<le> (p + ?T) * ?Q" using assms(7) by (intro mult_right_mono) auto
    then have "b * (?T * ?Q) \<le> p * ?Q + ?T * ?Q" by (simp add: algebra_simps)
    moreover have "\<bar>p * ?Q\<bar> = p * ?Q" "\<bar>b\<bar> = b" using assms(6,7) b0 by simp_all
    ultimately show ?thesis using assms(8,9) by simp
  qed
  ultimately show ?thesis
    by (rule bundle_lines_total [OF _ assms(2-4,7) _ _ assms(9)])
qed

text \<open>The found-everything environment of \<open>World\<close>, step by step.\<close>

lemma found_search_read:
  assumes "w_odoo_breaker w = odoo_breaker"
  shows "search_read found_services cfg c m conds names l w =
    (Inr (PList [PDict [(''id'', PInt 7), (''name'', PStr ''SO7'')]]),
     w\<lparr>w_uids := (w_uids w)(c := Some (case w_uids w c of None \<Rightarrow> PInt 2 | Some u \<Rightarrow> u))\<rparr>)"
proof -
  have "w\<lparr>w_odoo_breaker := odoo_breaker\<rparr> = w"
    using assms by (metis world.surjective world.update_convs(2))
  then show ?thesis
    using assms
    by (cases "w_uids w c")
      (simp_all add: search_read_def odoo_execute_def cb_call_def gate_def run_rpc_def odoo_uid_def
        maybe_transition_to_half_open_def ext_def found_services_def null_services_def bnd_def
        Let_def record_success_def odoo_breaker_def new_breaker_def fun_upd_idem)
qed

lemma found_require_product:
  assumes "w_odoo_breaker w = odoo_breaker"
  shows "\<exists>w'. require_product found_services cfg c sku w = (Inr (PInt 7), w') \<and>
    w_odoo_breaker w' = odoo_breaker"
  using found_search_read [OF assms] assms
  by (simp add: require_product_def get_product_id_by_sku_def bnd_def first_item_def py_head_def
      py_item_def)

definition sample_item :: "int \<Rightarrow> int \<Rightarrow> unified_item" where
  "sample_item p q = \<lparr>ui_platform_item_id = ''100'', ui_sku = PStr ''COMBO'',
     ui_product_name = PStr ''Combo'', ui_quantity = q, ui_unit_price = of_int p,
     ui_discounted_price = of_int p, ui_discount_amount = 0, ui_platform_variant_id = None,
     ui_variant_name = PNone, ui_image_url = PNone\<rparr>"

definition sample_address :: unified_address where
  "sample_address = \<lparr>ua_full_name = PStr ''An'', ua_phone = ''0901234567'',
     ua_address_line = PStr ''1 Le Loi'', ua_district = PNone, ua_province = PNone, ua_ward = PNone,
     ua_country = ''VN'', ua_postal_code = PNone\<rparr>"

definition sample_order :: unified_order where
  "sample_order = \<lparr>uo_platform = SHOPEE, uo_platform_order_id = ''A1'', uo_platform_order_sn = ''A1'',
     uo_status = PENDING, uo_payment_method = COD, uo_buyer_platform_id = ''9'',
     uo_buyer_username = PNone, uo_shipping_address = sample_address, uo_items = [sample_item 2 1],
     uo_subtotal = 2, uo_shipping_fee = 0, uo_platform_discount = 0, uo_seller_discount = 0,
     uo_total_amount = 2, uo_logistics = None, uo_created_at = 0, uo_updated_at = 0,
     uo_paid_at = None, uo_raw_payload = PDict []\<rparr>"

definition sample_components :: "int list \<Rightarrow> pyval list" where
  "sample_components qs = map (\<lambda>q. PDict [(''odoo_sku'', PStr ''X''), (''quantity'', PInt q)]) qs"

lemma found_bundle_two:
  assumes "component_groups False (n * q) base rem = Inr (gs, rest)"
    and "component_groups True (m * q) base rest = Inr (hs, rest')"
  shows "\<exists>ls w'. bundle_lines found_services cfg 0 (sample_item p q) base rem
    (sample_components [n, m]) (null_world empty_db 0) = (Inr ls, w')"
proof -
  have b: "w_odoo_breaker (null_world empty_db 0) = odoo_breaker" by simp
  obtain w1 where 1: "require_product found_services cfg 0 (PStr ''X'') (null_world empty_db 0) =
      (Inr (PInt 7), w1)" "w_odoo_breaker w1 = odoo_breaker"
    using found_require_product [OF b] by blast
  obtain w2 where 2: "require_product found_services cfg 0 (PStr ''X'') w1 = (Inr (PInt 7), w2)"
    using found_require_product 1(2) by blast
  have "ui_quantity (sample_item p q) = q" by (simp add: sample_item_def)
  then show ?thesis
    using assms 1(1) 2
    by (simp add: sample_components_def component_quantity_def py_item_def py_int_def)
qed

lemmas price_eval = component_groups_def quantize_unit_def half_up_half dec_half

theorem bundle_total_kept_witness:
  "\<exists>ls w'. priced_bundle found_services dev_settings 0 (sample_item 100000 2)
     (sample_components [1, 3]) (null_world empty_db 0) = (Inr ls, w') \<and>
     \<bar>lines_total ls - 200000\<bar> \<le> 1"
proof -
  let ?it = "sample_item 100000 2" and ?cs = "sample_components [1, 3]"
  have g: "component_groups False (1 * 2) 25000 200000 = Inr ([(2, 25000)], 150000)"
    "component_groups True (3 * 2) 25000 150000 = Inr ([(6, 25000)], 150000)"
    "quantize_unit (dec 25000) = Inr 25000"
    by (simp_all add: price_eval)
  have qs: "smap component_quantity ?cs = Inr [1, 3]"
    by (simp add: sample_components_def component_quantity_def py_item_def py_int_def)
  obtain ls w' where "bundle_lines found_services dev_settings 0 ?it 25000 200000 ?cs
      (null_world empty_db 0) = (Inr ls, w')"
    using found_bundle_two [OF g(1,2)] by blast
  then have run: "priced_bundle found_services dev_settings 0 ?it ?cs (null_world empty_db 0) = (Inr ls, w')"
    using qs g(3) by (simp add: priced_bundle_def sample_item_def)
  have "\<bar>lines_total ls - of_int (100000 * 2)\<bar> \<le> 1"
    using bundle_total_kept [OF run qs, of 100000] by (simp add: sample_item_def sample_components_def)
  with run show ?thesis by auto
qed

text \<open>The remainder that goes to the last component can be negative: two dong over four
  components round to one dong each, and the last order line is sent with a price of minus one.\<close>

theorem bundle_price_negative:
  "\<exists>ls w'. priced_bundle found_services dev_settings 0 (sample_item 2 1)
     (sample_components [1, 1, 1, 1]) (null_world empty_db 0) = (Inr ls, w') \<and>
     map line_amount ls = [1, 1, 1, - 1]"
proof -
  have b: "w_odoo_breaker (null_world empty_db 0) = odoo_breaker" by simp
  obtain w1 where 1: "require_product found_services dev_settings 0 (PStr ''X'') (null_world empty_db 0) =
      (Inr (PInt 7), w1)" "w_odoo_breaker w1 = odoo_breaker"
    using found_require_product [OF b] by blast
  obtain w2 where 2: "require_product found_services dev_settings 0 (PStr ''X'') w1 = (Inr (PInt 7), w2)"
    "w_odoo_breaker w2 = odoo_breaker" using found_require_product 1(2) by blast
  obtain w3 where 3: "require_product found_services dev_settings 0 (PStr ''X'') w2 = (Inr (PInt 7), w3)"
    "w_odoo_breaker w3 = odoo_breaker" using found_require_product 2(2) by blast
  obtain w4 where 4: "require_product found_services dev_settings 0 (PStr ''X'') w3 = (Inr (PInt 7), w4)"
    using found_require_product 3(2) by blast
  have "component_groups False 1 1 2 = Inr ([(1, 1)], 1)" "component_groups False 1 1 1 = Inr ([(1, 1)], 0)"
    "component_groups False 1 1 0 = Inr ([(1, 1)], -1)"
    "component_groups True 1 1 (-1) = Inr ([(1, -1)], -1)" "quantize_unit (dec (1 / 2)) = Inr 1"
    by (simp_all add: price_eval)
  then show ?thesis
    using 1(1) 2(1) 3(1) 4
    by (simp add: priced_bundle_def sample_components_def sample_item_def component_quantity_def
        py_item_def py_int_def line_amount_vals)
qed

section \<open>Dry run\<close>

text \<open>An Odoo that answers \<open>search_read\<close> like \<open>S\<close>, and anything else like \<open>k\<close>.\<close>

definition same_reads :: "'x services \<Rightarrow> 'x services \<Rightarrow> bool" where
  "same_reads S S' \<longleftrightarrow>
     (\<exists>k. S' = S\<lparr>sv_execute_kw := k\<rparr> \<and>
       (\<forall>d u p m a kw. k d u p m ''search_read'' a kw = sv_execute_kw S d u p m ''search_read'' a kw))"

lemma same_reads_search:
  assumes "same_reads S S'"
  shows "search_read S' cfg c m f n l = search_read S cfg c m f n l"
proof -
  obtain k where S': "S' = S\<lparr>sv_execute_kw := k\<rparr>"
    and k: "\<And>d u p m a kw. k d u p m ''search_read'' a kw = sv_execute_kw S d u p m ''search_read'' a kw"
    using assms by (auto simp: same_reads_def)
  have "odoo_uid S' cfg c w = odoo_uid S cfg c w" for w
    by (cases "w_uids w c") (simp_all add: odoo_uid_def S')
  then have uid: "odoo_uid S' cfg c = odoo_uid S cfg c" by (rule ext)
  have "run_rpc S' cfg c m ''search_read'' a kw = run_rpc S cfg c m ''search_read'' a kw" for a kw
    unfolding run_rpc_def uid by (simp add: S' k)
  moreover have "now_w S' = now_w S" by (rule ext) (simp add: now_w_def S')
  ultimately show ?thesis by (simp add: search_read_def odoo_execute_def)
qed

lemma same_reads_similar:
  assumes "same_reads S S'" shows "similar_candidate S' = similar_candidate S"
proof -
  have fuzz: "sv_fuzz_ratio S' = sv_fuzz_ratio S" using assms by (auto simp: same_reads_def)
  have "similar_candidate S' n cs = similar_candidate S n cs" for n cs
  proof (induction cs)
    case (Cons x cs)
    show ?case unfolding similar_candidate.simps Cons.IH fuzz ..
  qed simp
  then show ?thesis by (intro ext)
qed



section \<open>Failures\<close>

lemma execute_failure:
  assumes "cb_state (w_odoo_breaker w) = CLOSED" and "w_uids w c = Some u"
    and "sv_execute_kw S (ODOO_DB cfg) u (ODOO_PASSWORD cfg) m f args kw (w_ext w) = (Inl e, x)"
  shows "odoo_execute S cfg c m f args kw w = (Inl (odoo_failure e),
    w\<lparr>w_odoo_breaker := record_failure (sv_now S x) (w_odoo_breaker w), w_ext := x\<rparr>)"
proof -
  have g: "gate t (w_odoo_breaker w) = (Inr (), w_odoo_breaker w)" for t
    using assms(1) by (simp add: gate_def maybe_transition_to_half_open_def split: option.split)
  show ?thesis
    using assms(2,3)
    by (simp add: odoo_execute_def cb_call_def g run_rpc_def odoo_uid_def ext_def now_w_def)
qed



text \<open>Faults that blame the data, not the server, trip the breaker as well: three rejected
  orders in a row close the connection to a healthy Odoo for every other order.\<close>

theorem validation_faults_trip_breaker:
  assumes "w_odoo_breaker w = odoo_breaker" and "w_uids w c = Some u"
    and "\<forall>x. sv_execute_kw S (ODOO_DB cfg) u (ODOO_PASSWORD cfg) m f args kw x =
      (Inl (Fault ''ValidationError''), x)"
  shows "let call = odoo_execute S cfg c m f args kw;
      w1 = snd (call w); w2 = snd (call w1); w3 = snd (call w2)
    in fst (call w) = Inl (OdooValidationError ''ValidationError'') \<and>
       fst (call w1) = Inl (OdooValidationError ''ValidationError'') \<and>
       fst (call w2) = Inl (OdooValidationError ''ValidationError'') \<and>
       fst (call w3) = Inl (CircuitOpenError ''odoo'' ''Circuit odoo is OPEN'')"
proof -
  define t where "t = sv_now S (w_ext w)"
  define b where "b = (\<lambda>fs. odoo_breaker\<lparr>cb_failures := fs\<rparr>)"
  have fail: "record_failure t (b []) = b [t]" "record_failure t (b [t]) = b [t, t]"
    "record_failure t (b [t, t]) = (b [t, t, t])\<lparr>cb_state := OPEN, opened_at := Some t\<rparr>"
    by (simp_all add: b_def record_failure_def open_circuit_def odoo_breaker_def new_breaker_def Let_def)
  have e: "odoo_failure (Fault ''ValidationError'') = OdooValidationError ''ValidationError''"
    by (simp add: odoo_failure_def) code_simp
  have b0: "b [] = odoo_breaker" by (simp add: b_def odoo_breaker_def new_breaker_def)
  have step: "odoo_execute S cfg c m f args kw (w\<lparr>w_odoo_breaker := b fs\<rparr>) =
      (Inl (OdooValidationError ''ValidationError''), w\<lparr>w_odoo_breaker := record_failure t (b fs)\<rparr>)" for fs
    using execute_failure [of "w\<lparr>w_odoo_breaker := b fs\<rparr>" c u S cfg m f args kw
        "Fault ''ValidationError''" "w_ext w"] assms(2,3)
    by (simp add: e t_def b_def odoo_breaker_def new_breaker_def)
  have w: "w = w\<lparr>w_odoo_breaker := b []\<rparr>" using assms(1) by (simp add: b0)
  have rejected: "fst (odoo_execute S cfg c m f args kw
      (w\<lparr>w_odoo_breaker := (b [t, t, t])\<lparr>cb_state := OPEN, opened_at := Some t\<rparr>\<rparr>)) =
      Inl (CircuitOpenError ''odoo'' ''Circuit odoo is OPEN'')"
    by (simp add: odoo_execute_def cb_call_def gate_def maybe_transition_to_half_open_def now_w_def
        t_def [symmetric] b_def odoo_breaker_def new_breaker_def)
  show ?thesis
    unfolding Let_def using step [of "[]"] step [of "[t]"] step [of "[t, t]"] rejected w fail by simp
qed

theorem validation_faults_trip_breaker_witness:
  "fst (odoo_execute (null_services\<lparr>sv_execute_kw := (\<lambda>_ _ _ _ _ _ _ x. (Inl (Fault ''ValidationError''), x))\<rparr>)
     dev_settings 0 ''sale.order'' ''create'' [] []
     ((null_world empty_db 5)\<lparr>w_uids := (\<lambda>_. Some (PInt 2))\<rparr>)) =
   Inl (OdooValidationError ''ValidationError'')"
  using validation_faults_trip_breaker [of "(null_world empty_db 5)\<lparr>w_uids := (\<lambda>_. Some (PInt 2))\<rparr>" 0 "PInt 2"
      "null_services\<lparr>sv_execute_kw := (\<lambda>_ _ _ _ _ _ _ x. (Inl (Fault ''ValidationError''), x))\<rparr>"
      dev_settings "''sale.order''" "''create''" "[]" "[]"]
  by (simp add: Let_def)

end
