(* ===== verification/Stock.thy ===== *)
theory Stock
  imports Odoo
begin

text \<open>
  \<open>StockService\<close> of \<open>src/services/stock_service.py\<close>. The quantity is computed in binary
  floating point (\<open>fl\<close> rounds the exact result of each operation) and truncated twice, as the
  code does it; \<open>platform_quantity\<close> is that arithmetic alone.
\<close>

definition platform_quantity :: "int \<Rightarrow> rat \<Rightarrow> rat \<Rightarrow> int" where
  "platform_quantity odoo_stock buffer_pct allocation_pct =
     (let buffered = py_trunc (fl (fl (of_int odoo_stock) * fl (1 - fl (buffer_pct / 100))));
          allocated = py_trunc (fl (fl (of_int buffered) * fl (allocation_pct / 100)))
      in max 0 allocated)"

definition select_stock_config :: "string \<Rightarrow> string \<Rightarrow> db \<Rightarrow> stock_config list" where
  "select_stock_config sku platform d =
     [r \<leftarrow> db_stock d. sc_odoo_sku r = sku \<and> sc_platform r = platform \<and> sc_is_active r]"

definition calculate_platform_stock ::
  "'x services \<Rightarrow> settings \<Rightarrow> nat \<Rightarrow> string \<Rightarrow> string \<Rightarrow> ('x world, exc, int) eff" where
  "calculate_platform_stock S cfg c sku platform =
     bnd (get_product_marketplace_controls S cfg c sku) (\<lambda>product.
       if \<not> truthy product then ret 0
       else
         bnd (of_sum (py_get product ''x_block_marketplace_sync'' PNone)) (\<lambda>blocked.
         if truthy blocked then ret 0
         else
           bnd (of_sum (sbnd (py_get product ''virtual_available'' PNone)
                  (\<lambda>v. py_int (py_or v (PInt 0))))) (\<lambda>odoo_stock.
           bnd (query (\<lambda>d. scalar_one_or_none (select_stock_config sku platform d))) (\<lambda>found.
           bnd (of_sum (py_get product ''x_marketplace_buffer_pct'' PNone)) (\<lambda>product_buffer.
           bnd (if product_buffer \<noteq> PNone \<and> product_buffer \<noteq> PBool False
                then of_sum (py_float product_buffer)
                else ret (case found of
                    Some r \<Rightarrow> fl (sc_buffer_pct r)
                  | None \<Rightarrow> fl (of_int (DEFAULT_STOCK_BUFFER_PCT cfg)))) (\<lambda>buffer_pct.
             ret (platform_quantity odoo_stock buffer_pct
                    (case found of
                       Some r \<Rightarrow> fl (sc_allocation_pct r)
                     | None \<Rightarrow> fl (of_int (DEFAULT_SHOPEE_ALLOCATION_PCT cfg))))))))))"

text \<open>The loop over the components: \<open>allocated // max(1, quantity)\<close> of each.\<close>

fun component_bundles ::
  "'x services \<Rightarrow> settings \<Rightarrow> nat \<Rightarrow> string \<Rightarrow> bundle_component list \<Rightarrow> ('x world, exc, int list) eff"
where
  "component_bundles S cfg c platform [] = ret []"
| "component_bundles S cfg c platform (part # comps) =
     bnd (calculate_platform_stock S cfg c (bc_odoo_sku part) platform) (\<lambda>allocated.
     bnd (component_bundles S cfg c platform comps) (\<lambda>qtys.
       ret (allocated div max 1 (bc_quantity part) # qtys)))"

definition calculate_bundle_stock ::
  "'x services \<Rightarrow> settings \<Rightarrow> nat \<Rightarrow> string option \<Rightarrow> string \<Rightarrow> ('x world, exc, int) eff" where
  "calculate_bundle_stock S cfg c platform_sku platform =
     bnd (query (\<lambda>d. scalar_one_or_none (select_mapping platform platform_sku d))) (\<lambda>found.
       case found of
         None \<Rightarrow> ret 0
       | Some m \<Rightarrow>
           if pm_mapping_type m = ''simple''
           then calculate_platform_stock S cfg c (pm_odoo_sku m) platform
           else bnd (query (\<lambda>d. Inr (components_of (pm_id m) d))) (\<lambda>comps.
                  if comps = [] then ret 0
                  else bnd (component_bundles S cfg c platform comps) (\<lambda>qtys.
                         ret (max 0 (Min (set qtys))))))"

lemma keeps_calculate_platform_stock [keeps_intros]:
  "keeps (on_db P) (calculate_platform_stock S cfg c sku pl)"
  unfolding calculate_platform_stock_def by (intro keeps_intros)

lemma keeps_component_bundles [keeps_intros]:
  "keeps (on_db P) (component_bundles S cfg c pl comps)"
  by (induction comps) (auto intro!: keeps_intros)

lemma keeps_calculate_bundle_stock [keeps_intros]:
  "keeps (on_db P) (calculate_bundle_stock S cfg c sku pl)"
  unfolding calculate_bundle_stock_def by (auto intro!: keeps_intros split: option.split)

section \<open>The quantity\<close>

lemma trunc_scale:
  assumes "\<bar>k\<bar> < 2 ^ 53" "0 \<le> x" "x \<le> 1"
  shows "0 \<le> k \<Longrightarrow> 0 \<le> py_trunc (fl (fl (of_int k) * x)) \<and> py_trunc (fl (fl (of_int k) * x)) \<le> k"
    and "k \<le> 0 \<Longrightarrow> py_trunc (fl (fl (of_int k) * x)) \<le> 0"
proof -
  have k: "fl (of_int k) = of_int k" by (rule b64.R_int [OF assms(1)])
  { assume "0 \<le> k"
    with assms have b: "0 \<le> fl (of_int k * x)" "fl (of_int k * x) \<le> of_int k"
      by (auto intro: b64.R_scale)
    then show "0 \<le> py_trunc (fl (fl (of_int k) * x)) \<and> py_trunc (fl (fl (of_int k) * x)) \<le> k"
      using py_trunc_mono [OF b(2)] k by (simp add: py_trunc_nonneg) }
  { assume "k \<le> 0"
    with assms have "fl (of_int k * x) \<le> fl 0"
      by (intro b64.R_mono) (simp add: mult_nonpos_nonneg)
    then show "py_trunc (fl (fl (of_int k) * x)) \<le> 0" by (simp add: k py_trunc_nonpos) }
qed

lemma pct_factor: "0 \<le> b \<Longrightarrow> b \<le> 100 \<Longrightarrow> 0 \<le> fl (b / 100) \<and> fl (b / 100) \<le> 1"
  by (auto intro!: b64.R_nonneg b64.R_le_1)

lemma buffer_factor: "0 \<le> b \<Longrightarrow> b \<le> 100 \<Longrightarrow> 0 \<le> fl (1 - fl (b / 100)) \<and> fl (1 - fl (b / 100)) \<le> 1"
  by (rule b64.R_complement) auto

text \<open>C34: with percentages between 0 and 100 the advertised quantity is never negative and never
  more than Odoo has, rounding errors included; a negative Odoo stock advertises nothing.\<close>

theorem advertised_within_stock:
  assumes "\<bar>n\<bar> < 2 ^ 53" and "0 \<le> b" "b \<le> 100" and "0 \<le> a" "a \<le> 100"
  shows "0 \<le> platform_quantity n b a \<and> platform_quantity n b a \<le> max 0 n"
proof -
  let ?m = "py_trunc (fl (fl (of_int n) * fl (1 - fl (b / 100))))"
  note f = buffer_factor [OF assms(2,3)] and g = pct_factor [OF assms(4,5)]
  have "platform_quantity n b a \<le> max 0 n"
  proof (cases "0 \<le> n")
    case True
    have m: "0 \<le> ?m" "?m \<le> n" using trunc_scale(1) [OF assms(1)] f True by blast+
    then have "\<bar>?m\<bar> < 2 ^ 53" using assms(1) by linarith
    then have "py_trunc (fl (fl (of_int ?m) * fl (a / 100))) \<le> ?m"
      using trunc_scale(1) g m(1) by blast
    with m show ?thesis by (simp add: platform_quantity_def Let_def)
  next
    case False
    have lower: "- (2 ^ 53) < ?m"
    proof -
      have "of_int n \<le> fl (of_int n * fl (1 - fl (b / 100)))"
      proof -
        have "of_int n * 1 \<le> of_int n * fl (1 - fl (b / 100))"
          using f False by (intro mult_left_mono_neg) auto
        from b64.R_mono [OF this] show ?thesis using b64.R_int [OF assms(1)] by simp
      qed
      then have "n \<le> ?m" using py_trunc_mono b64.R_int [OF assms(1)] by fastforce
      with assms(1) show ?thesis by linarith
    qed
    have m: "?m \<le> 0" using trunc_scale(2) [OF assms(1)] f False by simp
    with lower have "\<bar>?m\<bar> < 2 ^ 53" by linarith
    then have "py_trunc (fl (fl (of_int ?m) * fl (a / 100))) \<le> 0"
      using trunc_scale(2) g m by blast
    then show ?thesis by (simp add: platform_quantity_def Let_def)
  qed
  then show ?thesis by (simp add: platform_quantity_def Let_def)
qed

theorem advertised_within_stock_witness: "platform_quantity (- 3) 10 100 = 0"
  using advertised_within_stock [of "- 3" 10 100] by simp

text \<open>A larger Odoo stock never advertises less, and a larger buffer never advertises more.\<close>

theorem advertised_monotone:
  assumes "m \<le> n" and "0 \<le> b'" "b' \<le> b" "b \<le> 100" and "0 \<le> a"  "0 \<le> m"
  shows "platform_quantity m b a \<le> platform_quantity n b' a"
proof -
  have "fl (1 - fl (b / 100)) \<le> fl (1 - fl (b' / 100))"
  proof -
    have "fl (b' / 100) \<le> fl (b / 100)" using assms(3) by (intro b64.R_mono) simp
    then show ?thesis by (intro b64.R_mono) simp
  qed
  moreover have "fl (of_int m) \<le> fl (of_int n)" using assms(1) by (intro b64.R_mono) simp
  moreover have "0 \<le> fl (of_int m)" using assms(6) by (intro b64.R_nonneg) simp
  moreover have "0 \<le> fl (1 - fl (b / 100))" using buffer_factor assms(2-4) by auto
  ultimately have "fl (of_int m) * fl (1 - fl (b / 100)) \<le> fl (of_int n) * fl (1 - fl (b' / 100))"
    by (intro mult_mono) linarith+
  then have "py_trunc (fl (fl (of_int m) * fl (1 - fl (b / 100)))) \<le>
      py_trunc (fl (fl (of_int n) * fl (1 - fl (b' / 100))))"
    by (intro py_trunc_mono b64.R_mono)
  then have "fl (of_int (py_trunc (fl (fl (of_int m) * fl (1 - fl (b / 100)))))) * fl (a / 100) \<le>
      fl (of_int (py_trunc (fl (fl (of_int n) * fl (1 - fl (b' / 100)))))) * fl (a / 100)"
    using assms(5) by (intro mult_right_mono b64.R_mono b64.R_nonneg) auto
  then show ?thesis
    unfolding platform_quantity_def Let_def by (intro max.mono py_trunc_mono b64.R_mono) auto
qed

theorem advertised_monotone_witness: "platform_quantity 5 20 100 \<le> platform_quantity 8 10 100"
  by (rule advertised_monotone) simp_all

text \<open>Rule 4 of the business rules (\<open>docs/07_BUSINESS_RULES.md\<close>), in the same arithmetic.\<close>

definition documented_quantity :: "int \<Rightarrow> rat \<Rightarrow> rat \<Rightarrow> int" where
  "documented_quantity stock buffer_pct allocation_pct =
     (let buffer = py_trunc (fl (fl (fl (of_int stock) * buffer_pct) / 100));
          available = max 0 (stock - buffer)
      in max 0 (py_trunc (fl (fl (fl (of_int available) * allocation_pct) / 100))))"

lemma float_steps:
  "fl (3 / 10) = 5404319552844595 / 18014398509481984"
  "fl (6305039478318695 / 9007199254740992) = 6305039478318695 / 9007199254740992"
  "fl (12610078956637389 / 18014398509481984) = 3152519739159347 / 4503599627370496"
  "fl (141863388262170615 / 2251799813685248) = 8866461766385663 / 140737488355328"
  "fl (1 / 2) = 1 / 2"
  "fl (1 / 10) = 3602879701896397 / 36028797018963968"
  "fl (32425917317067571 / 36028797018963968) = 8106479329266893 / 9007199254740992"
  "fl (40532396646334465 / 9007199254740992) = 9 / 2"
  "\<lfloor>9 / 2 :: rat\<rfloor> = 4" "\<lfloor>1 / 2 :: rat\<rfloor> = 0" "\<lfloor>8866461766385663 / 140737488355328 :: rat\<rfloor> = 62"
  by code_simp+

text \<open>The floating point factor loses a unit: of 90 pieces with a buffer of 30 percent the
  code advertises 62, where 30 percent of 90 leaves 63; and it rounds the remainder down where the
  documented rule rounds the buffer down, so that 5 pieces with the default buffer advertise 4
  and not 5.\<close>

theorem advertised_differs_from_rule:
  "platform_quantity 90 30 100 = 62 \<and> documented_quantity 90 30 100 = 63 \<and>
   platform_quantity 5 10 100 = 4 \<and> documented_quantity 5 10 100 = 5"
  by (simp add: platform_quantity_def documented_quantity_def float_steps py_trunc_def Let_def)

section \<open>Bundles\<close>

text \<open>What each component was allocated, in the order of the loop.\<close>

lemma component_bundles_Inr:
  "component_bundles S cfg c pl comps w = (Inr qtys, w') \<Longrightarrow>
     \<exists>allocs. qtys = map2 (\<lambda>a part. a div max 1 (bc_quantity part)) allocs comps \<and>
       list_all2 (\<lambda>a part. \<exists>u u'. calculate_platform_stock S cfg c (bc_odoo_sku part) pl u = (Inr a, u'))
         allocs comps"
proof (induction comps arbitrary: w qtys)
  case (Cons part comps)
  then obtain a u ns where 1: "calculate_platform_stock S cfg c (bc_odoo_sku part) pl w = (Inr a, u)"
    "component_bundles S cfg c pl comps u = (Inr ns, w')" "qtys = a div max 1 (bc_quantity part) # ns"
    by (auto simp: bnd_eq_Inr)
  from Cons.IH [OF 1(2)] obtain allocs where
    "ns = map2 (\<lambda>a part. a div max 1 (bc_quantity part)) allocs comps"
    "list_all2 (\<lambda>a part. \<exists>u u'. calculate_platform_stock S cfg c (bc_odoo_sku part) pl u = (Inr a, u'))
       allocs comps" by blast
  with 1 show ?case by (intro exI [of _ "a # allocs"]) auto
qed simp

lemma Min_exhausts:
  assumes "comps \<noteq> []" and "length allocs = length comps"
    and "n = max 0 (Min (set (map2 (\<lambda>a part. a div max 1 (bc_quantity part)) allocs comps)))"
  shows "\<forall>(a, part) \<in> set (zip allocs comps). n * max 1 (bc_quantity part) \<le> max 0 a"
    and "\<exists>(a, part) \<in> set (zip allocs comps). a < (n + 1) * max 1 (bc_quantity part)"
proof -
  let ?f = "\<lambda>(a, part). a div max 1 (bc_quantity part)"
  let ?Z = "set (zip allocs comps)"
  have Z: "?Z \<noteq> {}" "finite ?Z" using assms(1,2) by (cases allocs; cases comps; simp)+
  have n: "n = max 0 (Min (?f ` ?Z))" using assms(3) by simp
  show "\<forall>(a, part) \<in> ?Z. n * max 1 (bc_quantity part) \<le> max 0 a"
  proof clarify
    fix a part assume "(a, part) \<in> ?Z"
    then have "a div max 1 (bc_quantity part) \<in> ?f ` ?Z"
      by (intro image_eqI [where x = "(a, part)"]) simp_all
    then have "Min (?f ` ?Z) \<le> a div max 1 (bc_quantity part)" using Z(2) by (intro Min_le) auto
    then have le: "n \<le> max 0 (a div max 1 (bc_quantity part))" using n by simp
    let ?q = "max 1 (bc_quantity part)"
    have "n * ?q \<le> max 0 (a div ?q) * ?q" using le by (intro mult_right_mono) auto
    also have "\<dots> \<le> max 0 a"
    proof (cases "a div ?q \<le> 0")
      case False
      have "a div ?q * ?q = a - a mod ?q" by (rule minus_mod_eq_div_mult [symmetric])
      moreover have "0 \<le> a mod ?q" by (intro pos_mod_sign) simp
      ultimately have "a div ?q * ?q \<le> max 0 a" by linarith
      with False show ?thesis by (simp add: max.absorb2)
    qed (simp add: max.absorb1)
    finally show "n * max 1 (bc_quantity part) \<le> max 0 a" .
  qed
  have "Min (?f ` ?Z) \<in> ?f ` ?Z" using Z by (intro Min_in) auto
  then obtain a part where ap: "(a, part) \<in> ?Z" "Min (?f ` ?Z) = a div max 1 (bc_quantity part)"
    by auto
  let ?q = "max 1 (bc_quantity part)"
  have "a = a div ?q * ?q + a mod ?q" by (rule div_mult_mod_eq [symmetric])
  moreover have "a mod ?q < ?q" by (intro pos_mod_bound) simp
  moreover have "a div ?q * ?q \<le> n * ?q" using n ap(2) by (intro mult_right_mono) auto
  ultimately have "a < (n + 1) * ?q" unfolding distrib_right by linarith
  with ap(1) show "\<exists>(a, part) \<in> ?Z. a < (n + 1) * max 1 (bc_quantity part)" by blast
qed



end
