(* ===== verification/Orders.thy ===== *)
theory Orders
  imports Odoo
begin

text \<open>
  \<open>OrderService\<close> of \<open>src/services/order_service.py\<close>: the idempotent sync of one order.

  \<^item> Its transactions are functions on the tables: \<open>claim_order\<close> (phase A, atomic under the
    advisory lock), \<open>mark_exists\<close>, \<open>mark_failed\<close> and \<open>mark_success\<close>.
  \<^item> \<open>sync_with\<close> is the whole operation over the two calls it makes to Odoo; the locale
    \<open>odoo_port\<close> states what it relies on, and is interpreted on \<open>OdooClient\<close>.
  \<^item> \<open>ow_step\<close> interleaves the workers that sync orders, and \<open>no_duplicate_orders\<close> is what
    the phases are for.
\<close>

definition SYNCING_STALE_AFTER :: rat where "SYNCING_STALE_AFTER = 300"

datatype claim_result = Skip string | Claimed int

definition select_orders :: "string \<Rightarrow> string \<Rightarrow> db \<Rightarrow> order_mapping list" where
  "select_orders platform oid d =
     [m \<leftarrow> db_orders d. om_platform m = platform \<and> om_platform_order_id m = oid]"

text \<open>An \<open>UPDATE\<close> of one row, which also sets \<open>updated_at\<close>.\<close>

definition update_order :: "int \<Rightarrow> (order_mapping \<Rightarrow> order_mapping) \<Rightarrow> instant \<Rightarrow> db \<Rightarrow> db" where
  "update_order i f now d =
     d\<lparr>db_orders := upd_rows (\<lambda>r. om_id r = i) (\<lambda>r. (f r)\<lparr>om_updated_at := now\<rparr>) (db_orders d)\<rparr>"

definition claim_order ::
  "string \<Rightarrow> string \<Rightarrow> string option \<Rightarrow> instant \<Rightarrow> db \<Rightarrow> (exc + claim_result) \<times> db" where
  "claim_order platform oid sn now d =
     (case scalar_one_or_none (select_orders platform oid d) of
        Inl e \<Rightarrow> (Inl e, d)
      | Inr (Some m) \<Rightarrow>
          if om_status m = ''success'' then (Inr (Skip ''duplicate''), d)
          else if om_status m = ''syncing'' \<and> now - om_updated_at m < SYNCING_STALE_AFTER
          then (Inr (Skip ''in_flight''), d)
          else (Inr (Claimed (om_id m)),
                update_order (om_id m) (\<lambda>r. r\<lparr>om_status := ''syncing'',
                  om_retry_count := om_retry_count r + 1\<rparr>) now d)
      | Inr None \<Rightarrow>
          (Inr (Claimed (db_next_id d)),
           d\<lparr>db_orders := db_orders d @
               [\<lparr>om_id = db_next_id d, om_platform = platform, om_platform_order_id = oid,
                 om_platform_order_sn = sn, om_odoo_order_id = None, om_odoo_order_name = None,
                 om_status = ''syncing'', om_retry_count = 0, om_last_error = None,
                 om_created_at = now, om_updated_at = now\<rparr>],
             db_next_id := db_next_id d + 1\<rparr>))"

definition mark_exists :: "int \<Rightarrow> pyval \<Rightarrow> instant \<Rightarrow> db \<Rightarrow> (exc + unit) \<times> db" where
  "mark_exists i odoo_id now d =
     (case first_row (\<lambda>r. om_id r = i) (db_orders d) of
        None \<Rightarrow> (Inr (), d)
      | Some _ \<Rightarrow>
          (case int_column odoo_id of
             Inl e \<Rightarrow> (Inl e, d)
           | Inr n \<Rightarrow> (Inr (), update_order i (\<lambda>r. r\<lparr>om_odoo_order_id := n,
               om_status := ''success'', om_last_error := None\<rparr>) now d)))"

definition mark_failed :: "int \<Rightarrow> string \<Rightarrow> instant \<Rightarrow> db \<Rightarrow> (exc + unit) \<times> db" where
  "mark_failed i err now d =
     (Inr (), update_order i (\<lambda>r. r\<lparr>om_status := ''failed'',
        om_retry_count := om_retry_count r + 1, om_last_error := Some err\<rparr>) now d)"

definition mark_success :: "int \<Rightarrow> pyval \<Rightarrow> pyval \<Rightarrow> instant \<Rightarrow> db \<Rightarrow> (exc + unit) \<times> db" where
  "mark_success i odoo_id odoo_name now d =
     (case first_row (\<lambda>r. om_id r = i) (db_orders d) of
        None \<Rightarrow> (Inr (), d)
      | Some _ \<Rightarrow>
          (case sbnd (int_column odoo_id) (\<lambda>n. sbnd (text_column 50 odoo_name) (\<lambda>s. Inr (n, s))) of
             Inl e \<Rightarrow> (Inl e, d)
           | Inr (n, s) \<Rightarrow> (Inr (), update_order i (\<lambda>r. r\<lparr>om_odoo_order_id := n,
               om_odoo_order_name := s, om_status := ''success'', om_last_error := None\<rparr>) now d)))"

datatype sync_result = SyncSkipped string | SyncSuccess pyval pyval

text \<open>The port: looking an order up in Odoo and creating it there.\<close>

definition sync_with ::
  "'x services \<Rightarrow> (string \<Rightarrow> string \<Rightarrow> ('x world, exc, pyval) eff) \<Rightarrow>
     (unified_order \<Rightarrow> ('x world, exc, pyval \<times> pyval) eff) \<Rightarrow> unified_order \<Rightarrow>
     ('x world, exc, sync_result) eff" where
  "sync_with S check create ord =
     (let platform = platform_value (uo_platform ord); oid = uo_platform_order_id ord
      in bnd (bnd (txn S (claim_order platform oid (Some (uo_platform_order_sn ord)))) of_sum) (\<lambda>claim.
         case claim of
           Skip reason \<Rightarrow> ret (SyncSkipped reason)
         | Claimed i \<Rightarrow>
             bnd (catching
               (bnd (check platform oid) (\<lambda>found.
                  if truthy found then
                    bnd (bnd (txn S (mark_exists i found)) of_sum) (\<lambda>_. ret None)
                  else bnd (create ord) (\<lambda>r. ret (Some r))))
               (\<lambda>e. bnd (bnd (txn S (mark_failed i (exc_str e))) of_sum) (\<lambda>_. throw e))) (\<lambda>made.
             case made of
               None \<Rightarrow> ret (SyncSkipped ''exists_in_odoo'')
             | Some (odoo_id, odoo_name) \<Rightarrow>
                 bnd (bnd (txn S (mark_success i odoo_id odoo_name)) of_sum) (\<lambda>_.
                   ret (SyncSuccess odoo_id odoo_name)))))"

definition sync ::
  "'x services \<Rightarrow> settings \<Rightarrow> nat \<Rightarrow> unified_order \<Rightarrow> ('x world, exc, sync_result) eff" where
  "sync S cfg c ord = sync_with S (check_order_exists S cfg c) (create_sale_order S cfg c) ord"

definition update_status ::
  "'x services \<Rightarrow> settings \<Rightarrow> nat \<Rightarrow> string \<Rightarrow> string \<Rightarrow> order_status \<Rightarrow> ('x world, exc, unit) eff" where
  "update_status S cfg c platform oid new_status =
     bnd (query (\<lambda>d. scalar_one_or_none (select_orders platform oid d))) (\<lambda>found.
       case found of
         None \<Rightarrow> ret ()
       | Some m \<Rightarrow>
           (case om_odoo_order_id m of
              None \<Rightarrow> ret ()
            | Some i \<Rightarrow>
                if i = 0 then ret ()
                else bnd (odoo_write S cfg c ''sale.order'' [PInt i]
                       [(''x_sync_status'', PStr ''synced'')]) (\<lambda>_. ret ())))"

section \<open>The order table\<close>

text \<open>The keys of the table and the range of its ids.\<close>

definition om_key :: "order_mapping \<Rightarrow> string \<times> string" where
  "om_key m = (om_platform m, om_platform_order_id m)"

definition orders_ok :: "db \<Rightarrow> bool" where
  "orders_ok d \<longleftrightarrow> keyed om_id (db_orders d) \<and> keyed om_key (db_orders d) \<and>
     (\<forall>m \<in> set (db_orders d). om_id m < db_next_id d)"

definition order_row :: "string \<Rightarrow> string \<Rightarrow> db \<Rightarrow> order_mapping option" where
  "order_row platform oid d = first_row (\<lambda>m. om_key m = (platform, oid)) (db_orders d)"

lemma filter_key:
  "keyed k rows \<Longrightarrow> [r \<leftarrow> rows. k r = x] = (case first_row (\<lambda>r. k r = x) rows of None \<Rightarrow> [] | Some r \<Rightarrow> [r])"
proof (induction rows)
  case (Cons a rows)
  show ?case
  proof (cases "k a = x")
    case True
    then have "[r \<leftarrow> rows. k r = x] = []"
      using Cons.prems by (auto simp: keyed_def filter_empty_conv) (metis imageI)
    with True show ?thesis by (simp add: row_simps)
  next
    case False
    with Cons show ?thesis by (simp add: keyed_def row_simps)
  qed
qed (simp add: row_simps del: first_row_None)

lemma select_orders_row:
  "orders_ok d \<Longrightarrow> scalar_one_or_none (select_orders platform oid d) = Inr (order_row platform oid d)"
proof -
  assume "orders_ok d"
  then have "select_orders platform oid d = (case order_row platform oid d of None \<Rightarrow> [] | Some r \<Rightarrow> [r])"
    using filter_key [of om_key "db_orders d" "(platform, oid)"]
    by (simp add: select_orders_def order_row_def orders_ok_def om_key_def)
  then show ?thesis by (simp add: scalar_one_or_none_def split: option.split)
qed

lemma update_order_ok:
  assumes "orders_ok d" and "\<And>r. om_id (f r) = om_id r" "\<And>r. om_key (f r) = om_key r"
  shows "orders_ok (update_order i f now d)"
  using assms
  by (auto simp: orders_ok_def update_order_def set_upd_rows om_key_def intro!: keyed_upd_rows)

lemma order_row_update:
  assumes "orders_ok d" "order_row platform oid d = Some m"
    and "\<And>r. om_key (f r) = om_key r"
  shows "order_row platform oid (update_order (om_id m) f now d) = Some ((f m)\<lparr>om_updated_at := now\<rparr>)"
proof -
  have key: "om_key m = (platform, oid)" "m \<in> set (db_orders d)"
    using assms(2) by (auto simp: order_row_def dest: first_row_SomeD)
  have u: "inj_on om_id (set (db_orders d))" "inj_on om_key (set (db_orders d))"
    using assms(1) by (simp_all add: orders_ok_def keyed_def distinct_map)
  have inj: "r = m" if "r \<in> set (db_orders d)" "om_id r = om_id m" for r
    using inj_onD [OF u(1)] that key(2) by blast
  have inj': "r = m" if "r \<in> set (db_orders d)" "om_key r = (platform, oid)" for r
    using inj_onD [OF u(2)] that key by metis
  have eq: "upd_rows (\<lambda>r. om_id r = om_id m) g (db_orders d) = upd_rows (\<lambda>r. om_key r = (platform, oid)) g (db_orders d)"
    for g
  proof -
    have "(om_id r = om_id m) = (om_key r = (platform, oid))" if "r \<in> set (db_orders d)" for r
      using inj [OF that] inj' [OF that] key(1) by blast
    then show ?thesis unfolding upd_rows_def by simp
  qed
  have keep: "om_key ((f r)\<lparr>om_updated_at := now\<rparr>) = om_key r" for r
    using assms(3) [of r] by (simp add: om_key_def)
  have "first_row (\<lambda>r. om_key r = (platform, oid))
      (upd_rows (\<lambda>r. om_key r = (platform, oid)) (\<lambda>r. (f r)\<lparr>om_updated_at := now\<rparr>) (db_orders d)) =
      map_option (\<lambda>r. (f r)\<lparr>om_updated_at := now\<rparr>) (first_row (\<lambda>r. om_key r = (platform, oid)) (db_orders d))"
    by (rule first_row_upd_rows_same) (simp add: keep)
  with assms(2) show ?thesis by (simp add: order_row_def update_order_def eq)
qed

lemma order_row_id: "order_row platform oid d = Some m \<Longrightarrow> orders_ok d \<Longrightarrow>
    first_row (\<lambda>r. om_id r = om_id m) (db_orders d) = Some m"
  by (auto simp: order_row_def orders_ok_def dest!: first_row_SomeD intro: keyed_first_row)

lemma order_row_update_other:
  assumes "orders_ok d" "order_row platform oid d = Some m" "(p, i) \<noteq> (platform, oid)"
    and "\<And>r. om_key (f r) = om_key r"
  shows "order_row p i (update_order (om_id m) f now d) = order_row p i d"
proof -
  have key: "om_key m = (platform, oid)" "m \<in> set (db_orders d)"
    using assms(2) by (auto simp: order_row_def dest: first_row_SomeD)
  have u: "inj_on om_id (set (db_orders d))"
    using assms(1) by (simp add: orders_ok_def keyed_def distinct_map)
  have keep: "om_key ((f r)\<lparr>om_updated_at := now\<rparr>) = om_key r" for r
    using assms(4) [of r] by (simp add: om_key_def)
  have "upd_rows (\<lambda>r. om_id r = om_id m) (\<lambda>r. (f r)\<lparr>om_updated_at := now\<rparr>) (db_orders d) =
      upd_rows (\<lambda>r. om_id r = om_id m \<and> om_key r = (platform, oid))
        (\<lambda>r. (f r)\<lparr>om_updated_at := now\<rparr>) (db_orders d)"
  proof -
    have "(om_id r = om_id m) = (om_id r = om_id m \<and> om_key r = (platform, oid))"
      if "r \<in> set (db_orders d)" for r
      using inj_onD [OF u _ that key(2)] key(1) by blast
    then show ?thesis unfolding upd_rows_def by simp
  qed
  moreover have "first_row (\<lambda>r. om_key r = (p, i))
      (upd_rows (\<lambda>r. om_id r = om_id m \<and> om_key r = (platform, oid))
        (\<lambda>r. (f r)\<lparr>om_updated_at := now\<rparr>) (db_orders d)) =
      first_row (\<lambda>r. om_key r = (p, i)) (db_orders d)"
    by (rule first_row_upd_rows_other) (use assms(3) keep in auto)
  ultimately show ?thesis by (simp add: order_row_def update_order_def)
qed

text \<open>What a claim does: it makes the row of its key a fresh \<open>syncing\<close> row and no other.\<close>

lemma claim_order_Claimed:
  assumes "orders_ok d" and "claim_order platform oid sn now d = (Inr (Claimed k), d')"
  shows "orders_ok d'"
    and "\<exists>m. order_row platform oid d' = Some m \<and> om_id m = k \<and> om_status m = ''syncing'' \<and>
      om_updated_at m = now"
    and "(p, i) \<noteq> (platform, oid) \<Longrightarrow> order_row p i d' = order_row p i d"
    and "\<And>m. order_row platform oid d = Some m \<Longrightarrow>
      om_status m \<noteq> ''success'' \<and> (om_status m = ''syncing'' \<longrightarrow> SYNCING_STALE_AFTER \<le> now - om_updated_at m)"
proof -
  note sel = select_orders_row [OF assms(1), of platform oid]
  have "orders_ok d' \<and> (\<exists>m. order_row platform oid d' = Some m \<and> om_id m = k \<and>
      om_status m = ''syncing'' \<and> om_updated_at m = now) \<and>
      ((p, i) \<noteq> (platform, oid) \<longrightarrow> order_row p i d' = order_row p i d) \<and>
      (\<forall>m. order_row platform oid d = Some m \<longrightarrow> om_status m \<noteq> ''success'' \<and>
        (om_status m = ''syncing'' \<longrightarrow> SYNCING_STALE_AFTER \<le> now - om_updated_at m))"
  proof (cases "order_row platform oid d")
    case None
    with assms(2) sel have d': "k = db_next_id d" "db_next_id d' = db_next_id d + 1"
      "\<exists>m. db_orders d' = db_orders d @ [m] \<and> om_id m = k \<and> om_key m = (platform, oid) \<and>
        om_status m = ''syncing'' \<and> om_updated_at m = now"
      by (auto simp: claim_order_def om_key_def)
    then obtain m where m: "db_orders d' = db_orders d @ [m]" "om_id m = k" "om_key m = (platform, oid)"
      "om_status m = ''syncing''" "om_updated_at m = now" by blast
    have fresh: "k \<notin> om_id ` set (db_orders d)" "(platform, oid) \<notin> om_key ` set (db_orders d)"
      using assms(1) None d'(1) by (fastforce simp: orders_ok_def order_row_def)+
    have "orders_ok d'"
      using assms(1) fresh d'(1,2) m(1-3) by (auto simp: orders_ok_def keyed_def)
    moreover have "order_row platform oid d' = Some m"
      using None m by (simp add: order_row_def row_simps del: first_row_None)
    moreover have "(p, i) \<noteq> (platform, oid) \<Longrightarrow> order_row p i d' = order_row p i d"
      using m(1,3) by (auto simp: order_row_def row_simps simp del: first_row_None split: option.split)
    ultimately show ?thesis using m None by auto
  next
    case (Some m)
    with assms(2) sel have d': "k = om_id m" "om_status m \<noteq> ''success''"
      "om_status m = ''syncing'' \<longrightarrow> SYNCING_STALE_AFTER \<le> now - om_updated_at m"
      "d' = update_order (om_id m) (\<lambda>r. r\<lparr>om_status := ''syncing'', om_retry_count := om_retry_count r + 1\<rparr>) now d"
      by (auto simp: claim_order_def split: if_splits)
    have k: "om_key (r\<lparr>om_status := ''syncing'', om_retry_count := om_retry_count r + 1\<rparr>) = om_key r" for r
      by (simp add: om_key_def)
    show ?thesis
      using order_row_update [OF assms(1) Some k, of now] order_row_update_other [OF assms(1) Some _ k, of p i now]
        update_order_ok [OF assms(1), of "\<lambda>r. r\<lparr>om_status := ''syncing'', om_retry_count := om_retry_count r + 1\<rparr>"
          "om_id m" now] Some d' k
      by auto
  qed
  then show "orders_ok d'" and "\<exists>m. order_row platform oid d' = Some m \<and> om_id m = k \<and>
      om_status m = ''syncing'' \<and> om_updated_at m = now"
    and "(p, i) \<noteq> (platform, oid) \<Longrightarrow> order_row p i d' = order_row p i d"
    and "\<And>m. order_row platform oid d = Some m \<Longrightarrow>
      om_status m \<noteq> ''success'' \<and> (om_status m = ''syncing'' \<longrightarrow> SYNCING_STALE_AFTER \<le> now - om_updated_at m)"
    by blast+
qed

text \<open>The other transactions write at most the row with the given id, and no key or id.\<close>

definition row_write :: "int \<Rightarrow> db \<Rightarrow> db \<Rightarrow> bool" where
  "row_write k d d' \<longleftrightarrow> d' = d \<or>
     (\<exists>f now. (\<forall>r. om_id (f r) = om_id r \<and> om_key (f r) = om_key r) \<and> d' = update_order k f now d)"

lemma marks_write:
  "row_write k d (snd (mark_exists k v now d))"
  "row_write k d (snd (mark_failed k err now d))"
  "row_write k d (snd (mark_success k v nm now d))"
proof -
  have f: "row_write k d (update_order k f now d)"
    if "\<And>r. om_id (f r) = om_id r" "\<And>r. om_key (f r) = om_key r" for f
    unfolding row_write_def using that by blast
  have same: "row_write k d d" by (simp add: row_write_def)
  show "row_write k d (snd (mark_failed k err now d))"
    by (simp add: mark_failed_def f om_key_def)
  show "row_write k d (snd (mark_exists k v now d))"
    by (auto simp: mark_exists_def same f om_key_def split: option.split sum.split)
  show "row_write k d (snd (mark_success k v nm now d))"
    by (auto simp: mark_success_def same f om_key_def split: option.split sum.split)
qed

lemma row_write_ok: "orders_ok d \<Longrightarrow> row_write k d d' \<Longrightarrow> orders_ok d'"
  by (auto simp: row_write_def intro: update_order_ok)

lemma row_write_other:
  assumes "orders_ok d" "row_write k d d'" "order_row platform oid d = Some m" "om_id m = k"
    and "(p, i) \<noteq> (platform, oid)"
  shows "order_row p i d' = order_row p i d"
  using assms order_row_update_other [OF assms(1,3,5)] by (auto simp: row_write_def)

section \<open>Concurrent workers\<close>

text \<open>
  A worker holds the row it claimed and runs the network phase: it looks the order up, creates it,
  and records the outcome. A worker dies at any moment, and none outlives Celery's hard limit of
  300 seconds (\<open>task_time_limit\<close> in \<open>src/workers/app.py\<close>): it takes no step once that much
  time has passed since its claim. \<open>ow_odoo\<close> are the keys of the orders Odoo holds.
\<close>

definition TASK_TIME_LIMIT :: rat where "TASK_TIME_LIMIT = 300"

datatype stage = Checking | Creating | Recording

record worker =
  wk_id :: int
  wk_key :: "string \<times> string"
  wk_since :: instant
  wk_stage :: stage

record ow_sys =
  ow_db :: db
  ow_now :: instant
  ow_workers :: "worker list"
  ow_odoo :: "(string \<times> string) list"

definition live :: "instant \<Rightarrow> worker \<Rightarrow> bool" where
  "live now x \<longleftrightarrow> now - wk_since x < TASK_TIME_LIMIT"

text \<open>The write of \<open>retry_order\<close> in \<open>src/api/routers/admin.py\<close>, with its status guard.\<close>

definition reset_order :: "int \<Rightarrow> instant \<Rightarrow> db \<Rightarrow> bool \<times> db" where
  "reset_order i now d =
     (case first_row (\<lambda>m. om_id m = i) (db_orders d) of
        None \<Rightarrow> (False, d)
      | Some m \<Rightarrow>
          if om_status m \<notin> {''failed'', ''dead_letter''} then (False, d)
          else (True, update_order i (\<lambda>r. r\<lparr>om_status := ''pending'', om_retry_count := 0,
                 om_last_error := None\<rparr>) now d))"

inductive ow_step :: "ow_sys \<Rightarrow> ow_sys \<Rightarrow> bool" where
  tick: "0 \<le> t \<Longrightarrow> ow_step s (s\<lparr>ow_now := ow_now s + t\<rparr>)"
| claims: "claim_order p i sn (ow_now s) (ow_db s) = (Inr (Claimed k), d) \<Longrightarrow>
     ow_step s (s\<lparr>ow_db := d, ow_workers :=
       \<lparr>wk_id = k, wk_key = (p, i), wk_since = ow_now s, wk_stage = Checking\<rparr> # ow_workers s\<rparr>)"
| finds: "x \<in> set (ow_workers s) \<Longrightarrow> live (ow_now s) x \<Longrightarrow> wk_stage x = Checking \<Longrightarrow>
     wk_key x \<in> set (ow_odoo s) \<Longrightarrow>
     ow_step s (s\<lparr>ow_db := snd (mark_exists (wk_id x) v (ow_now s) (ow_db s)),
       ow_workers := remove1 x (ow_workers s)\<rparr>)"
| misses: "x \<in> set (ow_workers s) \<Longrightarrow> live (ow_now s) x \<Longrightarrow> wk_stage x = Checking \<Longrightarrow>
     wk_key x \<notin> set (ow_odoo s) \<Longrightarrow>
     ow_step s (s\<lparr>ow_workers := x\<lparr>wk_stage := Creating\<rparr> # remove1 x (ow_workers s)\<rparr>)"
| creates: "x \<in> set (ow_workers s) \<Longrightarrow> live (ow_now s) x \<Longrightarrow> wk_stage x = Creating \<Longrightarrow>
     ow_step s (s\<lparr>ow_odoo := wk_key x # ow_odoo s,
       ow_workers := x\<lparr>wk_stage := Recording\<rparr> # remove1 x (ow_workers s)\<rparr>)"
| records: "x \<in> set (ow_workers s) \<Longrightarrow> live (ow_now s) x \<Longrightarrow> wk_stage x = Recording \<Longrightarrow>
     ow_step s (s\<lparr>ow_db := snd (mark_success (wk_id x) v nm (ow_now s) (ow_db s)),
       ow_workers := remove1 x (ow_workers s)\<rparr>)"
| fails: "x \<in> set (ow_workers s) \<Longrightarrow> live (ow_now s) x \<Longrightarrow>
     ow_step s (s\<lparr>ow_db := snd (mark_failed (wk_id x) err (ow_now s) (ow_db s)),
       ow_workers := remove1 x (ow_workers s)\<rparr>)"
| dies: "x \<in> set (ow_workers s) \<Longrightarrow> ow_step s (s\<lparr>ow_workers := remove1 x (ow_workers s)\<rparr>)"
| operator_resets: "ow_step s (s\<lparr>ow_db := snd (reset_order k (ow_now s) (ow_db s))\<rparr>)"

inductive ow_run :: "ow_sys \<Rightarrow> ow_sys \<Rightarrow> bool" where
  stop: "ow_run s s"
| more: "ow_run s t \<Longrightarrow> ow_step t u \<Longrightarrow> ow_run s u"

definition holds_row :: "ow_sys \<Rightarrow> worker \<Rightarrow> bool" where
  "holds_row s x \<longleftrightarrow> (\<exists>m. order_row (fst (wk_key x)) (snd (wk_key x)) (ow_db s) = Some m \<and>
     om_id m = wk_id x \<and> om_status m = ''syncing'' \<and> om_updated_at m = wk_since x)"

definition ow_inv :: "ow_sys \<Rightarrow> bool" where
  "ow_inv s \<longleftrightarrow> orders_ok (ow_db s) \<and> distinct (ow_odoo s) \<and>
     (\<forall>x \<in> set (ow_workers s). wk_since x \<le> ow_now s) \<and>
     (\<forall>x \<in> set (ow_workers s). live (ow_now s) x \<longrightarrow> holds_row s x \<and>
        (wk_stage x = Creating \<longrightarrow> wk_key x \<notin> set (ow_odoo s))) \<and>
     distinct (map wk_key (filter (live (ow_now s)) (ow_workers s)))"

lemma distinct_map_remove1: "distinct (map f xs) \<Longrightarrow> distinct (map f (remove1 x xs))"
  by (auto simp: distinct_map intro: inj_on_subset)

lemma distinct_keys_remove1:
  "distinct (map f (filter P xs)) \<Longrightarrow> distinct (map f (filter P (remove1 x xs)))"
  by (simp add: filter_remove1 distinct_map_remove1)

text \<open>Of two live workers with one key there is only one.\<close>

lemma live_key_unique:
  assumes "distinct (map wk_key (filter (live now) ws))" "x \<in> set ws" "live now x"
    and "y \<in> set (remove1 x ws)" "live now y"
  shows "wk_key y \<noteq> wk_key x"
proof -
  let ?F = "filter (live now) ws"
  have d: "distinct ?F" and inj: "inj_on wk_key (set ?F)"
    using assms(1) by (simp_all add: distinct_map)
  have "y \<in> set (remove1 x ?F)"
    using assms(4,5) by (simp add: filter_remove1 [symmetric])
  with d have "y \<in> set ?F" "y \<noteq> x" by auto
  moreover have "x \<in> set ?F" using assms(2,3) by simp
  ultimately show ?thesis using inj by (auto dest: inj_onD)
qed

lemma live_later: "0 \<le> t \<Longrightarrow> live (now + t) x \<Longrightarrow> live now x"
  by (simp add: live_def)

lemma ow_inv_remove: "ow_inv s \<Longrightarrow> ow_inv (s\<lparr>ow_workers := remove1 x (ow_workers s)\<rparr>)"
  by (auto simp: ow_inv_def holds_row_def distinct_keys_remove1 dest: notin_set_remove1)

text \<open>A worker that writes its own row and leaves takes nothing from the others.\<close>

lemma ow_inv_write:
  assumes "ow_inv s" "x \<in> set (ow_workers s)" "live (ow_now s) x" "row_write (wk_id x) (ow_db s) d'"
  shows "ow_inv (s\<lparr>ow_db := d', ow_workers := remove1 x (ow_workers s)\<rparr>)"
proof -
  have ok: "orders_ok (ow_db s)" and hx: "holds_row s x"
    and dk: "distinct (map wk_key (filter (live (ow_now s)) (ow_workers s)))"
    using assms(1-3) by (auto simp: ow_inv_def)
  have "holds_row (s\<lparr>ow_db := d', ow_workers := remove1 x (ow_workers s)\<rparr>) y"
    if y: "y \<in> set (remove1 x (ow_workers s))" "live (ow_now s) y" for y
  proof -
    have "wk_key y \<noteq> wk_key x" using live_key_unique [OF dk assms(2,3) y] .
    then have ne: "(fst (wk_key y), snd (wk_key y)) \<noteq> (fst (wk_key x), snd (wk_key x))" by simp
    have "holds_row s y" using assms(1) y by (auto simp: ow_inv_def dest: notin_set_remove1)
    moreover from hx obtain m where "order_row (fst (wk_key x)) (snd (wk_key x)) (ow_db s) = Some m"
      "om_id m = wk_id x" by (auto simp: holds_row_def)
    then have "order_row (fst (wk_key y)) (snd (wk_key y)) d' =
        order_row (fst (wk_key y)) (snd (wk_key y)) (ow_db s)"
      by (rule row_write_other [OF ok assms(4) _ _ ne])
    ultimately show ?thesis by (simp add: holds_row_def)
  qed
  with assms(1) row_write_ok [OF ok assms(4)] show ?thesis
    by (auto simp: ow_inv_def distinct_keys_remove1 dest: notin_set_remove1)
qed

text \<open>A worker that goes on to its next stage, with what Odoo then holds.\<close>

lemma ow_inv_stage:
  assumes "ow_inv s" "x \<in> set (ow_workers s)" "live (ow_now s) x"
    and "wk_id x' = wk_id x" "wk_key x' = wk_key x" "wk_since x' = wk_since x"
    and "distinct odoo" "set odoo \<subseteq> insert (wk_key x) (set (ow_odoo s))"
    and "wk_stage x' = Creating \<Longrightarrow> wk_key x \<notin> set odoo"
  shows "ow_inv (s\<lparr>ow_odoo := odoo, ow_workers := x' # remove1 x (ow_workers s)\<rparr>)"
proof -
  have dk: "distinct (map wk_key (filter (live (ow_now s)) (ow_workers s)))"
    using assms(1) by (simp add: ow_inv_def)
  have uniq: "wk_key y \<noteq> wk_key x"
    if "y \<in> set (remove1 x (ow_workers s))" "live (ow_now s) y" for y
    by (rule live_key_unique [OF dk assms(2,3) that])
  have old: "holds_row s y \<and> (wk_stage y = Creating \<longrightarrow> wk_key y \<notin> set (ow_odoo s))"
    if "y \<in> set (ow_workers s)" "live (ow_now s) y" for y
    using assms(1) that by (auto simp: ow_inv_def)
  let ?t = "s\<lparr>ow_odoo := odoo, ow_workers := x' # remove1 x (ow_workers s)\<rparr>"
  have hx: "holds_row ?t x'"
    using old [OF assms(2,3)] assms(4-6) by (simp add: holds_row_def)
  have hy: "holds_row ?t y \<and> (wk_stage y = Creating \<longrightarrow> wk_key y \<notin> set odoo)"
    if y: "y \<in> set (remove1 x (ow_workers s))" "live (ow_now s) y" for y
    using old [OF subsetD [OF set_remove1_subset y(1)] y(2)] uniq [OF y] assms(8)
    by (auto simp: holds_row_def)
  have since: "wk_since y \<le> ow_now s" if "y \<in> set (ow_workers s)" for y
    using assms(1) that by (simp add: ow_inv_def)
  have "distinct (map wk_key (filter (live (ow_now s)) (x' # remove1 x (ow_workers s))))"
    using distinct_keys_remove1 [OF dk, of x] uniq assms(5) by force
  then show ?thesis
    using assms(1,5-7,9) hx hy since [OF assms(2)] since [OF subsetD [OF set_remove1_subset]]
    by (simp add: ow_inv_def)
qed

text \<open>A claim is granted only when no live worker holds the row.\<close>

lemma ow_inv_claim:
  assumes "ow_inv s" "claim_order p i sn (ow_now s) (ow_db s) = (Inr (Claimed k), d)"
  shows "ow_inv (s\<lparr>ow_db := d, ow_workers :=
    \<lparr>wk_id = k, wk_key = (p, i), wk_since = ow_now s, wk_stage = Checking\<rparr> # ow_workers s\<rparr>)"
proof -
  have ok: "orders_ok (ow_db s)" using assms(1) by (simp add: ow_inv_def)
  note c = claim_order_Claimed [OF ok assms(2)]
  have free: "wk_key y \<noteq> (p, i)" if y: "y \<in> set (ow_workers s)" "live (ow_now s) y" for y
  proof
    assume k: "wk_key y = (p, i)"
    have "holds_row s y" using assms(1) y by (simp add: ow_inv_def)
    with k obtain m where "order_row p i (ow_db s) = Some m" "om_status m = ''syncing''"
      "om_updated_at m = wk_since y" by (auto simp: holds_row_def)
    with c(4) have "SYNCING_STALE_AFTER \<le> ow_now s - wk_since y" by metis
    with y(2) show False by (simp add: live_def TASK_TIME_LIMIT_def SYNCING_STALE_AFTER_def)
  qed
  have kept: "order_row (fst (wk_key y)) (snd (wk_key y)) d =
      order_row (fst (wk_key y)) (snd (wk_key y)) (ow_db s)"
    if "y \<in> set (ow_workers s)" "live (ow_now s) y" for y
    by (rule c(3)) (use free [OF that] in auto)
  show ?thesis
    using assms(1) c(1,2) free kept by (fastforce simp: ow_inv_def holds_row_def)
qed

lemma ow_inv_reset:
  assumes "ow_inv s" shows "ow_inv (s\<lparr>ow_db := snd (reset_order k (ow_now s) (ow_db s))\<rparr>)"
proof -
  have ok: "orders_ok (ow_db s)" using assms by (simp add: ow_inv_def)
  show ?thesis
  proof (cases "\<exists>m. first_row (\<lambda>m. om_id m = k) (db_orders (ow_db s)) = Some m \<and>
      om_status m \<in> {''failed'', ''dead_letter''}")
    case False
    then have "snd (reset_order k (ow_now s) (ow_db s)) = ow_db s"
      by (auto simp: reset_order_def split: option.split)
    with assms show ?thesis by simp
  next
    case True
    then obtain m where m: "first_row (\<lambda>m. om_id m = k) (db_orders (ow_db s)) = Some m"
      "om_status m \<in> {''failed'', ''dead_letter''}" by blast
    let ?f = "\<lambda>r. r\<lparr>om_status := ''pending'', om_retry_count := 0, om_last_error := None\<rparr>"
    have d': "snd (reset_order k (ow_now s) (ow_db s)) = update_order k ?f (ow_now s) (ow_db s)"
      using m by (auto simp: reset_order_def)
    have idm: "om_id m = k" "m \<in> set (db_orders (ow_db s))" using m(1) by (auto dest: first_row_SomeD)
    have row: "order_row (om_platform m) (om_platform_order_id m) (ow_db s) = Some m"
      using ok idm keyed_first_row [of om_key "db_orders (ow_db s)" m]
      by (simp add: order_row_def orders_ok_def om_key_def)
    have keep: "om_key (?f r) = om_key r" for r by (simp add: om_key_def)
    have kept: "order_row (fst (wk_key y)) (snd (wk_key y)) (update_order k ?f (ow_now s) (ow_db s)) =
        order_row (fst (wk_key y)) (snd (wk_key y)) (ow_db s)" if "holds_row s y" for y
    proof -
      have "(fst (wk_key y), snd (wk_key y)) \<noteq> (om_platform m, om_platform_order_id m)"
        using that row m(2) by (auto simp: holds_row_def)
      from order_row_update_other [OF ok row this keep] show ?thesis by (simp add: idm(1))
    qed
    have "orders_ok (update_order k ?f (ow_now s) (ow_db s))"
      by (rule update_order_ok [OF ok]) (simp_all add: om_key_def)
    with assms kept show ?thesis unfolding d' by (auto simp: ow_inv_def holds_row_def)
  qed
qed

lemma ow_step_inv: "ow_step s t \<Longrightarrow> ow_inv s \<Longrightarrow> ow_inv t"
proof (induction rule: ow_step.induct)
  case (tick t s)
  have "distinct (map wk_key (filter (live (ow_now s + t)) (ow_workers s)))"
  proof -
    have "filter (live (ow_now s + t)) (ow_workers s) =
        filter (live (ow_now s + t)) (filter (live (ow_now s)) (ow_workers s))"
      using live_later [OF tick(1)] by (auto simp: intro!: filter_cong)
    moreover have "distinct (map wk_key (filter (live (ow_now s)) (ow_workers s)))"
      using tick by (simp add: ow_inv_def)
    ultimately show ?thesis by (metis distinct_map_filter)
  qed
  with tick show ?case
    by (auto simp: ow_inv_def holds_row_def dest: live_later)
next
  case (claims p i sn s k d)
  then show ?case by (rule ow_inv_claim [rotated])
next
  case (finds x s v)
  then show ?case by (intro ow_inv_write marks_write)
next
  case (misses x s)
  then have "ow_inv (s\<lparr>ow_odoo := ow_odoo s,
      ow_workers := x\<lparr>wk_stage := Creating\<rparr> # remove1 x (ow_workers s)\<rparr>)"
    by (intro ow_inv_stage) (auto simp: ow_inv_def)
  then show ?case by simp
next
  case (creates x s)
  then show ?case by (intro ow_inv_stage) (auto simp: ow_inv_def)
next
  case (records x s v nm)
  then show ?case by (intro ow_inv_write marks_write)
next
  case (fails x s err)
  then show ?case by (intro ow_inv_write marks_write)
next
  case (dies x s)
  from ow_inv_remove [OF dies(2)] show ?case .
next
  case (operator_resets s k)
  then show ?case by (rule ow_inv_reset)
qed

interpretation order_system: transition_invariant ow_step ow_inv
  by unfold_locales (rule ow_step_inv)

lemma ow_run_steps: "ow_run s t \<Longrightarrow> ow_step\<^sup>*\<^sup>* s t"
  by (induction rule: ow_run.induct) (auto intro: rtranclp.rtrancl_into_rtrancl)

lemma ow_run_inv: "ow_run s t \<Longrightarrow> ow_inv s \<Longrightarrow> ow_inv t"
  using order_system.steps_inv ow_run_steps by blast

section \<open>One sync over a port\<close>

text \<open>The row of a claim after each of the closing transactions.\<close>

lemma row_after:
  assumes ok: "orders_ok d" and row: "order_row platform oid d = Some m"
  shows "\<exists>m'. order_row platform oid (snd (mark_failed (om_id m) err now d)) = Some m' \<and>
      om_id m' = om_id m \<and> om_status m' = ''failed'' \<and> om_last_error m' = Some err"
    and "mark_exists (om_id m) v now d = (Inr u, d') \<Longrightarrow>
      \<exists>m'. order_row platform oid d' = Some m' \<and> om_id m' = om_id m \<and> om_status m' = ''success''"
    and "mark_success (om_id m) v nm now d = (Inr u, d') \<Longrightarrow>
      \<exists>m'. order_row platform oid d' = Some m' \<and> om_id m' = om_id m \<and> om_status m' = ''success'' \<and>
        om_last_error m' = None \<and> int_column v = Inr (om_odoo_order_id m') \<and>
        text_column 50 nm = Inr (om_odoo_order_name m')"
    and "mark_success (om_id m) v nm now d = (Inl e, d') \<Longrightarrow> d' = d \<and> class_of e = CDatabaseError"
proof -
  note upd = order_row_update [OF ok row]
  show "\<exists>m'. order_row platform oid (snd (mark_failed (om_id m) err now d)) = Some m' \<and>
      om_id m' = om_id m \<and> om_status m' = ''failed'' \<and> om_last_error m' = Some err"
    by (simp add: mark_failed_def upd om_key_def)
  show "\<exists>m'. order_row platform oid d' = Some m' \<and> om_id m' = om_id m \<and> om_status m' = ''success''"
    if "mark_exists (om_id m) v now d = (Inr u, d')"
    using that order_row_id [OF row ok]
    by (auto simp: mark_exists_def upd om_key_def split: sum.splits)
  show "\<exists>m'. order_row platform oid d' = Some m' \<and> om_id m' = om_id m \<and> om_status m' = ''success'' \<and>
        om_last_error m' = None \<and> int_column v = Inr (om_odoo_order_id m') \<and>
        text_column 50 nm = Inr (om_odoo_order_name m')"
    if "mark_success (om_id m) v nm now d = (Inr u, d')"
    using that order_row_id [OF row ok]
    by (auto simp: mark_success_def sbnd_eq_Inr upd om_key_def split: sum.splits)
  show "d' = d \<and> class_of e = CDatabaseError"
    if "mark_success (om_id m) v nm now d = (Inl e, d')"
    using that order_row_id [OF row ok]
    by (auto simp: mark_success_def sbnd_def dest: column_Inl split: sum.splits)
qed

text \<open>What \<open>sync\<close> relies on: its two calls to Odoo leave the tables of this program alone.\<close>

locale odoo_port =
  fixes S :: "'x services"
    and check :: "string \<Rightarrow> string \<Rightarrow> ('x world, exc, pyval) eff"
    and create :: "unified_order \<Rightarrow> ('x world, exc, pyval \<times> pyval) eff"
  assumes check_frame: "touches_no_table (check platform oid)"
    and create_frame: "touches_no_table (create ord)"
begin

lemma sync_skip:
  assumes "claim_order (platform_value (uo_platform ord)) (uo_platform_order_id ord)
      (Some (uo_platform_order_sn ord)) (now_w S w) (w_db w) = (Inr (Skip reason), d)"
  shows "sync_with S check create ord w = (Inr (SyncSkipped reason), w)"
proof -
  have "d = w_db w" using assms by (auto simp: claim_order_def split: sum.splits option.splits if_splits)
  with assms show ?thesis
    by (simp add: sync_with_def Let_def bnd_def txn_def now_w_def)
qed

text \<open>The network phase with what it writes: the row of the claim only.\<close>

lemma network_phase:
  assumes "catching (bnd (check platform oid) (\<lambda>found.
        if truthy found then bnd (bnd (txn S (mark_exists k found)) of_sum) (\<lambda>_. ret None)
        else bnd (create ord) (\<lambda>r. ret (Some r))))
      (\<lambda>e. bnd (bnd (txn S (mark_failed k (exc_str e))) of_sum) (\<lambda>_. throw e)) w = (r, w')"
  shows "case r of
      Inl e \<Rightarrow> \<exists>now. w_db w' = snd (mark_failed k (exc_str e) now (w_db w))
    | Inr None \<Rightarrow> \<exists>now v. mark_exists k v now (w_db w) = (Inr (), w_db w')
    | Inr (Some z) \<Rightarrow> w_db w' = w_db w"
proof -
  obtain rc w1 where c: "check platform oid w = (rc, w1)" by fastforce
  with check_frame have d1: "w_db w1 = w_db w" by (metis touches_no_tableD)
  have exists_fail: "w_db w = snd (mark_exists k v now (w_db w))"
    if "mark_exists k v now (w_db w) = (Inl e, d)" for v now e d
    using that by (auto simp: mark_exists_def split: option.splits sum.splits)
  have failing: "\<exists>now. w_db (snd (bnd (bnd (txn S (mark_failed k (exc_str e))) of_sum) (\<lambda>_. throw e) u)) =
      snd (mark_failed k (exc_str e) now (w_db u)) \<and>
      fst (bnd (bnd (txn S (mark_failed k (exc_str e))) of_sum) (\<lambda>_. throw e :: ('x world, exc, 'q) eff) u) = Inl e"
    for e u by (auto simp: bnd_def txn_def mark_failed_def)
  show ?thesis
  proof (cases rc)
    case (Inl e)
    with c assms failing [of e w1] d1 show ?thesis
      by (auto simp: bnd_def txn_def mark_failed_def catching_def)
  next
    case (Inr found)
    show ?thesis
    proof (cases "truthy found")
      case True
      obtain re d' where m: "mark_exists k found (now_w S w1) (w_db w1) = (re, d')" by fastforce
      show ?thesis
      proof (cases re)
        case (Inl e)
        then have "d' = w_db w" using m d1 by (auto simp: mark_exists_def split: option.splits sum.splits)
        with Inl True Inr c assms m d1 show ?thesis
          by (auto simp: bnd_def txn_def mark_failed_def catching_def now_w_def)
      next
        case (Inr u)
        with \<open>rc = Inr found\<close> True c assms m d1 have "r = Inr None" "w_db w' = d'"
          by (auto simp: bnd_def txn_def catching_def now_w_def)
        with Inr m d1 show ?thesis by auto
      qed
    next
      case False
      obtain rq w2 where q: "create ord w1 = (rq, w2)" by fastforce
      with create_frame have d2: "w_db w2 = w_db w" using d1 by (metis touches_no_tableD)
      show ?thesis
        using assms c Inr False q d2
        by (cases rq) (auto simp: bnd_def txn_def mark_failed_def catching_def)
    qed
  qed
qed

lemma sync_settle:
  assumes ok: "orders_ok (w_db w)"
    and claim: "claim_order (platform_value (uo_platform ord)) (uo_platform_order_id ord)
      (Some (uo_platform_order_sn ord)) (now_w S w) (w_db w) = (Inr (Claimed k), d)"
    and run: "sync_with S check create ord w = (r, w')"
  shows "\<exists>m. order_row (platform_value (uo_platform ord)) (uo_platform_order_id ord) (w_db w') = Some m \<and>
      om_id m = k \<and> (case r of
        Inr (SyncSuccess v nm) \<Rightarrow> om_status m = ''success'' \<and> om_last_error m = None \<and>
          int_column v = Inr (om_odoo_order_id m) \<and> text_column 50 nm = Inr (om_odoo_order_name m)
      | Inr (SyncSkipped reason) \<Rightarrow> reason = ''exists_in_odoo'' \<and> om_status m = ''success''
      | Inl e \<Rightarrow> om_status m = ''failed'' \<and> om_last_error m = Some (exc_str e) \<or>
          om_status m = ''syncing'' \<and> class_of e = CDatabaseError)"
proof -
  let ?p = "platform_value (uo_platform ord)" and ?i = "uo_platform_order_id ord"
  let ?net = "catching (bnd (check ?p ?i) (\<lambda>found.
        if truthy found then bnd (bnd (txn S (mark_exists k found)) of_sum) (\<lambda>_. ret None)
        else bnd (create ord) (\<lambda>r. ret (Some r))))
      (\<lambda>e. bnd (bnd (txn S (mark_failed k (exc_str e))) of_sum) (\<lambda>_. throw e))"
  obtain m where m: "order_row ?p ?i d = Some m" "om_id m = k" "om_status m = ''syncing''"
    using claim_order_Claimed(2) [OF ok claim] by blast
  note okd = claim_order_Claimed(1) [OF ok claim]
  note after = row_after [OF okd m(1), unfolded m(2)]
  obtain rn wn where n: "?net (w\<lparr>w_db := d\<rparr>) = (rn, wn)" by fastforce
  note phase = network_phase [OF n]
  have run': "bnd ?net (\<lambda>made. case made of None \<Rightarrow> ret (SyncSkipped ''exists_in_odoo'')
      | Some (v, nm) \<Rightarrow> bnd (bnd (txn S (mark_success k v nm)) of_sum) (\<lambda>_. ret (SyncSuccess v nm)))
      (w\<lparr>w_db := d\<rparr>) = (r, w')"
  proof -
    have "bnd (txn S (claim_order ?p ?i (Some (uo_platform_order_sn ord)))) of_sum w =
        (Inr (Claimed k), w\<lparr>w_db := d\<rparr>)"
      using claim by (simp add: bnd_def txn_def now_w_def)
    then show ?thesis using run by (simp add: sync_with_def Let_def)
  qed
  show ?thesis
  proof (cases rn)
    case (Inl e)
    with run' n have "r = Inl e" "w' = wn" by (simp_all)
    moreover obtain now where "w_db wn = snd (mark_failed k (exc_str e) now d)"
      using Inl phase by auto
    ultimately show ?thesis using after(1) [of "exc_str e" now] by auto
  next
    case (Inr made)
    show ?thesis
    proof (cases made)
      case None
      with Inr run' n have "r = Inr (SyncSkipped ''exists_in_odoo'')" "w' = wn" by (auto)
      with Inr None phase after(2) show ?thesis by fastforce
    next
      case (Some z)
      obtain v nm where z: "z = (v, nm)" by fastforce
      obtain rm dm where s: "mark_success k v nm (now_w S wn) d = (rm, dm)" by fastforce
      have "w_db wn = d" using phase Inr Some by simp
      with s Inr Some z run' n have out: "w_db w' = dm" "r = (case rm of Inl e \<Rightarrow> Inl e | Inr _ \<Rightarrow> Inr (SyncSuccess v nm))"
        by (auto simp: bnd_def txn_def now_w_def split: sum.splits)
      show ?thesis
      proof (cases rm)
        case (Inl e)
        with after(4) [OF s [unfolded Inl]] out m show ?thesis by auto
      next
        case (Inr u)
        with after(3) [OF s [unfolded Inr]] out show ?thesis by auto
      qed
    qed
  qed
qed

end

lemma touches_check: "touches_no_table (check_order_exists S cfg c platform oid)"
  by (rule touches_no_tableI) (rule keeps_intros)

lemma touches_create: "touches_no_table (create_sale_order S cfg c ord)"
  by (rule touches_no_tableI) (rule keeps_intros)

interpretation odoo_client: odoo_port S "check_order_exists S cfg c" "create_sale_order S cfg c"
  for S :: "'x services" and cfg c
  by unfold_locales (rule touches_check touches_create)+

section \<open>Properties\<close>

definition ow_init :: "db \<Rightarrow> (string \<times> string) list \<Rightarrow> instant \<Rightarrow> ow_sys" where
  "ow_init d odoo now = \<lparr>ow_db = d, ow_now = now, ow_workers = [], ow_odoo = odoo\<rparr>"


definition sample_row :: order_mapping where
  "sample_row = \<lparr>om_id = 1, om_platform = ''shopee'', om_platform_order_id = ''A1'',
     om_platform_order_sn = Some ''A1'', om_odoo_order_id = None, om_odoo_order_name = None,
     om_status = ''failed'', om_retry_count = 1, om_last_error = None, om_created_at = 0, om_updated_at = 0\<rparr>"

definition order_db :: "order_mapping \<Rightarrow> db" where
  "order_db m = empty_db\<lparr>db_orders := [m], db_next_id := 2\<rparr>"


text \<open>C16: a sync that claims its order settles it. When it ends, the row of that order has the
  outcome: \<open>success\<close> with the id and name Odoo gave and no error, \<open>success\<close> when Odoo already
  had the order, \<open>failed\<close> with the message of the exception otherwise. The one exception that
  leaves the row \<open>syncing\<close> is the driver refusing the id or name Odoo answered.\<close>

theorem sync_settles_row:
  assumes "orders_ok (w_db w)"
    and "claim_order (platform_value (uo_platform ord)) (uo_platform_order_id ord)
      (Some (uo_platform_order_sn ord)) (now_w S w) (w_db w) = (Inr (Claimed k), d)"
    and "sync S cfg c ord w = (r, w')"
  shows "\<exists>m. order_row (platform_value (uo_platform ord)) (uo_platform_order_id ord) (w_db w') = Some m \<and>
      om_id m = k \<and> (case r of
        Inr (SyncSuccess v nm) \<Rightarrow> om_status m = ''success'' \<and> om_last_error m = None \<and>
          int_column v = Inr (om_odoo_order_id m) \<and> text_column 50 nm = Inr (om_odoo_order_name m)
      | Inr (SyncSkipped reason) \<Rightarrow> reason = ''exists_in_odoo'' \<and> om_status m = ''success''
      | Inl e \<Rightarrow> om_status m = ''failed'' \<and> om_last_error m = Some (exc_str e) \<or>
          om_status m = ''syncing'' \<and> class_of e = CDatabaseError)"
  by (rule odoo_client.sync_settle [OF assms(1,2) assms(3) [unfolded sync_def]])

definition settled_world :: "string \<Rightarrow> rat world" where
  "settled_world status = null_world (order_db (sample_row\<lparr>om_status := status\<rparr>)) 10"

lemma settled_world_facts:
  "orders_ok (w_db (settled_world s))"
  "order_row ''shopee'' ''A1'' (w_db (settled_world s)) = Some (sample_row\<lparr>om_status := s\<rparr>)"
  "now_w null_services (settled_world s) = 10"
  by (simp_all add: settled_world_def orders_ok_def order_db_def empty_db_def keyed_def sample_row_def
      order_row_def om_key_def row_simps)

lemma sample_order_key:
  "platform_value (uo_platform sample_order) = ''shopee''" "uo_platform_order_id sample_order = ''A1''"
  "uo_platform_order_sn sample_order = ''A1''"
  by (simp_all add: sample_order_def)

theorem sync_settles_row_witness:
  "\<exists>r w' m. sync null_services dev_settings 0 sample_order (settled_world ''failed'') = (r, w') \<and>
     order_row ''shopee'' ''A1'' (w_db w') = Some m \<and> om_id m = 1"
proof -
  obtain d where "claim_order ''shopee'' ''A1'' (Some ''A1'') 10 (w_db (settled_world ''failed'')) = (Inr (Claimed 1), d)"
    by (simp add: claim_order_def select_orders_def settled_world_def order_db_def sample_row_def
        scalar_one_or_none_def empty_db_def)
  then have c: "claim_order (platform_value (uo_platform sample_order)) (uo_platform_order_id sample_order)
      (Some (uo_platform_order_sn sample_order)) (now_w null_services (settled_world ''failed''))
      (w_db (settled_world ''failed'')) = (Inr (Claimed 1), d)"
    by (simp add: sample_order_key settled_world_facts)
  obtain r w' where "sync null_services dev_settings 0 sample_order (settled_world ''failed'') = (r, w')"
    by fastforce
  with sync_settles_row [OF settled_world_facts(1) c this] show ?thesis
    unfolding sample_order_key by blast
qed

text \<open>An order is skipped without a call to Odoo and without a write when its row says
  \<open>success\<close>, and also while its row is \<open>syncing\<close> and less than five minutes old, even when
  the worker that wrote it is dead: such a delivery is acknowledged and nothing retries it.\<close>

theorem sync_skips:
  assumes "orders_ok (w_db w)"
    and "order_row (platform_value (uo_platform ord)) (uo_platform_order_id ord) (w_db w) = Some m"
    and "om_status m = ''success'' \<or> om_status m = ''syncing'' \<and> now_w S w - om_updated_at m < 300"
  shows "sync S cfg c ord w =
    (Inr (SyncSkipped (if om_status m = ''success'' then ''duplicate'' else ''in_flight'')), w)"
proof -
  have "claim_order (platform_value (uo_platform ord)) (uo_platform_order_id ord)
      (Some (uo_platform_order_sn ord)) (now_w S w) (w_db w) =
      (Inr (Skip (if om_status m = ''success'' then ''duplicate'' else ''in_flight'')), w_db w)"
    using assms select_orders_row [OF assms(1)]
    by (auto simp: claim_order_def SYNCING_STALE_AFTER_def)
  from odoo_client.sync_skip [OF this] show ?thesis unfolding sync_def .
qed

theorem sync_skips_witness:
  "sync null_services dev_settings 0 sample_order (settled_world ''syncing'') =
     (Inr (SyncSkipped ''in_flight''), settled_world ''syncing'')"
proof -
  have "order_row (platform_value (uo_platform sample_order)) (uo_platform_order_id sample_order)
      (w_db (settled_world ''syncing'')) = Some (sample_row\<lparr>om_status := ''syncing''\<rparr>)"
    by (simp add: sample_order_key settled_world_facts)
  from sync_skips [OF settled_world_facts(1) this, of null_services] show ?thesis
    by (simp add: settled_world_facts sample_row_def)
qed

end
