(* ===== verification/Signing.thy ===== *)
theory Signing
  imports Config "HOL-Library.Word"
begin

text \<open>
  \<open>src/connectors/shopee/signing.py\<close>: the request signatures and the check of a webhook's
  signature, over the \<open>sha256\<close> and \<open>hmac\<close> of Python's standard library, defined here on bytes
  (a \<open>char\<close> is a byte) with 32-bit words.
\<close>

section \<open>SHA-256\<close>

unbundle bit_operations_syntax

text \<open>
  The constants of FIPS 180-4 by their definition: the first 32 bits of the fractional parts of the
  cube roots of the first 64 primes, and of the square roots of the first 8. \<open>int_root k n b r\<close>
  fixes the next \<open>b\<close> bits of the \<open>k\<close>-th root of \<open>n\<close> from above.
\<close>

definition small_primes :: "int list" where
  "small_primes = [p \<leftarrow> [2..311]. list_all (\<lambda>q. p mod q \<noteq> 0) [2..p - 1]]"

fun int_root :: "nat \<Rightarrow> int \<Rightarrow> nat \<Rightarrow> int \<Rightarrow> int" where
  "int_root k n 0 r = r"
| "int_root k n (Suc b) r = int_root k n b (if (r + 2 ^ b) ^ k \<le> n then r + 2 ^ b else r)"

definition root_word :: "nat \<Rightarrow> int \<Rightarrow> 32 word" where
  "root_word k p = word_of_int (int_root k (p * 2 ^ (32 * k)) 40 0)"

definition sha_K :: "32 word list" where
  "sha_K = map (root_word 3) small_primes"

definition sha_init :: "32 word list" where
  "sha_init = map (root_word 2) (take 8 small_primes)"

definition rot3 :: "nat \<Rightarrow> nat \<Rightarrow> nat \<Rightarrow> 32 word \<Rightarrow> 32 word" where
  "rot3 a b c x = word_rotr a x XOR word_rotr b x XOR word_rotr c x"

definition rot2_shift :: "nat \<Rightarrow> nat \<Rightarrow> nat \<Rightarrow> 32 word \<Rightarrow> 32 word" where
  "rot2_shift a b c x = word_rotr a x XOR word_rotr b x XOR drop_bit c x"

definition word_of_bytes :: "char list \<Rightarrow> 32 word" where
  "word_of_bytes bs = foldl (\<lambda>w c. push_bit 8 w OR of_nat (of_char c)) 0 bs"

definition bytes_of_word :: "32 word \<Rightarrow> char list" where
  "bytes_of_word w = map (\<lambda>i. char_of (unat (drop_bit i w AND 0xff))) [24, 16, 8, 0]"

text \<open>The message with its padding: a one bit, zeros, and the length in bits as 64 bits.\<close>

definition sha_pad :: "char list \<Rightarrow> char list" where
  "sha_pad m =
     (let n = length m; zeros = (119 - n mod 64) mod 64
      in m @ [char_of (0x80 :: nat)] @ replicate zeros (char_of (0 :: nat)) @
         map (\<lambda>i. char_of (unat (drop_bit i (of_nat (8 * n) :: 64 word) AND 0xff))) [56, 48, 40, 32, 24, 16, 8, 0])"

fun sha_schedule :: "nat \<Rightarrow> 32 word list \<Rightarrow> 32 word list" where
  "sha_schedule 0 ws = ws"
| "sha_schedule (Suc n) ws =
     (let t = length ws
      in sha_schedule n (ws @
           [rot2_shift 17 19 10 (ws ! (t - 2)) + ws ! (t - 7) +
            rot2_shift 7 18 3 (ws ! (t - 15)) + ws ! (t - 16)]))"

fun sha_round :: "32 word \<times> 32 word \<Rightarrow> 32 word list \<Rightarrow> 32 word list" where
  "sha_round (k, w) [a, b, c, d, e, f, g, h] =
     (let t1 = h + rot3 6 11 25 e + ((e AND f) XOR (NOT e AND g)) + k + w;
          t2 = rot3 2 13 22 a + ((a AND b) XOR (a AND c) XOR (b AND c))
      in [t1 + t2, a, b, c, d + t1, e, f, g])"
| "sha_round _ st = st"

definition sha_block :: "32 word list \<Rightarrow> char list \<Rightarrow> 32 word list" where
  "sha_block st block =
     (let ws = sha_schedule 48 (map word_of_bytes (chunks 4 block))
      in map2 (+) st (fold sha_round (zip sha_K ws) st))"

definition sha256 :: "char list \<Rightarrow> char list" where
  "sha256 m = concat (map bytes_of_word (foldl sha_block sha_init (chunks 64 (sha_pad m))))"

section \<open>HMAC and hexadecimal digests\<close>

definition xor_byte :: "nat \<Rightarrow> char \<Rightarrow> char" where
  "xor_byte k c = char_of ((of_char c :: nat) XOR k)"

definition hmac_sha256 :: "char list \<Rightarrow> char list \<Rightarrow> char list" where
  "hmac_sha256 key msg =
     (let k0 = (if 64 < length key then sha256 key else key);
          k = k0 @ replicate (64 - length k0) (char_of (0 :: nat))
      in sha256 (map (xor_byte 0x5c) k @ sha256 (map (xor_byte 0x36) k @ msg)))"

definition hex_char :: "nat \<Rightarrow> char" where
  "hex_char n = (if n < 10 then char_of (48 + n) else char_of (87 + n))"

definition hexdigest :: "char list \<Rightarrow> string" where
  "hexdigest bs = concat (map (\<lambda>c. [hex_char (of_char c div 16), hex_char (of_char c mod 16)]) bs)"

text \<open>\<open>str.encode("utf-8")\<close> on the code points below 256.\<close>

definition utf8 :: "string \<Rightarrow> char list" where
  "utf8 s = concat (map (\<lambda>c. let n = (of_char c :: nat)
     in if n < 128 then [c] else [char_of (192 + n div 64), char_of (128 + n mod 64)]) s)"

lemma utf8_ascii: "list_all is_ascii s \<Longrightarrow> utf8 s = s"
  by (induction s) (auto simp: utf8_def is_ascii_def Let_def)

lemma hex_char_ascii: "n < 16 \<Longrightarrow> is_ascii (hex_char n)"
  by (auto simp: hex_char_def is_ascii_def)

lemma hexdigest_ascii: "list_all is_ascii (hexdigest bs)"
proof -
  have "is_ascii (hex_char (of_char c div 16))" "is_ascii (hex_char (of_char c mod 16))" for c :: char
  proof -
    have "of_char c < (256 :: nat)" by (cases c) (simp add: of_char_def)
    then show "is_ascii (hex_char (of_char c div 16))" by (intro hex_char_ascii) (simp add: less_mult_imp_div_less)
    show "is_ascii (hex_char (of_char c mod 16))" by (rule hex_char_ascii) simp
  qed
  then show ?thesis by (induction bs) (auto simp: hexdigest_def)
qed

lemma length_hexdigest: "length (hexdigest bs) = 2 * length bs"
  by (induction bs) (auto simp: hexdigest_def)

text \<open>A digest has 32 bytes, a signature 64 characters.\<close>

lemma length_sha_round: "length (sha_round kw st) = length st"
  by (induction kw st rule: sha_round.induct) (auto simp: Let_def)

lemma length_sha_rounds: "length (fold sha_round kws st) = length st"
  by (induction kws arbitrary: st) (auto simp: length_sha_round)

lemma length_sha_blocks: "length (foldl sha_block st bs) = length st"
  by (induction bs arbitrary: st) (auto simp: sha_block_def Let_def length_sha_rounds)

lemma length_sha_init: "length sha_init = 8"
proof -
  define rest where "rest = [20..311 :: int]"
  have "[2..311] = [2..19] @ rest" using upto_split2 [of 2 19 "311 :: int"] by (simp only: rest_def) simp
  moreover have "[p \<leftarrow> [2..19 :: int]. list_all (\<lambda>q. p mod q \<noteq> 0) [2..p - 1]] = [2, 3, 5, 7, 11, 13, 17, 19]"
    by code_simp
  ultimately show ?thesis by (simp only: sha_init_def small_primes_def filter_append) simp
qed

lemma length_sha256: "length (sha256 m) = 32"
proof -
  have "length (concat (map bytes_of_word ws)) = 4 * length ws" for ws
    by (induction ws) (auto simp: bytes_of_word_def)
  then show ?thesis by (simp add: sha256_def length_sha_blocks length_sha_init)
qed

lemma length_signature: "length (hexdigest (hmac_sha256 key msg)) = 64"
  by (simp add: length_hexdigest hmac_sha256_def Let_def length_sha256)

section \<open>Shopee's signatures\<close>

definition sign_request ::
  "string \<Rightarrow> string \<Rightarrow> string \<Rightarrow> string \<Rightarrow> string \<Rightarrow> int option \<Rightarrow> rat \<Rightarrow> string \<times> int" where
  "sign_request partner_id api_path partner_key access_token shop_id timestamp now =
     (let ts = (case timestamp of None \<Rightarrow> py_trunc now | Some t \<Rightarrow> t);
          base = partner_id @ api_path @ int_str ts @ access_token @ shop_id
      in (hexdigest (hmac_sha256 (utf8 partner_key) (utf8 base)), ts))"

definition sign_public :: "string \<Rightarrow> string \<Rightarrow> string \<Rightarrow> int option \<Rightarrow> rat \<Rightarrow> string \<times> int" where
  "sign_public partner_id api_path partner_key timestamp now =
     (let ts = (case timestamp of None \<Rightarrow> py_trunc now | Some t \<Rightarrow> t);
          base = partner_id @ api_path @ int_str ts
      in (hexdigest (hmac_sha256 (utf8 partner_key) (utf8 base)), ts))"

definition verify_webhook :: "string \<Rightarrow> char list \<Rightarrow> string \<Rightarrow> string \<Rightarrow> exc + bool" where
  "verify_webhook url body signature partner_key =
     (if signature = [] \<or> url = [] then Inr False
      else compare_digest (hexdigest (hmac_sha256 (utf8 partner_key) (utf8 url @ body))) signature)"

text \<open>The check accepts exactly the digest of the registered URL and the raw body.\<close>

lemma verify_webhook_True:
  "verify_webhook url body signature key = Inr True \<longleftrightarrow>
     url \<noteq> [] \<and> signature \<noteq> [] \<and> signature = hexdigest (hmac_sha256 (utf8 key) (utf8 url @ body))"
  by (auto simp: verify_webhook_def compare_digest_True hexdigest_ascii)

lemma verify_webhook_raises:
  "verify_webhook url body signature key = Inl e \<longleftrightarrow>
     url \<noteq> [] \<and> \<not> list_all is_ascii signature \<and> e = PyError CTypeError ''comparing strings with non-ASCII characters is not supported''"
  by (auto simp: verify_webhook_def compare_digest_def hexdigest_ascii)

end
