(* ===== verification/Tokens.thy ===== *)
theory Tokens
  imports Signing World Pystr
begin

text \<open>
  Shopee access tokens: \<open>src/connectors/shopee/auth.py\<close> (the Redis token store and the refresh
  under a lock) and \<open>src/connectors/shopee/oauth.py\<close> (the authorization URL, the single-use
  \<open>state\<close>, the exchange of a code for tokens and their persistence). The cipher of
  \<open>src/core/crypto.py\<close> is the parameter \<open>get_cipher\<close>: the exception of building it, or its
  \<open>encrypt\<close>. \<open>url_encode\<close> is \<open>urllib.parse.urlencode\<close>, and the random state token is an
  argument.
\<close>

section \<open>Token store\<close>

definition ACCESS_TTL :: int where "ACCESS_TTL = 14000"

definition REFRESH_TTL :: int where "REFRESH_TTL = 2500000"

definition token_key :: "string \<Rightarrow> string \<Rightarrow> string" where
  "token_key kind shop = ''shopee:token:'' @ shop @ '':'' @ kind"

text \<open>What the Redis client stores for a value: text and numbers, nothing else.\<close>

definition redis_value :: "pyval \<Rightarrow> exc + string" where
  "redis_value v =
     (case v of PStr s \<Rightarrow> Inr s | PInt n \<Rightarrow> Inr (int_str n) | PFloat x \<Rightarrow> Inr (float_str x)
      | _ \<Rightarrow> Inl (PyError CException ''Invalid input of type''))"

definition setex :: "'x services \<Rightarrow> string \<Rightarrow> int \<Rightarrow> pyval \<Rightarrow> ('x world, exc, unit) eff" where
  "setex S key ttl v = bnd (of_sum (redis_value v)) (\<lambda>s. ext (sv_setex S key ttl s))"

definition get_refresh_token :: "'x services \<Rightarrow> string \<Rightarrow> ('x world, exc, string) eff" where
  "get_refresh_token S shop =
     bnd (ext (sv_get S (token_key ''refresh'' shop))) (\<lambda>token.
       case token of
         None \<Rightarrow> throw (ShopeeAuthError (''Refresh token missing from Redis '' @
           [CHR 0xE2, CHR 0x80, CHR 0x94] @ '' manual re-auth required''))
       | Some t \<Rightarrow>
           if t = [] then throw (ShopeeAuthError (''Refresh token missing from Redis '' @
             [CHR 0xE2, CHR 0x80, CHR 0x94] @ '' manual re-auth required''))
           else ret t)"

definition store_tokens ::
  "'x services \<Rightarrow> string \<Rightarrow> pyval \<Rightarrow> pyval \<Rightarrow> int \<Rightarrow> int \<Rightarrow> ('x world, exc, unit) eff" where
  "store_tokens S shop access refresh access_ttl refresh_ttl =
     bnd (setex S (token_key ''access'' shop) access_ttl access) (\<lambda>_.
     bnd (setex S (token_key ''refresh'' shop) refresh_ttl refresh) (\<lambda>_.
     bnd (gets (now_w S)) (\<lambda>now.
       setex S (token_key ''access_issued_at'' shop) access_ttl (PInt (py_trunc now)))))"

section \<open>Refresh\<close>

text \<open>The loop of the workers that did not get the lock: \<open>n\<close> polls half a second apart.\<close>

fun wait_for_token :: "'x services \<Rightarrow> nat \<Rightarrow> string \<Rightarrow> ('x world, exc, pyval) eff" where
  "wait_for_token S 0 shop = throw (ShopeeAuthError ''Timed out waiting for token refresh'')"
| "wait_for_token S (Suc n) shop =
     bnd (ext (sv_sleep S (1 / 2))) (\<lambda>_.
     bnd (ext (sv_get S (token_key ''access'' shop))) (\<lambda>token.
       case token of
         None \<Rightarrow> wait_for_token S n shop
       | Some t \<Rightarrow> if t = [] then wait_for_token S n shop else ret (PStr t)))"

text \<open>\<open>url[:-7]\<close>, which takes \<open>/api/v2\<close> off the configured base URL.\<close>

definition drop_suffix7 :: "string \<Rightarrow> string" where
  "drop_suffix7 s = take (length s - 7) s"

definition REFRESH_PATH :: string where
  "REFRESH_PATH = ''/api/v2/auth/access_token/get''"

text \<open>The body of the \<open>try\<close>: one call to the token endpoint, then the store.\<close>

definition refresh_call ::
  "'x services \<Rightarrow> settings \<Rightarrow> string \<Rightarrow> string \<Rightarrow> ('x world, exc, pyval) eff" where
  "refresh_call S cfg shop refresh_token =
     bnd (gets (\<lambda>w. sign_public (SHOPEE_PARTNER_ID cfg) REFRESH_PATH (SHOPEE_PARTNER_KEY cfg) None (now_w S w)))
       (\<lambda>(sign, ts).
     bnd (of_sum (py_int (PStr (SHOPEE_PARTNER_ID cfg)))) (\<lambda>partner.
     bnd (of_sum (py_int (PStr shop))) (\<lambda>shop_no.
     bnd (ext (sv_http S ''POST'' (drop_suffix7 (shopee_base_url cfg) @ REFRESH_PATH)
            [(''partner_id'', PStr (SHOPEE_PARTNER_ID cfg)), (''timestamp'', PInt ts), (''sign'', PStr sign)]
            (PDict [(''refresh_token'', PStr refresh_token), (''partner_id'', PInt partner),
                    (''shop_id'', PInt shop_no)]))) (\<lambda>resp.
     of_sum (hr_json resp)))))"

definition refresh_body :: "'x services \<Rightarrow> settings \<Rightarrow> string \<Rightarrow> ('x world, exc, pyval) eff" where
  "refresh_body S cfg shop =
     bnd (get_refresh_token S shop) (\<lambda>refresh_token.
     bnd (refresh_call S cfg shop refresh_token) (\<lambda>data.
     bnd (of_sum (py_get data ''error'' PNone)) (\<lambda>err.
       if truthy err then
         bnd (of_sum (py_get data ''message'' (PStr ''refresh failed''))) (\<lambda>m.
           throw (ShopeeAuthError (py_str m)))
       else
         bnd (of_sum (py_item data ''access_token'')) (\<lambda>access.
         bnd (of_sum (py_item data ''refresh_token'')) (\<lambda>new_refresh.
         bnd (store_tokens S shop access new_refresh ACCESS_TTL REFRESH_TTL) (\<lambda>_.
           ret access))))))"

definition refresh_lock :: "string \<Rightarrow> string" where
  "refresh_lock shop = ''lock:shopee_refresh:'' @ shop"

definition refresh :: "'x services \<Rightarrow> settings \<Rightarrow> string \<Rightarrow> ('x world, exc, pyval) eff" where
  "refresh S cfg shop =
     bnd (ext (sv_set_nx_ex S (refresh_lock shop) ''1'' 60)) (\<lambda>got_lock.
       if \<not> got_lock then wait_for_token S 20 shop
       else finally_do (refresh_body S cfg shop) (ext (sv_delete S (refresh_lock shop))))"

definition get_access_token :: "'x services \<Rightarrow> settings \<Rightarrow> string \<Rightarrow> ('x world, exc, pyval) eff" where
  "get_access_token S cfg shop =
     bnd (ext (sv_get S (token_key ''access'' shop))) (\<lambda>token.
       case token of
         None \<Rightarrow> refresh S cfg shop
       | Some t \<Rightarrow> if t = [] then refresh S cfg shop else ret (PStr t))"

section \<open>OAuth\<close>

definition AUTH_PATH :: string where "AUTH_PATH = ''/api/v2/shop/auth_partner''"

definition TOKEN_GET_PATH :: string where "TOKEN_GET_PATH = ''/api/v2/auth/token/get''"

definition OAUTH_STATE_TTL_SEC :: int where "OAUTH_STATE_TTL_SEC = 600"

definition endswith :: "string \<Rightarrow> string \<Rightarrow> bool" where
  "endswith s p \<longleftrightarrow> startswith (rev s) (rev p)"

definition base_origin :: "settings \<Rightarrow> string" where
  "base_origin cfg =
     (let base = shopee_base_url cfg
      in if endswith base ''/api/v2'' then drop_suffix7 base else base)"

record auth_url =
  au_url :: string
  au_timestamp :: int
  au_sandbox :: bool

definition build_auth_url ::
  "((string \<times> pyval) list \<Rightarrow> string) \<Rightarrow> settings \<Rightarrow> rat \<Rightarrow> string \<Rightarrow> string option \<Rightarrow> exc + auth_url" where
  "build_auth_url url_encode cfg now redirect_uri state =
     (if \<not> (startswith redirect_uri ''http://'' \<or> startswith redirect_uri ''https://'') then
        Inl (PyError CValueError (''redirect_uri must include scheme: '' @ str_repr redirect_uri))
      else
        (case sign_public (SHOPEE_PARTNER_ID cfg) AUTH_PATH (SHOPEE_PARTNER_KEY cfg) None now of
           (sign, ts) \<Rightarrow>
             let params = [(''partner_id'', PStr (SHOPEE_PARTNER_ID cfg)), (''timestamp'', PInt ts),
                  (''sign'', PStr sign), (''redirect'', PStr redirect_uri)] @
                  (case state of None \<Rightarrow> [] | Some s \<Rightarrow> if s = [] then [] else [(''state'', PStr s)])
             in Inr \<lparr>au_url = base_origin cfg @ AUTH_PATH @ ''?'' @ url_encode params,
                     au_timestamp = ts, au_sandbox = SHOPEE_IS_SANDBOX cfg\<rparr>))"

definition state_key :: "string \<Rightarrow> string" where
  "state_key s = ''shopee:oauth:state:'' @ s"

definition issue_oauth_state :: "'x services \<Rightarrow> string \<Rightarrow> ('x world, exc, string) eff" where
  "issue_oauth_state S random =
     bnd (setex S (state_key random) OAUTH_STATE_TTL_SEC (PStr ''1'')) (\<lambda>_. ret random)"

definition consume_oauth_state :: "'x services \<Rightarrow> string option \<Rightarrow> ('x world, exc, bool) eff" where
  "consume_oauth_state S state =
     (case state of
        None \<Rightarrow> ret False
      | Some s \<Rightarrow>
          if s = [] then ret False
          else bnd (ext (sv_delete S (state_key s))) (\<lambda>deleted. ret (deleted \<noteq> 0)))"

record token_set =
  tk_access :: pyval
  tk_refresh :: pyval
  tk_expire_in :: int
  tk_refresh_expire_in :: int
  tk_raw :: pyval

definition exchange_code_for_tokens ::
  "'x services \<Rightarrow> settings \<Rightarrow> string \<Rightarrow> string \<Rightarrow> ('x world, exc, token_set) eff" where
  "exchange_code_for_tokens S cfg code shop =
     bnd (gets (\<lambda>w. sign_public (SHOPEE_PARTNER_ID cfg) TOKEN_GET_PATH (SHOPEE_PARTNER_KEY cfg) None (now_w S w)))
       (\<lambda>(sign, ts).
     bnd (of_sum (py_int (PStr shop))) (\<lambda>shop_no.
     bnd (of_sum (py_int (PStr (SHOPEE_PARTNER_ID cfg)))) (\<lambda>partner.
     bnd (catching
        (bnd (ext (sv_http S ''POST'' (base_origin cfg @ TOKEN_GET_PATH)
            [(''partner_id'', PStr (SHOPEE_PARTNER_ID cfg)), (''timestamp'', PInt ts), (''sign'', PStr sign)]
            (PDict [(''code'', PStr code), (''shop_id'', PInt shop_no), (''partner_id'', PInt partner)])))
          (\<lambda>resp. of_sum (hr_json resp)))
        (\<lambda>e. if isinstance e CHTTPError
             then throw (ShopeeError (''Token exchange transport failed: '' @ exc_str e) None)
             else throw e)) (\<lambda>data.
     bnd (of_sum (py_get data ''error'' PNone)) (\<lambda>err.
       if truthy err then
         bnd (of_sum (py_get data ''message'' err)) (\<lambda>m. throw (ShopeeAuthError (py_str m)))
       else
         bnd (of_sum (py_get data ''access_token'' PNone)) (\<lambda>access.
         bnd (of_sum (py_get data ''refresh_token'' PNone)) (\<lambda>new_refresh.
           if \<not> truthy access \<or> \<not> truthy new_refresh then
             throw (ShopeeAuthError ''Token exchange response missing access/refresh'')
           else
             bnd (of_sum (sbnd (py_get data ''expire_in'' (PInt 14400)) py_int)) (\<lambda>expire.
             bnd (of_sum (sbnd (py_get data ''refresh_token_expire_in'' (PInt 2500000)) py_int))
               (\<lambda>refresh_expire.
               ret \<lparr>tk_access = access, tk_refresh = new_refresh, tk_expire_in = expire,
                    tk_refresh_expire_in = refresh_expire, tk_raw = data\<rparr>)))))))))"

section \<open>Encrypted backup\<close>

text \<open>A \<open>MultiFernet\<close> over a list of keys, which the library may refuse.\<close>

record fernet =
  fn_encrypt :: "string \<Rightarrow> string"
  fn_decrypt :: "string \<Rightarrow> exc + string"
  fn_rotate :: "string \<Rightarrow> exc + string"

definition credential_cipher :: "(string list \<Rightarrow> exc + fernet) \<Rightarrow> string list \<Rightarrow> exc + fernet" where
  "credential_cipher multi_fernet keys =
     (if keys = [] then Inl (ConfigError ''CREDENTIAL_KEYS env required (comma-separated Fernet keys)'')
      else case multi_fernet keys of
        Inl e \<Rightarrow> Inl (ConfigError (''Invalid Fernet key in CREDENTIAL_KEYS: '' @ exc_str e))
      | Inr f \<Rightarrow> Inr f)"

text \<open>\<open>CredentialCipher.encrypt\<close>: \<open>plaintext.encode()\<close> needs a string.\<close>

definition encrypt_value :: "fernet \<Rightarrow> pyval \<Rightarrow> exc + string" where
  "encrypt_value f v =
     (case v of PStr s \<Rightarrow> Inr (fn_encrypt f s) | _ \<Rightarrow> Inl (PyError CAttributeError (type_name v)))"

text \<open>The transaction of the backup: \<open>platform\<close> is unique in its table.\<close>

definition save_backup ::
  "string \<Rightarrow> (string \<times> pyval) list \<Rightarrow> instant \<Rightarrow> db \<Rightarrow> unit \<times> db" where
  "save_backup shop secrets now d =
     ((), case first_row (\<lambda>r. pc_platform r = ''shopee'') (db_platforms d) of
        None \<Rightarrow>
          d\<lparr>db_platforms := db_platforms d @
              [\<lparr>pc_id = db_next_id d, pc_platform = ''shopee'', pc_shop_id = Some shop,
                pc_credentials = secrets, pc_is_active = True, pc_dry_run = False,
                pc_price_master = ''platform''\<rparr>],
            db_next_id := db_next_id d + 1\<rparr>
      | Some _ \<Rightarrow>
          d\<lparr>db_platforms := upd_rows (\<lambda>r. pc_platform r = ''shopee'')
              (\<lambda>r. r\<lparr>pc_credentials := dict_update (pc_credentials r) secrets, pc_shop_id := Some shop\<rparr>)
              (db_platforms d)\<rparr>)"

definition backup_to_db ::
  "'x services \<Rightarrow> settings \<Rightarrow> (string list \<Rightarrow> exc + fernet) \<Rightarrow> string \<Rightarrow> token_set \<Rightarrow>
     ('x world, exc, unit) eff" where
  "backup_to_db S cfg multi_fernet shop tokens =
     (case credential_cipher multi_fernet (credential_keys_list cfg) of
        Inl e \<Rightarrow>
          if ENVIRONMENT cfg = Production then
            throw (ConfigError (''Encrypted token backup is mandatory in production but '' @
              ''cipher initialization failed: '' @ exc_str e @ ''. Check CREDENTIAL_KEYS.''))
          else ret ()
      | Inr f \<Rightarrow>
          bnd (of_sum (encrypt_value f (tk_access tokens))) (\<lambda>enc_access.
          bnd (of_sum (encrypt_value f (tk_refresh tokens))) (\<lambda>enc_refresh.
            txn S (save_backup shop
              [(''access_token_enc'', PStr enc_access), (''refresh_token_enc'', PStr enc_refresh),
               (''access_expire_in'', PInt (tk_expire_in tokens)),
               (''refresh_token_expire_in'', PInt (tk_refresh_expire_in tokens))]))))"

definition persist_tokens ::
  "'x services \<Rightarrow> settings \<Rightarrow> (string list \<Rightarrow> exc + fernet) \<Rightarrow> string \<Rightarrow> token_set \<Rightarrow>
     ('x world, exc, unit) eff" where
  "persist_tokens S cfg multi_fernet shop tokens =
     bnd (backup_to_db S cfg multi_fernet shop tokens) (\<lambda>_.
       store_tokens S shop (tk_access tokens) (tk_refresh tokens)
         (max 60 (tk_expire_in tokens - 600)) (max 3600 (tk_refresh_expire_in tokens)))"

record auth_state =
  as_shop_id :: string
  as_has_access_token :: bool
  as_access_ttl_seconds :: int
  as_has_refresh_token :: bool
  as_refresh_ttl_seconds :: int
  as_refresh_expires_in_days :: int
  as_sandbox :: bool

definition auth_status :: "'x services \<Rightarrow> settings \<Rightarrow> string \<Rightarrow> ('x world, exc, auth_state) eff" where
  "auth_status S cfg shop =
     bnd (ext (sv_ttl S (''shopee:token:'' @ shop @ '':access''))) (\<lambda>access_ttl.
     bnd (ext (sv_ttl S (''shopee:token:'' @ shop @ '':refresh''))) (\<lambda>refresh_ttl.
       let has_access = (0 < access_ttl); has_refresh = (0 < refresh_ttl)
       in ret \<lparr>as_shop_id = shop, as_has_access_token = has_access,
               as_access_ttl_seconds = (if has_access then access_ttl else 0),
               as_has_refresh_token = has_refresh,
               as_refresh_ttl_seconds = (if has_refresh then refresh_ttl else 0),
               as_refresh_expires_in_days = (if has_refresh then refresh_ttl div 86400 else 0),
               as_sandbox = SHOPEE_IS_SANDBOX cfg\<rparr>))"

section \<open>What the store leaves alone\<close>

lemma keeps_setex [keeps_intros]: "keeps (on_db P) (setex S key ttl v)"
  unfolding setex_def by (auto intro!: keeps_intros)

lemma keeps_get_refresh_token [keeps_intros]: "keeps (on_db P) (get_refresh_token S shop)"
  unfolding get_refresh_token_def by (auto intro!: keeps_intros split: option.split)

lemma keeps_store_tokens [keeps_intros]: "keeps (on_db P) (store_tokens S shop a r t u)"
  unfolding store_tokens_def by (auto intro!: keeps_intros)

lemma keeps_wait_for_token [keeps_intros]: "keeps (on_db P) (wait_for_token S n shop)"
  by (induction n) (auto intro!: keeps_intros split: option.split)

lemma keeps_refresh_call [keeps_intros]: "keeps (on_db P) (refresh_call S cfg shop t)"
  unfolding refresh_call_def by (auto intro!: keeps_intros split: prod.split)

lemma keeps_refresh_body [keeps_intros]: "keeps (on_db P) (refresh_body S cfg shop)"
  unfolding refresh_body_def by (auto intro!: keeps_intros)

lemma keeps_refresh [keeps_intros]: "keeps (on_db P) (refresh S cfg shop)"
  unfolding refresh_def by (auto intro!: keeps_intros)

lemma keeps_get_access_token [keeps_intros]: "keeps (on_db P) (get_access_token S cfg shop)"
  unfolding get_access_token_def by (auto intro!: keeps_intros split: option.split)

section \<open>What is stored\<close>

lemma setex_run:
  assumes "redis_kv S kv" and "redis_value v = Inr s"
  obtains y where "setex S key ttl v w = (Inr (), w\<lparr>w_ext := y\<rparr>)" "kv y = (kv (w_ext w))(key \<mapsto> s)"
proof -
  from assms(1) obtain y where y: "sv_setex S key ttl s (w_ext w) = (Inr (), y)" "kv y = (kv (w_ext w))(key \<mapsto> s)"
    by (rule redis_setex)
  with assms(2) have "setex S key ttl v w = (Inr (), w\<lparr>w_ext := y\<rparr>)"
    by (simp add: setex_def bnd_def ext_def)
  then show thesis using y(2) by (rule that)
qed

lemma token_key_inject [simp]: "token_key k shop = token_key l shop \<longleftrightarrow> k = l"
  by (simp add: token_key_def)

lemma store_tokens_run:
  assumes kv: "redis_kv S kv" and a: "redis_value access = Inr a" and b: "redis_value fresh = Inr b"
  obtains y where "store_tokens S shop access fresh t u w = (Inr (), w\<lparr>w_ext := y\<rparr>)"
    "kv y (token_key ''access'' shop) = Some a" "kv y (token_key ''refresh'' shop) = Some b"
proof -
  obtain y1 where 1: "setex S (token_key ''access'' shop) t access w = (Inr (), w\<lparr>w_ext := y1\<rparr>)"
    "kv y1 = (kv (w_ext w))(token_key ''access'' shop \<mapsto> a)" by (rule setex_run [OF kv a])
  obtain y2 where 2: "setex S (token_key ''refresh'' shop) u fresh (w\<lparr>w_ext := y1\<rparr>) =
      (Inr (), w\<lparr>w_ext := y1\<rparr>\<lparr>w_ext := y2\<rparr>)"
    "kv y2 = (kv (w_ext (w\<lparr>w_ext := y1\<rparr>)))(token_key ''refresh'' shop \<mapsto> b)" by (rule setex_run [OF kv b])
  let ?n = "py_trunc (now_w S (w\<lparr>w_ext := y2\<rparr>))"
  have i: "redis_value (PInt ?n) = Inr (int_str ?n)" by (simp add: redis_value_def)
  obtain y3 where 3: "setex S (token_key ''access_issued_at'' shop) t (PInt ?n) (w\<lparr>w_ext := y2\<rparr>) =
      (Inr (), w\<lparr>w_ext := y2\<rparr>\<lparr>w_ext := y3\<rparr>)"
    "kv y3 = (kv (w_ext (w\<lparr>w_ext := y2\<rparr>)))(token_key ''access_issued_at'' shop \<mapsto> int_str ?n)"
    by (rule setex_run [OF kv i])
  have "store_tokens S shop access fresh t u w = (Inr (), w\<lparr>w_ext := y3\<rparr>)"
    using 1(1) 2(1) 3(1) by (simp add: store_tokens_def bnd_def)
  then show thesis by (rule that) (use 1(2) 2(2) 3(2) in simp_all)
qed

definition backed_up :: "string \<Rightarrow> (string \<times> pyval) list \<Rightarrow> db \<Rightarrow> bool" where
  "backed_up shop secrets d \<longleftrightarrow> (\<exists>r \<in> set (db_platforms d). pc_platform r = ''shopee'' \<and> pc_shop_id r = Some shop \<and>
     list_all (\<lambda>(k, v). map_of (pc_credentials r) k = Some v) secrets)"

lemma map_of_dict_update: "map_of (dict_update d e) = map_of d ++ map_of (rev e)"
  by (induction e arbitrary: d) (auto simp: dict_update_def map_of_dict_set map_add_upd_left)

lemma save_backup_stores:
  assumes "distinct (map fst secrets)"
  shows "backed_up shop secrets (snd (save_backup shop secrets now d))"
proof -
  have e: "map_of (dict_update creds secrets) k = Some v" if "(k, v) \<in> set secrets" for creds k v
    using that assms by (simp add: map_of_dict_update map_add_Some_iff distinct_map)
  have n: "map_of secrets k = Some v" if "(k, v) \<in> set secrets" for k v
    using that assms by simp
  show ?thesis
  proof (cases "first_row (\<lambda>r. pc_platform r = ''shopee'') (db_platforms d)")
    case None
    then show ?thesis by (auto simp: save_backup_def backed_up_def list_all_iff n simp del: first_row_None)
  next
    case (Some r)
    then have "r \<in> set (db_platforms d)" "pc_platform r = ''shopee''" by (auto dest: first_row_SomeD)
    then have "r\<lparr>pc_credentials := dict_update (pc_credentials r) secrets, pc_shop_id := Some shop\<rparr> \<in>
        set (upd_rows (\<lambda>r. pc_platform r = ''shopee'')
          (\<lambda>r. r\<lparr>pc_credentials := dict_update (pc_credentials r) secrets, pc_shop_id := Some shop\<rparr>) (db_platforms d))"
      by (force simp: upd_rows_def)
    moreover from Some have "snd (save_backup shop secrets now d) = d\<lparr>db_platforms := upd_rows (\<lambda>r. pc_platform r = ''shopee'')
        (\<lambda>r. r\<lparr>pc_credentials := dict_update (pc_credentials r) secrets, pc_shop_id := Some shop\<rparr>) (db_platforms d)\<rparr>"
      by (simp add: save_backup_def)
    ultimately show ?thesis
      unfolding backed_up_def by (intro bexI) (auto simp: list_all_iff e \<open>pc_platform r = ''shopee''\<close>)
  qed
qed

definition token_secrets :: "fernet \<Rightarrow> token_set \<Rightarrow> string \<Rightarrow> string \<Rightarrow> (string \<times> pyval) list" where
  "token_secrets f t access fresh =
     [(''access_token_enc'', PStr (fn_encrypt f access)), (''refresh_token_enc'', PStr (fn_encrypt f fresh)),
      (''access_expire_in'', PInt (tk_expire_in t)), (''refresh_token_expire_in'', PInt (tk_refresh_expire_in t))]"


definition plain_fernet :: fernet where
  "plain_fernet = \<lparr>fn_encrypt = (\<lambda>s. ''e'' @ s), fn_decrypt = (\<lambda>s. Inr (tl s)), fn_rotate = Inr\<rparr>"

definition production_settings :: settings where
  "production_settings = dev_settings\<lparr>ENVIRONMENT := Production, CREDENTIAL_KEYS := ''k1,k2''\<rparr>"

definition shop_tokens :: token_set where
  "shop_tokens = \<lparr>tk_access = PStr ''a1'', tk_refresh = PStr ''r1'', tk_expire_in = 14400,
     tk_refresh_expire_in = 2500000, tk_raw = PNone\<rparr>"


text \<open>The refresh of the access token never writes the encrypted backup: every table is as
  before, although the refresh token the backup holds has been replaced in Redis.\<close>

theorem refresh_leaves_backup: "touches_no_table (get_access_token S cfg shop)"
  by (intro touches_no_tableI keeps_get_access_token)

end
