(* ===== verification/Shopee.thy ===== *)
theory Shopee
  imports Tokens Mapping Transformer
begin

text \<open>
  \<open>ShopeeConnector\<close> of \<open>src/connectors/shopee/client.py\<close>: the signed request through the
  breaker with one forced refresh, and the six operations built on it. The paging loop of
  \<open>get_orders_by_date\<close> runs on fuel, one unit per page: \<open>None\<close> is a loop still running.
\<close>

section \<open>Requests\<close>

text \<open>Header names compare without case.\<close>

definition header_get :: "(string \<times> string) list \<Rightarrow> string \<Rightarrow> string option" where
  "header_get hs name = map_option snd (first_row (\<lambda>(k, _). py_lower k = py_lower name) hs)"

definition ORDER_DETAIL_FIELDS :: string where
  "ORDER_DETAIL_FIELDS = ''buyer_user_id,buyer_username,estimated_shipping_fee,'' @
     ''recipient_address,actual_shipping_fee,item_list,pay_time,'' @
     ''dropshipper,dropshipper_phone,invoice_data,'' @
     ''order_status,update_time,package_list''"

text \<open>What an answer means, before and after its JSON is read.\<close>

definition shopee_answer :: "http_response \<Rightarrow> exc + pyval" where
  "shopee_answer resp =
     (if hr_status resp = 429 then
        sbnd (py_int (case header_get (hr_headers resp) ''Retry-After'' of
                 None \<Rightarrow> PInt 60 | Some v \<Rightarrow> PStr v)) (\<lambda>n. Inl (ShopeeRateLimitError n))
      else
        sbnd (hr_json resp) (\<lambda>data.
        sbnd (py_get data ''error'' PNone) (\<lambda>err.
          if \<not> truthy err then Inr data
          else if err = PStr ''error_auth'' \<or> err = PStr ''error_auth_token_expired'' then
            sbnd (py_get data ''message'' err) (\<lambda>m. Inl (ShopeeAuthError (py_str m)))
          else if err = PStr ''error_api_ratelimitation'' then Inl (ShopeeRateLimitError 60)
          else sbnd (py_get data ''message'' err) (\<lambda>m.
                 Inl (ShopeeError (py_str m) (Some (py_str err)))))))"

definition shopee_do ::
  "'x services \<Rightarrow> settings \<Rightarrow> string \<Rightarrow> string \<Rightarrow> string \<Rightarrow> (string \<times> pyval) list \<Rightarrow> pyval \<Rightarrow> bool \<Rightarrow>
     ('x world, exc, pyval) eff" where
  "shopee_do S cfg shop meth api_path params json_body with_auth =
     bnd (if with_auth then get_access_token S cfg shop else ret (PStr [])) (\<lambda>access.
     bnd (gets (\<lambda>w. sign_request (SHOPEE_PARTNER_ID cfg) api_path (SHOPEE_PARTNER_KEY cfg)
            (py_str access) (if with_auth then shop else []) None (now_w S w))) (\<lambda>(sign, ts).
     bnd (ext (sv_http S meth (drop_suffix7 (shopee_base_url cfg) @ api_path)
            (dict_update
               ([(''partner_id'', PStr (SHOPEE_PARTNER_ID cfg)), (''timestamp'', PInt ts),
                 (''sign'', PStr sign)] @
                (if with_auth then [(''access_token'', access), (''shop_id'', PStr shop)] else []))
               params)
            json_body)) (\<lambda>resp.
     of_sum (shopee_answer resp))))"

definition shopee_call :: "'x services \<Rightarrow> ('x world, exc, 'a) eff \<Rightarrow> ('x world, exc, 'a) eff" where
  "shopee_call S fn = cb_call w_shopee_breaker (\<lambda>b w. w\<lparr>w_shopee_breaker := b\<rparr>) (now_w S) fn"

definition shopee_request ::
  "'x services \<Rightarrow> settings \<Rightarrow> string \<Rightarrow> string \<Rightarrow> string \<Rightarrow> (string \<times> pyval) list \<Rightarrow> pyval \<Rightarrow> bool \<Rightarrow>
     ('x world, exc, pyval) eff" where
  "shopee_request S cfg shop meth api_path params json_body with_auth =
     (let fn = shopee_do S cfg shop meth api_path params json_body with_auth
      in catching (shopee_call S fn) (\<lambda>e.
           if isinstance e CShopeeAuthError then
             bnd (ext (sv_delete S (''shopee:token:'' @ shop @ '':access''))) (\<lambda>_.
             bnd (refresh S cfg shop) (\<lambda>_. shopee_call S fn))
           else throw e))"

section \<open>Orders\<close>

definition get_order_detail ::
  "'x services \<Rightarrow> settings \<Rightarrow> string \<Rightarrow> pyval \<Rightarrow> ('x world, exc, unified_order) eff" where
  "get_order_detail S cfg shop oid =
     bnd (shopee_request S cfg shop ''GET'' ''/api/v2/order/get_order_detail''
            [(''order_sn_list'', oid), (''response_optional_fields'', PStr ORDER_DETAIL_FIELDS)]
            PNone True) (\<lambda>data.
     bnd (of_sum (sbnd (py_item data ''response'') (\<lambda>r. py_item r ''order_list''))) (\<lambda>orders.
       if \<not> truthy orders then throw (ShopeeError (''Order '' @ py_str oid @ '' not found'') None)
       else bnd (of_sum (py_head orders)) (\<lambda>raw.
            bnd (gets (now_w S)) (\<lambda>now. of_sum (transform now raw)))))"

text \<open>\<open>",".join(sn_list)\<close> needs strings.\<close>

definition join_strings :: "pyval list \<Rightarrow> exc + string" where
  "join_strings vs = sbnd (smap (\<lambda>v. case v of PStr s \<Rightarrow> Inr s
     | _ \<Rightarrow> Inl (PyError CTypeError ''sequence item: expected str instance'')) vs)
     (\<lambda>ss. Inr (join '','' ss))"

text \<open>One page of the listing: the orders it yields, and the response.\<close>

definition order_page ::
  "'x services \<Rightarrow> settings \<Rightarrow> string \<Rightarrow> int \<Rightarrow> int \<Rightarrow> pyval \<Rightarrow> ('x world, exc, unified_order list \<times> pyval) eff"
where
  "order_page S cfg shop time_from time_to cursor =
     bnd (shopee_request S cfg shop ''GET'' ''/api/v2/order/get_order_list''
            [(''time_range_field'', PStr ''create_time''), (''time_from'', PInt time_from),
             (''time_to'', PInt time_to), (''page_size'', PInt 100), (''cursor'', cursor)]
            PNone True) (\<lambda>data.
     bnd (of_sum (py_item data ''response'')) (\<lambda>response.
     bnd (of_sum (sbnd (py_get response ''order_list'' (PList [])) (\<lambda>l.
            sbnd (py_iter l) (smap (\<lambda>ord. py_item ord ''order_sn''))))) (\<lambda>sn_list.
     bnd (if sn_list = [] then ret []
          else bnd (of_sum (join_strings sn_list)) (\<lambda>sns.
               bnd (shopee_request S cfg shop ''GET'' ''/api/v2/order/get_order_detail''
                      [(''order_sn_list'', PStr sns),
                       (''response_optional_fields'', PStr ORDER_DETAIL_FIELDS)] PNone True) (\<lambda>detail.
               bnd (of_sum (sbnd (py_item detail ''response'') (\<lambda>r.
                      sbnd (py_item r ''order_list'') py_iter))) (\<lambda>raws.
               bnd (gets (now_w S)) (\<lambda>now. of_sum (smap (transform now) raws)))))) (\<lambda>orders.
       ret (orders, response)))))"

text \<open>The loop over the pages, for a caller that takes every order. \<open>day\<close> is the number of days
  since the epoch; the last microsecond of the day truncates to its last second.\<close>

fun orders_from ::
  "'x services \<Rightarrow> settings \<Rightarrow> string \<Rightarrow> int \<Rightarrow> nat \<Rightarrow> pyval \<Rightarrow> ('x world, exc, unified_order list option) eff"
where
  "orders_from S cfg shop day 0 cursor = ret None"
| "orders_from S cfg shop day (Suc fuel) cursor =
     bnd (order_page S cfg shop (day * 86400) (day * 86400 + 86399) cursor) (\<lambda>(orders, response).
     bnd (of_sum (py_get response ''more'' PNone)) (\<lambda>more.
       if \<not> truthy more then ret (Some orders)
       else bnd (of_sum (py_get response ''next_cursor'' (PStr []))) (\<lambda>nxt.
            bnd (orders_from S cfg shop day fuel nxt) (\<lambda>rest.
              ret (map_option (\<lambda>os. orders @ os) rest)))))"

definition get_orders_by_date ::
  "'x services \<Rightarrow> settings \<Rightarrow> string \<Rightarrow> nat \<Rightarrow> int \<Rightarrow> ('x world, exc, unified_order list option) eff" where
  "get_orders_by_date S cfg shop fuel day = orders_from S cfg shop day fuel (PStr [])"

section \<open>Stock, price, shipment\<close>

text \<open>\<open>":" in v\<close> for the values a mapping can hold.\<close>

definition has_colon :: "pyval \<Rightarrow> exc + bool" where
  "has_colon v =
     (case v of
        PStr s \<Rightarrow> Inr (CHR '':'' \<in> set s)
      | PList vs \<Rightarrow> Inr (PStr '':'' \<in> set vs)
      | PDict d \<Rightarrow> Inr ('':'' \<in> fst ` set d)
      | _ \<Rightarrow> Inl (PyError CTypeError (type_name v)))"

text \<open>\<open>s.partition(":")\<close> without its separator: what stands before the first colon, and after.\<close>

fun partition_colon :: "string \<Rightarrow> string \<times> string" where
  "partition_colon [] = ([], [])"
| "partition_colon (c # s) =
     (if c = CHR '':'' then ([], s) else case partition_colon s of (a, b) \<Rightarrow> (c # a, b))"

text \<open>The model id of \<open>update_stock\<close>: zero when it is missing or no number.\<close>

definition stock_model_id :: "pyval \<Rightarrow> exc + int" where
  "stock_model_id platform_sku =
     sbnd (has_colon platform_sku) (\<lambda>c.
       if \<not> c then Inr 0
       else case platform_sku of
         PStr s \<Rightarrow> (case py_int (PStr (snd (partition_colon s))) of Inr n \<Rightarrow> Inr n | Inl _ \<Rightarrow> Inr 0)
       | _ \<Rightarrow> Inl (PyError CAttributeError (type_name platform_sku)))"

text \<open>A flash sale refuses the update, and that is not an error.\<close>

definition skip_flash_sale :: "('x world, exc, unit) eff \<Rightarrow> ('x world, exc, unit) eff" where
  "skip_flash_sale m = catching m (\<lambda>e.
     case e of
       ShopeeError msg code \<Rightarrow>
         if code = Some ''error_item_is_on_flash_sale'' then ret () else throw e
     | _ \<Rightarrow> throw e)"

definition stock_body :: "pyval \<Rightarrow> int \<Rightarrow> exc + pyval" where
  "stock_body mapping qty =
     sbnd (py_item mapping ''platform_product_id'') (\<lambda>pid_raw.
     sbnd (py_item mapping ''platform_sku_id'') (\<lambda>sku.
     sbnd (case py_int pid_raw of
             Inl e \<Rightarrow> (if isinstance e CTypeError \<or> isinstance e CValueError
               then Inl (ShopeeError (''Invalid platform_product_id='' @ py_str pid_raw) None) else Inl e)
           | Inr n \<Rightarrow> Inr n) (\<lambda>item_id.
     sbnd (stock_model_id (py_or sku (PStr []))) (\<lambda>model_id.
       Inr (PDict [(''item_id'', PInt item_id), (''stock_list'', PList [PDict
         [(''model_id'', PInt model_id), (''normal_stock'', PInt (max 0 qty))]])])))))"

definition update_stock ::
  "'x services \<Rightarrow> settings \<Rightarrow> string \<Rightarrow> stock_update_request \<Rightarrow> ('x world, exc, unit) eff" where
  "update_stock S cfg shop req =
     (if MIDDLEWARE_DRY_RUN cfg then ret ()
      else bnd (get_by_platform_sku S ''shopee'' (su_sku req)) (\<lambda>mapping.
        if mapping = PNone then
          throw (ShopeeError (''No product_mapping for platform_sku='' @ opt_str (su_sku req)) None)
        else bnd (of_sum (stock_body mapping (su_quantity req))) (\<lambda>body.
          skip_flash_sale
            (bnd (shopee_request S cfg shop ''POST'' ''/api/v2/product/update_stock'' [] body True)
              (\<lambda>_. ret ())))))"

text \<open>\<open>update_price\<close> reads both ids from the platform SKU.\<close>

definition price_ids :: "string \<Rightarrow> exc + int \<times> int" where
  "price_ids platform_sku =
     (case partition_colon platform_sku of (item, model) \<Rightarrow>
        case sbnd (py_int (PStr item)) (\<lambda>i.
               sbnd (if model = [] then Inr 0 else py_int (PStr model)) (\<lambda>m. Inr (i, m))) of
          Inl e \<Rightarrow> Inl (ShopeeError (''Invalid platform_sku for price update: '' @ str_repr platform_sku) None)
        | Inr r \<Rightarrow> Inr r)"

definition update_price ::
  "'x services \<Rightarrow> settings \<Rightarrow> string \<Rightarrow> string \<Rightarrow> rat \<Rightarrow> ('x world, exc, unit) eff" where
  "update_price S cfg shop platform_sku price =
     (if MIDDLEWARE_DRY_RUN cfg then ret ()
      else bnd (of_sum (price_ids platform_sku)) (\<lambda>(item_id, model_id).
        skip_flash_sale
          (bnd (shopee_request S cfg shop ''POST'' ''/api/v2/product/update_price'' []
              (PDict [(''item_id'', PInt item_id), (''price_list'', PList [PDict
                [(''model_id'', PInt model_id), (''original_price'', PFloat price)]])]) True)
            (\<lambda>_. ret ()))))"

definition confirm_shipment ::
  "'x services \<Rightarrow> settings \<Rightarrow> string \<Rightarrow> string \<Rightarrow> string \<Rightarrow> ('x world, exc, unit) eff" where
  "confirm_shipment S cfg shop oid tracking_no =
     (if MIDDLEWARE_DRY_RUN cfg then ret ()
      else bnd (shopee_request S cfg shop ''POST'' ''/api/v2/logistics/ship_order'' []
          (PDict [(''order_sn'', PStr oid), (''pickup'', PDict [(''address_id'', PInt 0),
            (''pickup_time_id'', PStr []), (''tracking_number'', PStr tracking_no)])]) True) (\<lambda>_. ret ()))"

section \<open>What the connector leaves alone\<close>

lemma keeps_shopee_do [keeps_intros]:
  "keeps (on_db P) (shopee_do S cfg shop meth path params body auth)"
  unfolding shopee_do_def by (intro keeps_intros)

lemma keeps_shopee_call [keeps_intros]: "keeps (on_db P) fn \<Longrightarrow> keeps (on_db P) (shopee_call S fn)"
  unfolding shopee_call_def by (rule cb_call_keeps) (simp_all add: on_db_def)

lemma keeps_shopee_request [keeps_intros]:
  "keeps (on_db P) (shopee_request S cfg shop meth path params body auth)"
  unfolding shopee_request_def Let_def by (intro keeps_intros)

lemma keeps_get_order_detail [keeps_intros]: "keeps (on_db P) (get_order_detail S cfg shop oid)"
  unfolding get_order_detail_def by (auto intro!: keeps_intros)

lemma keeps_order_page [keeps_intros]: "keeps (on_db P) (order_page S cfg shop a b cursor)"
  unfolding order_page_def by (auto intro!: keeps_intros)

lemma keeps_orders_from [keeps_intros]: "keeps (on_db P) (orders_from S cfg shop day fuel cursor)"
  by (induction fuel arbitrary: cursor) (auto intro!: keeps_intros split: prod.split)

lemma keeps_get_orders_by_date [keeps_intros]: "keeps (on_db P) (get_orders_by_date S cfg shop fuel day)"
  unfolding get_orders_by_date_def by (rule keeps_intros)

lemma keeps_skip_flash_sale [keeps_intros]: "keeps P m \<Longrightarrow> keeps P (skip_flash_sale m)"
  unfolding skip_flash_sale_def by (intro keeps_intros) (auto intro: keeps_intros split: exc.split)

lemma keeps_update_stock [keeps_intros]: "keeps (on_db P) (update_stock S cfg shop req)"
  unfolding update_stock_def by (auto intro!: keeps_intros)

lemma keeps_update_price [keeps_intros]: "keeps (on_db P) (update_price S cfg shop sku price)"
  unfolding update_price_def by (auto intro!: keeps_intros split: prod.split)

lemma keeps_confirm_shipment [keeps_intros]: "keeps (on_db P) (confirm_shipment S cfg shop oid tn)"
  unfolding confirm_shipment_def by (auto intro!: keeps_intros)

section \<open>The connector interface\<close>

text \<open>\<open>BaseConnector\<close> of \<open>src/connectors/base.py\<close>, as its callers rely on it: no operation touches
  the tables, and in a dry run the two that write to the platform do nothing.\<close>

locale connector =
  fixes dry :: bool
    and detail :: "pyval \<Rightarrow> ('x world, exc, unified_order) eff"
    and by_date :: "nat \<Rightarrow> int \<Rightarrow> ('x world, exc, unified_order list option) eff"
    and stock :: "stock_update_request \<Rightarrow> ('x world, exc, unit) eff"
    and shipment :: "string \<Rightarrow> string \<Rightarrow> ('x world, exc, unit) eff"
  assumes detail_frame: "touches_no_table (detail sn)"
    and by_date_frame: "touches_no_table (by_date fuel day)"
    and stock_frame: "touches_no_table (stock req)"
    and shipment_frame: "touches_no_table (shipment oid tracking)"
    and stock_dry: "dry \<Longrightarrow> stock req w = (Inr (), w)"
    and shipment_dry: "dry \<Longrightarrow> shipment oid tracking w = (Inr (), w)"
begin

text \<open>A call that fetches an order and goes on with it works on the tables as they were before the
  fetch.\<close>

lemma detail_then:
  assumes "bnd (detail sn) f w = (r, w')"
  obtains e where "r = Inl e" "detail sn w = (Inl e, w')" "w_db w' = w_db w"
  | ord w1 where "detail sn w = (Inr ord, w1)" "w_db w1 = w_db w" "f ord w1 = (r, w')"
proof -
  obtain q w1 where q: "detail sn w = (q, w1)" by fastforce
  with detail_frame have d: "w_db w1 = w_db w" by (rule touches_no_tableD)
  show thesis
  proof (cases q)
    case (Inl e)
    with q d assms that(1) show thesis by (auto simp: bnd_def)
  next
    case (Inr ord)
    with q d assms that(2) show thesis by (auto simp: bnd_def)
  qed
qed

lemma dry_writes_skipped:
  assumes dry
  shows "bnd (stock req) (\<lambda>_. m) = m" and "bnd (shipment oid tracking) (\<lambda>_. m) = m"
  using assms by (simp_all add: bnd_def stock_dry shipment_dry)

end

interpretation shopee_port: connector "MIDDLEWARE_DRY_RUN cfg" "get_order_detail S cfg shop"
    "get_orders_by_date S cfg shop" "update_stock S cfg shop" "confirm_shipment S cfg shop"
  by unfold_locales
    ((intro touches_no_tableI keeps_intros) | simp add: update_stock_def confirm_shipment_def)+

section \<open>Platform SKUs\<close>

lemma partition_colon_append: "CHR '':'' \<notin> set a \<Longrightarrow> partition_colon (a @ CHR '':'' # b) = (a, b)"
  by (induction a) auto

lemma partition_colon_none: "CHR '':'' \<notin> set a \<Longrightarrow> partition_colon a = (a, [])"
  by (induction a) auto

lemma int_str_no_colon: "CHR '':'' \<notin> set (int_str n)"
proof -
  have "\<not> is_digit CHR '':''" by (simp add: is_digit_def)
  then have "CHR '':'' \<notin> set (nat_digits m)" if "0 \<le> m" for m
    using nat_digits_digit [of m] that by (auto simp: list_all_iff)
  then show ?thesis by (auto simp: int_str_def)
qed

lemma py_int_int_str: "py_int (PStr (int_str n)) = Inr n"
  by (simp add: py_int_def int_of_str_int_str)

lemma int_str_nonempty: "int_str n \<noteq> []"
  using nat_digits_nonempty by (auto simp: int_str_def)

text \<open>The platform SKU of a listing is read back as it is written: \<open>item:model\<close> gives the two
  ids, a bare \<open>item\<close> gives model zero, and the price update and the stock update read the same
  model id.\<close>

theorem platform_sku_roundtrip:
  "price_ids (int_str item @ '':'' @ int_str model) = Inr (item, model) \<and>
   price_ids (int_str item) = Inr (item, 0) \<and>
   stock_model_id (PStr (int_str item @ '':'' @ int_str model)) = Inr model \<and>
   stock_model_id (PStr (int_str item)) = Inr 0"
  by (simp add: price_ids_def stock_model_id_def has_colon_def partition_colon_append
      partition_colon_none int_str_no_colon py_int_int_str int_str_nonempty)

section \<open>Listing a day\<close>

text \<open>The pages the platform serves from a cursor on: how many, and the orders in their order.\<close>

inductive listing ::
  "'x services \<Rightarrow> settings \<Rightarrow> string \<Rightarrow> int \<Rightarrow> pyval \<Rightarrow> 'x world \<Rightarrow> nat \<Rightarrow> unified_order list \<Rightarrow> 'x world \<Rightarrow> bool"
  for S :: "'x services" and cfg shop day where
  last: "order_page S cfg shop (day * 86400) (day * 86400 + 86399) cursor w = (Inr (os, resp), w') \<Longrightarrow>
     py_get resp ''more'' PNone = Inr m \<Longrightarrow> \<not> truthy m \<Longrightarrow> listing S cfg shop day cursor w 1 os w'"
| next_page: "order_page S cfg shop (day * 86400) (day * 86400 + 86399) cursor w = (Inr (os, resp), w1) \<Longrightarrow>
     py_get resp ''more'' PNone = Inr m \<Longrightarrow> truthy m \<Longrightarrow>
     py_get resp ''next_cursor'' (PStr []) = Inr nxt \<Longrightarrow> listing S cfg shop day nxt w1 n rest w' \<Longrightarrow>
     listing S cfg shop day cursor w (Suc n) (os @ rest) w'"

lemma listing_pos: "listing S cfg shop day cursor w n os w' \<Longrightarrow> 0 < n"
  by (induction rule: listing.induct) auto

lemma listing_runs:
  "listing S cfg shop day cursor w n os w' \<Longrightarrow> n \<le> fuel \<Longrightarrow>
   orders_from S cfg shop day fuel cursor w = (Inr (Some os), w')"
proof (induction arbitrary: fuel rule: listing.induct)
  case (last cursor w os resp w' m)
  then obtain f where "fuel = Suc f" by (cases fuel) auto
  with last show ?case by simp
next
  case (next_page cursor w os resp w1 m nxt n rest w')
  then obtain f where "fuel = Suc f" "n \<le> f" by (cases fuel) auto
  with next_page show ?case by simp
qed

lemma runs_listing:
  "orders_from S cfg shop day fuel cursor w = (Inr (Some os), w') \<Longrightarrow>
   \<exists>n \<le> fuel. listing S cfg shop day cursor w n os w'"
proof (induction fuel arbitrary: cursor w os)
  case (Suc fuel)
  from Suc.prems obtain os1 resp w1 m where
    page: "order_page S cfg shop (day * 86400) (day * 86400 + 86399) cursor w = (Inr (os1, resp), w1)"
    and more: "py_get resp ''more'' PNone = Inr m"
    by (auto simp: bnd_eq_Inr split: prod.splits)
  show ?case
  proof (cases "truthy m")
    case False
    with Suc.prems page more listing.last [OF page more False] show ?thesis
      by (intro exI [of _ 1]) auto
  next
    case True
    with Suc.prems page more obtain nxt rest where
      n: "py_get resp ''next_cursor'' (PStr []) = Inr nxt"
      and r: "orders_from S cfg shop day fuel nxt w1 = (Inr (Some rest), w')" "os = os1 @ rest"
      by (auto simp: bnd_eq_Inr map_option_case split: option.splits)
    from Suc.IH [OF r(1)] obtain k where "k \<le> fuel" "listing S cfg shop day nxt w1 k rest w'" by blast
    with listing.next_page [OF page more True n] r(2) show ?thesis
      by (intro exI [of _ "Suc k"]) auto
  qed
qed simp


section \<open>A concrete platform\<close>

text \<open>Services with a valid cached token, and a platform that always answers \<open>data\<close>.\<close>

definition shop_services :: "pyval \<Rightarrow> rat services" where
  "shop_services data = null_services
     \<lparr>sv_get := (\<lambda>k x. (Inr (if startswith k ''shopee:token:'' then Some ''t'' else None), x)),
      sv_http := (\<lambda>_ _ _ _ x. (Inr \<lparr>hr_status = 200, hr_headers = [], hr_json = Inr data\<rparr>, x))\<rparr>"

lemma shop_services_simps [simp]:
  "sv_now (shop_services data) = (\<lambda>t. t)"
  "sv_execute_kw (shop_services data) = sv_execute_kw null_services"
  by (simp_all add: shop_services_def null_services_def)

lemma fresh_shopee_breaker:
  "gate now shopee_breaker = (Inr (), shopee_breaker)" "record_success shopee_breaker = shopee_breaker"
  by (simp_all add: gate_def maybe_transition_to_half_open_def record_success_def shopee_breaker_def
      new_breaker_def)

text \<open>A cached token and a platform that answers \<open>data\<close>: so does every request.\<close>

lemma request_answers:
  assumes "w_shopee_breaker w = shopee_breaker" and "py_get data ''error'' PNone = Inr e" "\<not> truthy e"
    and "sv_http S = (\<lambda>_ _ _ _ x. (Inr \<lparr>hr_status = 200, hr_headers = [], hr_json = Inr data\<rparr>, x))"
    and "\<And>x. sv_get S (token_key ''access'' shop) x = (Inr (Some ''t''), x)"
  shows "shopee_request S cfg shop meth path params body True w = (Inr data, w)"
proof -
  have w: "w\<lparr>w_shopee_breaker := shopee_breaker\<rparr> = w"
    using assms(1) by (metis world.surjective world.update_convs(3))
  have "get_access_token S cfg shop w = (Inr (PStr ''t''), w)"
    by (simp add: get_access_token_def bnd_def ext_def assms(5))
  then have "shopee_do S cfg shop meth path params body True w = (Inr data, w)"
    using assms(2,3) by (simp add: shopee_do_def bnd_def ext_def shopee_answer_def assms(4) split: prod.split)
  then have "shopee_call S (shopee_do S cfg shop meth path params body True) w = (Inr data, w)"
    by (simp only: shopee_call_def cb_call_def assms(1) fresh_shopee_breaker prod.case sum.case w)
  then show ?thesis by (simp add: shopee_request_def Let_def)
qed

lemma shop_request_answers:
  assumes "w_shopee_breaker w = shopee_breaker" and "py_get data ''error'' PNone = Inr e" "\<not> truthy e"
  shows "shopee_request (shop_services data) cfg shop meth path params body True w = (Inr data, w)"
  by (rule request_answers [OF assms]) (simp_all add: shop_services_def token_key_def startswith_def)

text \<open>The paging loop has no other exit than the platform's word. A platform that answers
  \<open>more\<close> without a next cursor keeps it running for ever, on the first page.\<close>

theorem orders_by_date_may_not_end:
  "get_orders_by_date (shop_services (PDict [(''response'', PDict [(''more'', PBool True)])]))
     dev_settings ''9'' fuel day (null_world empty_db 0) = (Inr None, null_world empty_db 0)"
proof -
  let ?d = "PDict [(''response'', PDict [(''more'', PBool True)])]"
  have req: "shopee_request (shop_services ?d) cfg shop meth path params body True (null_world empty_db 0) =
      (Inr ?d, null_world empty_db 0)" for cfg shop meth path params body
    by (rule shop_request_answers [where e = PNone]) (simp_all add: py_get_def)
  have "order_page (shop_services ?d) dev_settings ''9'' a b c (null_world empty_db 0) =
      (Inr ([], PDict [(''more'', PBool True)]), null_world empty_db 0)" for a b c
    by (simp add: order_page_def bnd_def req py_item_def py_get_def py_iter_def)
  then have "orders_from (shop_services ?d) dev_settings ''9'' day fuel c (null_world empty_db 0) =
      (Inr None, null_world empty_db 0)" for c
    by (induction fuel arbitrary: c) (simp_all add: bnd_def py_get_def)
  then show ?thesis by (simp add: get_orders_by_date_def)
qed

end
