(* ===== verification/Webhooks.thy ===== *)
theory Webhooks
  imports Outbox Signing Pystr
begin

text \<open>
  The webhook receiver \<open>src/api/routers/webhooks.py\<close>: signature check, replay check, audit row,
  outbox row, nonce, and the publication that runs after the response. The handler's database
  session is one transaction: what is added to it is stored at its commit or, when anything raises
  before, not at all. \<open>json_loads\<close> is the codec on the raw bytes.
\<close>

definition EVENT_TYPE_MAP :: "(int \<times> string) list" where
  "EVENT_TYPE_MAP = [(3, ''order''), (4, ''logistics''), (15, ''stock'')]"

text \<open>\<open>EVENT_TYPE_MAP.get(code, "unknown")\<close>: a float or a bool finds the equal integer, a list or
  a dictionary is no key.\<close>

definition event_type_of :: "pyval \<Rightarrow> exc + string" where
  "event_type_of code =
     (let get = (\<lambda>n. case map_of EVENT_TYPE_MAP n of None \<Rightarrow> ''unknown'' | Some t \<Rightarrow> t)
      in case code of
        PInt n \<Rightarrow> Inr (get n)
      | PBool b \<Rightarrow> Inr (get (if b then 1 else 0))
      | PFloat x \<Rightarrow> Inr (if x = of_int \<lfloor>x\<rfloor> then get \<lfloor>x\<rfloor> else ''unknown'')
      | PList _ \<Rightarrow> Inl (PyError CTypeError ''unhashable type: list'')
      | PDict _ \<Rightarrow> Inl (PyError CTypeError ''unhashable type: dict'')
      | _ \<Rightarrow> Inr ''unknown'')"

definition nonce_key :: "string \<Rightarrow> string" where
  "nonce_key signature = ''webhook:nonce:shopee:'' @ take 32 signature"

definition is_replay :: "'x services \<Rightarrow> string \<Rightarrow> ('x world, exc, bool) eff" where
  "is_replay S signature =
     catching (bnd (ext (sv_exists S (nonce_key signature))) (\<lambda>n. ret (n = 1)))
       (\<lambda>e. if isinstance e CRedisError then
              query (\<lambda>d. Inr (\<exists>l \<in> set (db_event_log d).
                el_signature l = Some signature \<and> el_signature_valid l))
            else throw e)"

definition mark_processed :: "'x services \<Rightarrow> string \<Rightarrow> ('x world, exc, unit) eff" where
  "mark_processed S signature =
     catching (ext (sv_setex S (nonce_key signature) 300 ''1''))
       (\<lambda>e. if isinstance e CRedisError then ret () else throw e)"

text \<open>\<open>db.add(WebhookEventLog(...))\<close>, with the columns' limits.\<close>

definition add_event_log ::
  "string option \<Rightarrow> bool \<Rightarrow> char list \<Rightarrow> pyval \<Rightarrow> pyval \<Rightarrow> int option \<Rightarrow> string option \<Rightarrow> string option \<Rightarrow>
     instant \<Rightarrow> db \<Rightarrow> exc + unit \<times> db" where
  "add_event_log signature valid body code order_sn outbox_id client err now d =
     sbnd (text_column 255 (opt_val signature)) (\<lambda>sig.
     sbnd (int_column code) (\<lambda>_.
     sbnd (text_column 100 order_sn) (\<lambda>oid.
       Inr ((), d\<lparr>db_event_log := db_event_log d @
           [\<lparr>el_id = db_next_id d, el_platform = ''shopee'', el_received_at = now,
             el_source_ip = client, el_signature = sig, el_signature_valid = valid,
             el_body_raw = body, el_body_size = int (length body), el_event_code = code,
             el_platform_order_id = oid, el_outbox_id = outbox_id, el_parse_error = err\<rparr>],
         db_next_id := db_next_id d + 1\<rparr>))))"

text \<open>The outbox row, flushed for its id, and the audit row that refers to it.\<close>

definition ingest ::
  "string option \<Rightarrow> char list \<Rightarrow> string \<Rightarrow> pyval \<Rightarrow> pyval \<Rightarrow> pyval \<Rightarrow> string option \<Rightarrow>
     instant \<Rightarrow> db \<Rightarrow> exc + int \<times> db" where
  "ingest signature body event_type code order_sn payload client now d =
     sbnd (text_column 255 (opt_val signature)) (\<lambda>sig.
     sbnd (int_column code) (\<lambda>_.
     sbnd (text_column 100 order_sn) (\<lambda>oid.
       (case add_outbox ''shopee'' event_type code oid payload sig now d of
          (i, d1) \<Rightarrow>
            sbnd (add_event_log signature True body code order_sn (Some i) client None now d1)
              (\<lambda>(_, d2). Inr (i, d2))))))"

text \<open>The body of the \<open>try\<close>: payload, code and order number.\<close>

definition parse_event :: "exc + pyval \<Rightarrow> exc + pyval \<times> pyval \<times> pyval" where
  "parse_event loaded =
     sbnd loaded (\<lambda>payload.
     sbnd (py_get payload ''code'' PNone) (\<lambda>code.
     sbnd (py_get payload ''data'' (PDict [])) (\<lambda>d.
     let data = py_or d (PDict [])
     in sbnd (py_get data ''ordersn'' PNone) (\<lambda>sn.
        sbnd (if truthy sn then Inr sn else py_get data ''order_sn'' PNone) (\<lambda>order_sn.
          Inr (payload, code, order_sn))))))"

datatype webhook_reply = Accepted | Replayed

text \<open>The header the signature is taken from.\<close>

definition webhook_signature :: "string option \<Rightarrow> string option \<Rightarrow> string option" where
  "webhook_signature authorization x_shopee_signature =
     (case authorization of None \<Rightarrow> x_shopee_signature
      | Some a \<Rightarrow> if a = [] then x_shopee_signature else Some a)"

definition sig_text :: "string option \<Rightarrow> string" where
  "sig_text s = (case s of None \<Rightarrow> [] | Some t \<Rightarrow> t)"

definition signature_valid ::
  "settings \<Rightarrow> char list \<Rightarrow> string option \<Rightarrow> exc + bool" where
  "signature_valid cfg body signature =
     verify_webhook (SHOPEE_WEBHOOK_URL cfg) body (sig_text signature) (SHOPEE_PARTNER_KEY cfg)"

text \<open>The three ends of the handler: the reply, and the outbox row whose publication is left to
  the background.\<close>

definition log_only ::
  "'x services \<Rightarrow> string option \<Rightarrow> bool \<Rightarrow> char list \<Rightarrow> pyval \<Rightarrow> pyval \<Rightarrow> string option \<Rightarrow> string \<Rightarrow>
     ('x world, exc, webhook_reply \<times> int option) eff" where
  "log_only S signature valid body code order_sn client err =
     bnd (txn_e S (add_event_log signature valid body code order_sn None client (Some err)))
       (\<lambda>_. ret (Accepted, None))"

definition signed_webhook ::
  "'x services \<Rightarrow> char list \<Rightarrow> string option \<Rightarrow> string option \<Rightarrow>
     ('x world, exc, webhook_reply \<times> int option) eff" where
  "signed_webhook S body signature client =
     (let mark = (if sig_text signature \<noteq> [] then mark_processed S (sig_text signature) else ret ())
      in case parse_event (sv_json_loads S body) of
           Inl e \<Rightarrow>
             if isinstance e CValueError \<or> isinstance e CTypeError
             then log_only S signature True body PNone PNone client (exc_str e)
             else throw e
         | Inr (payload, code, order_sn) \<Rightarrow>
             bnd (of_sum (event_type_of code)) (\<lambda>event_type.
               if event_type = ''unknown'' then
                 bnd (log_only S signature True body code order_sn client
                        (''unknown_event_code='' @ py_str code)) (\<lambda>reply.
                 bnd mark (\<lambda>_. ret reply))
               else
                 bnd (txn_e S (ingest signature body event_type code order_sn payload client)) (\<lambda>i.
                 bnd mark (\<lambda>_. ret (Accepted, Some i)))))"

definition shopee_webhook ::
  "'x services \<Rightarrow> settings \<Rightarrow> char list \<Rightarrow> string option \<Rightarrow> string option \<Rightarrow> string option \<Rightarrow>
     ('x world, exc, webhook_reply \<times> int option) eff" where
  "shopee_webhook S cfg body authorization x_shopee_signature client =
     (let signature = webhook_signature authorization x_shopee_signature
      in bnd (of_sum (signature_valid cfg body signature)) (\<lambda>sig_valid.
         bnd (if sig_valid \<and> sig_text signature \<noteq> [] then is_replay S (sig_text signature)
              else ret False) (\<lambda>replay.
           if replay then ret (Replayed, None)
           else if \<not> sig_valid
           then log_only S signature False body PNone PNone client ''invalid_signature''
           else signed_webhook S body signature client)))"

text \<open>The request with its background task.\<close>

definition shopee_webhook_request ::
  "'x services \<Rightarrow> settings \<Rightarrow> (int \<Rightarrow> bool) \<Rightarrow> char list \<Rightarrow> string option \<Rightarrow> string option \<Rightarrow> string option \<Rightarrow>
     ('x world, exc, webhook_reply) eff" where
  "shopee_webhook_request S cfg locked body authorization x_shopee_signature client =
     bnd (shopee_webhook S cfg body authorization x_shopee_signature client) (\<lambda>(reply, task).
       case task of
         None \<Rightarrow> ret reply
       | Some i \<Rightarrow> bnd (try_publish_immediately S cfg locked i) (\<lambda>_. ret reply))"

section \<open>What is stored\<close>

lemma add_event_log_Inr:
  assumes "add_event_log sig valid body code sn oid client err now d = Inr (u, d')"
  shows "\<exists>l. d' = d\<lparr>db_event_log := db_event_log d @ [l], db_next_id := db_next_id d + 1\<rparr> \<and>
    el_signature l = sig \<and> el_signature_valid l = valid \<and> el_body_raw l = body \<and>
    el_outbox_id l = oid \<and> el_event_code l = code \<and> el_id l = db_next_id d"
  using assms
  by (auto simp: add_event_log_def sbnd_eq_Inr opt_val_def text_column_def split: option.splits if_splits)

lemma ingest_Inr:
  assumes "ingest sig body event_type code sn payload client now d = Inr (i, d')"
  shows "\<exists>r l. d' = d\<lparr>db_outbox := db_outbox d @ [r], db_event_log := db_event_log d @ [l],
      db_next_id := db_next_id d + 2\<rparr> \<and>
    i = db_next_id d \<and> ob_id r = i \<and> ob_platform r = ''shopee'' \<and> ob_event_type r = event_type \<and>
    ob_payload r = payload \<and> ob_status r = ''pending'' \<and> ob_retry_count r = 0 \<and>
    text_column 100 sn = Inr (ob_platform_order_id r) \<and>
    el_outbox_id l = Some i \<and> el_signature l = sig \<and> el_signature_valid l \<and> el_body_raw l = body"
proof -
  from assms obtain sg oid where s: "text_column 100 sn = Inr oid"
    "add_event_log sig True body code sn (Some (db_next_id d)) client None now
      (snd (add_outbox ''shopee'' event_type code oid payload sg now d)) = Inr ((), d')" "i = db_next_id d"
    by (auto simp: ingest_def sbnd_eq_Inr add_outbox_def)
  let ?D = "snd (add_outbox ''shopee'' event_type code oid payload sg now d)"
  let ?r = "last (db_outbox ?D)"
  from add_event_log_Inr [OF s(2)] obtain l where l:
    "d' = ?D\<lparr>db_event_log := db_event_log ?D @ [l], db_next_id := db_next_id ?D + 1\<rparr>"
    "el_outbox_id l = Some (db_next_id d)" "el_signature l = sig" "el_signature_valid l" "el_body_raw l = body"
    by blast
  show ?thesis
    by (rule exI [of _ ?r], rule exI [of _ l]) (use l s(1,3) in \<open>simp add: add_outbox_def\<close>)
qed

lemma webhook_invalid:
  "signature_valid cfg body (webhook_signature auth x_sig) = Inr False \<Longrightarrow>
   shopee_webhook S cfg body auth x_sig client w =
     log_only S (webhook_signature auth x_sig) False body PNone PNone client ''invalid_signature'' w"
  by (simp add: shopee_webhook_def Let_def bnd_def)

lemma webhook_valid:
  assumes "signature_valid cfg body (webhook_signature auth x_sig) = Inr True"
  shows "shopee_webhook S cfg body auth x_sig client w =
    bnd (is_replay S (sig_text (webhook_signature auth x_sig))) (\<lambda>replay.
      if replay then ret (Replayed, None)
      else signed_webhook S body (webhook_signature auth x_sig) client) w"
proof -
  have "sig_text (webhook_signature auth x_sig) \<noteq> []"
    using assms unfolding signature_valid_def verify_webhook_True by blast
  with assms show ?thesis by (simp add: shopee_webhook_def Let_def bnd_def)
qed

lemma log_only_effect:
  assumes "log_only S sig valid body code sn client err w = (r, w')"
  shows "w_ext w' = w_ext w \<and> ((\<exists>e. r = Inl e \<and> w' = w) \<or> r = Inr (Accepted, None) \<and>
    (\<exists>l. w_db w' = (w_db w)\<lparr>db_event_log := db_event_log (w_db w) @ [l], db_next_id := db_next_id (w_db w) + 1\<rparr> \<and>
      el_signature l = sig \<and> el_signature_valid l = valid \<and> el_outbox_id l = None))"
proof (cases "add_event_log sig valid body code sn None client (Some err) (now_w S w) (w_db w)")
  case (Inl e)
  with assms show ?thesis by (auto simp: log_only_def bnd_def txn_e_def now_w_def)
next
  case (Inr z)
  obtain u d where z: "z = (u, d)" by (cases z)
  with Inr assms have "r = Inr (Accepted, None)" "w' = w\<lparr>w_db := d\<rparr>"
    by (simp_all add: log_only_def bnd_def txn_e_def now_w_def)
  with add_event_log_Inr [OF Inr [unfolded z]] show ?thesis by fastforce
qed

text \<open>C10: a request whose signature does not verify reaches nothing but the audit log. It makes no
  call to Redis or any other service, leaves every other table as it is, starts no publication,
  and the only row it can add says that the signature was not valid.\<close>

theorem forged_webhook_isolated:
  assumes "signature_valid cfg body (webhook_signature auth x_sig) \<noteq> Inr True"
    and "shopee_webhook S cfg body auth x_sig client w = (r, w')"
  shows "w_ext w' = w_ext w \<and> (\<forall>t. r \<noteq> Inr (Accepted, Some t)) \<and>
    (w_db w' = w_db w \<or>
     (\<exists>l. w_db w' = (w_db w)\<lparr>db_event_log := db_event_log (w_db w) @ [l], db_next_id := db_next_id (w_db w) + 1\<rparr> \<and>
          \<not> el_signature_valid l \<and> el_outbox_id l = None))"
proof (cases "signature_valid cfg body (webhook_signature auth x_sig)")
  case (Inl e)
  with assms(2) have "r = Inl e" "w' = w" by (simp_all add: shopee_webhook_def Let_def)
  then show ?thesis by simp
next
  case (Inr v)
  with assms(1) have "signature_valid cfg body (webhook_signature auth x_sig) = Inr False" by simp
  from assms(2) [unfolded webhook_invalid [OF this]] log_only_effect show ?thesis by fastforce
qed

theorem forged_webhook_isolated_witness:
  "\<exists>r w'. shopee_webhook null_services dev_settings ''{}'' None (Some []) None (null_world empty_db 5) = (r, w') \<and>
     w_ext w' = 5 \<and> db_outbox (w_db w') = []"
proof -
  have v: "signature_valid dev_settings ''{}'' (webhook_signature None (Some [])) \<noteq> Inr True"
    by (simp add: signature_valid_def verify_webhook_True sig_text_def webhook_signature_def)
  obtain r w' where run: "shopee_webhook null_services dev_settings ''{}'' None (Some []) None (null_world empty_db 5) = (r, w')"
    by fastforce
  from forged_webhook_isolated [OF v run] have "w_ext w' = 5" "db_outbox (w_db w') = []"
    by (auto simp: empty_db_def)
  with run show ?thesis by blast
qed

text \<open>What a correctly signed delivery of a known event stores.\<close>

lemma signed_webhook_known:
  assumes "parse_event (sv_json_loads S body) = Inr (payload, code, sn)"
    and "event_type_of code = Inr event_type" "event_type \<noteq> ''unknown''"
    and "signed_webhook S body sig client w = (Inr (reply, task), w')"
  shows "reply = Accepted \<and> (\<exists>i. task = Some i \<and>
    ingest sig body event_type code sn payload client (now_w S w) (w_db w) = Inr (i, w_db w'))"
proof (cases "ingest sig body event_type code sn payload client (now_w S w) (w_db w)")
  case (Inl e)
  with assms show ?thesis by (simp add: signed_webhook_def bnd_def txn_e_def now_w_def)
next
  case (Inr z)
  obtain i d where z: "z = (i, d)" by fastforce
  let ?mark = "if sig_text sig \<noteq> [] then mark_processed S (sig_text sig) else ret ()"
  have k: "keeps (on_db (\<lambda>d'. d' = d)) ?mark"
    unfolding mark_processed_def by (intro keeps_intros)
  obtain rm wm where m: "?mark (w\<lparr>w_db := d\<rparr>) = (rm, wm)" by fastforce
  with keepsD [OF k m] have "w_db wm = d" by (simp add: on_db_def)
  moreover have "bnd ?mark (\<lambda>_. ret (Accepted, Some i)) (w\<lparr>w_db := d\<rparr>) = (Inr (reply, task), w')"
    using assms Inr z by (simp add: signed_webhook_def Let_def bnd_def txn_e_def now_w_def)
  ultimately show ?thesis
    using m Inr z by (cases rm) (auto simp: bnd_def)
qed

text \<open>A signed delivery: the header a holder of the key sends.\<close>

definition signed_header :: "settings \<Rightarrow> char list \<Rightarrow> string" where
  "signed_header cfg body =
     hexdigest (hmac_sha256 (utf8 (SHOPEE_PARTNER_KEY cfg)) (utf8 (SHOPEE_WEBHOOK_URL cfg) @ body))"

lemma signed_header_valid:
  "signature_valid dev_settings body (webhook_signature (Some (signed_header dev_settings body)) None) = Inr True"
proof -
  have "length (signed_header dev_settings body) = 64" by (simp add: signed_header_def length_signature)
  then have "signed_header dev_settings body \<noteq> []" by auto
  moreover have "SHOPEE_WEBHOOK_URL dev_settings \<noteq> []" by (simp add: dev_settings_def)
  ultimately show ?thesis
    unfolding signature_valid_def verify_webhook_True
    by (simp add: webhook_signature_def sig_text_def) (simp add: signed_header_def)
qed

lemma webhook_stored:
  assumes "signature_valid cfg body (webhook_signature auth x_sig) = Inr True"
    and "parse_event (sv_json_loads S body) = Inr (payload, code, sn)"
    and "event_type_of code = Inr event_type" "event_type \<noteq> ''unknown''"
    and "shopee_webhook S cfg body auth x_sig client w = (Inr (Accepted, task), w')"
  shows "\<exists>r l. w_db w' = (w_db w)\<lparr>db_outbox := db_outbox (w_db w) @ [r],
      db_event_log := db_event_log (w_db w) @ [l], db_next_id := db_next_id (w_db w) + 2\<rparr> \<and>
    task = Some (ob_id r) \<and> ob_id r = db_next_id (w_db w) \<and> ob_platform r = ''shopee'' \<and> ob_status r = ''pending'' \<and> ob_event_type r = event_type \<and>
    ob_payload r = payload \<and> text_column 100 sn = Inr (ob_platform_order_id r) \<and>
    el_outbox_id l = Some (ob_id r) \<and> el_signature_valid l \<and> el_body_raw l = body"
proof -
  let ?sig = "webhook_signature auth x_sig"
  have k: "keeps (on_db (\<lambda>d. d = w_db w)) (is_replay S (sig_text ?sig))"
    unfolding is_replay_def by (intro keeps_intros)
  obtain rr w1 where rep: "is_replay S (sig_text ?sig) w = (rr, w1)" by fastforce
  have d1: "w_db w1 = w_db w" using keepsD [OF k rep] by (simp add: on_db_def)
  have "rr = Inr False" and run: "signed_webhook S body ?sig client w1 = (Inr (Accepted, task), w')"
    using assms(5) rep unfolding webhook_valid [OF assms(1)]
    by (auto simp: bnd_def split: sum.splits if_splits)
  from signed_webhook_known [OF assms(2-4) run] obtain i where i: "task = Some i"
    "ingest ?sig body event_type code sn payload client (now_w S w1) (w_db w) = Inr (i, w_db w')"
    using d1 by auto
  from ingest_Inr [OF i(2)] i(1) show ?thesis
    by - (elim exE conjE, intro exI conjI, assumption, simp_all)
qed

text \<open>C11: an accepted delivery of a known event is durable before it is answered: exactly one
  outbox row, pending and due, with the event's type, payload and order number, and one audit row
  that refers to it, in one transaction; the publication started for it is that of this row.\<close>

theorem accepted_webhook_stored:
  assumes "signature_valid cfg body (webhook_signature auth x_sig) = Inr True"
    and "parse_event (sv_json_loads S body) = Inr (payload, code, sn)"
    and "event_type_of code = Inr event_type" "event_type \<noteq> ''unknown''"
    and "shopee_webhook S cfg body auth x_sig client w = (Inr (Accepted, task), w')"
  shows "\<exists>r l. w_db w' = (w_db w)\<lparr>db_outbox := db_outbox (w_db w) @ [r],
      db_event_log := db_event_log (w_db w) @ [l], db_next_id := db_next_id (w_db w) + 2\<rparr> \<and>
    task = Some (ob_id r) \<and> ob_status r = ''pending'' \<and> ob_event_type r = event_type \<and>
    ob_payload r = payload \<and> text_column 100 sn = Inr (ob_platform_order_id r) \<and>
    el_outbox_id l = Some (ob_id r) \<and> el_signature_valid l \<and> el_body_raw l = body"
  using webhook_stored [OF assms] by blast

definition order_event :: pyval where
  "order_event = PDict [(''code'', PInt 3), (''data'', PDict [(''ordersn'', PStr ''A1'')])]"

definition hook_services :: "pyval \<Rightarrow> rat services" where
  "hook_services payload = null_services\<lparr>sv_json_loads := (\<lambda>_. Inr payload)\<rparr>"

lemma hook_run:
  "\<exists>t w'. shopee_webhook (hook_services order_event) dev_settings ''b'' (Some (signed_header dev_settings ''b'')) None None
     (null_world empty_db 5) = (Inr (Accepted, t), w')"
proof -
  let ?sig = "webhook_signature (Some (signed_header dev_settings ''b'')) None"
  have len: "length (signed_header dev_settings ''b'') = 64"
    using length_signature by (simp add: signed_header_def)
  then have "signed_header dev_settings ''b'' \<noteq> []" by auto
  then have sig: "?sig = Some (signed_header dev_settings ''b'')" by (simp add: webhook_signature_def)
  show ?thesis
    unfolding webhook_valid [OF signed_header_valid] sig
    using len
    by (simp add: is_replay_def hook_services_def null_services_def catching_def bnd_def ext_def
        signed_webhook_def parse_event_def order_event_def py_get_def py_or_def Let_def event_type_of_def
        EVENT_TYPE_MAP_def txn_e_def ingest_def text_column_def int_column_def opt_val_def add_outbox_def
        add_event_log_def sig_text_def mark_processed_def)
qed

theorem accepted_webhook_stored_witness:
  "\<exists>t w'. shopee_webhook (hook_services order_event) dev_settings ''b'' (Some (signed_header dev_settings ''b'')) None None
     (null_world empty_db 5) = (Inr (Accepted, t), w') \<and>
     (\<exists>r. db_outbox (w_db w') = [r] \<and> t = Some (ob_id r) \<and> ob_event_type r = ''order'')"
proof -
  obtain t w' where run: "shopee_webhook (hook_services order_event) dev_settings ''b''
      (Some (signed_header dev_settings ''b'')) None None (null_world empty_db 5) = (Inr (Accepted, t), w')"
    using hook_run by blast
  have p: "parse_event (sv_json_loads (hook_services order_event) ''b'') = Inr (order_event, PInt 3, PStr ''A1'')"
    by (simp add: hook_services_def parse_event_def order_event_def py_get_def py_or_def)
  have e: "event_type_of (PInt 3) = Inr ''order''"
    by (simp add: event_type_of_def EVENT_TYPE_MAP_def)
  have "\<exists>r. db_outbox (w_db w') = [r] \<and> t = Some (ob_id r) \<and> ob_event_type r = ''order''"
    using accepted_webhook_stored [OF signed_header_valid p e _ run] by (auto simp: empty_db_def)
  with run show ?thesis by blast
qed



text \<open>A correctly signed body that is JSON but no object is lost without a trace: the handler
  raises, the request fails, and neither the outbox nor the audit log has a row for it.\<close>

theorem signed_non_object_lost:
  "shopee_webhook (hook_services (PList [])) dev_settings body (Some (signed_header dev_settings body)) None client
     (null_world d now) = (Inl (PyError CAttributeError ''list''), null_world d now)"
proof -
  have parse: "parse_event (sv_json_loads (hook_services (PList [])) body) = Inl (PyError CAttributeError ''list'')"
    by (simp add: hook_services_def parse_event_def py_get_def type_name_def)
  have "is_replay (hook_services (PList [])) s (null_world d now) = (Inr False, null_world d now)" for s
    by (simp add: is_replay_def hook_services_def null_services_def catching_def bnd_def ext_def null_world_def)
  then show ?thesis
    unfolding webhook_valid [OF signed_header_valid]
    by (simp add: bnd_def signed_webhook_def parse Let_def isinstance_def)
qed

end
