(* ===== verification/Reconciliation.thy ===== *)
theory Reconciliation
  imports Orders Shopee Alerts "HOL-Library.Multiset"
begin

text \<open>
  \<open>ReconciliationService\<close> of \<open>src/services/reconciliation_service.py\<close>: the nightly comparison of
  a day's platform orders with the order table and with Odoo, the repair of the missing ones, and
  the log row. A set of ids is iterated in the order of its list here; the lookups do not depend
  on it. \<open>dec_text\<close> is \<open>str\<close> of a \<open>Decimal\<close>, and days are counted from the epoch.
\<close>

definition AUTO_FIX_STATUSES :: "order_status list" where
  "AUTO_FIX_STATUSES = [CONFIRMED, PROCESSING]"

definition DRIFT_TOTAL_TOLERANCE_VND :: rat where "DRIFT_TOTAL_TOLERANCE_VND = 1000"

definition IN_CHUNK_SIZE :: nat where "IN_CHUNK_SIZE = 500"

record drift =
  df_platform :: string
  df_platform_order_id :: string
  df_field :: string
  df_platform_value :: pyval
  df_odoo_value :: pyval

record missing_detail =
  md_platform_order_id :: string
  md_status :: order_status
  md_total_amount :: string
  md_reason :: string

record recon_result =
  rr_platform :: string
  rr_run_date :: int
  rr_orders_checked :: int
  rr_orders_matched :: int
  rr_orders_missing :: int
  rr_orders_extra :: int
  rr_auto_fixed :: int
  rr_needs_review :: int
  rr_drifts :: "drift list"
  rr_missing_details :: "missing_detail list"

definition empty_result :: "string \<Rightarrow> int \<Rightarrow> recon_result" where
  "empty_result platform run_date = \<lparr>rr_platform = platform, rr_run_date = run_date,
     rr_orders_checked = 0, rr_orders_matched = 0, rr_orders_missing = 0, rr_orders_extra = 0,
     rr_auto_fixed = 0, rr_needs_review = 0, rr_drifts = [], rr_missing_details = []\<rparr>"

section \<open>Lookups\<close>

definition is_synced :: "string \<Rightarrow> string list \<Rightarrow> order_mapping \<Rightarrow> bool" where
  "is_synced platform ids m \<longleftrightarrow>
     om_platform m = platform \<and> om_platform_order_id m \<in> set ids \<and> om_status m = ''success''"

definition lookup_synced_ids :: "string \<Rightarrow> string list \<Rightarrow> db \<Rightarrow> string set" where
  "lookup_synced_ids platform ids d =
     foldl (\<lambda>found chunk.
         found \<union> om_platform_order_id ` set (filter (is_synced platform chunk) (db_orders d)))
       {} (chunks IN_CHUNK_SIZE ids)"

definition lookup_synced_ids_for_date :: "string \<Rightarrow> int \<Rightarrow> db \<Rightarrow> string set" where
  "lookup_synced_ids_for_date platform run_date d =
     (let day_start = of_int (run_date * 86400); day_end = day_start + 86400
      in om_platform_order_id ` set [m \<leftarrow> db_orders d. om_platform m = platform \<and>
           om_status m = ''success'' \<and> day_start \<le> om_created_at m \<and> om_created_at m < day_end])"

definition load_drift_mappings :: "string \<Rightarrow> string list \<Rightarrow> db \<Rightarrow> order_mapping list" where
  "load_drift_mappings platform ids d =
     foldl (\<lambda>out chunk. out @ filter (is_synced platform chunk) (db_orders d)) []
       (chunks IN_CHUNK_SIZE ids)"

section \<open>Repair and drift\<close>

definition try_auto_fix ::
  "'x services \<Rightarrow> settings \<Rightarrow> nat \<Rightarrow> unified_order \<Rightarrow> ('x world, exc, bool) eff" where
  "try_auto_fix S cfg c ord =
     (if uo_status ord \<notin> set AUTO_FIX_STATUSES then ret False
      else if MIDDLEWARE_DRY_RUN cfg then ret False
      else catching
        (bnd (sync S cfg c ord) (\<lambda>outcome.
           ret (case outcome of SyncSuccess _ _ \<Rightarrow> True | SyncSkipped _ \<Rightarrow> False)))
        (\<lambda>e. ret False))"

text \<open>\<open>synced.get(id)\<close> on the dictionary of the synced orders: of two with one id the last.\<close>

definition synced_order :: "unified_order list \<Rightarrow> string set \<Rightarrow> string \<Rightarrow> unified_order option" where
  "synced_order orders synced i =
     first_row (\<lambda>ord. uo_platform_order_id ord = i \<and> i \<in> synced) (rev orders)"

text \<open>The comparison of one platform order with its row in Odoo.\<close>

definition order_drifts ::
  "(rat \<Rightarrow> string) \<Rightarrow> string \<Rightarrow> unified_order \<Rightarrow> pyval \<Rightarrow> exc + drift list" where
  "order_drifts dec_text platform pf odoo_row =
     sbnd (py_get odoo_row ''amount_total'' PNone) (\<lambda>amount.
     sbnd (py_decimal (py_or amount (PInt 0))) (\<lambda>odoo_amount.
     sbnd (py_get odoo_row ''x_tracking_number'' PNone) (\<lambda>tn.
       let pf_tracking = order_tracking pf;
           odoo_tracking = py_or tn PNone
       in Inr ((if DRIFT_TOTAL_TOLERANCE_VND < \<bar>dec (uo_total_amount pf - odoo_amount)\<bar>
           then [\<lparr>df_platform = platform, df_platform_order_id = uo_platform_order_id pf,
                  df_field = ''total_amount'', df_platform_value = PStr (dec_text (uo_total_amount pf)),
                  df_odoo_value = PStr (dec_text odoo_amount)\<rparr>] else []) @
          (if truthy pf_tracking \<and> pf_tracking \<noteq> odoo_tracking
           then [\<lparr>df_platform = platform, df_platform_order_id = uo_platform_order_id pf,
                  df_field = ''tracking_number'', df_platform_value = pf_tracking,
                  df_odoo_value = odoo_tracking\<rparr>] else [])))))"

definition mapping_drifts ::
  "'x services \<Rightarrow> settings \<Rightarrow> nat \<Rightarrow> (rat \<Rightarrow> string) \<Rightarrow> string \<Rightarrow> unified_order list \<Rightarrow> string set \<Rightarrow>
     order_mapping \<Rightarrow> drift list \<Rightarrow> ('x world, exc, drift list) eff" where
  "mapping_drifts S cfg c dec_text platform orders synced m drifts =
     (case om_odoo_order_id m of
        None \<Rightarrow> ret drifts
      | Some i \<Rightarrow>
          if i = 0 then ret drifts
          else
            bnd (catching (search_read S cfg c ''sale.order'' [cond_eq ''id'' (PInt i)]
                   [''amount_total'', ''state'', ''x_tracking_number''] (Some 1)) (\<lambda>e. ret PNone)) (\<lambda>rows.
              if \<not> truthy rows then ret drifts
              else bnd (of_sum (py_head rows)) (\<lambda>odoo_row.
                   case synced_order orders synced (om_platform_order_id m) of
                     None \<Rightarrow> ret drifts
                   | Some pf \<Rightarrow>
                       bnd (of_sum (order_drifts dec_text platform pf odoo_row)) (\<lambda>ds.
                         ret (drifts @ ds)))))"

definition check_field_drift ::
  "'x services \<Rightarrow> settings \<Rightarrow> nat \<Rightarrow> (rat \<Rightarrow> string) \<Rightarrow> string \<Rightarrow> unified_order list \<Rightarrow> string set \<Rightarrow>
     order_mapping list \<Rightarrow> ('x world, exc, drift list) eff" where
  "check_field_drift S cfg c dec_text platform orders synced mappings =
     (if (\<forall>ord \<in> set orders. uo_platform_order_id ord \<notin> synced) \<or> mappings = [] then ret []
      else fold_eff (mapping_drifts S cfg c dec_text platform orders synced) mappings [])"

section \<open>A run\<close>

definition details_json :: "recon_result \<Rightarrow> pyval" where
  "details_json r = PDict
     [(''missing'', PList (map (\<lambda>m. PDict [(''platform_order_id'', PStr (md_platform_order_id m)),
         (''status'', PStr (status_value (md_status m))), (''total_amount'', PStr (md_total_amount m)),
         (''reason'', PStr (md_reason m))]) (rr_missing_details r))),
      (''drifts'', PList (map (\<lambda>x. PDict [(''platform'', PStr (df_platform x)),
         (''platform_order_id'', PStr (df_platform_order_id x)), (''field'', PStr (df_field x)),
         (''platform_value'', df_platform_value x), (''odoo_value'', df_odoo_value x)]) (rr_drifts r)))]"

definition log_row :: "recon_result \<Rightarrow> reconciliation_log" where
  "log_row r = \<lparr>rl_platform = rr_platform r, rl_run_date = rr_run_date r,
     rl_orders_checked = rr_orders_checked r, rl_orders_matched = rr_orders_matched r,
     rl_orders_missing = rr_orders_missing r, rl_orders_extra = rr_orders_extra r,
     rl_auto_fixed = rr_auto_fixed r, rl_needs_review = rr_needs_review r, rl_details = details_json r\<rparr>"

definition persist :: "'x services \<Rightarrow> recon_result \<Rightarrow> ('x world, exc, unit) eff" where
  "persist S r = txn S (\<lambda>now d.
     ((), d\<lparr>db_reconciliation := db_reconciliation d @ [log_row r]\<rparr>))"

definition fetch_platform_orders ::
  "'x services \<Rightarrow> settings \<Rightarrow> nat \<Rightarrow> string \<Rightarrow> int \<Rightarrow> ('x world, exc, unified_order list option) eff" where
  "fetch_platform_orders S cfg fuel platform run_date =
     (if platform \<noteq> ''shopee'' then ret (Some [])
      else get_orders_by_date S cfg (SHOPEE_SHOP_ID cfg) fuel run_date)"

text \<open>One missing order: repaired, or listed for review.\<close>

definition fix_missing ::
  "'x services \<Rightarrow> settings \<Rightarrow> nat \<Rightarrow> (rat \<Rightarrow> string) \<Rightarrow> unified_order \<Rightarrow> recon_result \<Rightarrow>
     ('x world, exc, recon_result) eff" where
  "fix_missing S cfg c dec_text ord r =
     bnd (try_auto_fix S cfg c ord) (\<lambda>ok.
       if ok then ret (r\<lparr>rr_auto_fixed := rr_auto_fixed r + 1\<rparr>)
       else ret (r\<lparr>rr_needs_review := rr_needs_review r + 1,
         rr_missing_details := rr_missing_details r @
           [\<lparr>md_platform_order_id = uo_platform_order_id ord, md_status = uo_status ord,
             md_total_amount = dec_text (uo_total_amount ord),
             md_reason = ''auto_fix_failed_or_unsafe_status''\<rparr>]\<rparr>))"

text \<open>The result once the lookups are made.\<close>

definition counted :: "recon_result \<Rightarrow> unified_order list \<Rightarrow> string set \<Rightarrow> string set \<Rightarrow> recon_result" where
  "counted r orders synced day_synced =
     (let missing = [ord \<leftarrow> orders. uo_platform_order_id ord \<notin> synced]
      in r\<lparr>rr_orders_checked := int (length orders), rr_orders_missing := int (length missing),
           rr_orders_matched := int (length orders) - int (length missing),
           rr_orders_extra := int (card (day_synced - uo_platform_order_id ` set orders))\<rparr>)"

definition run_for_platform ::
  "'x services \<Rightarrow> settings \<Rightarrow> nat \<Rightarrow> (rat \<Rightarrow> string) \<Rightarrow> nat \<Rightarrow> string \<Rightarrow> int \<Rightarrow>
     ('x world, exc, recon_result option) eff" where
  "run_for_platform S cfg c dec_text fuel platform run_date =
     (let result = empty_result platform run_date
      in if MIDDLEWARE_DRY_RUN cfg then bnd (persist S result) (\<lambda>_. ret (Some result))
         else
           bnd (fetch_platform_orders S cfg fuel platform run_date) (\<lambda>fetched.
             case fetched of
               None \<Rightarrow> ret None
             | Some [] \<Rightarrow> bnd (persist S result) (\<lambda>_. ret (Some result))
             | Some orders \<Rightarrow>
                 bnd (gets w_db) (\<lambda>d.
                 let ids = remdups (map uo_platform_order_id orders);
                     synced = lookup_synced_ids platform ids d;
                     day_synced = lookup_synced_ids_for_date platform run_date d;
                     mappings = load_drift_mappings platform [i \<leftarrow> ids. i \<in> synced] d;
                     missing = [ord \<leftarrow> orders. uo_platform_order_id ord \<notin> synced]
                 in bnd (fold_eff (fix_missing S cfg c dec_text) missing
                           (counted result orders synced day_synced)) (\<lambda>r1.
                    bnd (check_field_drift S cfg c dec_text platform orders synced mappings) (\<lambda>drifts.
                    let r2 = r1\<lparr>rr_drifts := drifts, rr_needs_review := rr_needs_review r1 +
                               int (length [x \<leftarrow> drifts. df_field x \<noteq> ''status_auto_fixed''])\<rparr>
                    in bnd (persist S r2) (\<lambda>_.
                       bnd (if 0 < rr_needs_review r2 \<or> drifts \<noteq> []
                            then send_reconciliation_alert S cfg platform
                                   (length (rr_missing_details r2) + length drifts)
                            else ret ()) (\<lambda>_. ret (Some r2))))))))"

text \<open>\<open>run_all_platforms\<close>: a platform that raises is alerted and skipped.\<close>

definition run_all_platforms ::
  "'x services \<Rightarrow> settings \<Rightarrow> nat \<Rightarrow> (rat \<Rightarrow> string) \<Rightarrow> nat \<Rightarrow> int option \<Rightarrow>
     ('x world, exc, recon_result list option) eff" where
  "run_all_platforms S cfg c dec_text fuel run_date =
     bnd (gets (\<lambda>w. case run_date of Some t \<Rightarrow> t | None \<Rightarrow> \<lfloor>now_w S w\<rfloor> div 86400 - 1)) (\<lambda>target.
       catching
         (bnd (run_for_platform S cfg c dec_text fuel ''shopee'' target) (\<lambda>r.
            ret (map_option (\<lambda>x. [x]) r)))
         (\<lambda>e. bnd (send_reconciliation_alert S cfg ''shopee'' 1) (\<lambda>_. ret (Some []))))"

section \<open>The lookups\<close>

lemma is_synced_append: "is_synced platform (xs @ ys) m \<longleftrightarrow> is_synced platform xs m \<or> is_synced platform ys m"
  by (auto simp: is_synced_def)

lemma foldl_union:
  "foldl (\<lambda>found c. found \<union> g c) A cs = A \<union> \<Union> (g ` set cs)"
  by (induction cs arbitrary: A) auto

lemma foldl_append: "foldl (\<lambda>out c. out @ g c) A cs = A @ concat (map g cs)"
  by (induction cs arbitrary: A) auto

lemma mset_chunked:
  "distinct (concat cs) \<Longrightarrow>
   mset (concat (map (\<lambda>c. filter (is_synced platform c) rows) cs)) = mset (filter (is_synced platform (concat cs)) rows)"
proof (induction cs)
  case Nil
  then show ?case by (simp add: is_synced_def)
next
  case (Cons c cs)
  then have disj: "set c \<inter> set (concat cs) = {}" by auto
  have "mset (filter (is_synced platform (c @ concat cs)) rows) =
      mset (filter (is_synced platform c) rows) + mset (filter (is_synced platform (concat cs)) rows)"
  proof (induction rows)
    case (Cons m rows)
    then show ?case using disj by (auto simp: is_synced_def)
  qed simp
  with Cons show ?case by simp
qed

text \<open>C19: the chunked queries give what one query over all ids gives: the synced ids are exactly
  those asked for that have a successful row on the platform, and the mappings loaded for the drift
  check are all rows of the distinct ids asked for, each as often as the table has it. Neither
  depends on the order in which Python iterates the set of ids.\<close>

theorem chunked_lookups_equiv:
  assumes "distinct ids"
  shows "lookup_synced_ids platform ids d =
      om_platform_order_id ` set (filter (is_synced platform ids) (db_orders d)) \<and>
    mset (load_drift_mappings platform ids d) = mset (filter (is_synced platform ids) (db_orders d))"
proof -
  have c: "concat (chunks IN_CHUNK_SIZE ids) = ids" by (rule concat_chunks) (simp add: IN_CHUNK_SIZE_def)
  have "is_synced platform ids m \<longleftrightarrow> (\<exists>ch \<in> set (chunks IN_CHUNK_SIZE ids). is_synced platform ch m)" for m
    by (subst c [symmetric]) (auto simp: is_synced_def)
  then have "lookup_synced_ids platform ids d =
      om_platform_order_id ` set (filter (is_synced platform ids) (db_orders d))"
    by (auto simp: lookup_synced_ids_def foldl_union)
  moreover have "mset (load_drift_mappings platform ids d) = mset (filter (is_synced platform ids) (db_orders d))"
    using mset_chunked [of "chunks IN_CHUNK_SIZE ids" platform "db_orders d"] assms
    by (simp add: load_drift_mappings_def foldl_append c)
  ultimately show ?thesis by blast
qed

theorem chunked_lookups_equiv_witness:
  "lookup_synced_ids ''shopee'' [''A1'', ''B2''] (order_db (sample_row\<lparr>om_status := ''success''\<rparr>)) = {''A1''}"
  using chunked_lookups_equiv [of "[''A1'', ''B2'']" "''shopee''" "order_db (sample_row\<lparr>om_status := ''success''\<rparr>)"]
  by (simp add: order_db_def sample_row_def is_synced_def)

section \<open>The counts\<close>

lemma fix_missing_counts:
  assumes "fix_missing S cfg c dec_text ord r w = (Inr r', w')"
  shows "rr_auto_fixed r' + rr_needs_review r' = rr_auto_fixed r + rr_needs_review r + 1 \<and>
    int (length (rr_missing_details r')) - rr_needs_review r' = int (length (rr_missing_details r)) - rr_needs_review r \<and>
    rr_orders_checked r' = rr_orders_checked r \<and> rr_orders_matched r' = rr_orders_matched r \<and>
    rr_orders_missing r' = rr_orders_missing r \<and> rr_orders_extra r' = rr_orders_extra r"
  using assms by (auto simp: fix_missing_def bnd_eq_Inr ret_def split: if_splits)

definition recon_inv :: "recon_result \<Rightarrow> nat \<Rightarrow> recon_result \<Rightarrow> bool" where
  "recon_inv r0 n r \<longleftrightarrow> rr_auto_fixed r + rr_needs_review r = int n \<and>
     int (length (rr_missing_details r)) = rr_needs_review r \<and>
     rr_orders_checked r = rr_orders_checked r0 \<and> rr_orders_matched r = rr_orders_matched r0 \<and>
     rr_orders_missing r = rr_orders_missing r0 \<and> rr_orders_extra r = rr_orders_extra r0"

lemma fix_all_counts:
  assumes "fold_eff (fix_missing S cfg c dec_text) missing r0 w = (Inr r, w')" and "recon_inv r0 0 r0"
  shows "recon_inv r0 (length missing) r"
proof -
  have "recon_inv r0 (0 + length missing) r"
    by (rule fold_eff_rounds [where I = "recon_inv r0", OF assms]) (auto simp: recon_inv_def dest!: fix_missing_counts)
  then show ?thesis by simp
qed

definition drift_field_ok :: "drift \<Rightarrow> bool" where
  "drift_field_ok x \<longleftrightarrow> df_field x = ''total_amount'' \<or> df_field x = ''tracking_number''"

lemma check_field_drift_fields:
  assumes "check_field_drift S cfg c dec_text platform orders synced mappings w = (Inr ds, w')"
  shows "list_all drift_field_ok ds"
proof -
  have step: "list_all drift_field_ok b"
    if "mapping_drifts S cfg c dec_text platform orders synced m a t = (Inr b, u)" "list_all drift_field_ok a" for m a b t u
    using that
    by (auto simp: mapping_drifts_def bnd_eq_Inr order_drifts_def sbnd_eq_Inr Let_def ret_def drift_field_ok_def of_sum_def
        split: option.splits if_splits)
  show ?thesis
  proof (cases "(\<forall>ord \<in> set orders. uo_platform_order_id ord \<notin> synced) \<or> mappings = []")
    case True
    with assms show ?thesis by (auto simp: check_field_drift_def ret_def)
  next
    case False
    with assms have "fold_eff (mapping_drifts S cfg c dec_text platform orders synced) mappings [] w = (Inr ds, w')"
      by (simp only: check_field_drift_def if_False)
    then show ?thesis
      by (rule fold_eff_rounds [where I = "\<lambda>_. list_all drift_field_ok" and n = 0]) (auto dest: step)
  qed
qed

text \<open>C20: the figures of a finished reconciliation are consistent. Every checked order is either
  matched or missing, every missing order is either repaired or listed for review, every drift
  found adds one review, and the row written to the log carries exactly these figures.\<close>

theorem recon_counts:
  assumes "run_for_platform S cfg c dec_text fuel platform run_date w = (Inr (Some r), w')"
  shows "rr_orders_matched r + rr_orders_missing r = rr_orders_checked r \<and>
    rr_auto_fixed r + rr_needs_review r = rr_orders_missing r + int (length (rr_drifts r)) \<and>
    int (length (rr_missing_details r)) = rr_needs_review r - int (length (rr_drifts r)) \<and>
    last (db_reconciliation (w_db w')) = log_row r"
proof -
  let ?empty = "empty_result platform run_date"
  have persisted: "last (db_reconciliation (w_db u)) = log_row x"
    if "persist S x v = (Inr (), u)" for x v u
    using that by (auto simp: persist_def txn_def)
  have alert: "w_db u = w_db v" if "send_reconciliation_alert S cfg platform n v = (z, u)" for n v u z
    using that post_slack_db [of S cfg _ v] by (metis send_reconciliation_alert_def snd_conv)
  have idle: ?thesis if "persist S ?empty v = (Inr (), w')" "r = ?empty" for v
    using persisted [OF that(1)] that(2) by (simp add: empty_result_def)
  show ?thesis
  proof (cases "MIDDLEWARE_DRY_RUN cfg")
    case True
    with assms have "persist S ?empty w = (Inr (), w')" "r = ?empty"
      by (auto simp: run_for_platform_def Let_def bnd_eq_Inr ret_def)
    then show ?thesis by (rule idle)
  next
    case False
    with assms obtain fetched w1 where f: "fetch_platform_orders S cfg fuel platform run_date w = (Inr (Some fetched), w1)"
      by (auto simp: run_for_platform_def Let_def bnd_eq_Inr ret_def split: option.splits)
    show ?thesis
    proof (cases fetched)
      case Nil
      with False assms f have "persist S ?empty w1 = (Inr (), w')" "r = ?empty"
        by (auto simp: run_for_platform_def Let_def bnd_eq_Inr ret_def)
      then show ?thesis by (rule idle)
    next
      case (Cons ord0 rest)
      let ?d = "w_db w1"
      let ?ids = "remdups (map uo_platform_order_id fetched)"
      let ?synced = "lookup_synced_ids platform ?ids ?d"
      let ?missing = "[ord \<leftarrow> fetched. uo_platform_order_id ord \<notin> ?synced]"
      let ?r0 = "counted ?empty fetched ?synced (lookup_synced_ids_for_date platform run_date ?d)"
      from False assms f Cons obtain r1 w2 drifts w3 w4 where
        fx: "fold_eff (fix_missing S cfg c dec_text) ?missing ?r0 w1 = (Inr r1, w2)"
        and dr: "check_field_drift S cfg c dec_text platform fetched ?synced
          (load_drift_mappings platform [i \<leftarrow> ?ids. i \<in> ?synced] ?d) w2 = (Inr drifts, w3)"
        and r: "r = r1\<lparr>rr_drifts := drifts, rr_needs_review := rr_needs_review r1 +
          int (length [x \<leftarrow> drifts. df_field x \<noteq> ''status_auto_fixed''])\<rparr>"
        and p: "persist S r w3 = (Inr (), w4)"
        and al: "w_db w' = w_db w4"
        by (auto simp: run_for_platform_def Let_def bnd_eq_Inr gets_def ret_def split: if_splits dest: alert)
      have "recon_inv ?r0 0 ?r0" by (simp add: recon_inv_def counted_def empty_result_def Let_def)
      from fix_all_counts [OF fx this] have inv: "recon_inv ?r0 (length ?missing) r1" .
      have "[x \<leftarrow> drifts. df_field x \<noteq> ''status_auto_fixed''] = drifts"
        using check_field_drift_fields [OF dr] by (auto simp: filter_id_conv list_all_iff drift_field_ok_def)
      with inv r persisted [OF p] al show ?thesis
        by (simp add: recon_inv_def counted_def Let_def)
    qed
  qed
qed

definition one_order_data :: pyval where
  "one_order_data = PDict [(''response'', PDict [(''order_list'', PList [PDict [(''order_sn'', PStr ''A1'')]])])]"

lemma transform_minimal:
  "\<exists>ord. transform now (PDict [(''order_sn'', PStr ''A1'')]) = Inr ord \<and> uo_status ord = PENDING \<and>
     uo_platform_order_id ord = ''A1''"
  by (simp add: transform_def Let_def py_or_def D_def ts_to_dt_def transform_address_def py_get_def
      normalize_phone_value_def py_iter_def transform_logistics_def table_get_def SHOPEE_STATUS_MAP_def
      SHOPEE_PAYMENT_MAP_def)

lemma one_order_day:
  assumes "w_shopee_breaker w = shopee_breaker"
  shows "\<exists>ord. fetch_platform_orders (shop_services one_order_data) dev_settings 1 ''shopee'' day w = (Inr (Some [ord]), w) \<and>
    uo_status ord = PENDING \<and> uo_platform_order_id ord = ''A1''"
proof -
  have req: "shopee_request (shop_services one_order_data) cfg shop meth path params body True w =
      (Inr one_order_data, w)" for cfg shop meth path params body
    by (rule shop_request_answers [OF assms, where e = PNone]) (simp_all add: one_order_data_def py_get_def)
  obtain ord where ord: "transform (now_w (shop_services one_order_data) w) (PDict [(''order_sn'', PStr ''A1'')]) = Inr ord"
    "uo_status ord = PENDING" "uo_platform_order_id ord = ''A1''"
    using transform_minimal by blast
  have "order_page (shop_services one_order_data) cfg shop a b cur w =
      (Inr ([ord], PDict [(''order_list'', PList [PDict [(''order_sn'', PStr ''A1'')]])]), w)" for cfg shop a b cur
  proof -
    let ?row = "PDict [(''order_sn'', PStr ''A1'')]"
    have data: "py_item one_order_data ''response'' = Inr (PDict [(''order_list'', PList [?row])])"
      by (simp add: one_order_data_def py_item_def)
    have parts: "py_get (PDict [(''order_list'', PList [?row])]) ''order_list'' v = Inr (PList [?row])"
      "py_item (PDict [(''order_list'', PList [?row])]) ''order_list'' = Inr (PList [?row])"
      "py_iter (PList [?row]) = Inr [?row]" "py_item ?row ''order_sn'' = Inr (PStr ''A1'')" for v
      by (simp_all add: py_get_def py_item_def py_iter_def)
    show ?thesis
      by (simp add: order_page_def bnd_def req data parts join_strings_def ord)
  qed
  with ord show ?thesis
    by (simp add: fetch_platform_orders_def get_orders_by_date_def bnd_def py_get_def)
qed

theorem recon_counts_witness:
  "\<exists>r w'. run_for_platform (shop_services one_order_data) dev_settings 0 (\<lambda>_. []) 1 ''shopee'' 0 (null_world empty_db 0) =
     (Inr (Some r), w') \<and> rr_orders_checked r = 1 \<and> rr_needs_review r = 1 \<and>
     last (db_reconciliation (w_db w')) = log_row r"
proof -
  let ?w = "null_world empty_db 0"
  obtain ord where ord: "fetch_platform_orders (shop_services one_order_data) dev_settings 1 ''shopee'' 0 ?w = (Inr (Some [ord]), ?w)"
    "uo_status ord = PENDING" "uo_platform_order_id ord = ''A1''"
    using one_order_day [of ?w] by auto
  have no: "lookup_synced_ids ''shopee'' [''A1''] empty_db = {}" "lookup_synced_ids_for_date ''shopee'' 0 empty_db = {}"
    by (simp_all add: lookup_synced_ids_def lookup_synced_ids_for_date_def empty_db_def IN_CHUNK_SIZE_def Let_def)
  have dry: "\<not> MIDDLEWARE_DRY_RUN dev_settings" "SLACK_WEBHOOK_URL dev_settings = None"
    by (simp_all add: dev_settings_def)
  obtain r w' where run: "run_for_platform (shop_services one_order_data) dev_settings 0 (\<lambda>_. []) 1 ''shopee'' 0 ?w =
      (Inr (Some r), w')" and r: "rr_orders_checked r = 1" "rr_needs_review r = 1"
    using ord no dry
    by (simp add: run_for_platform_def bnd_def Let_def fix_missing_def try_auto_fix_def AUTO_FIX_STATUSES_def
        check_field_drift_def persist_def txn_def counted_def empty_result_def send_reconciliation_alert_def post_slack_def)
  from recon_counts [OF run] r run show ?thesis by blast
qed

text \<open>An order that the nightly run finds missing and repairs by recording the order Odoo already
  has is still listed for review, as if its repair had failed: \<open>sync\<close> says \<open>skipped\<close>, and the
  repair only counts \<open>success\<close>.\<close>

theorem repaired_order_needs_review:
  assumes "uo_status ord = CONFIRMED" "\<not> MIDDLEWARE_DRY_RUN cfg"
    and "sync S cfg c ord w = (Inr (SyncSkipped ''exists_in_odoo''), w1)"
  shows "\<exists>r'. fix_missing S cfg c dec_text ord r w = (Inr r', w1) \<and>
    rr_auto_fixed r' = rr_auto_fixed r \<and> rr_needs_review r' = rr_needs_review r + 1"
  using assms by (simp add: fix_missing_def try_auto_fix_def AUTO_FIX_STATUSES_def)

theorem repaired_order_needs_review_witness:
  "\<exists>r' w'. fix_missing found_services dev_settings 0 (\<lambda>_. []) (sample_order\<lparr>uo_status := CONFIRMED\<rparr>)
     (empty_result ''shopee'' 0) (settled_world ''failed'') = (Inr r', w') \<and> rr_needs_review r' = 1"
proof -
  let ?ord = "sample_order\<lparr>uo_status := CONFIRMED\<rparr>"
  let ?w = "settled_world ''failed''"
  obtain d where c: "claim_order ''shopee'' ''A1'' (Some ''A1'') t (w_db ?w) = (Inr (Claimed 1), d t)"
    "\<exists>m. first_row (\<lambda>r. om_id r = 1) (db_orders (d t)) = Some m" for t
    by (atomize_elim, rule exI [of _ "\<lambda>t. snd (claim_order ''shopee'' ''A1'' (Some ''A1'') t (w_db ?w))"])
      (simp add: claim_order_def select_orders_def settled_world_def order_db_def sample_row_def
        scalar_one_or_none_def empty_db_def update_order_def row_simps)
  have b: "w_odoo_breaker (?w\<lparr>w_db := x\<rparr>) = odoo_breaker" for x by (simp add: settled_world_def)
  have chk: "\<exists>u. check_order_exists found_services dev_settings 0 ''shopee'' ''A1'' (?w\<lparr>w_db := x\<rparr>) =
      (Inr (PInt 7), u) \<and> w_db u = x" for x
    by (simp add: check_order_exists_def bnd_def found_search_read [OF b] first_item_def py_head_def py_item_def)
  have "\<exists>u. sync found_services dev_settings 0 ?ord ?w = (Inr (SyncSkipped ''exists_in_odoo''), u)"
  proof -
    obtain u where u: "check_order_exists found_services dev_settings 0 ''shopee'' ''A1''
        (?w\<lparr>w_db := d (sv_now found_services (w_ext ?w))\<rparr>) = (Inr (PInt 7), u)"
      "w_db u = d (sv_now found_services (w_ext ?w))" using chk by blast
    with c show ?thesis
      by (auto simp: sync_def sync_with_def Let_def sample_order_key bnd_def txn_def mark_exists_def int_column_def catching_def
          split: prod.split option.split)
  qed
  then obtain u where "sync found_services dev_settings 0 ?ord ?w = (Inr (SyncSkipped ''exists_in_odoo''), u)" ..
  from repaired_order_needs_review [OF _ _ this, of "\<lambda>_. []" "empty_result ''shopee'' 0"]
  show ?thesis by (auto simp: dev_settings_def empty_result_def)
qed

end
