(* ===== verification/Workers.thy ===== *)
theory Workers
  imports Orders Shopee Stock Outbox "HOL-Library.AList"
begin

text \<open>
  The Celery tasks of \<open>src/workers/\<close>: \<open>order_worker.py\<close>, \<open>stock_worker.py\<close>, \<open>price_worker.py\<close>
  and \<open>shipment_worker.py\<close>. A task ends with its result, with a request to Celery to run it again
  (\<open>raise self.retry(exc=e, countdown=n)\<close>, where no countdown leaves the delay to Celery), or with
  the exception it lets through. What Celery does with a request (it gives up after
  \<open>max_retries\<close>) is Celery's. \<open>c\<close> numbers the \<open>OdooClient\<close> object a task makes.
\<close>

datatype 'a task_outcome = Finished 'a | RetryAsked exc "int option"

section \<open>Webhook events\<close>

datatype event_result =
    OrderSynced sync_result
  | DryRunSkipped
  | StockEventIgnored
  | LogisticsNoOrderId
  | LogisticsNoTracking
  | LogisticsOrderNotFound
  | TrackingUpdated string
  | NoHandler
  | DeadLettered string

text \<open>The chain of \<open>or\<close>: the last value is evaluated only when the others are falsy.\<close>

definition event_tracking :: "pyval \<Rightarrow> exc + pyval" where
  "event_tracking payload =
     sbnd (py_get payload ''data'' (PDict [])) (\<lambda>d.
     let data = py_or d (PDict [])
     in sbnd (py_get payload ''tracking_number'' PNone) (\<lambda>t1.
        if truthy t1 then Inr t1
        else sbnd (py_get data ''tracking_number'' PNone) (\<lambda>t2.
        if truthy t2 then Inr t2
        else sbnd (py_get data ''tracking_no'' PNone) (\<lambda>t3.
        if truthy t3 then Inr t3
        else sbnd (py_get data ''tracking_number_list'' (PList [PNone])) py_head))))"

definition process_logistics_event ::
  "'x services \<Rightarrow> settings \<Rightarrow> nat \<Rightarrow> string \<Rightarrow> string option \<Rightarrow> pyval \<Rightarrow> ('x world, exc, event_result) eff"
where
  "process_logistics_event S cfg c platform poid payload =
     (case poid of
        None \<Rightarrow> ret LogisticsNoOrderId
      | Some i \<Rightarrow>
          if i = [] then ret LogisticsNoOrderId
          else bnd (of_sum (event_tracking payload)) (\<lambda>tracking.
            if \<not> truthy tracking then ret LogisticsNoTracking
            else bnd (new_odoo_client c) (\<lambda>_.
                 bnd (update_order_tracking S cfg c platform i (py_str tracking)) (\<lambda>updated.
                   if \<not> truthy updated then ret LogisticsOrderNotFound
                   else ret (TrackingUpdated (py_str tracking))))))"

text \<open>Fetch the order and sync it: the body of both order tasks.\<close>

definition fetch_and_sync ::
  "'x services \<Rightarrow> settings \<Rightarrow> nat \<Rightarrow> string option \<Rightarrow> ('x world, exc, sync_result) eff" where
  "fetch_and_sync S cfg c poid =
     bnd (get_order_detail S cfg (SHOPEE_SHOP_ID cfg) (opt_pstr poid)) (\<lambda>ord.
     bnd (new_odoo_client c) (\<lambda>_. sync S cfg c ord))"

definition run_event ::
  "'x services \<Rightarrow> settings \<Rightarrow> nat \<Rightarrow> string \<Rightarrow> string \<Rightarrow> string option \<Rightarrow> pyval \<Rightarrow>
     ('x world, exc, event_result) eff" where
  "run_event S cfg c platform event_type poid payload =
     (if event_type = ''order'' \<and> platform = ''shopee'' then
        (if MIDDLEWARE_DRY_RUN cfg then ret DryRunSkipped
         else bnd (fetch_and_sync S cfg c poid) (\<lambda>r. ret (OrderSynced r)))
      else if event_type = ''stock'' then ret StockEventIgnored
      else if event_type = ''logistics'' then process_logistics_event S cfg c platform poid payload
      else ret NoHandler)"

text \<open>A missing SKU: both durable rows say so, then the alert; nothing of it may raise.\<close>

definition dead_letter_missing_sku ::
  "'x services \<Rightarrow> settings \<Rightarrow> int \<Rightarrow> string \<Rightarrow> string option \<Rightarrow> string \<Rightarrow> ('x world, exc, unit) eff" where
  "dead_letter_missing_sku S cfg oid platform poid sku =
     catching
       (bnd (txn S (mark_dead_letter oid platform poid sku)) (\<lambda>_. fire_dead_letter_alerts S cfg [oid]))
       (\<lambda>e. ret ())"

definition rate_limit_countdown :: "int \<Rightarrow> int" where
  "rate_limit_countdown n = (if n = 0 then SHOPEE_RL_COUNTDOWN_FALLBACK else n)"

text \<open>The handlers that the order and the stock tasks share.\<close>

definition retry_transient :: "exc \<Rightarrow> ('x world, exc, 'a task_outcome) eff" where
  "retry_transient e =
     (case e of
        CircuitOpenError s m \<Rightarrow>
          ret (RetryAsked e (Some (circuit_retry_countdown (circuit_service_from_error e))))
      | ShopeeRateLimitError n \<Rightarrow> ret (RetryAsked e (Some (rate_limit_countdown n)))
      | OdooConnectionError m \<Rightarrow> ret (RetryAsked e (Some ODOO_CONN_COUNTDOWN))
      | _ \<Rightarrow> throw e)"

definition process_webhook_event ::
  "'x services \<Rightarrow> settings \<Rightarrow> nat \<Rightarrow> int \<Rightarrow> string \<Rightarrow> string \<Rightarrow> string option \<Rightarrow> pyval \<Rightarrow>
     ('x world, exc, event_result task_outcome) eff" where
  "process_webhook_event S cfg c oid platform event_type poid payload =
     catching (bnd (run_event S cfg c platform event_type poid payload) (\<lambda>r. ret (Finished r)))
       (\<lambda>e. case e of
          ProductNotFoundError sku \<Rightarrow>
            bnd (dead_letter_missing_sku S cfg oid platform poid sku) (\<lambda>_.
              ret (Finished (DeadLettered sku)))
        | _ \<Rightarrow> retry_transient e)"

datatype manual_result =
    OrderNotFound
  | UnsupportedPlatform
  | ManualDryRun
  | ManualSynced sync_result

definition sync_order_to_odoo ::
  "'x services \<Rightarrow> settings \<Rightarrow> nat \<Rightarrow> int \<Rightarrow> ('x world, exc, manual_result task_outcome) eff" where
  "sync_order_to_odoo S cfg c i =
     catching
       (bnd (query (\<lambda>d. Inr (first_row (\<lambda>m. om_id m = i) (db_orders d)))) (\<lambda>found.
          case found of
            None \<Rightarrow> ret (Finished OrderNotFound)
          | Some m \<Rightarrow>
              if om_platform m \<noteq> ''shopee'' then ret (Finished UnsupportedPlatform)
              else if MIDDLEWARE_DRY_RUN cfg then ret (Finished ManualDryRun)
              else bnd (fetch_and_sync S cfg c (Some (om_platform_order_id m))) (\<lambda>r.
                     ret (Finished (ManualSynced r)))))
       (\<lambda>e. case e of
          CircuitOpenError s m \<Rightarrow>
            ret (RetryAsked e (Some (circuit_retry_countdown (circuit_service_from_error e))))
        | OdooConnectionError m \<Rightarrow> ret (RetryAsked e (Some ODOO_CONN_COUNTDOWN))
        | _ \<Rightarrow> throw e)"

section \<open>Stock\<close>

record stock_push =
  sp_sku :: "string option"
  sp_qty :: int
  sp_dry_run :: bool

datatype stock_result = NoMapping | Updates "stock_push list"

definition mapping_quantity ::
  "'x services \<Rightarrow> settings \<Rightarrow> nat \<Rightarrow> string \<Rightarrow> mapping_view \<Rightarrow> ('x world, exc, int) eff" where
  "mapping_quantity S cfg c platform m =
     (if mv_mapping_type m = ''simple'' then calculate_platform_stock S cfg c (mv_odoo_sku m) platform
      else calculate_bundle_stock S cfg c (mv_platform_sku_id m) platform)"

definition push_mapping ::
  "'x services \<Rightarrow> settings \<Rightarrow> nat \<Rightarrow> string \<Rightarrow> string \<Rightarrow> mapping_view \<Rightarrow> stock_push list \<Rightarrow>
     ('x world, exc, stock_push list) eff" where
  "push_mapping S cfg c odoo_sku platform m pushed =
     bnd (mapping_quantity S cfg c platform m) (\<lambda>qty.
       if MIDDLEWARE_DRY_RUN cfg then
         ret (pushed @ [\<lparr>sp_sku = mv_platform_sku_id m, sp_qty = qty, sp_dry_run = True\<rparr>])
       else
         bnd (if platform = ''shopee''
              then update_stock S cfg (SHOPEE_SHOP_ID cfg)
                \<lparr>su_platform = SHOPEE, su_sku = mv_platform_sku_id m, su_quantity = qty,
                 su_reason = ''sync_for_'' @ odoo_sku\<rparr>
              else ret ()) (\<lambda>_.
           ret (pushed @ [\<lparr>sp_sku = mv_platform_sku_id m, sp_qty = qty, sp_dry_run = False\<rparr>])))"

definition sync_platform_stock ::
  "'x services \<Rightarrow> settings \<Rightarrow> nat \<Rightarrow> string \<Rightarrow> string \<Rightarrow> (string \<times> stock_result) list \<Rightarrow>
     ('x world, exc, (string \<times> stock_result) list) eff" where
  "sync_platform_stock S cfg c odoo_sku platform results =
     bnd (query (\<lambda>d. Inr (find_mappings_using_component platform odoo_sku d))) (\<lambda>mappings.
       if mappings = [] then ret (AList.update platform NoMapping results)
       else bnd (fold_eff (push_mapping S cfg c odoo_sku platform) mappings []) (\<lambda>pushed.
              ret (AList.update platform (Updates pushed) results)))"

definition target_platforms :: "string list option \<Rightarrow> string list" where
  "target_platforms platforms =
     (case platforms of None \<Rightarrow> [''shopee''] | Some ps \<Rightarrow> if ps = [] then [''shopee''] else ps)"

definition sync_stock_for_sku ::
  "'x services \<Rightarrow> settings \<Rightarrow> nat \<Rightarrow> string \<Rightarrow> string list option \<Rightarrow>
     ('x world, exc, (string \<times> stock_result) list task_outcome) eff" where
  "sync_stock_for_sku S cfg c odoo_sku platforms =
     catching
       (bnd (new_odoo_client c) (\<lambda>_.
        bnd (fold_eff (sync_platform_stock S cfg c odoo_sku) (target_platforms platforms) []) (\<lambda>results.
          ret (Finished results))))
       retry_transient"

text \<open>The SKUs to sync for a mapping: its components', or its own when it has none.\<close>

definition component_skus :: "pyval \<Rightarrow> exc + pyval list" where
  "component_skus comps =
     sbnd (py_iter comps) (\<lambda>cs.
     sbnd (smap (\<lambda>p. sbnd (py_get p ''odoo_sku'' PNone) (\<lambda>s.
             if truthy s then sbnd (py_item p ''odoo_sku'') (\<lambda>t. Inr [t]) else Inr [])) cs) (\<lambda>ss.
       Inr (concat ss)))"

definition mapping_skus :: "'x services \<Rightarrow> mapping_view \<Rightarrow> ('x world, exc, pyval list) eff" where
  "mapping_skus S m =
     bnd (if mv_mapping_type m = ''bundle''
          then bnd (get_bundle_components S (mv_id m)) (\<lambda>comps. of_sum (component_skus comps))
          else ret []) (\<lambda>skus.
       ret (if skus = [] then [PStr (mv_odoo_sku m)] else skus))"

text \<open>A list or a dictionary cannot be in the set of keys.\<close>

definition unhashable :: "pyval \<Rightarrow> bool" where
  "unhashable v = (case v of PList _ \<Rightarrow> True | PDict _ \<Rightarrow> True | _ \<Rightarrow> False)"

definition enqueue_sku ::
  "'x services \<Rightarrow> string \<Rightarrow> pyval \<Rightarrow> pyval list \<Rightarrow> ('x world, exc, pyval list) eff" where
  "enqueue_sku S platform sku enqueued =
     (if unhashable sku then throw (PyError CTypeError ''unhashable type'')
      else if sku \<in> set enqueued then ret enqueued
      else bnd (ext (sv_send_task S ''workers.sync_stock_for_sku''
                  [(''odoo_sku'', sku), (''platforms'', PList [PStr platform])] ''stock.sync'' None)) (\<lambda>_.
             ret (enqueued @ [sku])))"

definition enqueue_mapping ::
  "'x services \<Rightarrow> string \<Rightarrow> mapping_view \<Rightarrow> pyval list \<Rightarrow> ('x world, exc, pyval list) eff" where
  "enqueue_mapping S platform m enqueued =
     bnd (mapping_skus S m) (\<lambda>skus. fold_eff (enqueue_sku S platform) skus enqueued)"

datatype safety_net = NetDisabled | NetQueued nat

definition stock_safety_net :: "'x services \<Rightarrow> settings \<Rightarrow> ('x world, exc, safety_net) eff" where
  "stock_safety_net S cfg =
     (if \<not> ENABLE_STOCK_SYNC cfg then ret NetDisabled
      else bnd (query (\<lambda>d. Inr (list_active_for_platform ''shopee'' d))) (\<lambda>mappings.
           bnd (fold_eff (enqueue_mapping S ''shopee'') mappings []) (\<lambda>enqueued.
             ret (NetQueued (length enqueued)))))"

section \<open>Prices and shipments\<close>

datatype price_result =
    PriceDisabled
  | PriceProductNotFound
  | PriceBlocked
  | PriceSkippedZero
  | PriceDryRun rat
  | PriceUnsupportedPlatform
  | PriceNoMapping
  | PriceSynced rat "string list"

definition load_syncable_price ::
  "'x services \<Rightarrow> settings \<Rightarrow> nat \<Rightarrow> string \<Rightarrow> ('x world, exc, price_result + rat) eff" where
  "load_syncable_price S cfg c sku =
     bnd (new_odoo_client c) (\<lambda>_.
     bnd (get_product_marketplace_controls S cfg c sku) (\<lambda>product.
       if \<not> truthy product then ret (Inl PriceProductNotFound)
       else bnd (of_sum (py_get product ''x_block_marketplace_sync'' PNone)) (\<lambda>blocked.
         if truthy blocked then ret (Inl PriceBlocked)
         else bnd (of_sum (sbnd (py_get product ''lst_price'' PNone) (\<lambda>p. py_float (py_or p (PFloat 0))))) (\<lambda>price.
           if price \<le> 0 then ret (Inl PriceSkippedZero) else ret (Inr price)))))"

definition push_price ::
  "'x services \<Rightarrow> settings \<Rightarrow> rat \<Rightarrow> mapping_view \<Rightarrow> string list \<Rightarrow> ('x world, exc, string list) eff" where
  "push_price S cfg price m updated =
     (case mv_platform_sku_id m of
        None \<Rightarrow> ret updated
      | Some s \<Rightarrow>
          if s = [] then ret updated
          else bnd (update_price S cfg (SHOPEE_SHOP_ID cfg) s price) (\<lambda>_. ret (updated @ [s])))"

definition sync_price_for_sku ::
  "'x services \<Rightarrow> settings \<Rightarrow> nat \<Rightarrow> string \<Rightarrow> string \<Rightarrow> ('x world, exc, price_result) eff" where
  "sync_price_for_sku S cfg c sku platform =
     (if \<not> ENABLE_PRICE_SYNC cfg then ret PriceDisabled
      else bnd (load_syncable_price S cfg c sku) (\<lambda>loaded.
        case loaded of
          Inl early \<Rightarrow> ret early
        | Inr price \<Rightarrow>
            if MIDDLEWARE_DRY_RUN cfg then ret (PriceDryRun price)
            else if platform \<noteq> ''shopee'' then ret PriceUnsupportedPlatform
            else bnd (query (\<lambda>d. Inr (find_mappings_using_component platform sku d))) (\<lambda>mappings.
                 bnd (fold_eff (push_price S cfg price) mappings []) (\<lambda>updates.
                   if updates = [] then ret PriceNoMapping else ret (PriceSynced price updates)))))"

definition confirm_shipment_task ::
  "'x services \<Rightarrow> settings \<Rightarrow> string \<Rightarrow> string \<Rightarrow> string \<Rightarrow> ('x world, exc, string task_outcome) eff" where
  "confirm_shipment_task S cfg platform poid tracking_no =
     catching
       (bnd (if platform = ''shopee''
             then confirm_shipment S cfg (SHOPEE_SHOP_ID cfg) poid tracking_no else ret ()) (\<lambda>_.
          ret (Finished tracking_no)))
       (\<lambda>e. case e of ShopeeRateLimitError n \<Rightarrow> ret (RetryAsked e None) | _ \<Rightarrow> throw e)"

section \<open>What the order task does with a failure\<close>

lemma process_raised:
  "run_event S cfg c platform ty poid payload w = (Inl e, w1) \<Longrightarrow>
   process_webhook_event S cfg c oid platform ty poid payload w =
     (case e of
        ProductNotFoundError sku \<Rightarrow>
          bnd (dead_letter_missing_sku S cfg oid platform poid sku) (\<lambda>_.
            ret (Finished (DeadLettered sku)))
      | _ \<Rightarrow> retry_transient e) w1"
  by (simp add: process_webhook_event_def)

lemma process_finished:
  "run_event S cfg c platform ty poid payload w = (Inr r, w1) \<Longrightarrow>
   process_webhook_event S cfg c oid platform ty poid payload w = (Inr (Finished r), w1)"
  by (simp add: process_webhook_event_def)

lemma dead_letter_missing_sku_effect:
  "\<exists>x. dead_letter_missing_sku S cfg oid platform poid sku w =
     (Inr (), w\<lparr>w_db := snd (mark_dead_letter oid platform poid sku (now_w S w) (w_db w)), w_ext := x\<rparr>)"
proof -
  let ?d = "snd (mark_dead_letter oid platform poid sku (now_w S w) (w_db w))"
  obtain x where "fire_dead_letter_alerts S cfg [oid] (w\<lparr>w_db := ?d\<rparr>) = (Inr (), w\<lparr>w_db := ?d, w_ext := x\<rparr>)"
    using fire_dead_letter_alerts_total [of S cfg "[oid]" "w\<lparr>w_db := ?d\<rparr>"] by auto
  then show ?thesis
    by (auto simp: dead_letter_missing_sku_def catching_def bnd_def txn_def now_w_def mark_dead_letter_def Let_def)
qed

text \<open>An event whose order needs a SKU Odoo does not have ends, whatever the alert does, with its
  outbox row and its order row dead-lettered with the reason, and no other row of the two tables
  changed.\<close>

theorem missing_sku_dead_letters:
  assumes "run_event S cfg c platform ty (Some i) payload w = (Inl (ProductNotFoundError sku), w1)"
  shows "\<exists>w'. process_webhook_event S cfg c oid platform ty (Some i) payload w =
      (Inr (Finished (DeadLettered sku)), w') \<and>
    list_all2 (\<lambda>r r'. if ob_id r = oid
        then ob_id r' = oid \<and> ob_status r' = ''dead_letter'' \<and> ob_last_error r' = Some (''ProductNotFound: sku='' @ sku)
        else r' = r) (db_outbox (w_db w1)) (db_outbox (w_db w')) \<and>
    list_all2 (\<lambda>m m'. if om_platform m = platform \<and> om_platform_order_id m = i
        then om_id m' = om_id m \<and> om_status m' = ''dead_letter'' \<and>
          om_last_error m' = Some (''ProductNotFound: sku='' @ sku)
        else m' = m) (db_orders (w_db w1)) (db_orders (w_db w'))"
proof -
  obtain x where "process_webhook_event S cfg c oid platform ty (Some i) payload w =
      (Inr (Finished (DeadLettered sku)),
       w1\<lparr>w_db := snd (mark_dead_letter oid platform (Some i) sku (now_w S w1) (w_db w1)), w_ext := x\<rparr>)"
    using dead_letter_missing_sku_effect [of S cfg oid platform "Some i" sku w1]
    by (auto simp: process_raised [OF assms] bnd_def)
  then show ?thesis
    by (auto simp: mark_dead_letter_def Let_def upd_rows_def list_all2_conv_all_nth)
qed

text \<open>A run in which this happens: the shop has the order, and an Odoo that knows its partners, its
  country and its pricelist has no product.\<close>

definition raw_order :: pyval where
  "raw_order = PDict [(''order_sn'', PStr ''A1''), (''total_amount'', PStr ''125000''),
     (''item_list'', PList [PDict [(''model_sku'', PStr ''X1''), (''model_discounted_price'', PInt 125000)]])]"

definition no_product_services :: "rat services" where
  "no_product_services = (shop_services (PDict [(''response'', PDict [(''order_list'', PList [raw_order])])]))
     \<lparr>sv_execute_kw := (\<lambda>_ _ _ model m _ _ x.
       (Inr (if m = ''create'' then PInt 7
             else if model \<in> {''product.product'', ''sale.order''} then PList []
             else PList [PDict [(''id'', PInt 7), (''name'', PStr ''N'')]]), x))\<rparr>"

definition calm :: "rat world \<Rightarrow> bool" where
  "calm w \<longleftrightarrow> w_odoo_breaker w = odoo_breaker \<and> w_shopee_breaker w = shopee_breaker \<and>
     db_products (w_db w) = [] \<and> w_uids w 0 \<in> {None, Some (PInt 2)}"

lemma fresh_odoo_breaker:
  "gate now odoo_breaker = (Inr (), odoo_breaker)" "record_success odoo_breaker = odoo_breaker"
  by (simp_all add: gate_def maybe_transition_to_half_open_def record_success_def odoo_breaker_def
      new_breaker_def)

lemma no_product_simps [simp]:
  "sv_execute_kw no_product_services d u p model m args kw x =
     (Inr (if m = ''create'' then PInt 7
           else if model \<in> {''product.product'', ''sale.order''} then PList []
           else PList [PDict [(''id'', PInt 7), (''name'', PStr ''N'')]]), x)"
  "sv_authenticate no_product_services d v p x = (Inr (PInt 2), x)"
  "sv_get no_product_services k x = (Inr (if startswith k ''shopee:token:'' then Some ''t'' else None), x)"
  by (simp_all add: no_product_services_def shop_services_def null_services_def)

lemma calm_execute:
  assumes "calm w"
  shows "\<exists>w'. odoo_execute no_product_services cfg 0 model m args kw w =
      (Inr (if m = ''create'' then PInt 7
            else if model \<in> {''product.product'', ''sale.order''} then PList []
            else PList [PDict [(''id'', PInt 7), (''name'', PStr ''N'')]]), w') \<and> calm w'"
proof -
  have w: "w\<lparr>w_odoo_breaker := odoo_breaker\<rparr> = w" using assms by (simp add: calm_def)
  consider "w_uids w 0 = None" | "w_uids w 0 = Some (PInt 2)" using assms by (auto simp: calm_def)
  then show ?thesis
  proof cases
    case 1
    with assms show ?thesis
      by (auto simp: odoo_execute_def cb_call_def calm_def fresh_odoo_breaker run_rpc_def odoo_uid_def bnd_def ext_def)
  next
    case 2
    with assms show ?thesis
      by (auto simp: odoo_execute_def cb_call_def calm_def fresh_odoo_breaker run_rpc_def odoo_uid_def bnd_def ext_def)
  qed
qed

lemma calm_search:
  assumes "calm w"
  shows "\<exists>w'. search_read no_product_services cfg 0 model conds names limit w =
      (Inr (if model \<in> {''product.product'', ''sale.order''} then PList []
            else PList [PDict [(''id'', PInt 7), (''name'', PStr ''N'')]]), w') \<and> calm w'"
  using calm_execute [OF assms, of cfg model "''search_read''"] unfolding search_read_def by simp

lemma calm_partner:
  assumes "calm w" and "ua_full_name a = PStr []"
  shows "\<exists>w'. get_or_create_partner no_product_services dev_settings 0 a pl buyer w = (Inr (PInt 7), w') \<and> calm w'"
proof -
  let ?S = no_product_services
  let ?phone = "PStr (if normalize_vn_phone (ua_phone a) = [] then ''unknown-'' @ pl @ ''-'' @ buyer
    else normalize_vn_phone (ua_phone a))"
  obtain w1 where 1: "search_read ?S dev_settings 0 ''res.partner'' [cond_eq ''phone'' ?phone]
      [''id'', ''name'', ''x_platform_source'', ''x_platform_buyer_id''] (Some 10) w =
      (Inr (PList [PDict [(''id'', PInt 7), (''name'', PStr ''N'')]]), w1)" "calm w1"
    using calm_search [OF assms(1), of dev_settings "''res.partner''" "[cond_eq ''phone'' ?phone]"
        "[''id'', ''name'', ''x_platform_source'', ''x_platform_buyer_id'']" "Some 10"] by auto
  have hit: "similar_candidate ?S (PStr []) [PDict [(''id'', PInt 7), (''name'', PStr ''N'')]] = Inr None"
    by (simp add: py_item_def py_lower_value_def py_or_def py_lower_def no_product_services_def shop_services_def
        null_services_def)
  obtain w2 where 2: "get_vietnam_id ?S dev_settings 0 w1 = (Inr (PInt 7), w2)" "calm w2"
    using calm_search [OF 1(2), of dev_settings "''res.country''" "[cond_eq ''code'' (PStr ''VN'')]" "[''id'']" "Some 1"]
    by (auto simp: get_vietnam_id_def bnd_def first_item_def py_head_def py_item_def)
  have "\<exists>w3. odoo_create ?S dev_settings 0 ''res.partner'' vals w2 = (Inr (PInt 7), w3) \<and> calm w3" for vals
    using calm_execute [OF 2(2), of dev_settings "''res.partner''" "''create''"]
    by (simp add: odoo_create_def dev_settings_def)
  with 1(1) 2(1) hit assms(2) show ?thesis
    unfolding get_or_create_partner_def Let_def by (simp add: bnd_def py_iter_def)
qed

lemma calm_mapping:
  assumes "calm w" shows "mapping_for_item no_product_services platform it w = (Inr PNone, w)"
proof -
  have "get_by_platform_sku no_product_services pl sku w = (Inr PNone, w)" for pl sku
    using assms by (simp add: get_by_platform_sku_def cached_or_def bnd_def ext_def k_mapping_def startswith_def
        select_mapping_def scalar_one_or_none_def calm_def)
  then show ?thesis by (simp add: mapping_for_item_def bnd_def split: option.split)
qed

lemma calm_create:
  assumes "calm w" and "uo_items ord = [it]" "ui_sku it = PStr sku" "ua_full_name (uo_shipping_address ord) = PStr []"
  shows "\<exists>w'. create_sale_order no_product_services dev_settings 0 ord w = (Inl (ProductNotFoundError sku), w')"
proof -
  let ?S = no_product_services
  obtain w1 where 1: "get_or_create_partner ?S dev_settings 0 (uo_shipping_address ord) (platform_value (uo_platform ord))
      (uo_buyer_platform_id ord) w = (Inr (PInt 7), w1)" "calm w1"
    using calm_partner [OF assms(1,4)] by blast
  obtain w2 where 2: "get_pricelist_vnd ?S dev_settings 0 w1 = (Inr (PInt 7), w2)" "calm w2"
    using calm_search [OF 1(2), of dev_settings "''product.pricelist''" "[cond_eq ''currency_id.name'' (PStr ''VND'')]"
        "[''id'']" "Some 1"]
    by (auto simp: get_pricelist_vnd_def bnd_def first_item_def py_head_def py_item_def)
  obtain w3 where 3: "require_product ?S dev_settings 0 (PStr sku) w2 = (Inl (ProductNotFoundError sku), w3)"
    using calm_search [OF 2(2), of dev_settings "''product.product''" "[cond_eq ''default_code'' (PStr sku)]" "[''id'']" "Some 1"]
    by (auto simp: require_product_def get_product_id_by_sku_def bnd_def first_item_def)
  have "item_lines ?S dev_settings 0 (platform_value (uo_platform ord)) it w2 = (Inl (ProductNotFoundError sku), w3)"
    using 3 assms(3) by (simp add: item_lines_def bnd_def calm_mapping [OF 2(2)] is_bundle_def)
  then have "build_order_lines ?S dev_settings 0 (uo_items ord) (platform_value (uo_platform ord)) w2 =
      (Inl (ProductNotFoundError sku), w3)"
    by (simp add: build_order_lines_def assms(2) bnd_def)
  with 1(1) 2(1) show ?thesis by (simp add: create_sale_order_def bnd_def dev_settings_def Let_def)
qed

definition no_product_world :: "rat world" where
  "no_product_world = null_world (empty_db\<lparr>db_outbox := [
     \<lparr>ob_id = 5, ob_platform = ''shopee'', ob_event_type = ''order'', ob_event_code = PInt 3,
      ob_platform_order_id = Some ''A1'', ob_payload = PNone, ob_signature = None, ob_status = ''published'',
      ob_retry_count = 0, ob_max_retries = 5, ob_last_error = None, ob_process_after = 0, ob_published_at = Some 0,
      ob_created_at = 0\<rparr>]\<rparr>) 0"

lemma no_product_fetch:
  "\<exists>ord it. transform 0 raw_order = Inr ord \<and> uo_items ord = [it] \<and> ui_sku it = PStr ''X1'' \<and>
     ua_full_name (uo_shipping_address ord) = PStr [] \<and> uo_platform_order_id ord = ''A1'' \<and>
     get_order_detail no_product_services dev_settings (SHOPEE_SHOP_ID dev_settings) (opt_pstr (Some ''A1'')) no_product_world =
       (Inr ord, no_product_world)"
proof -
  let ?S = no_product_services and ?w = no_product_world
  have "case transform 0 raw_order of
      Inr ord \<Rightarrow> map ui_sku (uo_items ord) = [PStr ''X1''] \<and> ua_full_name (uo_shipping_address ord) = PStr [] \<and>
        uo_platform_order_id ord = ''A1''
    | Inl e \<Rightarrow> False"
    by code_simp
  then obtain ord it where ord: "transform 0 raw_order = Inr ord" "uo_items ord = [it]" "ui_sku it = PStr ''X1''"
    "ua_full_name (uo_shipping_address ord) = PStr []" "uo_platform_order_id ord = ''A1''"
    by (auto split: sum.splits)
  let ?d = "PDict [(''response'', PDict [(''order_list'', PList [raw_order])])]"
  have w: "calm ?w" "w_ext ?w = 0" by (simp_all add: no_product_world_def calm_def empty_db_def)
  have "shopee_request ?S dev_settings shop meth path params body True ?w = (Inr ?d, ?w)" for shop meth path params body
    by (rule request_answers [where e = PNone])
      (use w in \<open>simp_all add: calm_def py_get_def no_product_services_def shop_services_def token_key_def startswith_def\<close>)
  then have "get_order_detail ?S dev_settings (SHOPEE_SHOP_ID dev_settings) (opt_pstr (Some ''A1'')) ?w = (Inr ord, ?w)"
    using ord(1) by (simp add: get_order_detail_def bnd_def py_item_def py_head_def now_w_def w no_product_services_def)
  with ord show ?thesis by blast
qed

lemma no_product_run:
  "\<exists>w1. run_event no_product_services dev_settings 0 ''shopee'' ''order'' (Some ''A1'') PNone no_product_world =
     (Inl (ProductNotFoundError ''X1''), w1) \<and> db_outbox (w_db w1) = db_outbox (w_db no_product_world)"
proof -
  let ?S = no_product_services and ?w = no_product_world
  obtain ord it where ord: "transform 0 raw_order = Inr ord" "uo_items ord = [it]" "ui_sku it = PStr ''X1''"
    "ua_full_name (uo_shipping_address ord) = PStr []" and
    f: "get_order_detail ?S dev_settings (SHOPEE_SHOP_ID dev_settings) (opt_pstr (Some ''A1'')) ?w = (Inr ord, ?w)"
    using no_product_fetch by blast
  have w: "calm ?w" "w_ext ?w = 0" by (simp_all add: no_product_world_def calm_def empty_db_def)
  obtain d i where c: "claim_order (platform_value (uo_platform ord)) (uo_platform_order_id ord)
      (Some (uo_platform_order_sn ord)) 0 (w_db ?w) = (Inr (Claimed i), d)" "db_products d = []"
    "db_outbox d = db_outbox (w_db ?w)"
    by (simp add: claim_order_def select_orders_def scalar_one_or_none_def no_product_world_def empty_db_def)
  define w0 where "w0 = ?w\<lparr>w_uids := (w_uids ?w)(0 := None)\<rparr>"
  define w1 where "w1 = w0\<lparr>w_db := d\<rparr>"
  let ?pl = "platform_value (uo_platform ord)" and ?oid = "uo_platform_order_id ord"
  have new: "new_odoo_client 0 ?w = (Inr (), w0)" by (simp add: new_odoo_client_def w0_def)
  have claim: "txn ?S (claim_order ?pl ?oid (Some (uo_platform_order_sn ord))) w0 = (Inr (Inr (Claimed i)), w1)"
    using c(1) w by (simp add: txn_def w0_def w1_def no_product_services_def)
  have calm1: "calm w1" using w c(2) by (simp add: w1_def w0_def calm_def)
  obtain w2 where 2: "check_order_exists ?S dev_settings 0 ?pl ?oid w1 = (Inr PNone, w2)" "calm w2"
    using calm_search [OF calm1, of dev_settings "''sale.order''" "order_domain ?pl ?oid" "[''id'']" "Some 1"]
    by (auto simp: check_order_exists_def bnd_def first_item_def)
  obtain w3 where 3: "create_sale_order ?S dev_settings 0 ord w2 = (Inl (ProductNotFoundError ''X1''), w3)"
    using calm_create [OF 2(2) ord(2-4)] by blast
  have "w_db w3 = d"
    using touches_no_tableD [OF touches_check 2(1)] touches_no_tableD [OF touches_create 3] by (simp add: w1_def)
  then have out: "db_outbox (w_db w3) = db_outbox (w_db ?w)" using c(3) by simp
  let ?e = "ProductNotFoundError ''X1''"
  obtain w4 where 4: "bnd (txn ?S (mark_failed i (exc_str ?e))) of_sum w3 = (Inr (), w4)"
    "db_outbox (w_db w4) = db_outbox (w_db w3)"
    by (simp add: bnd_def txn_def mark_failed_def update_order_def)
  have "sync ?S dev_settings 0 ord w0 = (Inl ?e, w4)"
    using claim 2(1) 3 4(1) by (simp add: sync_def sync_with_def Let_def bnd_def catching_def)
  with f new have "run_event ?S dev_settings 0 ''shopee'' ''order'' (Some ''A1'') PNone ?w = (Inl ?e, w4)"
    by (simp add: run_event_def fetch_and_sync_def bnd_def dev_settings_def)
  with 4(2) out show ?thesis by simp
qed

theorem missing_sku_dead_letters_witness:
  "\<exists>w' r. process_webhook_event no_product_services dev_settings 0 5 ''shopee'' ''order'' (Some ''A1'') PNone no_product_world =
     (Inr (Finished (DeadLettered ''X1'')), w') \<and> db_outbox (w_db w') = [r] \<and> ob_status r = ''dead_letter'' \<and>
     ob_last_error r = Some ''ProductNotFound: sku=X1''"
proof -
  obtain w1 where run: "run_event no_product_services dev_settings 0 ''shopee'' ''order'' (Some ''A1'') PNone no_product_world =
     (Inl (ProductNotFoundError ''X1''), w1)" "db_outbox (w_db w1) = db_outbox (w_db no_product_world)"
    using no_product_run by blast
  from missing_sku_dead_letters [OF run(1), of 5] show ?thesis
    unfolding run(2) by (auto simp: no_product_world_def list_all2_Cons1)
qed

text \<open>The failures that pass, and the missing SKU.\<close>

definition transient :: "exc \<Rightarrow> bool" where
  "transient e \<longleftrightarrow> (\<exists>s m. e = CircuitOpenError s m) \<or> (\<exists>n. e = ShopeeRateLimitError n) \<or>
     (\<exists>m. e = OdooConnectionError m)"


text \<open>What an order event leaves in the tables: nothing, when the order cannot be fetched, and
  otherwise what one sync of the fetched order does to the tables as they were.\<close>

theorem fetch_and_sync_tables:
  assumes "fetch_and_sync S cfg c poid w = (r, w')"
  shows "(\<exists>e. r = Inl e) \<and> w_db w' = w_db w \<or>
    (\<exists>ord w1. w_db w1 = w_db w \<and> sync S cfg c ord w1 = (r, w'))"
  using assms unfolding fetch_and_sync_def
proof (cases rule: shopee_port.detail_then)
  case (2 ord w1)
  moreover obtain q w2 where n: "new_odoo_client c w1 = (q, w2)" by fastforce
  moreover have "q = Inr () \<and> w_db w2 = w_db w1" using n by (auto simp: new_odoo_client_def modify_def)
  ultimately show ?thesis by (intro disjI2 exI [of _ ord] exI [of _ w2]) (auto simp: bnd_def)
qed auto

text \<open>In a dry run a confirmed shipment is reported as done and nothing is sent.\<close>

theorem dry_shipment_quiet:
  assumes "MIDDLEWARE_DRY_RUN cfg"
  shows "confirm_shipment_task S cfg platform poid tracking_no w = (Inr (Finished tracking_no), w)"
  using assms by (simp add: confirm_shipment_task_def shopee_port.dry_writes_skipped catching_def)

text \<open>\<open>retryable\<close> is not what decides: a generic \<open>ShopeeError\<close> of the detail fetch, which the
  hierarchy marks as retryable, ends the task without another attempt and without a trace in the
  tables, where the outbox row says that the event was published.\<close>

theorem retryable_error_gives_up:
  assumes "get_order_detail S cfg (SHOPEE_SHOP_ID cfg) (opt_pstr poid) w = (Inl (ShopeeError m k), w1)"
    and "\<not> MIDDLEWARE_DRY_RUN cfg"
  shows "process_webhook_event S cfg c oid ''shopee'' ''order'' poid payload w = (Inl (ShopeeError m k), w1) \<and>
    retryable (ShopeeError m k) = Some True \<and> w_db w1 = w_db w"
proof -
  have "run_event S cfg c ''shopee'' ''order'' poid payload w = (Inl (ShopeeError m k), w1)"
    using assms by (simp add: run_event_def fetch_and_sync_def)
  moreover have "w_db w1 = w_db w" by (rule touches_no_tableD [OF shopee_port.detail_frame assms(1)])
  ultimately show ?thesis
    by (simp add: process_raised retry_transient_def retryable_def class_retryable_def)
qed

theorem retryable_error_gives_up_witness:
  "\<exists>w1. process_webhook_event (shop_services (PDict [(''response'', PDict [(''order_list'', PList [])])]))
     dev_settings 0 7 ''shopee'' ''order'' (Some ''A1'') PNone (null_world empty_db 0) =
     (Inl (ShopeeError ''Order A1 not found'' None), w1) \<and> w_db w1 = empty_db"
proof -
  let ?d = "PDict [(''response'', PDict [(''order_list'', PList [])])]"
  let ?w = "null_world empty_db 0"
  have "shopee_request (shop_services ?d) cfg shop meth path params body True ?w = (Inr ?d, ?w)"
    for cfg shop meth path params body
    by (rule shop_request_answers [where e = PNone]) (simp_all add: py_get_def)
  then have "get_order_detail (shop_services ?d) dev_settings (SHOPEE_SHOP_ID dev_settings) (opt_pstr (Some ''A1'')) ?w =
      (Inl (ShopeeError ''Order A1 not found'' None), ?w)"
    by (simp add: get_order_detail_def bnd_def py_item_def opt_pstr_def)
  from retryable_error_gives_up [OF this] show ?thesis by (simp add: dev_settings_def)
qed

section \<open>The safety net\<close>

text \<open>With an empty cache and a broker that takes every task, what a mapping contributes.\<close>

definition net_skus :: "db \<Rightarrow> mapping_view \<Rightarrow> string list" where
  "net_skus d m =
     (let parts = [bc_odoo_sku p. p \<leftarrow> components_of (mv_id m) d, bc_odoo_sku p \<noteq> []]
      in if mv_mapping_type m = ''bundle'' \<and> parts \<noteq> [] then parts else [mv_odoo_sku m])"

definition cold_cache :: "'x services \<Rightarrow> bool" where
  "cold_cache S \<longleftrightarrow> (\<forall>k x. \<exists>y. sv_get S k x = (Inr None, y)) \<and> (\<forall>k t v x. \<exists>y. sv_setex S k t v x = (Inr (), y))"

lemma component_skus_rows:
  "component_skus (PList (map component_dict ps)) = Inr (map PStr [bc_odoo_sku p. p \<leftarrow> ps, bc_odoo_sku p \<noteq> []])"
proof -
  have "smap (\<lambda>p. sbnd (py_get p ''odoo_sku'' PNone) (\<lambda>s.
          if truthy s then sbnd (py_item p ''odoo_sku'') (\<lambda>t. Inr [t]) else Inr [])) (map component_dict ps) =
      (Inr (map (\<lambda>p. if bc_odoo_sku p \<noteq> [] then [PStr (bc_odoo_sku p)] else []) ps) :: exc + pyval list list)"
    by (induction ps) (auto simp: component_dict_def py_get_def py_item_def)
  moreover have "concat (map (\<lambda>p. if bc_odoo_sku p \<noteq> [] then [PStr (bc_odoo_sku p)] else []) ps) =
      map PStr [bc_odoo_sku p. p \<leftarrow> ps, bc_odoo_sku p \<noteq> []]"
    by (induction ps) auto
  ultimately show ?thesis by (simp only: component_skus_def py_iter_def pyval.case sbnd_simps)
qed

lemma mapping_skus_rows:
  assumes "cold_cache S"
  shows "\<exists>x. mapping_skus S m w = (Inr (map PStr (net_skus (w_db w) m)), w\<lparr>w_ext := x\<rparr>)"
proof (cases "mv_mapping_type m = ''bundle''")
  case True
  let ?rows = "PList (map component_dict (components_of (mv_id m) (w_db w)))"
  obtain y where y: "sv_get S (k_bundle_components (mv_id m)) (w_ext w) = (Inr None, y)"
    using assms unfolding cold_cache_def by blast
  obtain z where z: "sv_setex S (k_bundle_components (mv_id m)) CACHE_TTL (sv_json_dumps S ?rows) y = (Inr (), z)"
    using assms unfolding cold_cache_def by blast
  have "get_bundle_components S (mv_id m) w = (Inr ?rows, w\<lparr>w_ext := z\<rparr>)"
    using y z by (simp add: get_bundle_components_def cached_or_def bnd_def ext_def)
  with True show ?thesis
    by (auto simp: mapping_skus_def bnd_def component_skus_rows net_skus_def Let_def)
next
  case False
  then show ?thesis by (auto simp: mapping_skus_def net_skus_def Let_def intro: exI [of _ "w_ext w"])
qed

lemma enqueue_skus:
  assumes "broker_up S"
  shows "\<exists>es x. fold_eff (enqueue_sku S platform) (map PStr skus) enq w = (Inr es, w\<lparr>w_ext := x\<rparr>) \<and>
    set es = set enq \<union> PStr ` set skus \<and> (distinct enq \<longrightarrow> distinct es)"
proof (induction skus arbitrary: enq w)
  case Nil
  show ?case by (auto intro: exI [of _ "w_ext w"])
next
  case (Cons s ss)
  obtain x where "sv_send_task S ''workers.sync_stock_for_sku''
      [(''odoo_sku'', PStr s), (''platforms'', PList [PStr platform])] ''stock.sync'' None (w_ext w) = (Inr (), x)"
    using assms unfolding broker_up_def by blast
  then obtain es1 x1 where 1: "enqueue_sku S platform (PStr s) enq w = (Inr es1, w\<lparr>w_ext := x1\<rparr>)"
    "set es1 = set enq \<union> {PStr s}" "distinct enq \<longrightarrow> distinct es1"
    by (cases "PStr s \<in> set enq") (auto simp: enqueue_sku_def unhashable_def bnd_def ext_def intro: that [of _ "w_ext w"])
  with Cons.IH [of es1 "w\<lparr>w_ext := x1\<rparr>"] show ?case by auto
qed

lemma enqueue_mappings:
  assumes "broker_up S" "cold_cache S"
  shows "\<exists>es x. fold_eff (enqueue_mapping S platform) ms enq w = (Inr es, w\<lparr>w_ext := x\<rparr>) \<and>
    set es = set enq \<union> PStr ` (\<Union>m \<in> set ms. set (net_skus (w_db w) m)) \<and> (distinct enq \<longrightarrow> distinct es)"
proof (induction ms arbitrary: enq w)
  case Nil
  show ?case by (auto intro: exI [of _ "w_ext w"])
next
  case (Cons m ms)
  obtain x where x: "mapping_skus S m w = (Inr (map PStr (net_skus (w_db w) m)), w\<lparr>w_ext := x\<rparr>)"
    using mapping_skus_rows [OF assms(2)] by blast
  obtain es1 x1 where 1: "fold_eff (enqueue_sku S platform) (map PStr (net_skus (w_db w) m)) enq (w\<lparr>w_ext := x\<rparr>) =
      (Inr es1, w\<lparr>w_ext := x1\<rparr>)" "set es1 = set enq \<union> PStr ` set (net_skus (w_db w) m)" "distinct enq \<longrightarrow> distinct es1"
    using enqueue_skus [OF assms(1), of platform "net_skus (w_db w) m" enq "w\<lparr>w_ext := x\<rparr>"] by auto
  with x have "enqueue_mapping S platform m enq w = (Inr es1, w\<lparr>w_ext := x1\<rparr>)"
    by (simp add: enqueue_mapping_def bnd_def)
  moreover obtain es x2 where "fold_eff (enqueue_mapping S platform) ms es1 (w\<lparr>w_ext := x1\<rparr>) = (Inr es, w\<lparr>w_ext := x2\<rparr>)"
    "set es = set es1 \<union> PStr ` (\<Union>m \<in> set ms. set (net_skus (w_db w) m))" "distinct es1 \<longrightarrow> distinct es"
    using Cons.IH [of es1 "w\<lparr>w_ext := x1\<rparr>"] by auto
  ultimately show ?case using 1(2,3) by (intro exI [of _ es] exI [of _ x2]) (simp add: image_Un Un_assoc)
qed

text \<open>With a cold cache and a broker that is up, the safety net queues one stock sync for every SKU
  that an active Shopee mapping depends on, the components of a bundle that has any and else the
  mapping's own SKU, none twice however many mappings share it, and changes no table.\<close>

theorem safety_net_queues_each_once:
  assumes "broker_up S" "cold_cache S" "ENABLE_STOCK_SYNC cfg"
  shows "\<exists>w'. stock_safety_net S cfg w =
      (Inr (NetQueued (card (\<Union>m \<in> set (list_active_for_platform ''shopee'' (w_db w)). set (net_skus (w_db w) m)))), w') \<and>
    w_db w' = w_db w"
proof -
  let ?U = "\<Union>m \<in> set (list_active_for_platform ''shopee'' (w_db w)). set (net_skus (w_db w) m)"
  obtain es x where es: "fold_eff (enqueue_mapping S ''shopee'') (list_active_for_platform ''shopee'' (w_db w)) [] w =
      (Inr es, w\<lparr>w_ext := x\<rparr>)" "set es = PStr ` ?U" "distinct es"
    using enqueue_mappings [OF assms(1,2), of "''shopee''" "list_active_for_platform ''shopee'' (w_db w)" "[]" w] by auto
  have "length es = card (PStr ` ?U)" using es(2,3) distinct_card by metis
  also have "\<dots> = card ?U" by (rule card_image) (simp add: inj_on_def)
  finally show ?thesis using es(1) assms(3) by (simp add: stock_safety_net_def bnd_def)
qed

theorem safety_net_queues_each_once_witness:
  "\<exists>w'. stock_safety_net null_services dev_settings (null_world sample_db 0) = (Inr (NetQueued 1), w')"
proof -
  have s: "broker_up null_services" "cold_cache null_services" "ENABLE_STOCK_SYNC dev_settings"
    by (simp_all add: broker_up_def cold_cache_def null_services_def dev_settings_def)
  have "(\<Union>m \<in> set (list_active_for_platform ''shopee'' sample_db). set (net_skus sample_db m)) = {''X''}"
    by (simp add: list_active_for_platform_def sample_db_def net_skus_def view_of_def components_of_def Let_def)
  with safety_net_queues_each_once [OF s, of "null_world sample_db 0"] show ?thesis by auto
qed

section \<open>One price for every listing\<close>

definition listing_sku :: "mapping_view \<Rightarrow> string option" where
  "listing_sku m = (case mv_platform_sku_id m of None \<Rightarrow> None | Some s \<Rightarrow> if s = [] then None else Some s)"

lemma push_prices:
  "fold_eff (push_price S cfg price) ms updated w = (Inr us, w') \<Longrightarrow>
   us = updated @ List.map_filter listing_sku ms"
proof (induction ms arbitrary: updated w)
  case (Cons m ms)
  then obtain u v where u: "push_price S cfg price m updated w = (Inr u, v)"
    "us = u @ List.map_filter listing_sku ms" by (auto simp: bnd_eq_Inr)
  then have "u = updated @ (case listing_sku m of None \<Rightarrow> [] | Some s \<Rightarrow> [s])"
    by (auto simp: push_price_def listing_sku_def bnd_eq_Inr ret_def split: option.splits if_splits)
  with u(2) show ?case by (simp add: map_filter_simps split: option.split)
qed (simp add: ret_def map_filter_simps)

lemma load_syncable_price_db: "load_syncable_price S cfg c sku w = (r, w') \<Longrightarrow> w_db w' = w_db w"
proof -
  have "touches_no_table (load_syncable_price S cfg c sku)"
    unfolding load_syncable_price_def by (intro touches_no_tableI keeps_intros)
  then show "load_syncable_price S cfg c sku w = (r, w') \<Longrightarrow> w_db w' = w_db w" by (rule touches_no_tableD)
qed

lemma load_syncable_price_early:
  "load_syncable_price S cfg c sku w = (Inr (Inl early), w') \<Longrightarrow> early \<noteq> PriceSynced p us"
  by (auto simp: load_syncable_price_def bnd_eq_Inr ret_def split: if_splits)

text \<open>The price of one SKU is written to every active listing that sells it, the listings of
  bundles that merely contain it included: they get the component's unit price, not the bundle's.\<close>

theorem component_price_on_bundles:
  assumes "sync_price_for_sku S cfg c sku ''shopee'' w = (Inr (PriceSynced price updates), w')"
    and "keyed pm_id (db_products (w_db w))"
    and "m \<in> set (db_products (w_db w))" "pm_platform m = ''shopee''" "pm_is_active m"
    and "pm_odoo_sku m = sku \<or> (\<exists>p \<in> set (components_of (pm_id m) (w_db w)). bc_odoo_sku p = sku)"
    and "pm_platform_sku_id m = Some s" "s \<noteq> []"
  shows "s \<in> set updates"
proof -
  from assms(1) obtain z w1 where l: "load_syncable_price S cfg c sku w = (Inr z, w1)"
    by (auto simp: sync_price_for_sku_def bnd_eq_Inr ret_def split: if_splits)
  with assms(1) load_syncable_price_early [of S cfg c sku w] obtain price' where z: "z = Inr price'"
    by (cases z) (auto simp: sync_price_for_sku_def bnd_eq_Inr ret_def split: if_splits)
  with l assms(1) have
    f: "fold_eff (push_price S cfg price) (find_mappings_using_component ''shopee'' sku (w_db w1)) [] w1 = (Inr updates, w')"
    by (auto simp: sync_price_for_sku_def bnd_eq_Inr ret_def split: if_splits)
  have "view_of m \<in> set (find_mappings_using_component ''shopee'' sku (w_db w))"
    using affected_mappings [OF assms(2)] assms(3-6) by (auto simp: uses_def)
  moreover have "listing_sku (view_of m) = Some s" using assms(7,8) by (simp add: listing_sku_def view_of_def)
  ultimately show ?thesis
    using push_prices [OF f] load_syncable_price_db [OF l] by (force simp: List.map_filter_def)
qed

text \<open>A shop whose Odoo sells \<open>X\<close> for 100 and whose only listing is the bundle of two.\<close>

definition priced_services :: "rat services" where
  "priced_services = (shop_services (PDict []))\<lparr>sv_execute_kw := (\<lambda>_ _ _ _ _ _ _ x.
     (Inr (PList [PDict [(''lst_price'', PInt 100)]]), x))\<rparr>"

lemma priced_search_read:
  assumes "w_odoo_breaker w = odoo_breaker"
  shows "search_read priced_services cfg c m conds names l w =
    (Inr (PList [PDict [(''lst_price'', PInt 100)]]),
     w\<lparr>w_uids := (w_uids w)(c := Some (case w_uids w c of None \<Rightarrow> PInt 2 | Some u \<Rightarrow> u))\<rparr>)"
proof -
  have "w\<lparr>w_odoo_breaker := odoo_breaker\<rparr> = w"
    using assms by (metis world.surjective world.update_convs(2))
  then show ?thesis
    using assms
    by (cases "w_uids w c")
      (simp_all add: search_read_def odoo_execute_def cb_call_def gate_def run_rpc_def odoo_uid_def
        maybe_transition_to_half_open_def ext_def priced_services_def shop_services_def null_services_def
        bnd_def Let_def record_success_def odoo_breaker_def new_breaker_def fun_upd_idem)
qed

theorem component_price_on_bundles_witness:
  "\<exists>w' us. sync_price_for_sku priced_services (dev_settings\<lparr>ENABLE_PRICE_SYNC := True\<rparr>) 0 ''X'' ''shopee''
     (null_world sample_db 0) = (Inr (PriceSynced 100 us), w') \<and> ''100:5'' \<in> set us"
proof -
  let ?S = priced_services and ?cfg = "dev_settings\<lparr>ENABLE_PRICE_SYNC := True\<rparr>" and ?w = "null_world sample_db 0"
  have maps: "find_mappings_using_component ''shopee'' ''X'' sample_db =
      [\<lparr>mv_id = 1, mv_platform_product_id = ''100'', mv_platform_sku_id = Some ''100:5'',
        mv_odoo_sku = ''COMBO'', mv_mapping_type = ''bundle''\<rparr>]"
    by (simp add: find_mappings_using_component_def sample_db_def view_of_def Let_def)
  have req: "shopee_request ?S cfg shop meth path params body True v = (Inr (PDict []), v)"
    if "w_shopee_breaker v = shopee_breaker" for cfg shop meth path params body v
    by (rule request_answers [OF that, where e = PNone])
      (simp_all add: py_get_def priced_services_def shop_services_def token_key_def startswith_def)
  have upd: "update_price ?S ?cfg ''9'' ''100:5'' 100 v = (Inr (), v)" if "w_shopee_breaker v = shopee_breaker" for v
  proof -
    have "price_ids ''100:5'' = Inr (100, 5)" by (simp add: price_ids_def py_int_def int_of_str_def) code_simp
    then show ?thesis using req [OF that]
      by (simp add: update_price_def skip_flash_sale_def bnd_def dev_settings_def)
  qed
  obtain u where load: "load_syncable_price ?S ?cfg 0 ''X'' ?w = (Inr (Inr 100), ?w\<lparr>w_uids := u\<rparr>)"
  proof -
    have "w_odoo_breaker (?w\<lparr>w_uids := v\<rparr>) = odoo_breaker" for v by simp
    from priced_search_read [OF this] obtain u where
      "get_product_marketplace_controls ?S ?cfg 0 ''X'' (?w\<lparr>w_uids := (w_uids ?w)(0 := None)\<rparr>) =
        (Inr (PDict [(''lst_price'', PInt 100)]), ?w\<lparr>w_uids := u\<rparr>)"
      by (fastforce simp: get_product_marketplace_controls_def bnd_def py_head_def)
    moreover have "fl 100 = 100" using fl_int [of 100] by simp
    ultimately show ?thesis
      by (intro that [of u]) (simp add: load_syncable_price_def new_odoo_client_def bnd_def py_get_def py_or_def py_float_def)
  qed
  have "sync_price_for_sku ?S ?cfg 0 ''X'' ''shopee'' ?w = (Inr (PriceSynced 100 [''100:5'']), ?w\<lparr>w_uids := u\<rparr>)"
    using load maps upd [of "?w\<lparr>w_uids := u\<rparr>"]
    by (simp add: sync_price_for_sku_def bnd_def push_price_def dev_settings_def)
  from component_price_on_bundles [OF this, of "hd (db_products sample_db)" "''100:5''"] this
  show ?thesis by (auto simp: sample_db_def keyed_def components_of_def)
qed

end
