(* ===== verification/Scheduled.thy ===== *)
theory Scheduled
  imports Workers Webhooks Reconciliation
begin

text \<open>
  The beat tasks of \<open>src/workers/scheduled.py\<close> that are not the outbox's own (those are in
  \<open>Outbox\<close>): the token refresh, the polling fallback and the nightly reconciliation, with the
  routes and the schedule of \<open>src/workers/app.py\<close>. The polling loop takes fuel, one unit a page;
  \<open>None\<close> is a loop that has not ended.
\<close>

section \<open>Routes and schedule\<close>

definition task_routes :: "(string \<times> string) list" where
  "task_routes =
     [(''workers.process_webhook_event'', ''orders.created.normal''),
      (''workers.sync_order_to_odoo'', ''orders.created.normal''),
      (''workers.sync_stock_for_sku'', ''stock.sync''),
      (''workers.confirm_shipment'', ''shipment.confirm''),
      (''workers.sync_price_for_sku'', ''price.sync''),
      (''scheduled.relay_outbox'', ''default''),
      (''scheduled.cleanup_outbox'', ''default''),
      (''scheduled.refresh_shopee_token'', ''default''),
      (''scheduled.run_reconciliation'', ''reconciliation''),
      (''scheduled.stock_safety_net'', ''stock.sync''),
      (''scheduled.polling_fallback'', ''default''),
      (''scheduled.retention_cleanup'', ''default'')]"

datatype schedule = EverySeconds rat | Crontab string string

definition beat_schedule :: "(string \<times> string \<times> schedule) list" where
  "beat_schedule =
     [(''outbox-relay-30s'', ''scheduled.relay_outbox'', EverySeconds 30),
      (''shopee-token-refresh-3h'', ''scheduled.refresh_shopee_token'', Crontab ''17'' ''*/3''),
      (''stock-safety-net-15m'', ''scheduled.stock_safety_net'', Crontab ''*/15'' ''*''),
      (''polling-fallback-10m'', ''scheduled.polling_fallback'', Crontab ''*/10'' ''*''),
      (''reconciliation-nightly'', ''scheduled.run_reconciliation'', Crontab ''7'' ''2''),
      (''retention-cleanup-daily'', ''scheduled.retention_cleanup'', Crontab ''0'' ''3''),
      (''outbox-cleanup-daily'', ''scheduled.cleanup_outbox'', Crontab ''30'' ''3'')]"

text \<open>The outbox names its queue itself: it is the queue its task is routed to, for every platform
  and event; and every task of the schedule has a route.\<close>

lemma outbox_queues_are_routed:
  "snd ` set QUEUE_MAP = {''orders.created.normal''} \<and>
   map_of task_routes ''workers.process_webhook_event'' = Some ''orders.created.normal''"
  by (auto simp: QUEUE_MAP_def task_routes_def)

lemma beat_tasks_routed: "(\<lambda>(_, t, _). t) ` set beat_schedule \<subseteq> fst ` set task_routes"
  by (simp add: beat_schedule_def task_routes_def)

section \<open>Token refresh\<close>

datatype refresh_result = Refreshed string | RefreshFailed string

definition refresh_shopee_token :: "'x services \<Rightarrow> settings \<Rightarrow> ('x world, exc, refresh_result) eff" where
  "refresh_shopee_token S cfg =
     catching
       (bnd (refresh S cfg (SHOPEE_SHOP_ID cfg)) (\<lambda>_. ret (Refreshed (SHOPEE_SHOP_ID cfg))))
       (\<lambda>e. bnd (send_token_expiring S cfg (SHOPEE_SHOP_ID cfg) 0) (\<lambda>_. ret (RefreshFailed (exc_str e))))"

section \<open>Polling fallback\<close>

text \<open>One page: the value \<open>response.get("order_list", []) or []\<close> as a list, and the response.\<close>

definition poll_page ::
  "'x services \<Rightarrow> settings \<Rightarrow> int \<Rightarrow> pyval \<Rightarrow> ('x world, exc, pyval list \<times> pyval) eff" where
  "poll_page S cfg now cursor =
     bnd (shopee_request S cfg (SHOPEE_SHOP_ID cfg) ''GET'' ''/api/v2/order/get_order_list''
            [(''time_range_field'', PStr ''update_time''), (''time_from'', PInt (now - 15 * 60)),
             (''time_to'', PInt now), (''page_size'', PInt 100), (''cursor'', cursor)] PNone True) (\<lambda>data.
     bnd (of_sum (py_get data ''response'' (PDict []))) (\<lambda>r.
     let response = py_or r (PDict [])
     in bnd (of_sum (sbnd (py_get response ''order_list'' (PList [])) (\<lambda>p. py_iter (py_or p (PList []))))) (\<lambda>page.
          ret (page, response))))"

fun poll_pages ::
  "'x services \<Rightarrow> settings \<Rightarrow> int \<Rightarrow> nat \<Rightarrow> pyval \<Rightarrow> pyval list \<Rightarrow> ('x world, exc, pyval list option) eff"
where
  "poll_pages S cfg now 0 cursor order_list = ret None"
| "poll_pages S cfg now (Suc fuel) cursor order_list =
     bnd (poll_page S cfg now cursor) (\<lambda>(page, response).
     bnd (of_sum (py_get response ''more'' PNone)) (\<lambda>more.
       if \<not> truthy more then ret (Some (order_list @ page))
       else bnd (of_sum (py_get response ''next_cursor'' (PStr []))) (\<lambda>next_cursor.
            if \<not> truthy next_cursor then ret (Some (order_list @ page))
            else poll_pages S cfg now fuel next_cursor (order_list @ page))))"

definition dedup_key :: string where "dedup_key = ''polling_fallback:shopee:seen''"

definition seen_member :: "pyval \<Rightarrow> string" where
  "seen_member order_sn = ''shopee:'' @ py_str order_sn @ '':3''"

record polled =
  po_rows :: "(pyval \<times> pyval) list"
  po_skipped :: nat

text \<open>One polled order: it is marked as seen in Redis now, its row waits for the commit.\<close>

definition poll_order :: "'x services \<Rightarrow> pyval \<Rightarrow> polled \<Rightarrow> ('x world, exc, polled) eff" where
  "poll_order S ord acc =
     bnd (of_sum (py_get ord ''order_sn'' PNone)) (\<lambda>order_sn.
       if \<not> truthy order_sn then ret acc
       else bnd (ext (sv_sadd S dedup_key (seen_member order_sn))) (\<lambda>added.
            if added = 0 then ret (acc\<lparr>po_skipped := po_skipped acc + 1\<rparr>)
            else ret (acc\<lparr>po_rows := po_rows acc @ [(order_sn, ord)]\<rparr>)))"

definition seed_row :: "instant \<Rightarrow> pyval \<times> pyval \<Rightarrow> exc + db \<Rightarrow> exc + db" where
  "seed_row now row r =
     sbnd r (\<lambda>d. case row of (order_sn, ord) \<Rightarrow>
       sbnd (text_column 100 order_sn) (\<lambda>poid.
         Inr (snd (add_outbox ''shopee'' ''order'' (PInt 3) poid
           (PDict [(''code'', PInt 3), (''data'', ord), (''_polling'', PBool True)]) (Some ''polling'') now d))))"

text \<open>The rows added to the session, at its commit: all of them or none.\<close>

definition seed_rows :: "(pyval \<times> pyval) list \<Rightarrow> instant \<Rightarrow> db \<Rightarrow> exc + unit \<times> db" where
  "seed_rows rows now d = sbnd (fold (seed_row now) rows (Inr d)) (\<lambda>d'. Inr ((), d'))"

datatype poll_result = PollDisabled | Polled nat nat nat

definition seed_orders :: "'x services \<Rightarrow> pyval list \<Rightarrow> ('x world, exc, poll_result) eff" where
  "seed_orders S order_list =
     bnd (fold_eff (poll_order S) order_list \<lparr>po_rows = [], po_skipped = 0\<rparr>) (\<lambda>acc.
     bnd (txn_e S (seed_rows (po_rows acc))) (\<lambda>_.
     bnd (ext (sv_expire S dedup_key (30 * 60))) (\<lambda>_.
       ret (Polled (length order_list) (length (po_rows acc)) (po_skipped acc)))))"

definition polling_fallback ::
  "'x services \<Rightarrow> settings \<Rightarrow> nat \<Rightarrow> ('x world, exc, poll_result option) eff" where
  "polling_fallback S cfg fuel =
     (if \<not> ENABLE_POLLING_FALLBACK cfg then ret (Some PollDisabled)
      else bnd (gets (\<lambda>w. py_trunc (now_w S w))) (\<lambda>now.
           bnd (poll_pages S cfg now fuel (PStr []) []) (\<lambda>polled.
             case polled of
               None \<Rightarrow> ret None
             | Some order_list \<Rightarrow>
                 if order_list = [] then ret (Some (Polled 0 0 0))
                 else bnd (seed_orders S order_list) (\<lambda>r. ret (Some r)))))"

section \<open>Nightly reconciliation\<close>

record recon_summary =
  rn_platform :: string
  rn_run_date :: int
  rn_checked :: int
  rn_matched :: int
  rn_missing :: int
  rn_auto_fixed :: int
  rn_needs_review :: int
  rn_drifts :: nat

definition summary :: "recon_result \<Rightarrow> recon_summary" where
  "summary r = \<lparr>rn_platform = rr_platform r, rn_run_date = rr_run_date r,
     rn_checked = rr_orders_checked r, rn_matched = rr_orders_matched r,
     rn_missing = rr_orders_missing r, rn_auto_fixed = rr_auto_fixed r,
     rn_needs_review = rr_needs_review r, rn_drifts = length (rr_drifts r)\<rparr>"

text \<open>The result is \<open>None\<close> when the listing has not ended; a disabled run has no list.\<close>

definition run_reconciliation ::
  "'x services \<Rightarrow> settings \<Rightarrow> nat \<Rightarrow> (rat \<Rightarrow> string) \<Rightarrow> nat \<Rightarrow>
     ('x world, exc, recon_summary list option option) eff" where
  "run_reconciliation S cfg c dec_text fuel =
     (if \<not> ENABLE_RECONCILIATION cfg then ret (Some None)
      else bnd (new_odoo_client c) (\<lambda>_.
           bnd (run_all_platforms S cfg c dec_text fuel None) (\<lambda>results.
             ret (map_option (\<lambda>rs. Some (map summary rs)) results))))"

section \<open>What a poll seeds\<close>

text \<open>\<open>seen\<close> reads the deduplication set out of the outside state: \<open>SADD\<close> adds the member and answers
  whether it was new.\<close>

definition set_semantics :: "'x services \<Rightarrow> ('x \<Rightarrow> string set) \<Rightarrow> bool" where
  "set_semantics S seen \<longleftrightarrow> (\<forall>m x. \<exists>y. sv_sadd S dedup_key m x = (Inr (if m \<in> seen x then 0 else 1), y) \<and>
     seen y = insert m (seen x))"

lemma sadd_cases:
  assumes "set_semantics S seen"
  obtains y where "sv_sadd S dedup_key m x = (Inr (if m \<in> seen x then 0 else 1), y)" "seen y = insert m (seen x)"
  using assms unfolding set_semantics_def by blast

lemma poll_order_step:
  assumes "set_semantics S seen" "poll_order S ord acc w = (Inr acc', w')"
  shows "\<exists>sn. py_get ord ''order_sn'' PNone = Inr sn \<and> w_db w' = w_db w \<and>
    (if \<not> truthy sn then acc' = acc \<and> w' = w
     else seen (w_ext w') = insert (seen_member sn) (seen (w_ext w)) \<and>
       acc' = (if seen_member sn \<in> seen (w_ext w) then acc\<lparr>po_skipped := po_skipped acc + 1\<rparr>
               else acc\<lparr>po_rows := po_rows acc @ [(sn, ord)]\<rparr>))"
proof -
  from assms(2) obtain sn where sn: "py_get ord ''order_sn'' PNone = Inr sn"
    by (auto simp: poll_order_def bnd_eq_Inr)
  obtain y where "sv_sadd S dedup_key (seen_member sn) (w_ext w) =
      (Inr (if seen_member sn \<in> seen (w_ext w) then 0 else 1), y)" "seen y = insert (seen_member sn) (seen (w_ext w))"
    by (rule sadd_cases [OF assms(1)])
  with assms(2) sn show ?thesis
    by (cases "truthy sn"; cases "seen_member sn \<in> seen (w_ext w)")
      (simp_all add: poll_order_def bnd_def ext_def, (elim conjE; hypsubst; simp)+)
qed

definition polled_members :: "pyval list \<Rightarrow> string set" where
  "polled_members ords = {seen_member sn |sn ord. ord \<in> set ords \<and> py_get ord ''order_sn'' PNone = Inr sn \<and> truthy sn}"

lemma poll_orders:
  assumes "set_semantics S seen" "fold_eff (poll_order S) ords acc w = (Inr acc', w')"
  shows "w_db w' = w_db w \<and> seen (w_ext w') = seen (w_ext w) \<union> polled_members ords \<and>
    (\<exists>new k. po_rows acc' = po_rows acc @ new \<and> po_skipped acc' = po_skipped acc + k \<and>
      length new + k \<le> length ords \<and> distinct (map (\<lambda>r. seen_member (fst r)) new) \<and>
      (\<forall>r \<in> set new. truthy (fst r) \<and> seen_member (fst r) \<notin> seen (w_ext w)))"
  using assms(2)
proof (induction ords arbitrary: acc w)
  case Nil
  then show ?case by (auto simp: polled_members_def ret_def)
next
  case (Cons ord ords)
  then obtain acc1 w1 where 1: "poll_order S ord acc w = (Inr acc1, w1)"
    "fold_eff (poll_order S) ords acc1 w1 = (Inr acc', w')" by (auto simp: bnd_eq_Inr)
  from poll_order_step [OF assms(1) 1(1)] obtain sn where sn: "py_get ord ''order_sn'' PNone = Inr sn"
    and db: "w_db w1 = w_db w"
    and st: "if \<not> truthy sn then acc1 = acc \<and> w1 = w
     else seen (w_ext w1) = insert (seen_member sn) (seen (w_ext w)) \<and>
       acc1 = (if seen_member sn \<in> seen (w_ext w) then acc\<lparr>po_skipped := po_skipped acc + 1\<rparr>
               else acc\<lparr>po_rows := po_rows acc @ [(sn, ord)]\<rparr>)" by blast
  have mem: "polled_members (ord # ords) = (if truthy sn then {seen_member sn} else {}) \<union> polled_members ords"
    using sn by (auto simp: polled_members_def)
  from Cons.IH [OF 1(2)] obtain new k where ih: "w_db w' = w_db w1"
    "seen (w_ext w') = seen (w_ext w1) \<union> polled_members ords"
    "po_rows acc' = po_rows acc1 @ new" "po_skipped acc' = po_skipped acc1 + k" "length new + k \<le> length ords"
    "distinct (map (\<lambda>r. seen_member (fst r)) new)"
    "\<forall>r \<in> set new. truthy (fst r) \<and> seen_member (fst r) \<notin> seen (w_ext w1)" by blast
  show ?case
  proof (cases "truthy sn \<and> seen_member sn \<notin> seen (w_ext w)")
    case True
    with st ih mem db show ?thesis by (intro conjI exI [of _ "(sn, ord) # new"] exI [of _ k]) auto
  next
    case False
    have "po_rows acc' = po_rows acc @ new" using st ih(3) False by (auto split: if_splits)
    moreover have "\<exists>j. po_skipped acc' = po_skipped acc + j \<and> length new + j \<le> Suc (length ords)"
      using st ih(4,5) False
      by (cases "truthy sn") (auto intro: exI [of _ k] exI [of _ "Suc k"])
    moreover have "seen (w_ext w') = seen (w_ext w) \<union> polled_members (ord # ords)"
      using st ih(2) mem False by auto
    moreover have "\<forall>r \<in> set new. truthy (fst r) \<and> seen_member (fst r) \<notin> seen (w_ext w)"
      using st ih(7) False by (auto split: if_splits)
    ultimately show ?thesis using ih(1,6) db by auto
  qed
qed

text \<open>A row for each polled order, in their order.\<close>

definition seeded :: "pyval \<times> pyval \<Rightarrow> outbox \<Rightarrow> bool" where
  "seeded row r \<longleftrightarrow> text_column 100 (fst row) = Inr (ob_platform_order_id r) \<and> ob_status r = ''pending'' \<and>
     ob_event_type r = ''order'' \<and> ob_event_code r = PInt 3 \<and>
     ob_payload r = PDict [(''code'', PInt 3), (''data'', snd row), (''_polling'', PBool True)]"

lemma seed_row_Inl: "fold (seed_row now) rows (Inl e) = Inl e"
  by (induction rows) (auto simp: seed_row_def)

lemma seed_rows_Inr:
  "fold (seed_row now) rows (Inr d) = Inr d' \<Longrightarrow>
   \<exists>rs. db_outbox d' = db_outbox d @ rs \<and> list_all2 seeded rows rs"
proof (induction rows arbitrary: d)
  case (Cons row rows)
  show ?case
  proof (cases "seed_row now row (Inr d)")
    case (Inl e)
    with Cons.prems show ?thesis by (simp add: seed_row_Inl)
  next
    case (Inr d1)
    then have "\<exists>r. db_outbox d1 = db_outbox d @ [r] \<and> seeded row r"
      by (cases row) (auto simp: seed_row_def sbnd_eq_Inr add_outbox_def seeded_def)
    then obtain r where "db_outbox d1 = db_outbox d @ [r]" "seeded row r" by blast
    moreover obtain rs where "db_outbox d' = db_outbox d1 @ rs" "list_all2 seeded rows rs"
      using Cons.IH Cons.prems Inr by auto
    ultimately show ?thesis by auto
  qed
qed simp

lemma seeded_text: "seeded row r \<Longrightarrow> truthy (fst row) \<Longrightarrow> \<exists>s. fst row = PStr s \<and> ob_platform_order_id r = Some s"
  by (auto simp: seeded_def text_column_def split: pyval.splits if_splits)

lemma seeded_rows_distinct:
  assumes "list_all2 seeded rows rs" "distinct (map (\<lambda>r. seen_member (fst r)) rows)" "\<forall>r \<in> set rows. truthy (fst r)"
  shows "distinct (map ob_platform_order_id rs)"
proof -
  have "map fst rows = map (\<lambda>r. opt_pstr (ob_platform_order_id r)) rs"
    using assms(1,3)
  proof (induction rule: list_all2_induct)
    case (Cons row rows r rs)
    with seeded_text [of row r] show ?case by (auto simp: opt_pstr_def)
  qed simp
  then have "map (\<lambda>r. seen_member (fst r)) rows = map (\<lambda>i. seen_member (opt_pstr i)) (map ob_platform_order_id rs)"
    using map_map [of seen_member fst rows, symmetric] by (simp add: comp_def)
  with assms(2) show ?thesis by (metis distinct_map)
qed


text \<open>An outside state that is a clock and the deduplication set.\<close>

definition set_services :: "(rat \<times> string set) services" where
  "set_services = \<lparr>sv_now = fst, sv_authenticate = (\<lambda>_ _ _ x. (Inr (PInt 2), x)),
     sv_execute_kw = (\<lambda>_ _ _ _ _ _ _ x. (Inr (PList []), x)),
     sv_http = (\<lambda>_ _ _ _ x. (Inr \<lparr>hr_status = 200, hr_headers = [], hr_json = Inr (PDict [])\<rparr>, x)),
     sv_send_task = (\<lambda>_ _ _ _ x. (Inr (), x)), sv_slack_post = (\<lambda>_ _ x. (Inr (), x)),
     sv_get = (\<lambda>_ x. (Inr None, x)), sv_setex = (\<lambda>_ _ _ x. (Inr (), x)),
     sv_set_nx_ex = (\<lambda>_ _ _ x. (Inr True, x)), sv_delete = (\<lambda>_ x. (Inr 0, x)),
     sv_exists = (\<lambda>_ x. (Inr 0, x)),
     sv_sadd = (\<lambda>k m (t, s). (Inr (if m \<in> s then 0 else 1), (t, insert m s))),
     sv_expire = (\<lambda>_ _ x. (Inr (), x)), sv_ttl = (\<lambda>_ x. (Inr (-2), x)),
     sv_sleep = (\<lambda>_ x. (Inr (), x)), sv_json_dumps = (\<lambda>_. ''{}''),
     sv_json_loads = (\<lambda>_. Inr (PDict [])), sv_fuzz_ratio = (\<lambda>a b. 0)\<rparr>"

lemma set_services_sem: "set_semantics set_services snd"
  by (auto simp: set_semantics_def set_services_def)

definition set_world :: "(rat \<times> string set) world" where
  "set_world = \<lparr>w_db = empty_db, w_odoo_breaker = odoo_breaker, w_shopee_breaker = shopee_breaker,
     w_uids = (\<lambda>_. None), w_ext = (0, {})\<rparr>"

definition polled_order :: "string \<Rightarrow> pyval" where
  "polled_order sn = PDict [(''order_sn'', PStr sn)]"

lemma polled_order_sn [simp]: "py_get (polled_order sn) ''order_sn'' v = Inr (PStr sn)"
  by (simp add: polled_order_def py_get_def)


text \<open>The orders are marked as seen before their rows are committed. When the commit is refused, as
  the server does for one order number too long for its column, no order of the poll has a row, and
  every later poll skips each of them while its mark lasts.\<close>

theorem refused_commit_loses_poll:
  assumes "set_semantics S seen"
    and "fold_eff (poll_order S) ords \<lparr>po_rows = [], po_skipped = 0\<rparr> w = (Inr acc, w1)"
    and "seed_rows (po_rows acc) (now_w S w1) (w_db w1) = Inl e"
    and "ord \<in> set ords" "py_get ord ''order_sn'' PNone = Inr sn" "truthy sn"
    and "seen (w_ext w1) \<subseteq> seen (w_ext later)"
  shows "seed_orders S ords w = (Inl e, w1) \<and> w_db w1 = w_db w \<and>
    fst (poll_order S ord a later) = Inr (a\<lparr>po_skipped := po_skipped a + 1\<rparr>)"
proof -
  from poll_orders [OF assms(1,2)] have p: "w_db w1 = w_db w" "seen (w_ext w1) = seen (w_ext w) \<union> polled_members ords"
    by blast+
  have "txn_e S (seed_rows (po_rows acc)) w1 = (Inl e, w1)" using assms(3) by (simp add: txn_e_eq)
  then have "seed_orders S ords w = (Inl e, w1)" using assms(2) by (simp add: seed_orders_def)
  moreover have "seen_member sn \<in> seen (w_ext later)"
  proof -
    have "seen_member sn \<in> polled_members ords" using assms(4-6) by (auto simp: polled_members_def)
    with p(2) assms(7) show ?thesis by blast
  qed
  then have "fst (poll_order S ord a later) = Inr (a\<lparr>po_skipped := po_skipped a + 1\<rparr>)"
  proof -
    assume m: "seen_member sn \<in> seen (w_ext later)"
    obtain y where "sv_sadd S dedup_key (seen_member sn) (w_ext later) =
        (Inr (if seen_member sn \<in> seen (w_ext later) then 0 else 1), y)"
      by (rule sadd_cases [OF assms(1)])
    with m assms(5,6) show ?thesis by (simp add: poll_order_def bnd_def ext_def)
  qed
  ultimately show ?thesis using p(1) by blast
qed

theorem refused_commit_loses_poll_witness:
  "\<exists>w1 e. seed_orders set_services [polled_order ''A1'', polled_order (replicate 101 CHR ''9'')] set_world = (Inl e, w1) \<and>
     db_outbox (w_db w1) = [] \<and> fst (poll_order set_services (polled_order ''A1'') \<lparr>po_rows = [], po_skipped = 0\<rparr> w1) =
       Inr \<lparr>po_rows = [], po_skipped = 1\<rparr>"
proof -
  let ?long = "replicate 101 CHR ''9''"
  define long where "long = ?long"
  have len: "length long = 101" by (simp add: long_def)
  then have truthy: "long \<noteq> []" by auto
  have diff: "seen_member (PStr ''A1'') \<noteq> seen_member (PStr long)"
    using len by (auto simp: seen_member_def long_def dest: arg_cong [where f = length])
  obtain w1 where f: "fold_eff (poll_order set_services) [polled_order ''A1'', polled_order long]
      \<lparr>po_rows = [], po_skipped = 0\<rparr> set_world =
      (Inr \<lparr>po_rows = [(PStr ''A1'', polled_order ''A1''), (PStr long, polled_order long)], po_skipped = 0\<rparr>, w1)"
    using diff truthy by (simp add: poll_order_def bnd_def ext_def set_services_def set_world_def)
  have c: "seed_rows [(PStr ''A1'', polled_order ''A1''), (PStr long, polled_order long)] t d = Inl db_error" for t d
    using len by (simp add: seed_rows_def seed_row_def text_column_def)
  from refused_commit_loses_poll [OF set_services_sem f, unfolded polled.simps, OF c, of "polled_order ''A1''" _ w1]
  have "seed_orders set_services [polled_order ''A1'', polled_order long] set_world = (Inl db_error, w1)"
    "w_db w1 = w_db set_world"
    "fst (poll_order set_services (polled_order ''A1'') \<lparr>po_rows = [], po_skipped = 0\<rparr> w1) =
       Inr \<lparr>po_rows = [], po_skipped = 1\<rparr>" by auto
  then show ?thesis unfolding long_def by (auto simp: set_world_def empty_db_def)
qed

end
