(* ===== verification/Http.thy ===== *)
theory Http
  imports World
begin

text \<open>
  Requests to the admin interface: the guards of \<open>src/api/dependencies.py\<close>, the CSRF cookie of
  \<open>src/api/csrf_helper.py\<close> and the body limit of \<open>src/api/middleware.py\<close>. A handler ends with a
  reply; \<open>HTTPException\<close> is the reply \<open>HttpError\<close>, and any other exception is raised (FastAPI
  answers it with status 500). Random tokens are arguments. FastAPI has already parsed the typed
  parameters.
\<close>

record request =
  rq_ip :: "string option"
  rq_user_agent :: "string option"
  rq_admin_cookie :: "string option"
  rq_token :: "string option"
  rq_csrf_cookie :: "string option"
  rq_csrf_form :: "string option"
  rq_csrf_header :: "string option"

text \<open>A rendered page: what it shows, the value of the hidden \<open>csrf_token\<close> field of its forms, and
  the cookies it sets.\<close>

record 'v page =
  pg_view :: 'v
  pg_form_token :: string
  pg_csrf_cookie :: string
  pg_admin_cookie :: string
  pg_secure :: bool

datatype 'v reply = Page "'v page" | Json 'v | Redirect string | HttpError int

definition opt_or :: "string option \<Rightarrow> string option \<Rightarrow> string option" where
  "opt_or a b = (if str_truthy a then a else b)"

definition opt_text :: "string option \<Rightarrow> string" where
  "opt_text s = (case s of None \<Rightarrow> [] | Some t \<Rightarrow> t)"

section \<open>Guards\<close>

definition require_admin_token :: "settings \<Rightarrow> request \<Rightarrow> exc + bool" where
  "require_admin_token cfg rq =
     compare_digest (opt_text (opt_or (rq_token rq) (rq_admin_cookie rq))) (ADMIN_SECRET_TOKEN cfg)"

definition verify_csrf :: "request \<Rightarrow> exc + bool" where
  "verify_csrf rq = verify_csrf_token (rq_csrf_cookie rq) (opt_or (rq_csrf_form rq) (rq_csrf_header rq))"

definition admin_get ::
  "settings \<Rightarrow> request \<Rightarrow> ('x world, exc, 'v reply) eff \<Rightarrow> ('x world, exc, 'v reply) eff" where
  "admin_get cfg rq handler =
     bnd (of_sum (require_admin_token cfg rq)) (\<lambda>ok. if ok then handler else ret (HttpError 401))"

definition admin_post ::
  "settings \<Rightarrow> request \<Rightarrow> ('x world, exc, 'v reply) eff \<Rightarrow> ('x world, exc, 'v reply) eff" where
  "admin_post cfg rq handler =
     admin_get cfg rq (bnd (of_sum (verify_csrf rq)) (\<lambda>ok. if ok then handler else ret (HttpError 403)))"

text \<open>\<open>TemplateResponse\<close> renders at once: the templates write \<open>request.cookies.get('csrf_token', '')\<close>
  into their forms. Then \<open>set_admin_cookie\<close> and \<open>set_csrf_cookie\<close> set the cookies, and the late
  \<open>resp.context["csrf_token"]\<close> changes nothing that was rendered.\<close>

definition render :: "settings \<Rightarrow> request \<Rightarrow> string \<Rightarrow> 'v \<Rightarrow> 'v reply" where
  "render cfg rq csrf_token view = Page
     \<lparr>pg_view = view, pg_form_token = opt_text (rq_csrf_cookie rq), pg_csrf_cookie = csrf_token,
      pg_admin_cookie = ADMIN_SECRET_TOKEN cfg, pg_secure = (ENVIRONMENT cfg \<noteq> Development)\<rparr>"

text \<open>The request a browser makes from a page: it submits the form the page holds and sends the
  cookies the page set. The delete forms of two templates have no token field.\<close>

definition submit_form :: "'v page \<Rightarrow> request \<Rightarrow> request" where
  "submit_form p rq = rq\<lparr>rq_admin_cookie := Some (pg_admin_cookie p), rq_csrf_cookie := Some (pg_csrf_cookie p),
     rq_csrf_form := Some (pg_form_token p), rq_csrf_header := None, rq_token := None\<rparr>"

definition submit_bare_form :: "'v page \<Rightarrow> request \<Rightarrow> request" where
  "submit_bare_form p rq = (submit_form p rq)\<lparr>rq_csrf_form := None\<rparr>"

section \<open>Audit\<close>

definition audit_row :: "request \<Rightarrow> string \<Rightarrow> string option \<Rightarrow> pyval \<Rightarrow> instant \<Rightarrow> db \<Rightarrow> db" where
  "audit_row rq action target payload now d =
     d\<lparr>db_audit := db_audit d @
          [\<lparr>al_id = db_next_id d, al_actor = ''admin'', al_action = action, al_target = target,
            al_ip = rq_ip rq, al_user_agent = rq_user_agent rq, al_payload = payload,
            al_success = True, al_created_at = now\<rparr>],
        db_next_id := db_next_id d + 1\<rparr>"

section \<open>Body size\<close>

definition MAX_BODY_SIZE :: int where "MAX_BODY_SIZE = 1048576"

text \<open>\<open>BodySizeLimitMiddleware\<close>: whether the request is refused with status 413.\<close>

definition body_too_large :: "string option \<Rightarrow> exc + bool" where
  "body_too_large content_length =
     (if \<not> str_truthy content_length then Inr False
      else sbnd (py_int (PStr (opt_text content_length))) (\<lambda>n. Inr (MAX_BODY_SIZE < n)))"

section \<open>What the guards let through\<close>

lemma admin_get_ok: "require_admin_token cfg rq = Inr True \<Longrightarrow> admin_get cfg rq h w = h w"
  by (simp add: admin_get_def bnd_def)

lemma admin_post_ok:
  "require_admin_token cfg rq = Inr True \<Longrightarrow> verify_csrf rq = Inr True \<Longrightarrow> admin_post cfg rq h w = h w"
  by (simp add: admin_post_def admin_get_ok bnd_def)

lemma admin_get_cases: "admin_get cfg rq h w = h w \<or> snd (admin_get cfg rq h w) = w"
  by (simp add: admin_get_def bnd_def split: sum.split)

lemma admin_post_cases: "admin_post cfg rq h w = h w \<or> snd (admin_post cfg rq h w) = w"
proof -
  have "bnd (of_sum (verify_csrf rq)) (\<lambda>ok. if ok then h else ret (HttpError 403)) w = h w \<or>
      snd (bnd (of_sum (verify_csrf rq)) (\<lambda>ok. if ok then h else ret (HttpError 403)) w) = w"
    by (simp add: bnd_def split: sum.split)
  with admin_get_cases show ?thesis unfolding admin_post_def by metis
qed

lemma require_admin_token_True:
  "require_admin_token cfg rq = Inr True \<longleftrightarrow>
     opt_text (opt_or (rq_token rq) (rq_admin_cookie rq)) = ADMIN_SECRET_TOKEN cfg \<and>
     list_all is_ascii (ADMIN_SECRET_TOKEN cfg)"
  by (auto simp: require_admin_token_def)

lemma verify_csrf_True:
  "verify_csrf rq = Inr True \<longleftrightarrow>
     (\<exists>t. rq_csrf_cookie rq = Some t \<and> opt_or (rq_csrf_form rq) (rq_csrf_header rq) = Some t \<and>
       t \<noteq> [] \<and> list_all is_ascii t)"
  by (simp add: verify_csrf_def verify_csrf_token_True)

text \<open>A state-changing admin request does nothing at all unless it carries the admin secret, in
  the query or else in the cookie, and the same non-empty token in the CSRF cookie and in the form
  or else the header; when it does, it is exactly its handler.\<close>

theorem admin_post_guarded:
  "if opt_text (opt_or (rq_token rq) (rq_admin_cookie rq)) = ADMIN_SECRET_TOKEN cfg \<and>
      list_all is_ascii (ADMIN_SECRET_TOKEN cfg) \<and>
      (\<exists>t. rq_csrf_cookie rq = Some t \<and> opt_or (rq_csrf_form rq) (rq_csrf_header rq) = Some t \<and>
         t \<noteq> [] \<and> list_all is_ascii t)
   then admin_post cfg rq handler w = handler w
   else \<exists>r. r \<in> {Inr (HttpError 401), Inr (HttpError 403)} \<union> {Inl e |e. class_of e = CTypeError} \<and>
     admin_post cfg rq handler w = (r, w)"
proof -
  have err: "compare_digest s t = Inl e \<Longrightarrow> class_of e = CTypeError" for s t e
    by (auto simp: compare_digest_def split: if_splits)
  have "\<exists>r. r \<in> {Inr (HttpError 401), Inr (HttpError 403)} \<union> {Inl e |e. class_of e = CTypeError} \<and>
      admin_post cfg rq handler w = (r, w)"
    if no: "\<not> (require_admin_token cfg rq = Inr True \<and> verify_csrf rq = Inr True)"
  proof (cases "require_admin_token cfg rq")
    case (Inl e)
    then have "class_of e = CTypeError" by (simp add: require_admin_token_def err)
    with Inl show ?thesis by (auto simp: admin_post_def admin_get_def bnd_def)
  next
    case (Inr ok)
    show ?thesis
    proof (cases "ok")
      case False
      with Inr show ?thesis by (auto simp: admin_post_def admin_get_def bnd_def)
    next
      case True
      with Inr have post: "admin_post cfg rq handler w =
          bnd (of_sum (verify_csrf rq)) (\<lambda>ok. if ok then handler else ret (HttpError 403)) w"
        by (simp only: admin_post_def admin_get_ok)
      show ?thesis
      proof (cases "verify_csrf rq")
        case (Inl e)
        then have "class_of e = CTypeError"
          by (auto simp: verify_csrf_def verify_csrf_token_def intro: err split: if_splits)
        with Inl post show ?thesis by (auto simp: bnd_def)
      next
        case (Inr v)
        with no \<open>require_admin_token cfg rq = Inr ok\<close> True post show ?thesis by (auto simp: bnd_def)
      qed
    qed
  qed
  moreover have "admin_post cfg rq handler w = handler w"
    if "require_admin_token cfg rq = Inr True \<and> verify_csrf rq = Inr True"
    using that admin_post_ok by blast
  ultimately show ?thesis
    unfolding if_bool_eq_conj require_admin_token_True verify_csrf_True by blast
qed

text \<open>No form of a rendered page passes the CSRF check. The form holds the token of the cookie the
  request came with, and the response replaces that cookie: the browser's next request carries the
  new cookie and the old token, and every form is refused with status 403 unless the random token
  repeats. The delete forms that have no token field are refused always.\<close>

theorem rendered_forms_refused:
  assumes "render cfg rq token view = Page p" and "token \<noteq> opt_text (rq_csrf_cookie rq)"
    and "list_all is_ascii token" "list_all is_ascii (opt_text (rq_csrf_cookie rq))"
    and "list_all is_ascii (ADMIN_SECRET_TOKEN cfg)"
  shows "admin_post cfg (submit_form p rq') handler w = (Inr (HttpError 403), w) \<and>
    admin_post cfg (submit_bare_form p rq') handler w = (Inr (HttpError 403), w)"
proof -
  from assms(1) have p: "pg_form_token p = opt_text (rq_csrf_cookie rq)" "pg_csrf_cookie p = token"
    "pg_admin_cookie p = ADMIN_SECRET_TOKEN cfg" by (auto simp: render_def)
  have auth: "require_admin_token cfg (submit_form p rq') = Inr True"
    "require_admin_token cfg (submit_bare_form p rq') = Inr True"
    by (simp_all add: require_admin_token_True submit_form_def submit_bare_form_def p opt_or_def str_truthy_def
        opt_text_def assms(5))
  have "verify_csrf (submit_form p rq') = Inr False"
    using assms(2-4) p(1,2)
    by (auto simp: verify_csrf_def verify_csrf_token_def submit_form_def opt_or_def str_truthy_def compare_digest_def)
  moreover have "verify_csrf (submit_bare_form p rq') = Inr False"
    by (simp add: verify_csrf_def verify_csrf_token_def submit_form_def submit_bare_form_def opt_or_def str_truthy_def)
  ultimately show ?thesis
    by (simp add: admin_post_def admin_get_ok [OF auth(1)] admin_get_ok [OF auth(2)] bnd_def)
qed

definition sample_request :: request where
  "sample_request = \<lparr>rq_ip = Some ''10.0.0.1'', rq_user_agent = None, rq_admin_cookie = Some ''admin'', rq_token = None,
     rq_csrf_cookie = Some ''old'', rq_csrf_form = Some ''old'', rq_csrf_header = None\<rparr>"

theorem rendered_forms_refused_witness:
  "\<exists>p. render dev_settings sample_request ''new'' () = Page p \<and>
     admin_post dev_settings (submit_form p sample_request) (ret (Redirect ''/admin/'')) (null_world empty_db 0) =
       (Inr (HttpError 403) :: exc + unit reply, null_world empty_db 0)"
proof -
  obtain p where p: "render dev_settings sample_request ''new'' () = Page p" by (simp add: render_def)
  have "list_all is_ascii ''new''" "list_all is_ascii (opt_text (rq_csrf_cookie sample_request))"
    "list_all is_ascii (ADMIN_SECRET_TOKEN dev_settings)" "''new'' \<noteq> opt_text (rq_csrf_cookie sample_request)"
    by (simp_all add: sample_request_def dev_settings_def opt_text_def is_ascii_def)
  with rendered_forms_refused [OF p] p show ?thesis by blast
qed

end
