(* ===== verification/Admin.thy ===== *)
theory Admin
  imports Http Orders Outbox Mapping Tokens "HOL-Library.List_Lexorder" "HOL-Library.Char_ord"
begin

text \<open>
  The admin interface: \<open>src/api/routers/admin.py\<close> (dashboard and the retry of an order) and
  \<open>src/api/routers/config_admin.py\<close> (platforms, product mappings with their bundle components,
  stock allocation, the Shopee wizard). A form is a record of its fields as they are submitted. The
  writes of a handler are one transaction with the constraints of its tables; the caches are
  dropped after the commit, and a failure there is only logged. Text is ordered by code points.
\<close>

text \<open>\<open>db.get(Model, id)\<close> on an \<open>Integer\<close> key.\<close>

definition by_id :: "('r \<Rightarrow> int) \<Rightarrow> int \<Rightarrow> 'r list \<Rightarrow> exc + 'r option" where
  "by_id key i rows = sbnd (int_column (PInt i)) (\<lambda>_. Inr (first_row (\<lambda>r. key r = i) rows))"

definition integrity_error :: exc where
  "integrity_error = PyError CDatabaseError ''duplicate key value violates unique constraint''"

definition PLATFORMS :: "string list" where
  "PLATFORMS = [''shopee'', ''lazada'', ''tiktok'']"

definition on :: "string \<Rightarrow> bool" where "on v \<longleftrightarrow> v = ''on''"

definition null_if_empty :: "string \<Rightarrow> string option" where
  "null_if_empty s = (if s = [] then None else Some s)"

section \<open>Dashboard and order retry\<close>

record dashboard_view =
  dv_order_stats :: "(string \<times> nat) list"
  dv_outbox_stats :: "(string \<times> nat) list"
  dv_queue_depths :: "(string \<times> int) list"
  dv_recent_failures :: "order_mapping list"

definition order_stats :: "instant \<Rightarrow> db \<Rightarrow> (string \<times> nat) list" where
  "order_stats now d =
     (let ss = [om_status m. m \<leftarrow> db_orders d, now - days 1 \<le> om_created_at m]
      in map (\<lambda>s. (s, length (filter (\<lambda>t. t = s) ss))) (remdups ss))"

definition recent_failures :: "db \<Rightarrow> order_mapping list" where
  "recent_failures d = take 10 (rev (sort_key om_updated_at
     [m \<leftarrow> db_orders d. om_status m \<in> {''failed'', ''dead_letter''}]))"

text \<open>The broker is another Redis database; \<open>llen\<close> is its \<open>LLEN\<close>.\<close>

definition dashboard ::
  "'x services \<Rightarrow> settings \<Rightarrow> (string \<Rightarrow> ('x, exc, int) eff) \<Rightarrow> request \<Rightarrow> string \<Rightarrow>
     ('x world, exc, dashboard_view reply) eff" where
  "dashboard S cfg llen rq csrf =
     admin_get cfg rq
       (bnd (gets (\<lambda>w. order_stats (now_w S w) (w_db w))) (\<lambda>orders.
        bnd (gets (\<lambda>w. get_stats (w_db w))) (\<lambda>outbox_stats.
        bnd (ext (llen ''orders.created.high'')) (\<lambda>high.
        bnd (ext (llen ''orders.created.normal'')) (\<lambda>normal.
        bnd (ext (llen ''stock.sync'')) (\<lambda>stock.
        bnd (gets (\<lambda>w. recent_failures (w_db w))) (\<lambda>failures.
          ret (render cfg rq csrf
            \<lparr>dv_order_stats = orders, dv_outbox_stats = outbox_stats,
             dv_queue_depths = [(''high'', high), (''normal'', normal), (''stock'', stock)],
             dv_recent_failures = failures\<rparr>))))))))"

text \<open>The reset and its audit row, one transaction; \<open>Some n\<close> is the status that refuses it.\<close>

definition retry_txn :: "request \<Rightarrow> int \<Rightarrow> instant \<Rightarrow> db \<Rightarrow> int option \<times> db" where
  "retry_txn rq i now d =
     (case first_row (\<lambda>m. om_id m = i) (db_orders d) of
        None \<Rightarrow> (Some 404, d)
      | Some m \<Rightarrow>
          if om_status m \<notin> {''failed'', ''dead_letter''} then (Some 400, d)
          else (None, audit_row rq ''retry_order'' (Some (''order_mapping:'' @ int_str i)) PNone now
                        (snd (reset_order i now d))))"

definition retry_order ::
  "'x services \<Rightarrow> settings \<Rightarrow> request \<Rightarrow> int \<Rightarrow> ('x world, exc, unit reply) eff" where
  "retry_order S cfg rq i =
     admin_post cfg rq
       (bnd (txn S (retry_txn rq i)) (\<lambda>refused.
          case refused of
            Some n \<Rightarrow> ret (HttpError n)
          | None \<Rightarrow>
              bnd (ext (sv_send_task S ''workers.sync_order_to_odoo'' [(''order_mapping_id'', PInt i)]
                     ''orders.created.normal'' None)) (\<lambda>_. ret (Redirect ''/admin/''))))"

section \<open>Platforms\<close>

definition platform_row :: "string \<Rightarrow> db \<Rightarrow> exc + platform_config option" where
  "platform_row platform d =
     scalar_one_or_none [r \<leftarrow> db_platforms d. pc_platform r = platform]"

definition platforms_list ::
  "'x services \<Rightarrow> settings \<Rightarrow> request \<Rightarrow> string \<Rightarrow> ('x world, exc, platform_config list reply) eff" where
  "platforms_list S cfg rq csrf =
     admin_get cfg rq (bnd (query (\<lambda>d. Inr (sort_key pc_platform (db_platforms d)))) (\<lambda>rows.
       ret (render cfg rq csrf rows)))"

definition platforms_new_form ::
  "settings \<Rightarrow> request \<Rightarrow> string \<Rightarrow> ('x world, exc, platform_config option reply) eff" where
  "platforms_new_form cfg rq csrf = admin_get cfg rq (ret (render cfg rq csrf None))"

definition platforms_edit_form ::
  "settings \<Rightarrow> request \<Rightarrow> string \<Rightarrow> string \<Rightarrow> ('x world, exc, platform_config option reply) eff" where
  "platforms_edit_form cfg rq csrf platform =
     admin_get cfg rq (bnd (query (platform_row platform)) (\<lambda>row.
       case row of None \<Rightarrow> ret (HttpError 404) | Some r \<Rightarrow> ret (render cfg rq csrf (Some r))))"

record platform_form =
  pf_platform :: string
  pf_shop_id :: string
  pf_is_active :: string
  pf_dry_run :: string
  pf_price_master :: string

definition save_platform :: "request \<Rightarrow> platform_form \<Rightarrow> instant \<Rightarrow> db \<Rightarrow> exc + unit \<times> db" where
  "save_platform rq f now d =
     sbnd (platform_row (pf_platform f) d) (\<lambda>found.
     sbnd (text_column 100 (opt_pstr (null_if_empty (pf_shop_id f)))) (\<lambda>shop.
     let set = (\<lambda>r. r\<lparr>pc_shop_id := shop, pc_is_active := on (pf_is_active f),
                  pc_dry_run := on (pf_dry_run f), pc_price_master := pf_price_master f\<rparr>);
         d1 = (case found of
           None \<Rightarrow> d\<lparr>db_platforms := db_platforms d @ [set
               \<lparr>pc_id = db_next_id d, pc_platform = pf_platform f, pc_shop_id = None, pc_credentials = [],
                pc_is_active = True, pc_dry_run = False, pc_price_master = ''platform''\<rparr>],
               db_next_id := db_next_id d + 1\<rparr>
         | Some r \<Rightarrow> d\<lparr>db_platforms := upd_rows (\<lambda>x. pc_id x = pc_id r) set (db_platforms d)\<rparr>)
     in Inr ((), audit_row rq ''config_platform_save'' (Some (''platform:'' @ pf_platform f))
          (PDict [(''is_active'', PBool (on (pf_is_active f))), (''dry_run'', PBool (on (pf_dry_run f))),
            (''price_master'', PStr (pf_price_master f)), (''is_new'', PBool (found = None))]) now d1)))"

definition platforms_save ::
  "'x services \<Rightarrow> settings \<Rightarrow> request \<Rightarrow> platform_form \<Rightarrow> ('x world, exc, unit reply) eff" where
  "platforms_save S cfg rq f =
     admin_post cfg rq
       (if pf_platform f \<notin> set PLATFORMS then ret (HttpError 400)
        else if pf_price_master f \<notin> {''platform'', ''odoo''} then ret (HttpError 400)
        else bnd (txn_e S (save_platform rq f)) (\<lambda>_.
               ret (Redirect (''/admin/config/platforms?flash=Saved+'' @ pf_platform f))))"

definition delete_platform :: "request \<Rightarrow> string \<Rightarrow> instant \<Rightarrow> db \<Rightarrow> exc + bool \<times> db" where
  "delete_platform rq platform now d =
     sbnd (platform_row platform d) (\<lambda>found.
       case found of
         None \<Rightarrow> Inr (False, d)
       | Some r \<Rightarrow> Inr (True, audit_row rq ''config_platform_delete'' (Some (''platform:'' @ platform)) PNone now
           (d\<lparr>db_platforms := del_rows (\<lambda>x. pc_id x = pc_id r) (db_platforms d)\<rparr>)))"

definition platforms_delete ::
  "'x services \<Rightarrow> settings \<Rightarrow> request \<Rightarrow> string \<Rightarrow> ('x world, exc, unit reply) eff" where
  "platforms_delete S cfg rq platform =
     admin_post cfg rq (bnd (txn_e S (delete_platform rq platform)) (\<lambda>found.
       if found then ret (Redirect ''/admin/config/platforms?flash=Deleted'') else ret (HttpError 404)))"

section \<open>The Shopee wizard\<close>

record setup_view =
  sv_status :: auth_state
  sv_auth_link :: "string option"
  sv_auth_error :: "string option"
  sv_cfg :: "platform_config option"

text \<open>\<open>random\<close> is the state token and \<open>redirect_uri\<close> the URL of the callback route.\<close>

definition auth_link ::
  "'x services \<Rightarrow> settings \<Rightarrow> ((string \<times> pyval) list \<Rightarrow> string) \<Rightarrow> string \<Rightarrow> string \<Rightarrow>
     ('x world, exc, auth_url) eff" where
  "auth_link S cfg url_encode random redirect_uri =
     bnd (issue_oauth_state S random) (\<lambda>state.
     bnd (gets (now_w S)) (\<lambda>now.
       of_sum (build_auth_url url_encode cfg now redirect_uri (Some state))))"

definition shopee_setup ::
  "'x services \<Rightarrow> settings \<Rightarrow> ((string \<times> pyval) list \<Rightarrow> string) \<Rightarrow> request \<Rightarrow> string \<Rightarrow> string \<Rightarrow> string \<Rightarrow>
     ('x world, exc, setup_view reply) eff" where
  "shopee_setup S cfg url_encode rq csrf random redirect_uri =
     admin_get cfg rq
       (bnd (auth_status S cfg (SHOPEE_SHOP_ID cfg)) (\<lambda>status.
        bnd (catching
              (bnd (auth_link S cfg url_encode random redirect_uri) (\<lambda>u. ret (Some (au_url u), None)))
              (\<lambda>e. if isinstance e CValueError then ret (None, Some (exc_str e)) else throw e)) (\<lambda>(link, err).
        bnd (query (platform_row ''shopee'')) (\<lambda>row.
          ret (render cfg rq csrf
            \<lparr>sv_status = status, sv_auth_link = link, sv_auth_error = err, sv_cfg = row\<rparr>)))))"

section \<open>Product mappings\<close>

text \<open>\<open>s ILIKE p\<close>: \<open>%\<close> and \<open>_\<close> are wildcards, a backslash takes the next character as it is.\<close>

function like :: "string \<Rightarrow> string \<Rightarrow> bool" where
  "like [] s \<longleftrightarrow> s = []"
| "like (c # p) s \<longleftrightarrow>
     (if c = CHR ''%'' then like p s \<or> (if s = [] then False else like (c # p) (tl s))
      else if c = CHR ''_'' then s \<noteq> [] \<and> like p (tl s)
      else if c = CHR 0x5C \<and> p \<noteq> [] then s \<noteq> [] \<and> hd s = hd p \<and> like (tl p) (tl s)
      else s \<noteq> [] \<and> hd s = c \<and> like p (tl s))"
  by pat_completeness auto
termination
  by (relation "measure (\<lambda>(p, s). length p + length s)") auto

definition ilike :: "string \<Rightarrow> string \<Rightarrow> bool" where
  "ilike s p \<longleftrightarrow> like (py_lower p) (py_lower s)"

definition product_filter :: "string option \<Rightarrow> string option \<Rightarrow> product_mapping \<Rightarrow> bool" where
  "product_filter platform search m \<longleftrightarrow>
     (str_truthy platform \<longrightarrow> Some (pm_platform m) = platform) \<and>
     (case search of
        None \<Rightarrow> True
      | Some s \<Rightarrow> s = [] \<or>
          (let p = ''%'' @ s @ ''%''
           in ilike (pm_odoo_sku m) p \<or>
              (case pm_platform_sku_id m of None \<Rightarrow> False | Some sku \<Rightarrow> ilike sku p)))"

definition PAGE_SIZE :: nat where "PAGE_SIZE = 50"

definition products_page :: "string option \<Rightarrow> string option \<Rightarrow> nat \<Rightarrow> db \<Rightarrow> product_mapping list" where
  "products_page platform search page d =
     take PAGE_SIZE (drop ((page - 1) * PAGE_SIZE)
       (rev (sort_key pm_created_at [m \<leftarrow> db_products d. product_filter platform search m])))"

definition products_list ::
  "settings \<Rightarrow> request \<Rightarrow> string \<Rightarrow> string option \<Rightarrow> string option \<Rightarrow> nat \<Rightarrow>
     ('x world, exc, product_mapping list reply) eff" where
  "products_list cfg rq csrf platform search page =
     admin_get cfg rq (bnd (query (\<lambda>d. Inr (products_page platform search page d))) (\<lambda>rows.
       ret (render cfg rq csrf rows)))"

type_synonym product_view = "product_mapping option \<times> bundle_component list"

definition products_new_form ::
  "settings \<Rightarrow> request \<Rightarrow> string \<Rightarrow> ('x world, exc, product_view reply) eff" where
  "products_new_form cfg rq csrf = admin_get cfg rq (ret (render cfg rq csrf (None, [])))"

definition products_edit_form ::
  "settings \<Rightarrow> request \<Rightarrow> string \<Rightarrow> int \<Rightarrow> ('x world, exc, product_view reply) eff" where
  "products_edit_form cfg rq csrf i =
     admin_get cfg rq (bnd (query (\<lambda>d. by_id pm_id i (db_products d))) (\<lambda>row.
       case row of
         None \<Rightarrow> ret (HttpError 404)
       | Some r \<Rightarrow> bnd (query (\<lambda>d. Inr (components_of i d))) (\<lambda>comps.
           ret (render cfg rq csrf (Some r, comps)))))"

record product_form =
  mf_mapping_id :: string
  mf_platform :: string
  mf_platform_product_id :: string
  mf_platform_sku_id :: string
  mf_odoo_product_id :: int
  mf_odoo_sku :: string
  mf_mapping_type :: string
  mf_is_active :: string
  mf_components_sku :: "string list"
  mf_components_qty :: "string list"

text \<open>The flush of the row: an insert or an update under the column limits and the unique
  constraint on \<open>(platform, platform_sku_id)\<close>, where a null key never clashes.\<close>

definition put_product :: "product_form \<Rightarrow> product_mapping option \<Rightarrow> instant \<Rightarrow> db \<Rightarrow> exc + int \<times> db" where
  "put_product f found now d =
     sbnd (text_column 100 (PStr (mf_platform_product_id f))) (\<lambda>_.
     sbnd (text_column 100 (opt_pstr (null_if_empty (mf_platform_sku_id f)))) (\<lambda>_.
     sbnd (int_column (PInt (mf_odoo_product_id f))) (\<lambda>_.
     sbnd (text_column 100 (PStr (mf_odoo_sku f))) (\<lambda>_.
     let i = (case found of None \<Rightarrow> db_next_id d | Some r \<Rightarrow> pm_id r);
         sku = null_if_empty (mf_platform_sku_id f);
         row = \<lparr>pm_id = i, pm_platform = mf_platform f, pm_platform_product_id = mf_platform_product_id f,
           pm_platform_sku_id = sku, pm_odoo_product_id = mf_odoo_product_id f, pm_odoo_sku = mf_odoo_sku f,
           pm_mapping_type = mf_mapping_type f, pm_is_active = on (mf_is_active f),
           pm_created_at = (case found of None \<Rightarrow> now | Some r \<Rightarrow> pm_created_at r)\<rparr>
     in if sku \<noteq> None \<and> (\<exists>m \<in> set (db_products d). pm_id m \<noteq> i \<and> pm_platform m = mf_platform f \<and>
             pm_platform_sku_id m = sku)
        then Inl integrity_error
        else Inr (i, case found of
            None \<Rightarrow> d\<lparr>db_products := db_products d @ [row], db_next_id := db_next_id d + 1\<rparr>
          | Some r \<Rightarrow> d\<lparr>db_products := upd_rows (\<lambda>m. pm_id m = i) (\<lambda>_. row) (db_products d)\<rparr>)))))"

text \<open>The rows of the form's components: blank SKUs are left out, a quantity that is no number is
  one, and none is below one.\<close>

definition form_quantity :: "string \<Rightarrow> int" where
  "form_quantity qty = (case py_int (PStr qty) of Inl e \<Rightarrow> 1 | Inr q \<Rightarrow> max 1 q)"

definition form_components :: "product_form \<Rightarrow> (string \<times> int) list" where
  "form_components f =
     (if mf_mapping_type f = ''bundle''
      then [(py_strip sku, form_quantity qty).
              (sku, qty) \<leftarrow> zip (mf_components_sku f) (mf_components_qty f), py_strip sku \<noteq> []]
      else [])"

definition add_component :: "int \<Rightarrow> string \<times> int \<Rightarrow> exc + db \<Rightarrow> exc + db" where
  "add_component i p r =
     sbnd r (\<lambda>d. case p of (sku, q) \<Rightarrow>
       sbnd (text_column 100 (PStr sku)) (\<lambda>_.
       sbnd (int_column (PInt q)) (\<lambda>_.
         Inr (d\<lparr>db_components := db_components d @
             [\<lparr>bc_id = db_next_id d, bc_mapping_id = i, bc_odoo_sku = sku, bc_quantity = q\<rparr>],
           db_next_id := db_next_id d + 1\<rparr>))))"

text \<open>The row to save: a new one (\<open>Some None\<close>), the one with the given id, or none (status 404).\<close>

definition target_product :: "product_form \<Rightarrow> db \<Rightarrow> exc + product_mapping option option" where
  "target_product f d =
     (if mf_mapping_id f = [] then Inr (Some None)
      else sbnd (py_int (PStr (mf_mapping_id f))) (\<lambda>i.
           sbnd (by_id pm_id i (db_products d)) (\<lambda>r. Inr (map_option Some r))))"

text \<open>The transaction: the row, then its components anew, then the audit row. The result is the id
  with the platform and the SKU the row had before, or \<open>None\<close> for status 404.\<close>

definition save_product ::
  "request \<Rightarrow> product_form \<Rightarrow> instant \<Rightarrow> db \<Rightarrow> exc + (int \<times> (string \<times> string option) option) option \<times> db"
where
  "save_product rq f now d =
     sbnd (target_product f d) (\<lambda>target.
       case target of
         None \<Rightarrow> Inr (None, d)
       | Some found \<Rightarrow>
           sbnd (put_product f found now d) (\<lambda>(i, d1).
           sbnd (fold (add_component i) (form_components f)
                  (Inr (d1\<lparr>db_components := del_rows (\<lambda>c. bc_mapping_id c = i) (db_components d1)\<rparr>))) (\<lambda>d2.
             Inr (Some (i, map_option (\<lambda>r. (pm_platform r, pm_platform_sku_id r)) found),
               audit_row rq ''config_product_save'' (Some (''product_mapping:'' @ int_str i))
                 (PDict [(''platform'', PStr (mf_platform f)), (''odoo_sku'', PStr (mf_odoo_sku f)),
                   (''mapping_type'', PStr (mf_mapping_type f))]) now d2))))"

definition drop_caches ::
  "'x services \<Rightarrow> (string \<times> string option) option \<Rightarrow> string \<Rightarrow> string option \<Rightarrow> int \<Rightarrow> ('x world, exc, unit) eff"
where
  "drop_caches S old platform sku i =
     catching
       (bnd (case old of
               Some (old_platform, Some s) \<Rightarrow>
                 if s \<noteq> [] \<and> (old_platform \<noteq> platform \<or> Some s \<noteq> sku)
                 then invalidate S old_platform (Some s) else ret ()
             | _ \<Rightarrow> ret ()) (\<lambda>_.
        bnd (if str_truthy sku then invalidate S platform sku else ret ()) (\<lambda>_.
        bnd (ext (sv_delete S (k_bundle_components i))) (\<lambda>_. ret ()))))
       (\<lambda>e. ret ())"

definition products_save ::
  "'x services \<Rightarrow> settings \<Rightarrow> request \<Rightarrow> product_form \<Rightarrow> ('x world, exc, unit reply) eff" where
  "products_save S cfg rq f =
     admin_post cfg rq
       (if mf_mapping_type f \<notin> {''simple'', ''bundle''} then ret (HttpError 400)
        else if mf_platform f \<notin> set PLATFORMS then ret (HttpError 400)
        else bnd (txn_e S (save_product rq f)) (\<lambda>saved.
          case saved of
            None \<Rightarrow> ret (HttpError 404)
          | Some (i, old) \<Rightarrow>
              bnd (drop_caches S old (mf_platform f) (null_if_empty (mf_platform_sku_id f)) i) (\<lambda>_.
                ret (Redirect ''/admin/config/products?flash=Saved''))))"

text \<open>The foreign key of the components cascades.\<close>

definition delete_product :: "request \<Rightarrow> int \<Rightarrow> instant \<Rightarrow> db \<Rightarrow> exc + (string \<times> string option) option \<times> db" where
  "delete_product rq i now d =
     sbnd (by_id pm_id i (db_products d)) (\<lambda>found.
       case found of
         None \<Rightarrow> Inr (None, d)
       | Some r \<Rightarrow> Inr (Some (pm_platform r, pm_platform_sku_id r),
           audit_row rq ''config_product_delete'' (Some (''product_mapping:'' @ int_str i)) PNone now
             (d\<lparr>db_products := del_rows (\<lambda>m. pm_id m = i) (db_products d),
                db_components := del_rows (\<lambda>c. bc_mapping_id c = i) (db_components d)\<rparr>)))"

definition products_delete ::
  "'x services \<Rightarrow> settings \<Rightarrow> request \<Rightarrow> int \<Rightarrow> ('x world, exc, unit reply) eff" where
  "products_delete S cfg rq i =
     admin_post cfg rq
       (bnd (txn_e S (delete_product rq i)) (\<lambda>deleted.
          case deleted of
            None \<Rightarrow> ret (HttpError 404)
          | Some (platform, sku) \<Rightarrow>
              bnd (catching
                    (bnd (if str_truthy sku then invalidate S platform sku else ret ()) (\<lambda>_.
                     bnd (ext (sv_delete S (k_bundle_components i))) (\<lambda>_. ret ())))
                    (\<lambda>e. ret ())) (\<lambda>_.
                ret (Redirect ''/admin/config/products?flash=Deleted''))))"

section \<open>Stock allocation\<close>

definition stock_list ::
  "settings \<Rightarrow> request \<Rightarrow> string \<Rightarrow> ('x world, exc, stock_config list reply) eff" where
  "stock_list cfg rq csrf =
     admin_get cfg rq (bnd (query (\<lambda>d. Inr (sort_key sc_odoo_sku (db_stock d)))) (\<lambda>rows.
       ret (render cfg rq csrf rows)))"

record stock_form =
  sf_cfg_id :: string
  sf_odoo_sku :: string
  sf_platform :: string
  sf_allocation_pct :: rat
  sf_buffer_pct :: rat
  sf_is_active :: string

text \<open>A \<open>Numeric(5, 2)\<close> column keeps two decimals of a percentage.\<close>

definition numeric_2 :: "rat \<Rightarrow> rat" where
  "numeric_2 x = of_int \<lfloor>x * 100 + 1 / 2\<rfloor> / 100"

definition target_stock :: "stock_form \<Rightarrow> db \<Rightarrow> exc + stock_config option option" where
  "target_stock f d =
     (if sf_cfg_id f = [] then Inr (Some None)
      else sbnd (py_int (PStr (sf_cfg_id f))) (\<lambda>i.
           sbnd (by_id sc_id i (db_stock d)) (\<lambda>r. Inr (map_option Some r))))"

definition save_stock :: "request \<Rightarrow> stock_form \<Rightarrow> instant \<Rightarrow> db \<Rightarrow> exc + bool \<times> db" where
  "save_stock rq f now d =
     sbnd (target_stock f d) (\<lambda>target.
       case target of
         None \<Rightarrow> Inr (False, d)
       | Some found \<Rightarrow>
           sbnd (text_column 100 (PStr (sf_odoo_sku f))) (\<lambda>_.
           let i = (case found of None \<Rightarrow> db_next_id d | Some r \<Rightarrow> sc_id r);
               row = \<lparr>sc_id = i, sc_odoo_sku = sf_odoo_sku f, sc_platform = sf_platform f,
                 sc_allocation_pct = numeric_2 (sf_allocation_pct f),
                 sc_buffer_pct = numeric_2 (sf_buffer_pct f), sc_is_active = on (sf_is_active f)\<rparr>
           in if \<exists>r \<in> set (db_stock d). sc_id r \<noteq> i \<and> sc_odoo_sku r = sf_odoo_sku f \<and> sc_platform r = sf_platform f
              then Inl integrity_error
              else Inr (True, audit_row rq ''config_stock_save''
                (Some (''stock_config:'' @ sf_odoo_sku f @ ''/'' @ sf_platform f))
                (PDict [(''allocation_pct'', PFloat (sf_allocation_pct f)),
                  (''buffer_pct'', PFloat (sf_buffer_pct f))]) now
                (case found of
                   None \<Rightarrow> d\<lparr>db_stock := db_stock d @ [row], db_next_id := db_next_id d + 1\<rparr>
                 | Some r \<Rightarrow> d\<lparr>db_stock := upd_rows (\<lambda>x. sc_id x = i) (\<lambda>_. row) (db_stock d)\<rparr>))))"

definition stock_save ::
  "'x services \<Rightarrow> settings \<Rightarrow> request \<Rightarrow> stock_form \<Rightarrow> ('x world, exc, unit reply) eff" where
  "stock_save S cfg rq f =
     admin_post cfg rq
       (if \<not> (0 \<le> sf_allocation_pct f \<and> sf_allocation_pct f \<le> 100) \<or>
           \<not> (0 \<le> sf_buffer_pct f \<and> sf_buffer_pct f \<le> 100) then ret (HttpError 400)
        else if sf_platform f \<notin> set PLATFORMS then ret (HttpError 400)
        else bnd (txn_e S (save_stock rq f)) (\<lambda>found.
          if found then ret (Redirect ''/admin/config/stock?flash=Saved'') else ret (HttpError 404)))"

definition delete_stock :: "request \<Rightarrow> int \<Rightarrow> instant \<Rightarrow> db \<Rightarrow> exc + bool \<times> db" where
  "delete_stock rq i now d =
     sbnd (by_id sc_id i (db_stock d)) (\<lambda>found.
       case found of
         None \<Rightarrow> Inr (False, d)
       | Some r \<Rightarrow> Inr (True, audit_row rq ''config_stock_delete'' (Some (''stock_config:'' @ int_str i)) PNone now
           (d\<lparr>db_stock := del_rows (\<lambda>x. sc_id x = i) (db_stock d)\<rparr>)))"

definition stock_delete ::
  "'x services \<Rightarrow> settings \<Rightarrow> request \<Rightarrow> int \<Rightarrow> ('x world, exc, unit reply) eff" where
  "stock_delete S cfg rq i =
     admin_post cfg rq (bnd (txn_e S (delete_stock rq i)) (\<lambda>found.
       if found then ret (Redirect ''/admin/config/stock?flash=Deleted'') else ret (HttpError 404)))"

section \<open>The mapping table\<close>

lemma admin_post_Redirect:
  "admin_post cfg rq h w = (Inr (Redirect u), w') \<Longrightarrow> h w = (Inr (Redirect u), w')"
  by (auto simp: admin_post_def admin_get_def bnd_eq_Inr ret_def split: if_splits)

text \<open>The constraints of \<open>product_mapping\<close>: ids, and one row per platform and SKU.\<close>

definition pm_key :: "product_mapping \<Rightarrow> string \<times> string option" where
  "pm_key m = (pm_platform m, pm_platform_sku_id m)"

definition products_ok :: "db \<Rightarrow> bool" where
  "products_ok d \<longleftrightarrow> keyed pm_id (db_products d) \<and> (\<forall>m \<in> set (db_products d). pm_id m < db_next_id d) \<and>
     (\<forall>m \<in> set (db_products d). \<forall>n \<in> set (db_products d).
        pm_platform_sku_id m \<noteq> None \<and> pm_key m = pm_key n \<longrightarrow> m = n)"

lemma products_ok_cong:
  "db_products d' = db_products d \<Longrightarrow> db_next_id d \<le> db_next_id d' \<Longrightarrow> products_ok d \<Longrightarrow> products_ok d'"
  by (force simp: products_ok_def)

text \<open>The row a form stands for.\<close>

definition form_row :: "product_form \<Rightarrow> int \<Rightarrow> instant \<Rightarrow> product_mapping" where
  "form_row f i t = \<lparr>pm_id = i, pm_platform = mf_platform f, pm_platform_product_id = mf_platform_product_id f,
     pm_platform_sku_id = null_if_empty (mf_platform_sku_id f), pm_odoo_product_id = mf_odoo_product_id f,
     pm_odoo_sku = mf_odoo_sku f, pm_mapping_type = mf_mapping_type f, pm_is_active = on (mf_is_active f),
     pm_created_at = t\<rparr>"

lemma put_product_Inr:
  assumes "put_product f found now d = Inr (i, d')"
  shows "(\<exists>t. (case found of
        None \<Rightarrow> i = db_next_id d \<and> d' = d\<lparr>db_products := db_products d @ [form_row f i t], db_next_id := db_next_id d + 1\<rparr>
      | Some r \<Rightarrow> i = pm_id r \<and>
          d' = d\<lparr>db_products := upd_rows (\<lambda>m. pm_id m = i) (\<lambda>_. form_row f i t) (db_products d)\<rparr>)) \<and>
    (mf_platform_sku_id f \<noteq> [] \<longrightarrow> (\<forall>m \<in> set (db_products d). pm_id m \<noteq> i \<longrightarrow> pm_key m \<noteq> (mf_platform f, Some (mf_platform_sku_id f))))"
  using assms
  by (cases found) (auto simp: put_product_def sbnd_eq_Inr Let_def form_row_def pm_key_def null_if_empty_def
      split: if_splits)

lemma put_product_ok:
  assumes "products_ok d" "put_product f found now d = Inr (i, d')" "case found of None \<Rightarrow> True | Some r \<Rightarrow> r \<in> set (db_products d)"
  shows "products_ok d' \<and> db_next_id d \<le> db_next_id d' \<and> i < db_next_id d' \<and> (\<exists>t. form_row f i t \<in> set (db_products d')) \<and>
    db_components d' = db_components d \<and> db_audit d' = db_audit d \<and>
    (\<forall>m \<in> set (db_products d). pm_id m \<noteq> i \<longrightarrow> m \<in> set (db_products d'))"
proof -
  note P = put_product_Inr [OF assms(2)]
  have clash: "pm_key m \<noteq> pm_key (form_row f i t)"
    if "m \<in> set (db_products d)" "pm_id m \<noteq> i" "pm_platform_sku_id (form_row f i t) \<noteq> None" for m t
    using P that by (auto simp: form_row_def pm_key_def null_if_empty_def)
  show ?thesis
  proof (cases found)
    case None
    with P obtain t where i: "i = db_next_id d"
      and d': "d' = d\<lparr>db_products := db_products d @ [form_row f i t], db_next_id := db_next_id d + 1\<rparr>" by auto
    have ids: "pm_id m < i" if "m \<in> set (db_products d)" for m
      using assms(1) that i by (simp add: products_ok_def)
    have new: "pm_id (form_row f i t) = i" "db_products d' = db_products d @ [form_row f i t]" "db_next_id d' = i + 1"
      by (simp_all add: d' form_row_def i)
    have "keyed pm_id (db_products d')"
      using assms(1) ids new by (fastforce simp: products_ok_def keyed_def)
    moreover have "\<forall>m \<in> set (db_products d'). pm_id m < db_next_id d'"
      using ids new by fastforce
    moreover have "m = n" if "m \<in> set (db_products d')" "n \<in> set (db_products d')" "pm_platform_sku_id m \<noteq> None"
      "pm_key m = pm_key n" for m n
    proof -
      have "pm_key m \<noteq> pm_key (form_row f i t)"
        if "m \<in> set (db_products d)" "pm_platform_sku_id (form_row f i t) \<noteq> None" for m
        using clash that ids by force
      moreover have "pm_platform_sku_id n \<noteq> None" using that(3,4) by (auto simp: pm_key_def)
      ultimately show ?thesis using that assms(1) by (auto simp: products_ok_def new(2)) metis+
    qed
    ultimately show ?thesis using i by (auto simp: products_ok_def d')
  next
    case (Some r)
    with P obtain t where i: "i = pm_id r"
      and d': "d' = d\<lparr>db_products := upd_rows (\<lambda>m. pm_id m = i) (\<lambda>_. form_row f i t) (db_products d)\<rparr>" by auto
    have r: "r \<in> set (db_products d)" using assms(3) Some by simp
    let ?new = "form_row f i t"
    have new: "pm_id ?new = i" by (simp add: form_row_def)
    have rows: "b \<in> set (db_products d') \<longleftrightarrow> b \<in> set (db_products d) \<and> pm_id b \<noteq> i \<or> b = ?new" for b
      using r i by (auto simp: d' set_upd_rows)
    have "keyed pm_id (db_products d')"
      using assms(1) by (auto simp: products_ok_def keyed_def d' upd_rows_def new if_distrib comp_def cong: if_cong)
    moreover have "\<forall>m \<in> set (db_products d'). pm_id m < db_next_id d'"
      using assms(1) r i by (auto simp: products_ok_def d' set_upd_rows form_row_def)
    moreover have "m = n" if "m \<in> set (db_products d')" "n \<in> set (db_products d')" "pm_platform_sku_id m \<noteq> None"
      "pm_key m = pm_key n" for m n
    proof -
      have "pm_platform_sku_id n \<noteq> None" using that(3,4) by (auto simp: pm_key_def)
      moreover have "m = n" if "m \<in> set (db_products d)" "n \<in> set (db_products d)"
        using assms(1) that \<open>pm_platform_sku_id m \<noteq> None\<close> \<open>pm_key m = pm_key n\<close> by (simp add: products_ok_def)
      ultimately show ?thesis using that clash [where t = t] unfolding rows by metis
    qed
    ultimately show ?thesis using r i assms(1) rows by (auto simp: products_ok_def d')
  qed
qed

lemma add_component_Inl: "fold (add_component i) ps (Inl e) = Inl e"
  by (induction ps) (auto simp: add_component_def)

lemma add_components_Inr:
  "fold (add_component i) ps (Inr d) = Inr d' \<Longrightarrow>
   db_products d' = db_products d \<and> db_next_id d \<le> db_next_id d' \<and> db_audit d' = db_audit d \<and>
   (\<exists>new. db_components d' = db_components d @ new \<and> map (\<lambda>c. (bc_odoo_sku c, bc_quantity c)) new = ps \<and>
     (\<forall>c \<in> set new. bc_mapping_id c = i))"
proof (induction ps arbitrary: d)
  case (Cons p ps)
  show ?case
  proof (cases "add_component i p (Inr d)")
    case (Inl e)
    with Cons.prems show ?thesis by (simp add: add_component_Inl)
  next
    case (Inr d1)
    then have 1: "db_products d1 = db_products d" "db_next_id d1 = db_next_id d + 1" "db_audit d1 = db_audit d"
      "\<exists>c. db_components d1 = db_components d @ [c] \<and> (bc_odoo_sku c, bc_quantity c) = p \<and> bc_mapping_id c = i"
      by (cases p, auto simp: add_component_def sbnd_eq_Inr)+
    then obtain c where c: "db_components d1 = db_components d @ [c]" "(bc_odoo_sku c, bc_quantity c) = p" "bc_mapping_id c = i"
      by blast
    from Cons.prems Inr have "fold (add_component i) ps (Inr d1) = Inr d'" by simp
    from Cons.IH [OF this] obtain new where "db_products d' = db_products d1" "db_next_id d1 \<le> db_next_id d'"
      "db_audit d' = db_audit d1" "db_components d' = db_components d1 @ new"
      "map (\<lambda>c. (bc_odoo_sku c, bc_quantity c)) new = ps" "\<forall>c \<in> set new. bc_mapping_id c = i" by blast
    with 1 c show ?thesis by (intro conjI exI [of _ "c # new"]) auto
  qed
qed simp

text \<open>No component belongs to a mapping that is not there.\<close>

definition catalogue_ok :: "db \<Rightarrow> bool" where
  "catalogue_ok d \<longleftrightarrow> products_ok d \<and>
     (\<forall>c \<in> set (db_components d). \<exists>m \<in> set (db_products d). pm_id m = bc_mapping_id c)"

lemma audit_row_simps [simp]:
  "db_products (audit_row rq a t p now d) = db_products d"
  "db_components (audit_row rq a t p now d) = db_components d"
  "db_stock (audit_row rq a t p now d) = db_stock d"
  "db_next_id (audit_row rq a t p now d) = db_next_id d + 1"
  by (simp_all add: audit_row_def)

lemma by_id_Inr: "by_id key i rows = Inr (Some r) \<Longrightarrow> r \<in> set rows \<and> key r = i"
  by (auto simp: by_id_def sbnd_eq_Inr dest!: first_row_SomeD)

lemma save_product_None: "save_product rq f now d = Inr (None, d') \<Longrightarrow> d' = d"
  by (auto simp: save_product_def sbnd_eq_Inr split: option.splits)

lemma save_product_Some:
  assumes "catalogue_ok d" "save_product rq f now d = Inr (Some (i, old), d')"
  shows "catalogue_ok d'" and "\<exists>t. form_row f i t \<in> set (db_products d')"
    and "map (\<lambda>c. (bc_odoo_sku c, bc_quantity c)) (components_of i d') = form_components f"
proof -
  obtain found where T: "target_product f d = Inr (Some found)"
    using assms(2) by (cases "target_product f d") (auto simp: save_product_def split: option.splits)
  then have found: "case found of None \<Rightarrow> True | Some r \<Rightarrow> r \<in> set (db_products d)"
    by (auto simp: target_product_def sbnd_eq_Inr dest!: by_id_Inr split: if_splits)
  from T assms(2) obtain d1 d2 where put: "put_product f found now d = Inr (i, d1)"
    and add: "fold (add_component i) (form_components f)
      (Inr (d1\<lparr>db_components := del_rows (\<lambda>c. bc_mapping_id c = i) (db_components d1)\<rparr>)) = Inr d2"
    and d': "\<exists>a t p. d' = audit_row rq a t p now d2"
    by (fastforce simp: save_product_def sbnd_eq_Inr)
  have ok: "products_ok d" using assms(1) by (simp add: catalogue_ok_def)
  from put_product_ok [OF ok put found] obtain t where 1: "products_ok d1"
    "form_row f i t \<in> set (db_products d1)" "db_components d1 = db_components d"
    "\<forall>m \<in> set (db_products d). pm_id m \<noteq> i \<longrightarrow> m \<in> set (db_products d1)" by blast
  from add_components_Inr [OF add] obtain new where 2: "db_products d2 = db_products d1" "db_next_id d1 \<le> db_next_id d2"
    "db_components d2 = del_rows (\<lambda>c. bc_mapping_id c = i) (db_components d1) @ new"
    "map (\<lambda>c. (bc_odoo_sku c, bc_quantity c)) new = form_components f" "\<forall>c \<in> set new. bc_mapping_id c = i" by auto
  from d' have 3: "db_products d' = db_products d1" "db_components d' = db_components d2" "db_next_id d' = db_next_id d2 + 1"
    using 2(1) by auto
  have kept: "\<exists>m' \<in> set (db_products d1). pm_id m' = pm_id m" if "m \<in> set (db_products d)" for m
    using 1(2,4) that by (cases "pm_id m = i") (auto intro: bexI [of _ "form_row f i t"] simp: form_row_def)
  have "products_ok d'" by (rule products_ok_cong [OF 3(1) _ 1(1)]) (use 2(2) 3(3) in simp)
  moreover have "\<exists>m \<in> set (db_products d'). pm_id m = bc_mapping_id c" if c: "c \<in> set (db_components d')" for c
  proof (cases "bc_mapping_id c = i")
    case True
    with 1(2) 3(1) show ?thesis by (intro bexI [of _ "form_row f i t"]) (auto simp: form_row_def)
  next
    case False
    with c 2(3,5) 3(2) have "c \<in> set (db_components d)" using 1(3) by (auto simp: del_rows_def)
    then obtain m where "m \<in> set (db_products d)" "pm_id m = bc_mapping_id c"
      using assms(1) by (auto simp: catalogue_ok_def)
    with kept 3(1) show ?thesis by fastforce
  qed
  ultimately show "catalogue_ok d'" by (simp add: catalogue_ok_def)
  show "\<exists>t. form_row f i t \<in> set (db_products d')" using 1(2) 3(1) by auto
  have "components_of i d' = new"
    using 2(3,5) 3(2) by (simp add: components_of_def del_rows_def filter_empty_conv filter_id_conv)
  with 2(4) show "map (\<lambda>c. (bc_odoo_sku c, bc_quantity c)) (components_of i d') = form_components f" by simp
qed

lemma delete_product_cases:
  assumes "delete_product rq i now d = Inr (r, d')"
  shows "d' = d \<or> (\<exists>a t p. d' = audit_row rq a t p now
      (d\<lparr>db_products := del_rows (\<lambda>m. pm_id m = i) (db_products d),
         db_components := del_rows (\<lambda>c. bc_mapping_id c = i) (db_components d)\<rparr>))"
proof (cases "by_id pm_id i (db_products d)")
  case (Inr found)
  with assms show ?thesis by (cases found) (simp_all add: delete_product_def, blast)
qed (use assms in \<open>simp add: delete_product_def\<close>)

lemma delete_product_ok:
  assumes "catalogue_ok d" "delete_product rq i now d = Inr (r, d')" shows "catalogue_ok d'"
proof -
  from delete_product_cases [OF assms(2)] show ?thesis
    using assms(1)
    by (auto simp: catalogue_ok_def products_ok_def keyed_del_rows del_rows_def keyed_def distinct_map_filter
        zless_add1_eq) fastforce+
qed

lemma keeps_admin_post [keeps_intros]: "keeps P h \<Longrightarrow> keeps P (admin_post cfg rq h)"
  unfolding admin_post_def admin_get_def by (intro keeps_intros)

lemma keeps_invalidate [keeps_intros]: "keeps (on_db P) (invalidate S platform sku)"
  unfolding invalidate_def by (intro keeps_intros)

lemma keeps_drop_caches [keeps_intros]: "keeps (on_db P) (drop_caches S old platform sku i)"
  unfolding drop_caches_def by (auto intro!: keeps_intros split: option.split prod.split)

text \<open>Saving and deleting product mappings keep the catalogue consistent on every path: ids are
  unique and below the sequence, no two mappings of a platform share a listing SKU, so that its
  lookup cannot find two rows, and no bundle component is left without its mapping.\<close>

theorem catalogue_consistent:
  "keeps (on_db catalogue_ok) (products_save S cfg rq f) \<and>
   keeps (on_db catalogue_ok) (products_delete S cfg rq i)"
proof
  have "catalogue_ok d'" if "catalogue_ok d" "save_product rq f now d = Inr (r, d')" for now d r d'
    using that save_product_None [of rq f now d d'] save_product_Some(1) [of d rq f now] by (cases r) (blast, force)
  then show "keeps (on_db catalogue_ok) (products_save S cfg rq f)"
    unfolding products_save_def by (auto intro!: keeps_intros split: option.split)
  have "catalogue_ok d'" if "catalogue_ok d" "delete_product rq i now d = Inr (r, d')" for now d r d'
    using that delete_product_ok by blast
  then show "keeps (on_db catalogue_ok) (products_delete S cfg rq i)"
    unfolding products_delete_def by (auto intro!: keeps_intros split: option.split prod.split)
qed

section \<open>Saving and looking up\<close>

lemma drop_caches_drops:
  assumes "redis_kv S kv"
  shows "\<exists>y. drop_caches S old platform sku i w = (Inr (), w\<lparr>w_ext := y\<rparr>) \<and>
    (sku \<noteq> None \<longrightarrow> sku \<noteq> Some [] \<longrightarrow> kv y (k_mapping platform sku) = None) \<and> kv y (k_bundle_components i) = None"
proof -
  have inv: "\<exists>y. invalidate S p s v = (Inr (), v\<lparr>w_ext := y\<rparr>) \<and> kv y = (kv (w_ext v))(k_mapping p s := None)" for p s v
    by (rule redis_delete [OF assms, of "k_mapping p s" "w_ext v"]) (auto simp: invalidate_def bnd_def ext_def)
  have first: "\<exists>y. (case old of
      Some (old_platform, Some s) \<Rightarrow>
        if s \<noteq> [] \<and> (old_platform \<noteq> platform \<or> Some s \<noteq> sku)
        then invalidate S old_platform (Some s) else ret ()
    | _ \<Rightarrow> ret ()) w = (Inr (), w\<lparr>w_ext := y\<rparr>)"
    using inv by (auto split: option.split prod.split intro: exI [of _ "w_ext w"]) blast+
  then obtain y1 where 1: "(case old of
      Some (old_platform, Some s) \<Rightarrow>
        if s \<noteq> [] \<and> (old_platform \<noteq> platform \<or> Some s \<noteq> sku)
        then invalidate S old_platform (Some s) else ret ()
    | _ \<Rightarrow> ret ()) w = (Inr (), w\<lparr>w_ext := y1\<rparr>)" by blast
  obtain y2 where 2: "(if str_truthy sku then invalidate S platform sku else ret ()) (w\<lparr>w_ext := y1\<rparr>) = (Inr (), w\<lparr>w_ext := y2\<rparr>)"
    "str_truthy sku \<Longrightarrow> kv y2 (k_mapping platform sku) = None"
    using inv [of platform sku "w\<lparr>w_ext := y1\<rparr>"] by (cases "str_truthy sku") auto
  obtain y3 where 3: "sv_delete S (k_bundle_components i) y2 = (Inr (if kv y2 (k_bundle_components i) = None then 0 else 1), y3)"
    "kv y3 = (kv y2)(k_bundle_components i := None)" by (rule redis_delete [OF assms])
  have "drop_caches S old platform sku i w = (Inr (), w\<lparr>w_ext := y3\<rparr>)"
    unfolding drop_caches_def using 1 2(1) 3(1) by (simp add: bnd_def ext_def)
  moreover have "sku \<noteq> None \<longrightarrow> sku \<noteq> Some [] \<longrightarrow> kv y3 (k_mapping platform sku) = None"
    using 2(2) 3(2) by (cases "str_truthy sku") (auto simp: str_truthy_def)
  ultimately show ?thesis using 3(2) by auto
qed

text \<open>C22: what the form saves is what the services read next. After a save that succeeds, whatever the
  caches held, the lookup of the listing's SKU finds the saved mapping, or nothing when it was saved
  inactive, and the lookup of its components finds exactly the rows of the form, blank SKUs left out
  and quantities made at least one.\<close>

theorem save_then_lookup:
  assumes "redis_kv S kv" and "catalogue_ok (w_db w)" and "mf_platform_sku_id f \<noteq> []"
    and "products_save S cfg rq f w = (Inr (Redirect u), w')"
  shows "\<exists>i t. fst (get_by_platform_sku S (mf_platform f) (Some (mf_platform_sku_id f)) w') =
        Inr (if on (mf_is_active f) then mapping_dict (form_row f i t) else PNone) \<and>
      fst (get_bundle_components S i w') =
        Inr (PList [PDict [(''odoo_sku'', PStr sku), (''quantity'', PInt q)]. (sku, q) \<leftarrow> form_components f])"
proof -
  from admin_post_Redirect [OF assms(4) [unfolded products_save_def]] obtain i old w1 where
    saved: "txn_e S (save_product rq f) w = (Inr (Some (i, old)), w1)"
    and drop: "drop_caches S old (mf_platform f) (null_if_empty (mf_platform_sku_id f)) i w1 = (Inr (), w')"
    by (auto simp: bnd_eq_Inr ret_def split: if_splits option.splits)
  from saved have "save_product rq f (now_w S w) (w_db w) = Inr (Some (i, old), w_db w1)"
    by (auto simp: txn_e_eq split: sum.splits)
  note saved = save_product_Some [OF assms(2) this]
  from saved(2) obtain t where row: "form_row f i t \<in> set (db_products (w_db w1))" by blast
  from drop_caches_drops [OF assms(1), of old "mf_platform f" "null_if_empty (mf_platform_sku_id f)" i w1] drop assms(3)
  have cold: "w_db w' = w_db w1" "kv (w_ext w') (k_mapping (mf_platform f) (Some (mf_platform_sku_id f))) = None"
    "kv (w_ext w') (k_bundle_components i) = None"
    by (auto simp: null_if_empty_def)
  let ?d = "w_db w'"
  let ?row = "form_row f i t"
  have ok: "products_ok ?d" and row: "?row \<in> set (db_products ?d)"
    using saved(1) cold(1) row by (simp_all add: catalogue_ok_def)
  have fields: "pm_id ?row = i" "pm_platform ?row = mf_platform f" "pm_is_active ?row = on (mf_is_active f)"
    "pm_platform_sku_id ?row = Some (mf_platform_sku_id f)"
    using assms(3) by (simp_all add: form_row_def null_if_empty_def)
  have same: "m = ?row \<longleftrightarrow> pm_id m = i" "m = ?row \<longleftrightarrow> pm_platform m = mf_platform f \<and> pm_platform_sku_id m = Some (mf_platform_sku_id f)"
    if "m \<in> set (db_products ?d)" for m
  proof -
    have "inj_on pm_id (set (db_products ?d))" using ok by (simp add: products_ok_def keyed_def distinct_map)
    then show "m = ?row \<longleftrightarrow> pm_id m = i" using inj_onD [of pm_id "set (db_products ?d)" m ?row] row that fields(1) by metis
    have "pm_key m = pm_key ?row \<Longrightarrow> ?row = m"
      using ok row that fields(4) by (simp add: products_ok_def)
    then show "m = ?row \<longleftrightarrow> pm_platform m = mf_platform f \<and> pm_platform_sku_id m = Some (mf_platform_sku_id f)"
      using fields by (auto simp: pm_key_def)
  qed
  have "select_mapping (mf_platform f) (Some (mf_platform_sku_id f)) ?d =
      [m \<leftarrow> db_products ?d. pm_id m = i \<and> on (mf_is_active f)]"
    unfolding select_mapping_def by (rule filter_cong [OF refl]) (use same fields(3) in metis)
  also have "\<dots> = (if on (mf_is_active f) then [?row] else [])"
    using filter_key [of pm_id "db_products ?d" i] keyed_first_row [of pm_id "db_products ?d" ?row] ok row fields(1)
    by (simp add: products_ok_def)
  finally have sel: "select_mapping (mf_platform f) (Some (mf_platform_sku_id f)) ?d = \<dots>" .
  have lookup: "fst (get_by_platform_sku S (mf_platform f) (Some (mf_platform_sku_id f)) w') =
      Inr (if on (mf_is_active f) then mapping_dict ?row else PNone)"
    by (rule redis_setex [OF assms(1), of "k_mapping (mf_platform f) (Some (mf_platform_sku_id f))" CACHE_TTL
          "sv_json_dumps S (mapping_dict ?row)" "w_ext w'"])
      (simp add: get_by_platform_sku_def cached_or_def bnd_def ext_def redis_get [OF assms(1)] cold(2) sel
        scalar_one_or_none_def)
  let ?parts = "PList (map component_dict (components_of i ?d))"
  have "fst (get_bundle_components S i w') = Inr ?parts"
    by (rule redis_setex [OF assms(1), of "k_bundle_components i" CACHE_TTL "sv_json_dumps S ?parts" "w_ext w'"])
      (simp add: get_bundle_components_def cached_or_def bnd_def ext_def redis_get [OF assms(1)] cold(3))
  moreover have "map component_dict (components_of i ?d) =
      [PDict [(''odoo_sku'', PStr sku), (''quantity'', PInt q)]. (sku, q) \<leftarrow> form_components f]"
    unfolding saved(3) [symmetric] cold(1) by (simp add: component_dict_def comp_def)
  ultimately show ?thesis using lookup by auto
qed

definition bundle_form :: product_form where
  "bundle_form = \<lparr>mf_mapping_id = [], mf_platform = ''shopee'', mf_platform_product_id = ''100'',
     mf_platform_sku_id = ''100:5'', mf_odoo_product_id = 3, mf_odoo_sku = ''COMBO'',
     mf_mapping_type = ''bundle'', mf_is_active = ''on'', mf_components_sku = ['' X '', []],
     mf_components_qty = [''0'', ''2'']\<rparr>"

lemma bundle_form_simps:
  "mf_mapping_id bundle_form = []" "mf_platform bundle_form = ''shopee''"
  "mf_platform_product_id bundle_form = ''100''" "mf_platform_sku_id bundle_form = ''100:5''"
  "mf_odoo_product_id bundle_form = 3" "mf_odoo_sku bundle_form = ''COMBO''"
  "mf_mapping_type bundle_form = ''bundle''" "mf_is_active bundle_form = ''on''"
  by (simp_all add: bundle_form_def)

definition admin_request :: request where
  "admin_request = \<lparr>rq_ip = None, rq_user_agent = None, rq_admin_cookie = Some ''admin'', rq_token = None,
     rq_csrf_cookie = Some ''t'', rq_csrf_form = Some ''t'', rq_csrf_header = None\<rparr>"

lemma admin_request_passes: "admin_post dev_settings admin_request h w = h w"
  by (rule admin_post_ok)
    (simp_all add: require_admin_token_True verify_csrf_True admin_request_def dev_settings_def opt_or_def
      opt_text_def str_truthy_def is_ascii_def)

theorem save_then_lookup_witness:
  "\<exists>w' i t. products_save kv_services dev_settings admin_request bundle_form
       (kv_world empty_db (\<lambda>_. Some ''stale'')) = (Inr (Redirect ''/admin/config/products?flash=Saved''), w') \<and>
     fst (get_by_platform_sku kv_services ''shopee'' (Some ''100:5'') w') = Inr (mapping_dict (form_row bundle_form i t))"
proof -
  let ?w = "kv_world empty_db (\<lambda>_. Some ''stale'')"
  have comps: "form_components bundle_form = [(''X'', 1)]"
    by (simp add: form_components_def bundle_form_def py_strip_def strip_chars_def is_space_def form_quantity_def)
      code_simp
  have cat: "catalogue_ok (w_db ?w)"
    by (simp add: kv_world_def catalogue_ok_def products_ok_def keyed_def empty_db_def)
  have "\<exists>i old d. save_product admin_request bundle_form 0 empty_db = Inr (Some (i, old), d)"
    by (simp add: save_product_def target_product_def bundle_form_simps put_product_def
        comps add_component_def text_column_def int_column_def Let_def null_if_empty_def opt_pstr_def empty_db_def)
  then obtain i old d where s: "save_product admin_request bundle_form 0 empty_db = Inr (Some (i, old), d)" by blast
  obtain y where y: "drop_caches kv_services old ''shopee'' (Some ''100:5'') i (?w\<lparr>w_db := d\<rparr>) =
      (Inr (), ?w\<lparr>w_db := d, w_ext := y\<rparr>)"
    using drop_caches_drops [OF kv_services_redis, of old "''shopee''" "Some ''100:5''" i "?w\<lparr>w_db := d\<rparr>"] by auto
  have run: "products_save kv_services dev_settings admin_request bundle_form ?w =
      (Inr (Redirect ''/admin/config/products?flash=Saved''), ?w\<lparr>w_db := d, w_ext := y\<rparr>)"
  proof -
    have "txn_e kv_services (save_product admin_request bundle_form) ?w = (Inr (Some (i, old)), ?w\<lparr>w_db := d\<rparr>)"
      using s by (simp add: txn_e_def kv_world_def kv_services_def)
    with y show ?thesis
      by (simp add: products_save_def admin_request_passes bnd_def PLATFORMS_def null_if_empty_def bundle_form_simps)
  qed
  from save_then_lookup [OF kv_services_redis cat _ run] run show ?thesis
    by (auto simp: bundle_form_simps on_def)
qed

section \<open>The audit trail\<close>

text \<open>\<open>audited m\<close>: when the handler redirects, its transaction added exactly one audit row of the
  admin; when it refuses or raises, no table changed.\<close>

definition one_audit :: "db \<Rightarrow> db \<Rightarrow> bool" where
  "one_audit d d' \<longleftrightarrow> (\<exists>a. db_audit d' = db_audit d @ [a] \<and> al_actor a = ''admin'' \<and> al_success a)"

definition audited :: "('x world, exc, 'v reply) eff \<Rightarrow> bool" where
  "audited m \<longleftrightarrow> (\<forall>w. case m w of (r, w') \<Rightarrow>
     (case r of Inr (Redirect u) \<Rightarrow> one_audit (w_db w) (w_db w') | _ \<Rightarrow> w_db w' = w_db w))"

definition only_ext :: "'x world \<Rightarrow> 'x world \<Rightarrow> bool" where
  "only_ext w0 w \<longleftrightarrow> (\<exists>y. w = w0\<lparr>w_ext := y\<rparr>)"

lemma keeps_only_ext [keeps_intros]: "keeps (only_ext w0) (ext m)"
  by (auto simp: keeps_def only_ext_def ext_def split: prod.splits)

lemma only_ext_refl: "only_ext w w"
  unfolding only_ext_def by (rule exI [of _ "w_ext w"]) simp

lemma quiet:
  "\<exists>y. catching (bnd (if b then invalidate S p s else ret ()) (\<lambda>_. bnd (ext m) (\<lambda>_. ret ()))) (\<lambda>e. ret ()) w =
     (Inr (), w\<lparr>w_ext := y\<rparr>)"
proof -
  let ?m = "bnd (if b then invalidate S p s else ret ()) (\<lambda>_. bnd (ext m) (\<lambda>_. ret ()))"
  have k: "keeps (only_ext w) ?m" unfolding invalidate_def by (intro keeps_intros)
  obtain r w' where run: "?m w = (r, w')" by fastforce
  from run keepsD [OF k run only_ext_refl] show ?thesis by (cases r) (auto simp: catching_def only_ext_def)
qed

lemma drop_caches_quiet: "\<exists>y. drop_caches S old platform sku i w = (Inr (), w\<lparr>w_ext := y\<rparr>)"
proof -
  define m where "m = bnd (case old of
               Some (old_platform, Some s) \<Rightarrow>
                 if s \<noteq> [] \<and> (old_platform \<noteq> platform \<or> Some s \<noteq> sku)
                 then invalidate S old_platform (Some s) else ret ()
             | _ \<Rightarrow> ret ()) (\<lambda>_.
        bnd (if str_truthy sku then invalidate S platform sku else ret ()) (\<lambda>_.
        bnd (ext (sv_delete S (k_bundle_components i))) (\<lambda>_. ret ())))"
  have k: "keeps (only_ext w) m"
    unfolding m_def invalidate_def by (auto intro!: keeps_intros split: option.split prod.split)
  obtain r w' where run: "m w = (r, w')" by fastforce
  from run keepsD [OF k run only_ext_refl] show ?thesis by (cases r) (auto simp: drop_caches_def m_def [symmetric] catching_def only_ext_def)
qed

lemma audited_post: "audited h \<Longrightarrow> audited (admin_post cfg rq h)"
  by (auto simp: audited_def admin_post_def admin_get_def bnd_def split: sum.splits)

lemma audited_if: "(b \<Longrightarrow> audited m) \<Longrightarrow> (\<not> b \<Longrightarrow> audited n) \<Longrightarrow> audited (if b then m else n)"
  by simp

lemma audited_refusal: "audited (ret (HttpError n))"
  by (simp add: audited_def)

lemma audited_txn:
  assumes "\<And>now d x d'. f now d = Inr (x, d') \<Longrightarrow> if good x then one_audit d d' else d' = d"
    and "\<And>x w. \<exists>y rep. k x w = (Inr rep, w\<lparr>w_ext := y\<rparr>) \<and> (if good x then \<exists>u. rep = Redirect u else \<exists>n. rep = HttpError n)"
  shows "audited (bnd (txn_e S f) k)"
  unfolding audited_def
proof
  fix w
  show "case bnd (txn_e S f) k w of (r, w') \<Rightarrow>
     (case r of Inr (Redirect u) \<Rightarrow> one_audit (w_db w) (w_db w') | _ \<Rightarrow> w_db w' = w_db w)"
  proof (cases "f (sv_now S (w_ext w)) (w_db w)")
    case (Inl e)
    then show ?thesis by (simp add: bnd_def txn_e_def)
  next
    case (Inr z)
    obtain x d where z: "z = (x, d)" by (cases z)
    obtain y rep where k: "k x (w\<lparr>w_db := d\<rparr>) = (Inr rep, w\<lparr>w_db := d, w_ext := y\<rparr>)"
      "if good x then \<exists>u. rep = Redirect u else \<exists>n. rep = HttpError n" using assms(2) [of x "w\<lparr>w_db := d\<rparr>"] by auto
    have "if good x then one_audit (w_db w) d else d = w_db w" using assms(1) Inr z by blast
    with k Inr z show ?thesis by (cases "good x") (auto simp: bnd_def txn_e_def)
  qed
qed

lemma one_audit_row: "db_audit d' = db_audit d \<Longrightarrow> one_audit d (audit_row rq a t p now d')"
  by (simp add: one_audit_def audit_row_def)

lemma saves_audit:
  "save_platform rq pf now d = Inr (x, d') \<Longrightarrow> one_audit d d'"
  "delete_platform rq pl now d = Inr (b, d') \<Longrightarrow> if b then one_audit d d' else d' = d"
  "delete_stock rq i now d = Inr (b, d') \<Longrightarrow> if b then one_audit d d' else d' = d"
  "delete_product rq i now d = Inr (p, d') \<Longrightarrow> if p \<noteq> None then one_audit d d' else d' = d"
  by (auto simp: save_platform_def delete_platform_def delete_stock_def delete_product_def
      sbnd_eq_Inr Let_def intro!: one_audit_row split: option.splits if_splits)

lemma save_stock_audit:
  assumes "save_stock rq f now d = Inr (b, d')" shows "if b then one_audit d d' else d' = d"
proof (cases "target_stock f d")
  case (Inr target)
  show ?thesis
  proof (cases target)
    case None
    with Inr assms show ?thesis by (simp add: save_stock_def)
  next
    case (Some found)
    with Inr assms show ?thesis
      by (cases found) (auto simp: save_stock_def sbnd_eq_Inr Let_def intro!: one_audit_row split: if_splits)
  qed
qed (use assms in \<open>simp add: save_stock_def\<close>)

lemma save_product_audit:
  assumes "save_product rq f now d = Inr (p, d')" shows "if p \<noteq> None then one_audit d d' else d' = d"
proof (cases p)
  case None
  with assms save_product_None show ?thesis by simp
next
  case (Some z)
  obtain found where T: "target_product f d = Inr (Some found)"
    using assms Some by (cases "target_product f d") (auto simp: save_product_def split: option.splits)
  with assms Some obtain i d1 d2 where put: "put_product f found now d = Inr (i, d1)"
    and add: "fold (add_component i) (form_components f)
      (Inr (d1\<lparr>db_components := del_rows (\<lambda>c. bc_mapping_id c = i) (db_components d1)\<rparr>)) = Inr d2"
    and d': "\<exists>a t p. d' = audit_row rq a t p now d2"
    by (fastforce simp: save_product_def sbnd_eq_Inr)
  have "db_audit d1 = db_audit d" using put_product_Inr [OF put] by (cases found) auto
  moreover have "db_audit d2 = db_audit d1" using add_components_Inr [OF add] by simp
  ultimately show ?thesis using d' Some by (auto intro: one_audit_row)
qed

lemma reply:
  "\<exists>y rep. (if b then ret (Redirect u) else ret (HttpError n)) v = (Inr rep, v\<lparr>w_ext := y\<rparr>) \<and>
     (if b then \<exists>u. rep = Redirect u else \<exists>n. rep = HttpError n)"
  by (rule exI [of _ "w_ext v"]) simp

lemma retry_order_audit:
  "w_db (snd (retry_order S cfg rq i w)) = w_db w \<or> one_audit (w_db w) (w_db (snd (retry_order S cfg rq i w)))"
proof -
  let ?P = "on_db (\<lambda>d. d = w_db w \<or> one_audit (w_db w) d)"
  let ?send = "ext (sv_send_task S ''workers.sync_order_to_odoo'' [(''order_mapping_id'', PInt i)]
    ''orders.created.normal'' None)"
  let ?tail = "\<lambda>refused. (case refused of Some n \<Rightarrow> ret (HttpError n)
    | None \<Rightarrow> bnd ?send (\<lambda>_. ret (Redirect ''/admin/''))) :: ('a world, exc, unit reply) eff"
  let ?h = "bnd (txn S (retry_txn rq i)) ?tail"
  have step: "retry_txn rq i now d = (r, d') \<Longrightarrow> d' = d \<or> r = None \<and> one_audit d d'" for now d r d'
    by (auto simp: retry_txn_def reset_order_def update_order_def intro!: one_audit_row split: option.splits if_splits)
  obtain r d' where rd: "retry_txn rq i (now_w S w) (w_db w) = (r, d')" by fastforce
  have k: "keeps ?P (?tail r)"
    by (auto intro!: keeps_intros split: option.split)
  have t: "txn S (retry_txn rq i) w = (Inr r, w\<lparr>w_db := d'\<rparr>)"
    using rd by (simp add: txn_eq)
  have "?P (w\<lparr>w_db := d'\<rparr>)" using step [OF rd] by (auto simp: on_db_def)
  with k have "?P (snd (?tail r (w\<lparr>w_db := d'\<rparr>)))"
    by (rule keepsD [OF _ surjective_pairing])
  moreover have "?h w = ?tail r (w\<lparr>w_db := d'\<rparr>)"
    unfolding bnd_def [of "txn S (retry_txn rq i)"] t by simp
  ultimately have "?P (snd (?h w))" by (simp only:)
  moreover have "retry_order S cfg rq i w = ?h w \<or> snd (retry_order S cfg rq i w) = w"
    unfolding retry_order_def by (rule admin_post_cases)
  ultimately show ?thesis unfolding on_db_def by (elim disjE) simp_all
qed

text \<open>C26: every admin write is audited. A configuration handler that succeeds has added exactly one
  audit row in the transaction of its change, and one that refuses, fails or raises has changed no
  table, with its caches dropped or not; the retry of an order never changes a table without its
  audit row, even when the broker then refuses the task.\<close>

theorem admin_writes_audited:
  "audited (platforms_save S cfg rq pf) \<and> audited (platforms_delete S cfg rq pl) \<and>
   audited (products_save S cfg rq mf) \<and> audited (products_delete S cfg rq i) \<and>
   audited (stock_save S cfg rq sf) \<and> audited (stock_delete S cfg rq i) \<and>
   (w_db (snd (retry_order S cfg rq i w)) = w_db w \<or> one_audit (w_db w) (w_db (snd (retry_order S cfg rq i w))))"
proof (intro conjI)
  show "audited (platforms_save S cfg rq pf)"
    unfolding platforms_save_def
    by (intro audited_post audited_if audited_refusal audited_txn [where good = "\<lambda>_. True"])
      (use saves_audit(1) reply [where b = True] in \<open>auto simp: ret_def\<close>)
  show "audited (platforms_delete S cfg rq pl)"
    unfolding platforms_delete_def
    by (intro audited_post audited_txn [where good = "\<lambda>b. b"]) (rule saves_audit(2), assumption, rule reply)
  show "audited (stock_save S cfg rq sf)"
    unfolding stock_save_def
    by (intro audited_post audited_if audited_refusal audited_txn [where good = "\<lambda>b. b"])
      (rule save_stock_audit, assumption, rule reply)
  show "audited (stock_delete S cfg rq i)"
    unfolding stock_delete_def
    by (intro audited_post audited_txn [where good = "\<lambda>b. b"]) (rule saves_audit(3), assumption, rule reply)
  show "audited (products_save S cfg rq mf)"
    unfolding products_save_def
  proof (intro audited_post audited_if audited_refusal audited_txn [where good = "\<lambda>p. p \<noteq> None"])
    fix p and v :: "'a world"
    show "\<exists>y rep. (case p of None \<Rightarrow> ret (HttpError 404)
        | Some (i, old) \<Rightarrow> bnd (drop_caches S old (mf_platform mf) (null_if_empty (mf_platform_sku_id mf)) i)
            (\<lambda>_. ret (Redirect ''/admin/config/products?flash=Saved''))) v = (Inr rep, v\<lparr>w_ext := y\<rparr>) \<and>
        (if p \<noteq> None then \<exists>u. rep = Redirect u else \<exists>n. rep = HttpError n)"
    proof (cases p)
      case None
      then show ?thesis by (simp add: exI [of _ "w_ext v"])
    next
      case (Some z)
      obtain i old where z: "z = (i, old)" by (cases z)
      obtain y where "drop_caches S old (mf_platform mf) (null_if_empty (mf_platform_sku_id mf)) i v = (Inr (), v\<lparr>w_ext := y\<rparr>)"
        by (rule exE [OF drop_caches_quiet])
      with Some z show ?thesis by (auto simp: bnd_def)
    qed
  qed (rule save_product_audit)
  show "audited (products_delete S cfg rq i)"
    unfolding products_delete_def
  proof (intro audited_post audited_txn [where good = "\<lambda>p. p \<noteq> None"])
    fix p and v :: "'a world"
    show "\<exists>y rep. (case p of None \<Rightarrow> ret (HttpError 404)
        | Some (platform, sku) \<Rightarrow>
            bnd (catching (bnd (if str_truthy sku then invalidate S platform sku else ret ())
              (\<lambda>_. bnd (ext (sv_delete S (k_bundle_components i))) (\<lambda>_. ret ()))) (\<lambda>e. ret ()))
            (\<lambda>_. ret (Redirect ''/admin/config/products?flash=Deleted''))) v = (Inr rep, v\<lparr>w_ext := y\<rparr>) \<and>
        (if p \<noteq> None then \<exists>u. rep = Redirect u else \<exists>n. rep = HttpError n)"
    proof (cases p)
      case None
      then show ?thesis by (simp add: exI [of _ "w_ext v"])
    next
      case (Some z)
      obtain platform sku where z: "z = (platform, sku)" by (cases z)
      obtain y where "catching (bnd (if str_truthy sku then invalidate S platform sku else ret ())
          (\<lambda>_. bnd (ext (sv_delete S (k_bundle_components i))) (\<lambda>_. ret ()))) (\<lambda>e. ret ()) v = (Inr (), v\<lparr>w_ext := y\<rparr>)"
        by (rule exE [OF quiet])
      with Some z show ?thesis by (auto simp: bnd_def)
    qed
  qed (rule saves_audit(4))
qed (rule retry_order_audit)

end
