(* ===== verification/Status.thy ===== *)
theory Status
  imports Admin Webhooks
begin

text \<open>
  The Shopee OAuth routes \<open>src/api/routers/shopee_admin.py\<close> with the two command line scripts that
  do the same by hand, and the readiness check: \<open>src/monitoring/health.py\<close> behind
  \<open>src/api/routers/health.py\<close>. Opening a database session, \<open>PING\<close> and the measured durations are
  parameters.
\<close>

section \<open>OAuth routes\<close>

definition auth_status_endpoint ::
  "'x services \<Rightarrow> settings \<Rightarrow> request \<Rightarrow> string option \<Rightarrow> ('x world, exc, auth_state reply) eff" where
  "auth_status_endpoint S cfg rq shop_id =
     admin_get cfg rq
       (bnd (auth_status S cfg (if str_truthy shop_id then opt_text shop_id else SHOPEE_SHOP_ID cfg))
          (\<lambda>status. ret (Json status)))"

text \<open>The link with its state token, \<open>random\<close>.\<close>

definition auth_url_endpoint ::
  "'x services \<Rightarrow> settings \<Rightarrow> ((string \<times> pyval) list \<Rightarrow> string) \<Rightarrow> request \<Rightarrow> string \<Rightarrow> string \<Rightarrow>
     ('x world, exc, (auth_url \<times> string) reply) eff" where
  "auth_url_endpoint S cfg url_encode rq random redirect =
     admin_get cfg rq
       (catching (bnd (auth_link S cfg url_encode random redirect) (\<lambda>u. ret (Json (u, random))))
          (\<lambda>e. if isinstance e CValueError then ret (HttpError 400) else throw e))"

datatype callback_reply = Refused int | Failed exc | Completed auth_state

definition exchange_and_persist ::
  "'x services \<Rightarrow> settings \<Rightarrow> (string list \<Rightarrow> exc + fernet) \<Rightarrow> string \<Rightarrow> string \<Rightarrow> ('x world, exc, unit) eff" where
  "exchange_and_persist S cfg multi_fernet code shop =
     bnd (exchange_code_for_tokens S cfg code shop) (\<lambda>tokens.
       persist_tokens S cfg multi_fernet shop tokens)"

definition oauth_callback ::
  "'x services \<Rightarrow> settings \<Rightarrow> (string list \<Rightarrow> exc + fernet) \<Rightarrow> string option \<Rightarrow> string option \<Rightarrow>
     string option \<Rightarrow> ('x world, exc, callback_reply) eff" where
  "oauth_callback S cfg multi_fernet code shop_id state =
     bnd (consume_oauth_state S state) (\<lambda>ok.
       if \<not> ok then ret (Refused 401)
       else if \<not> str_truthy code \<or> \<not> str_truthy shop_id then ret (Refused 400)
       else
         bnd (catching
               (bnd (exchange_and_persist S cfg multi_fernet (opt_text code) (opt_text shop_id))
                  (\<lambda>_. ret None))
               (\<lambda>e. if isinstance e CShopeeAuthError \<or> isinstance e CShopeeError then ret (Some e)
                     else throw e)) (\<lambda>failed.
           case failed of
             Some e \<Rightarrow> ret (Failed e)
           | None \<Rightarrow> bnd (auth_status S cfg (opt_text shop_id)) (\<lambda>status. ret (Completed status))))"

text \<open>\<open>scripts/shopee_exchange_token.py\<close>: the exit code. The tokens are shown by a slice of them.\<close>

definition shown_token :: "pyval \<Rightarrow> exc + unit" where
  "shown_token v =
     (case v of PStr s \<Rightarrow> Inr () | PList xs \<Rightarrow> Inr ()
      | PDict kvs \<Rightarrow> Inl (PyError CKeyError ''slice(None, 12, None)'')
      | _ \<Rightarrow> Inl (PyError CTypeError (''not subscriptable: '' @ type_name v)))"

definition exchange_script ::
  "'x services \<Rightarrow> settings \<Rightarrow> (string list \<Rightarrow> exc + fernet) \<Rightarrow> string \<Rightarrow> string \<Rightarrow> bool \<Rightarrow> ('x world, exc, int) eff" where
  "exchange_script S cfg multi_fernet code shop dry_run =
     bnd (catching (bnd (exchange_code_for_tokens S cfg code shop) (\<lambda>t. ret (Some t))) (\<lambda>e. ret None)) (\<lambda>got.
       case got of
         None \<Rightarrow> ret 1
       | Some tokens \<Rightarrow>
           bnd (of_sum (shown_token (tk_access tokens))) (\<lambda>_.
           bnd (of_sum (shown_token (tk_refresh tokens))) (\<lambda>_.
             if dry_run then ret 0
             else
               bnd (catching (bnd (persist_tokens S cfg multi_fernet shop tokens) (\<lambda>_. ret True))
                      (\<lambda>e. ret False)) (\<lambda>stored.
                 if \<not> stored then ret 1
                 else bnd (auth_status S cfg shop) (\<lambda>_. ret 0)))))"

text \<open>\<open>scripts/shopee_gen_auth_url.py\<close>: a link without a state.\<close>

definition gen_auth_url_script ::
  "((string \<times> pyval) list \<Rightarrow> string) \<Rightarrow> settings \<Rightarrow> rat \<Rightarrow> string \<Rightarrow> exc + int \<times> string option" where
  "gen_auth_url_script url_encode cfg now redirect =
     (case build_auth_url url_encode cfg now redirect None of
        Inl e \<Rightarrow> if isinstance e CValueError then Inr (2, None) else Inl e
      | Inr u \<Rightarrow> Inr (0, Some (au_url u)))"

section \<open>Readiness\<close>

record check =
  ck_name :: string
  ck_ok :: bool
  ck_detail :: "string option"
  ck_duration_ms :: "rat option"

definition timed ::
  "(string \<Rightarrow> rat) \<Rightarrow> string \<Rightarrow> ('x world, exc, bool \<times> string option) eff \<Rightarrow> ('x world, exc, check) eff" where
  "timed ms name chk =
     catching
       (bnd chk (\<lambda>(ok, detail).
          ret \<lparr>ck_name = name, ck_ok = ok, ck_detail = detail, ck_duration_ms = Some (ms name)\<rparr>))
       (\<lambda>e. ret \<lparr>ck_name = name, ck_ok = False, ck_detail = Some (exc_str e), ck_duration_ms = Some (ms name)\<rparr>)"

definition check_postgres :: "('x, exc, unit) eff \<Rightarrow> ('x world, exc, bool \<times> string option) eff" where
  "check_postgres session = bnd (ext session) (\<lambda>_. ret (True, None))"

definition check_redis :: "('x, exc, bool) eff \<Rightarrow> ('x world, exc, bool \<times> string option) eff" where
  "check_redis ping = bnd (ext ping) (\<lambda>pong. ret (pong, None))"

text \<open>\<open>EXTRACT(EPOCH FROM (NOW() - MIN(process_after)))\<close> as a float, 0 for no row, and its
  \<open>:.1f\<close>.\<close>

definition waiting_since :: "db \<Rightarrow> instant list" where
  "waiting_since d = map ob_process_after [r \<leftarrow> db_outbox d. ob_status r \<in> {''pending'', ''failed''}]"

definition oldest_pending_age :: "instant \<Rightarrow> db \<Rightarrow> rat" where
  "oldest_pending_age now d =
     (case waiting_since d of
        [] \<Rightarrow> 0
      | t # ts \<Rightarrow> fl (now - fold min ts t))"

definition fixed1 :: "rat \<Rightarrow> string" where
  "fixed1 x =
     (let n = \<bar>half_even (x * 10)\<bar>
      in (if x < 0 then ''-'' else []) @ int_str (n div 10) @ ''.'' @ int_str (n mod 10))"

definition check_outbox_lag ::
  "'x services \<Rightarrow> ('x, exc, unit) eff \<Rightarrow> ('x world, exc, bool \<times> string option) eff" where
  "check_outbox_lag S session =
     bnd (ext session) (\<lambda>_.
     bnd (gets (\<lambda>w. oldest_pending_age (now_w S w) (w_db w))) (\<lambda>age.
       ret (age < 60, Some (''oldest_pending_age_sec='' @ fixed1 age))))"

definition state_value :: "cb_state \<Rightarrow> string" where
  "state_value s = (case s of CLOSED \<Rightarrow> ''closed'' | OPEN \<Rightarrow> ''open'' | HALF_OPEN \<Rightarrow> ''half_open'')"

definition circuit_check :: "string \<Rightarrow> breaker \<Rightarrow> check" where
  "circuit_check name b =
     \<lparr>ck_name = name, ck_ok = (state_value (cb_state b) = ''closed''),
      ck_detail = Some (state_value (cb_state b)), ck_duration_ms = None\<rparr>"

definition check_all ::
  "'x services \<Rightarrow> ('x, exc, unit) eff \<Rightarrow> ('x, exc, bool) eff \<Rightarrow> (string \<Rightarrow> rat) \<Rightarrow> ('x world, exc, check list) eff" where
  "check_all S session ping ms =
     bnd (timed ms ''postgres'' (check_postgres session)) (\<lambda>pg.
     bnd (timed ms ''redis'' (check_redis ping)) (\<lambda>rd.
     bnd (timed ms ''outbox_lag'' (check_outbox_lag S session)) (\<lambda>lag.
     bnd (gets (\<lambda>w. (w_odoo_breaker w, w_shopee_breaker w))) (\<lambda>(odoo, shopee).
       ret [pg, rd, lag, circuit_check ''circuit_odoo'' odoo, circuit_check ''circuit_shopee'' shopee]))))"

text \<open>The status code and the checks of the body.\<close>

definition ready ::
  "'x services \<Rightarrow> ('x, exc, unit) eff \<Rightarrow> ('x, exc, bool) eff \<Rightarrow> (string \<Rightarrow> rat) \<Rightarrow>
     ('x world, exc, int \<times> check list) eff" where
  "ready S session ping ms =
     bnd (check_all S session ping ms) (\<lambda>checks.
       ret (if list_all ck_ok checks then 200 else 503, checks))"

section \<open>The state of an authorization\<close>

definition key_absent :: "('x \<Rightarrow> string \<Rightarrow> string option) \<Rightarrow> string \<Rightarrow> 'x world \<Rightarrow> bool" where
  "key_absent kv k w \<longleftrightarrow> kv (w_ext w) k = None"

text \<open>Calls that read keys at most.\<close>

definition keys_kept :: "'x services \<Rightarrow> ('x \<Rightarrow> string \<Rightarrow> string option) \<Rightarrow> bool" where
  "keys_kept S kv \<longleftrightarrow>
     (\<forall>m u p b x. kv (snd (sv_http S m u p b x)) = kv x) \<and> (\<forall>k x. kv (snd (sv_ttl S k x)) = kv x)"

lemma absent_ext: "(\<And>x. kv (snd (m x)) = kv x) \<Longrightarrow> keeps (key_absent kv k) (ext m)"
  by (auto simp: keeps_def key_absent_def ext_def split: prod.split) (metis snd_conv)

lemma absent_txn: "keeps (key_absent kv k) (txn S f)"
  by (simp add: keeps_def key_absent_def)

lemma absent_setex:
  assumes "redis_kv S kv" and "key \<noteq> k"
  shows "keeps (key_absent kv k) (setex S key ttl v)"
proof (rule keepsI)
  fix w assume w: "key_absent kv k w"
  show "key_absent kv k (snd (setex S key ttl v w))"
  proof (cases "redis_value v")
    case (Inl e)
    with w show ?thesis by (simp add: setex_def bnd_def)
  next
    case (Inr t)
    from assms(1) obtain y where "sv_setex S key ttl t (w_ext w) = (Inr (), y)" "kv y = (kv (w_ext w))(key \<mapsto> t)"
      by (rule redis_setex)
    with Inr w assms(2) show ?thesis by (simp add: setex_def bnd_def ext_def key_absent_def)
  qed
qed

lemma token_key_state [simp]: "token_key kind shop \<noteq> state_key s"
  by (simp add: token_key_def state_key_def)

lemma absent_tokens:
  assumes "redis_kv S kv" and "keys_kept S kv"
  shows "keeps (key_absent kv (state_key s)) (exchange_and_persist S cfg mf code shop)"
    and "keeps (key_absent kv (state_key s)) (auth_status S cfg shop)"
proof -
  note h = absent_ext [where kv = kv and m = "sv_http S m u p b" for m u p b]
    absent_ext [where kv = kv and m = "sv_ttl S k" for k]
  have q: "kv (snd (sv_http S m u p b x)) = kv x" "kv (snd (sv_ttl S k x)) = kv x" for m u p b k x
    using assms(2) unfolding keys_kept_def by blast+
  have e: "keeps (key_absent kv (state_key s)) (exchange_code_for_tokens S cfg code shop)"
    unfolding exchange_code_for_tokens_def by (auto intro!: keeps_intros h simp: q split: prod.split)
  have "keeps (key_absent kv (state_key s)) (store_tokens S shop a r t u)" for a r t u
    unfolding store_tokens_def by (auto intro!: keeps_intros absent_setex [OF assms(1)])
  then have p: "keeps (key_absent kv (state_key s)) (persist_tokens S cfg mf shop t)" for t
    unfolding persist_tokens_def backup_to_db_def
    by (auto intro!: keeps_intros absent_txn split: sum.split)
  show "keeps (key_absent kv (state_key s)) (exchange_and_persist S cfg mf code shop)"
    unfolding exchange_and_persist_def by (intro keeps_intros e p)
  show "keeps (key_absent kv (state_key s)) (auth_status S cfg shop)"
    unfolding auth_status_def by (auto intro!: keeps_intros h simp: q Let_def)
qed

text \<open>C35: the authorization state is single use. A callback that gets past the check came with a state
  Redis held, and whatever came of it, every later callback with the same state is
  refused with status 401.\<close>

theorem oauth_state_once:
  assumes "redis_kv S kv" and "keys_kept S kv"
    and "oauth_callback S cfg mf code shop (Some s) w = (r, w')"
  shows "fst (oauth_callback S cfg' mf' code' shop' (Some s) w') = Inr (Refused 401) \<and>
    (r = Inr (Refused 401) \<or> s \<noteq> [] \<and> kv (w_ext w) (state_key s) \<noteq> None)"
proof (cases "s = []")
  case True
  with assms(3) show ?thesis by (auto simp: oauth_callback_def consume_oauth_state_def bnd_def)
next
  case False
  from assms(1) obtain y where y: "sv_delete S (state_key s) (w_ext w) =
      (Inr (if kv (w_ext w) (state_key s) = None then 0 else 1), y)" "kv y = (kv (w_ext w))(state_key s := None)"
    by (rule redis_delete)
  define found where "found \<longleftrightarrow> kv (w_ext w) (state_key s) \<noteq> None"
  have con: "consume_oauth_state S (Some s) w = (Inr found, w\<lparr>w_ext := y\<rparr>)"
    using False y(1) by (simp add: consume_oauth_state_def bnd_def ext_def found_def)
  let ?k = "\<lambda>ok. if \<not> ok then ret (Refused 401)
       else if \<not> str_truthy code \<or> \<not> str_truthy shop then ret (Refused 400)
       else bnd (catching (bnd (exchange_and_persist S cfg mf (opt_text code) (opt_text shop)) (\<lambda>_. ret None))
               (\<lambda>e. if isinstance e CShopeeAuthError \<or> isinstance e CShopeeError then ret (Some e) else throw e)) (\<lambda>failed.
           case failed of Some e \<Rightarrow> ret (Failed e)
           | None \<Rightarrow> bnd (auth_status S cfg (opt_text shop)) (\<lambda>status. ret (Completed status)))"
  have run: "?k found (w\<lparr>w_ext := y\<rparr>) = (r, w')"
    using assms(3) con by (simp add: oauth_callback_def)
  have "keeps (key_absent kv (state_key s)) (?k found)"
    by (intro keeps_intros absent_tokens assms(1,2))
  from keepsD [OF this run] y(2) have none: "kv (w_ext w') (state_key s) = None"
    by (simp add: key_absent_def)
  from assms(1) obtain z where "sv_delete S (state_key s) (w_ext w') =
      (Inr (if kv (w_ext w') (state_key s) = None then 0 else 1), z)" "kv z = (kv (w_ext w'))(state_key s := None)"
    by (rule redis_delete)
  with none False have "fst (oauth_callback S cfg' mf' code' shop' (Some s) w') = Inr (Refused 401)"
    by (simp add: oauth_callback_def consume_oauth_state_def bnd_def ext_def)
  moreover have "r = Inr (Refused 401) \<or> kv (w_ext w) (state_key s) \<noteq> None"
    using run by (cases found) (simp_all add: found_def)
  ultimately show ?thesis using False by blast
qed

lemma kv_keys_kept: "keys_kept kv_services snd"
  by (simp add: keys_kept_def)

theorem oauth_state_once_witness:
  "\<exists>r w'. oauth_callback kv_services dev_settings (\<lambda>_. Inr plain_fernet) (Some ''c'') (Some ''9'') (Some ''st'')
      (kv_world empty_db [state_key ''st'' \<mapsto> ''1'']) = (r, w') \<and> r \<noteq> Inr (Refused 401) \<and>
     fst (oauth_callback kv_services dev_settings (\<lambda>_. Inr plain_fernet) (Some ''c'') (Some ''9'') (Some ''st'') w') =
       Inr (Refused 401)"
proof -
  obtain r w' where run: "oauth_callback kv_services dev_settings (\<lambda>_. Inr plain_fernet) (Some ''c'') (Some ''9'') (Some ''st'')
      (kv_world empty_db [state_key ''st'' \<mapsto> ''1'']) = (r, w')" by fastforce
  have "consume_oauth_state kv_services (Some ''st'') (kv_world empty_db [state_key ''st'' \<mapsto> ''1'']) =
      (Inr True, (kv_world empty_db [state_key ''st'' \<mapsto> ''1''])\<lparr>w_ext := (0, \<lambda>_. None)\<rparr>)"
    by (simp add: consume_oauth_state_def bnd_def ext_def)
  with run have "r \<noteq> Inr (Refused 401)"
    by (auto simp: oauth_callback_def str_truthy_def bnd_def catching_def split: prod.splits sum.splits if_splits option.splits)
  with run oauth_state_once [OF kv_services_redis kv_keys_kept run] show ?thesis by blast
qed

section \<open>What readiness says\<close>

lemma fold_min: "fold min ts t \<in> set (t # ts) \<and> list_all (\<lambda>u. fold min ts t \<le> u) (t # ts)"
  for t :: rat
proof (induction ts arbitrary: t)
  case (Cons u ts)
  from Cons.IH [of "min u t"] show ?case by (auto simp: list_all_iff min_def split: if_splits)
qed simp

lemma age_below:
  "oldest_pending_age now d < 60 \<longleftrightarrow> list_all (\<lambda>t. fl (now - t) < 60) (waiting_since d)"
proof (cases "waiting_since d")
  case Nil
  then show ?thesis by (simp add: oldest_pending_age_def)
next
  case (Cons t ts)
  let ?m = "fold min ts t"
  have age: "oldest_pending_age now d = fl (now - ?m)"
    using Cons by (simp add: oldest_pending_age_def)
  have "fl (now - u) \<le> fl (now - ?m)" if "u \<in> set (t # ts)" for u
  proof -
    have "?m \<le> u" using fold_min [of ts t] that unfolding list_all_iff by blast
    then show ?thesis by (intro b64.R_mono) simp
  qed
  with fold_min [of ts t] show ?thesis unfolding age Cons list_all_iff by (metis le_less_trans)
qed

lemma timed_ext:
  "timed ms name (bnd (ext (\<lambda>x. (f x, x))) g) w =
     (case f (w_ext w) of
        Inl e \<Rightarrow> (Inr \<lparr>ck_name = name, ck_ok = False, ck_detail = Some (exc_str e), ck_duration_ms = Some (ms name)\<rparr>, w)
      | Inr a \<Rightarrow> timed ms name (g a) w)"
  by (simp add: timed_def bnd_def catching_def ext_def split: sum.split)

lemma timed_ret:
  "timed ms name (ret (ok, detail)) w =
     (Inr \<lparr>ck_name = name, ck_ok = ok, ck_detail = detail, ck_duration_ms = Some (ms name)\<rparr>, w)"
  by (simp add: timed_def bnd_def catching_def)

lemma timed_gets: "timed ms name (bnd (gets f) g) w = timed ms name (g (f w)) w"
  by (simp add: timed_def bnd_def catching_def)

lemma state_value_closed [simp]: "state_value s = ''closed'' \<longleftrightarrow> s = CLOSED"
  by (cases s) (simp_all add: state_value_def)


section \<open>The breakers of the API process\<close>

definition on_breakers :: "(breaker \<Rightarrow> breaker \<Rightarrow> bool) \<Rightarrow> 'x world \<Rightarrow> bool" where
  "on_breakers P w \<longleftrightarrow> P (w_odoo_breaker w) (w_shopee_breaker w)"

definition spares_breakers :: "('x world, exc, 'a) eff \<Rightarrow> bool" where
  "spares_breakers m \<longleftrightarrow>
     (\<forall>w. w_odoo_breaker (snd (m w)) = w_odoo_breaker w \<and> w_shopee_breaker (snd (m w)) = w_shopee_breaker w)"

lemma spares_breakersI:
  assumes "\<And>P. keeps (on_breakers P) m" shows "spares_breakers m"
proof -
  have "on_breakers (\<lambda>b c. b = w_odoo_breaker w \<and> c = w_shopee_breaker w) (snd (m w))" for w
    using assms [of "\<lambda>b c. b = w_odoo_breaker w \<and> c = w_shopee_breaker w"] unfolding keeps_def
    by (simp add: on_breakers_def)
  then show ?thesis by (simp add: spares_breakers_def on_breakers_def)
qed

lemma breakers_ext [keeps_intros]: "keeps (on_breakers P) (ext m)"
  by (simp add: keeps_def on_breakers_def)

lemma breakers_txn [keeps_intros]: "keeps (on_breakers P) (txn S f)"
  by (simp add: keeps_def on_breakers_def txn_def split: prod.split)

lemma breakers_txn_e [keeps_intros]: "keeps (on_breakers P) (txn_e S f)"
  by (auto simp: keeps_def on_breakers_def txn_e_def split: sum.split)

lemma breakers_setex [keeps_intros]: "keeps (on_breakers P) (setex S k t v)"
  unfolding setex_def by (auto intro!: keeps_intros)

lemma breakers_post_slack [keeps_intros]: "keeps (on_breakers P) (post_slack S cfg t)"
  unfolding post_slack_def by (auto intro!: keeps_intros split: option.split)

lemma breakers_publish [keeps_intros]: "keeps (on_breakers P) (try_publish_immediately S cfg locked i)"
proof -
  have d: "keeps (on_breakers P) (dispatch_row S dp)" for dp
  proof (rule keepsI)
    fix w :: "'a world"
    assume "on_breakers P w"
    then show "on_breakers P (snd (dispatch_row S dp w))"
      by (auto simp: dispatch_row_def on_breakers_def ext_def bnd_def txn_def split: prod.split sum.split)
  qed
  have a: "keeps (on_breakers P) (fire_dead_letter_alerts S cfg ids)" for ids
    unfolding fire_dead_letter_alerts_def send_dead_letter_alert_def by (auto intro!: keeps_intros)
  show ?thesis unfolding try_publish_immediately_def
    by (auto intro!: keeps_intros d a split: prod.split option.split)
qed

lemma breakers_admin_get [keeps_intros]: "keeps (on_breakers P) h \<Longrightarrow> keeps (on_breakers P) (admin_get cfg rq h)"
  unfolding admin_get_def by (auto intro!: keeps_intros)

lemma breakers_admin_post [keeps_intros]: "keeps (on_breakers P) h \<Longrightarrow> keeps (on_breakers P) (admin_post cfg rq h)"
  unfolding admin_post_def by (auto intro!: keeps_intros)

lemma breakers_oauth [keeps_intros]:
  "keeps (on_breakers P) (auth_status S cfg shop)"
  "keeps (on_breakers P) (consume_oauth_state S state)"
  "keeps (on_breakers P) (exchange_and_persist S cfg mf code shop)"
  unfolding auth_status_def consume_oauth_state_def exchange_and_persist_def exchange_code_for_tokens_def
    persist_tokens_def backup_to_db_def store_tokens_def
  by (auto intro!: keeps_intros simp: Let_def split: option.split sum.split prod.split)

lemma breakers_webhook [keeps_intros]: "keeps (on_breakers P) (shopee_webhook S cfg body a x client)"
  unfolding shopee_webhook_def signed_webhook_def log_only_def is_replay_def mark_processed_def Let_def
  by (auto intro!: keeps_intros split: sum.split prod.split)

text \<open>The circuits in the readiness answer of the API process are blind. No request it serves
  touches a breaker (the clients that use them run in the workers, which have breakers of
  their own), so both checks say closed for ever, whatever the state of Odoo and Shopee.\<close>

theorem api_never_touches_breakers:
  "spares_breakers (shopee_webhook_request S cfg locked body a x client) \<and>
   spares_breakers (oauth_callback S cfg mf code shop state) \<and>
   spares_breakers (retry_order S cfg rq i) \<and> spares_breakers (products_save S cfg rq form) \<and>
   spares_breakers (products_delete S cfg rq i) \<and> spares_breakers (stock_save S cfg rq sform) \<and>
   spares_breakers (platforms_save S cfg rq pform) \<and>
   spares_breakers (ready S session ping ms)"
proof (intro conjI spares_breakersI)
  fix P
  show "keeps (on_breakers P) (shopee_webhook_request S cfg locked body a x client)"
    unfolding shopee_webhook_request_def by (auto intro!: keeps_intros split: prod.split option.split)
  show "keeps (on_breakers P) (oauth_callback S cfg mf code shop state)"
    unfolding oauth_callback_def by (auto intro!: keeps_intros split: option.split)
  show "keeps (on_breakers P) (retry_order S cfg rq i)"
    unfolding retry_order_def by (auto intro!: keeps_intros split: option.split)
  show "keeps (on_breakers P) (products_save S cfg rq form)"
    unfolding products_save_def drop_caches_def invalidate_def
    by (auto intro!: keeps_intros split: option.split prod.split)
  show "keeps (on_breakers P) (products_delete S cfg rq i)"
    unfolding products_delete_def invalidate_def by (auto intro!: keeps_intros split: option.split prod.split)
  show "keeps (on_breakers P) (stock_save S cfg rq sform)"
    unfolding stock_save_def by (auto intro!: keeps_intros)
  show "keeps (on_breakers P) (platforms_save S cfg rq pform)"
    unfolding platforms_save_def by (auto intro!: keeps_intros)
  show "keeps (on_breakers P) (ready S session ping ms)"
    unfolding ready_def check_all_def timed_def check_postgres_def check_redis_def check_outbox_lag_def
    by (auto intro!: keeps_intros split: prod.split)
qed

end
