(* ===== verification/Delivery.thy ===== *)
theory Delivery
  imports Outbox
begin

text \<open>
  What the outbox promises, as a specification without rows, claims or publishers: a set of
  numbered messages, each waiting, taken by the broker or dead. \<open>mail_of\<close> reads the specification
  state out of the table, and every step of the interleaved publishers is a run of the
  specification (\<open>outbox_refines_mail\<close>). What the specification keeps therefore holds of the table.
\<close>

section \<open>Specification\<close>

datatype phase = Waiting | Taken | Dead

record mail =
  ml_phase :: "int \<Rightarrow> phase option"
  ml_taken :: "int set"
  ml_next :: int

inductive mail_step :: "mail \<Rightarrow> mail \<Rightarrow> bool" where
  accept: "mail_step m (m\<lparr>ml_phase := (ml_phase m)(ml_next m \<mapsto> Waiting), ml_next := ml_next m + 1\<rparr>)"
| deliver: "i < ml_next m \<Longrightarrow> mail_step m (m\<lparr>ml_taken := insert i (ml_taken m)\<rparr>)"
| settle: "ml_phase m i \<noteq> None \<Longrightarrow> (p = Taken \<longrightarrow> i \<in> ml_taken m) \<Longrightarrow>
     mail_step m (m\<lparr>ml_phase := (ml_phase m)(i \<mapsto> p)\<rparr>)"
| forget: "ml_phase m i = Some Taken \<Longrightarrow> mail_step m (m\<lparr>ml_phase := (ml_phase m)(i := None)\<rparr>)"

definition mail_init :: mail where
  "mail_init = \<lparr>ml_phase = (\<lambda>_. None), ml_taken = {}, ml_next = 1\<rparr>"

text \<open>Every message ever accepted is there or was taken.\<close>

definition mail_inv :: "mail \<Rightarrow> bool" where
  "mail_inv m \<longleftrightarrow> (\<forall>i. 1 \<le> i \<longrightarrow> i < ml_next m \<longrightarrow> i \<notin> ml_taken m \<longrightarrow> ml_phase m i \<noteq> None) \<and>
     (\<forall>i. ml_phase m i = Some Taken \<longrightarrow> i \<in> ml_taken m)"

lemma mail_step_inv: "mail_step m n \<Longrightarrow> mail_inv m \<Longrightarrow> mail_inv n"
  by (induction rule: mail_step.induct) (auto simp: mail_inv_def)

interpretation mail_system: transition_invariant mail_step mail_inv
  by unfold_locales (rule mail_step_inv)

lemma mail_inv_init: "mail_inv mail_init"
  by (simp add: mail_inv_def mail_init_def)

section \<open>Refinement\<close>

definition phase_of :: "outbox \<Rightarrow> phase" where
  "phase_of r = (if ob_status r = ''published'' then Taken else if ob_status r = ''dead_letter'' then Dead else Waiting)"

definition phases :: "outbox list \<Rightarrow> int \<Rightarrow> phase option" where
  "phases rows i = map_option phase_of (first_row (\<lambda>r. ob_id r = i) rows)"

definition mail_of :: "ox_sys \<Rightarrow> mail" where
  "mail_of s = \<lparr>ml_phase = phases (db_outbox (os_db s)), ml_taken = os_delivered s, ml_next = db_next_id (os_db s)\<rparr>"

lemma phases_None: "phases rows i = None \<longleftrightarrow> i \<notin> ob_id ` set rows"
  by (auto simp: phases_def)

lemma phases_in: "phases rows i = Some p \<Longrightarrow> \<exists>r \<in> set rows. ob_id r = i \<and> phase_of r = p"
  by (auto simp: phases_def dest: first_row_SomeD)

lemma settle_many:
  assumes "finite A" and "\<And>i. i \<in> A \<Longrightarrow> ml_phase m i \<noteq> None" and "\<And>i. i \<in> A \<Longrightarrow> g i = Taken \<Longrightarrow> i \<in> ml_taken m"
  shows "mail_step\<^sup>*\<^sup>* m (m\<lparr>ml_phase := (\<lambda>i. if i \<in> A then Some (g i) else ml_phase m i)\<rparr>)"
  using assms
proof (induction rule: finite_induct)
  case (insert a A)
  let ?n = "m\<lparr>ml_phase := (\<lambda>i. if i \<in> A then Some (g i) else ml_phase m i)\<rparr>"
  have "mail_step ?n (?n\<lparr>ml_phase := (ml_phase ?n)(a \<mapsto> g a)\<rparr>)"
    using insert.prems(1) [of a] insert.prems(2) [of a] by (intro mail_step.settle) auto
  moreover have "?n\<lparr>ml_phase := (ml_phase ?n)(a \<mapsto> g a)\<rparr> =
      m\<lparr>ml_phase := (\<lambda>i. if i \<in> insert a A then Some (g i) else ml_phase m i)\<rparr>"
    by (auto intro!: arg_cong [where f = "\<lambda>h. m\<lparr>ml_phase := h\<rparr>"])
  ultimately show ?case using insert by (simp add: rtranclp.rtrancl_into_rtrancl)
qed simp

lemma forget_many:
  assumes "finite A" and "\<And>i. i \<in> A \<Longrightarrow> ml_phase m i = Some Taken"
  shows "mail_step\<^sup>*\<^sup>* m (m\<lparr>ml_phase := (\<lambda>i. if i \<in> A then None else ml_phase m i)\<rparr>)"
  using assms
proof (induction rule: finite_induct)
  case (insert a A)
  let ?n = "m\<lparr>ml_phase := (\<lambda>i. if i \<in> A then None else ml_phase m i)\<rparr>"
  have "mail_step ?n (?n\<lparr>ml_phase := (ml_phase ?n)(a := None)\<rparr>)"
    using insert by (intro mail_step.forget) auto
  moreover have "?n\<lparr>ml_phase := (ml_phase ?n)(a := None)\<rparr> =
      m\<lparr>ml_phase := (\<lambda>i. if i \<in> insert a A then None else ml_phase m i)\<rparr>"
    by (auto intro!: arg_cong [where f = "\<lambda>h. m\<lparr>ml_phase := h\<rparr>"])
  ultimately show ?case using insert by (simp add: rtranclp.rtrancl_into_rtrancl)
qed simp

text \<open>Any change that keeps the ids of the rows, and the invariant, is a run of settlements.\<close>

lemma refine_same_ids:
  assumes ids: "map ob_id (db_outbox d') = map ob_id (db_outbox (os_db s))"
    and nid: "db_next_id d' = db_next_id (os_db s)"
    and ok: "table_ok (os_now t) (os_delivered s) d'"
    and t: "os_db t = d'" "os_delivered t = os_delivered s"
  shows "mail_step\<^sup>*\<^sup>* (mail_of s) (mail_of t)"
proof -
  let ?A = "ob_id ` set (db_outbox d')"
  have A: "?A = ob_id ` set (db_outbox (os_db s))" using ids by (metis list.set_map)
  have "mail_step\<^sup>*\<^sup>* (mail_of s) ((mail_of s)\<lparr>ml_phase :=
      (\<lambda>i. if i \<in> ?A then Some (the (phases (db_outbox d') i)) else ml_phase (mail_of s) i)\<rparr>)"
  proof (rule settle_many)
    fix i assume i: "i \<in> ?A"
    then show "ml_phase (mail_of s) i \<noteq> None" using A by (simp add: mail_of_def phases_None)
    assume "the (phases (db_outbox d') i) = Taken"
    with i obtain r where "r \<in> set (db_outbox d')" "ob_id r = i" "phase_of r = Taken"
      using phases_None [of "db_outbox d'" i] phases_in by (metis option.collapse)
    then show "i \<in> ml_taken (mail_of s)" using ok
      by (fastforce simp: table_ok_def row_ok_def phase_of_def mail_of_def split: if_splits)
  qed simp
  moreover have "(mail_of s)\<lparr>ml_phase :=
      (\<lambda>i. if i \<in> ?A then Some (the (phases (db_outbox d') i)) else ml_phase (mail_of s) i)\<rparr> = mail_of t"
  proof -
    have "(\<lambda>i. if i \<in> ?A then Some (the (phases (db_outbox d') i)) else phases (db_outbox (os_db s)) i) =
        phases (db_outbox d')"
    proof
      fix i
      show "(if i \<in> ?A then Some (the (phases (db_outbox d') i)) else phases (db_outbox (os_db s)) i) =
          phases (db_outbox d') i"
        using A phases_None [of "db_outbox d'" i] phases_None [of "db_outbox (os_db s)" i] by auto
    qed
    then show ?thesis by (simp add: mail_of_def t nid cong: if_cong)
  qed
  ultimately show ?thesis by simp
qed

text \<open>The ids the operations keep.\<close>

lemma ids_upd_rows: "(\<And>r. ob_id (f r) = ob_id r) \<Longrightarrow> map ob_id (upd_rows p f rows) = map ob_id rows"
  by (simp add: upd_rows_def)

lemma op_ids:
  "map ob_id (db_outbox (snd (claim_pending locked oid now d))) = map ob_id (db_outbox d)"
  "map ob_id (db_outbox (snd (claim_due locked batch now d))) = map ob_id (db_outbox d)"
  "map ob_id (db_outbox (snd (record_published oid now d))) = map ob_id (db_outbox d)"
  "map ob_id (db_outbox (snd (record_failure_row oid err now d))) = map ob_id (db_outbox d)"
  "map ob_id (db_outbox (snd (mark_dead_letter oid pl poid sku now d))) = map ob_id (db_outbox d)"
  "map ob_id (db_outbox (snd (reset_for_retry oid now d))) = map ob_id (db_outbox d)"
  by (simp_all add: claim_pending_def claim_due_def record_published_def record_failure_row_def mark_dead_letter_def
      reset_for_retry_def Let_def ids_upd_rows split: option.split prod.split del: first_row_None)

lemma op_next:
  "db_next_id (snd (claim_pending locked oid now d)) = db_next_id d"
  "db_next_id (snd (claim_due locked batch now d)) = db_next_id d"
  "db_next_id (snd (record_published oid now d)) = db_next_id d"
  "db_next_id (snd (record_failure_row oid err now d)) = db_next_id d"
  "db_next_id (snd (mark_dead_letter oid pl poid sku now d)) = db_next_id d"
  "db_next_id (snd (reset_for_retry oid now d)) = db_next_id d"
  "db_next_id (snd (cleanup_outbox now d)) = db_next_id d"
  "db_next_id (snd (add_outbox pl et c poid py sg now d)) = db_next_id d + 1"
  by (simp_all add: claim_pending_def claim_due_def record_published_def record_failure_row_def mark_dead_letter_def
      reset_for_retry_def cleanup_outbox_def add_outbox_def Let_def split: option.split prod.split del: first_row_None)

text \<open>A claimed dispatch is of an accepted message.\<close>

definition claims_accepted :: "ox_sys \<Rightarrow> bool" where
  "claims_accepted s \<longleftrightarrow> (\<forall>dp \<in> set (os_claimed s). dp_outbox_id dp < db_next_id (os_db s))"

lemma claim_pending_accepted:
  assumes "claim_pending locked oid now d = ((found, Some dp, dead), d')" and "table_ok t D d"
  shows "dp_outbox_id dp < db_next_id d"
proof (cases "first_row (\<lambda>r. ob_id r = oid \<and> ob_status r = ''pending'' \<and> \<not> locked (ob_id r)) (db_outbox d)")
  case (Some r)
  with assms(1) have "fst (prepare_publish now r) = Some dp" by (auto simp: claim_pending_def split: prod.splits)
  then have "dp_outbox_id dp = ob_id r" by (rule prepare_publish_id(2))
  moreover have "r \<in> set (db_outbox d)" using Some by (auto dest: first_row_SomeD)
  ultimately show ?thesis using assms(2) by (simp add: table_ok_def)
qed (use assms(1) in \<open>simp add: claim_pending_def del: first_row_None\<close>)

lemma claim_due_accepted:
  assumes "claim_due locked batch now d = ((n, dps, dead), d')" and "table_ok t D d" and "dp \<in> set dps"
  shows "dp_outbox_id dp < db_next_id d"
proof -
  from assms(1,3) obtain r where r: "r \<in> set (due_batch locked batch now (db_outbox d))"
    "fst (prepare_publish now r) = Some dp"
    by (auto simp: claim_due_def Let_def map_filter_def)
  then have "dp_outbox_id dp = ob_id r" by (intro prepare_publish_id(2))
  with due_batch_sub [OF r(1)] assms(2) show ?thesis by (simp add: table_ok_def)
qed

lemma claims_accepted_step: "ox_step s t \<Longrightarrow> ox_inv s \<Longrightarrow> claims_accepted s \<Longrightarrow> claims_accepted t"
proof (induction rule: ox_step.induct)
  case (claim_one locked oid s found dp dead d)
  then have "db_next_id d = db_next_id (os_db s)" using op_next(1) [of locked oid "os_now s" "os_db s"] by simp
  with claim_one show ?case
    using claim_pending_accepted [of locked oid "os_now s" "os_db s" found _ dead d]
    by (auto simp: claims_accepted_def ox_inv_table split: option.splits)
next
  case (claim_batch locked batch s n dps dead d)
  then have "db_next_id d = db_next_id (os_db s)" using op_next(2) [of locked batch "os_now s" "os_db s"] by simp
  with claim_batch show ?case
    using claim_due_accepted [of locked batch "os_now s" "os_db s" n dps dead d]
    by (auto simp: claims_accepted_def ox_inv_table)
qed (auto simp: claims_accepted_def op_next add_outbox_def dest: notin_set_remove1 in_set_remove1 set_mp set_remove1_subset [THEN subsetD])

lemma mail_of_frame:
  "mail_of (s\<lparr>os_now := n\<rparr>) = mail_of s" "mail_of (s\<lparr>os_claimed := cl\<rparr>) = mail_of s"
  "mail_of (s\<lparr>os_sent := sn\<rparr>) = mail_of s" "mail_of (s\<lparr>os_refused := rf\<rparr>) = mail_of s"
  by (simp_all add: mail_of_def)

lemma refine_arrive:
  assumes "ox_inv s"
  shows "mail_step (mail_of s)
    (mail_of (s\<lparr>os_db := snd (add_outbox pl et c poid py sg (os_now s) (os_db s))\<rparr>))"
proof -
  have fresh: "first_row (\<lambda>r. ob_id r = db_next_id (os_db s)) (db_outbox (os_db s)) = None"
    using assms by (fastforce simp: ox_inv_def)
  have "phases (db_outbox (snd (add_outbox pl et c poid py sg (os_now s) (os_db s)))) =
      (phases (db_outbox (os_db s)))(db_next_id (os_db s) \<mapsto> Waiting)"
  proof
    fix i
    show "phases (db_outbox (snd (add_outbox pl et c poid py sg (os_now s) (os_db s)))) i =
        ((phases (db_outbox (os_db s)))(db_next_id (os_db s) \<mapsto> Waiting)) i"
    proof (cases "i = db_next_id (os_db s)")
      case True
      with fresh show ?thesis
        by (simp add: phases_def add_outbox_def row_simps phase_of_def del: first_row_None)
    next
      case False
      then show ?thesis
        by (cases "first_row (\<lambda>r. ob_id r = i) (db_outbox (os_db s))")
          (simp_all add: phases_def add_outbox_def row_simps del: first_row_None)
    qed
  qed
  with mail_step.accept [of "mail_of s"] show ?thesis
    by (simp add: mail_of_def op_next)
qed

lemma refine_clean:
  assumes "ox_inv s"
  shows "mail_step\<^sup>*\<^sup>* (mail_of s) (mail_of (s\<lparr>os_db := snd (cleanup_outbox (os_now s) (os_db s))\<rparr>))"
proof -
  define T where "T = [ob_id r. r \<leftarrow> db_outbox (os_db s), ob_status r = ''published'' \<and>
    (case ob_published_at r of None \<Rightarrow> False | Some t \<Rightarrow> t < os_now s - days 7)]"
  have rows: "db_outbox (snd (cleanup_outbox (os_now s) (os_db s))) = del_rows (\<lambda>r. ob_id r \<in> set T) (db_outbox (os_db s))"
    unfolding cleanup_outbox_def Let_def T_def [symmetric] by (simp add: del_rows_def)
  have k: "keyed ob_id (db_outbox (os_db s))" using assms by (simp add: ox_inv_def)
  have gone: "phases (db_outbox (os_db s)) i = Some Taken" if i: "i \<in> set T" for i
  proof -
    from i obtain r where r: "r \<in> set (db_outbox (os_db s))" "ob_id r = i" "ob_status r = ''published''"
      by (auto simp: T_def split: if_splits)
    with keyed_first_row [OF k r(1)] show ?thesis by (simp add: phases_def phase_of_def)
  qed
  have fr: "first_row (\<lambda>r. ob_id r = i) (del_rows (\<lambda>r. ob_id r \<in> set T) xs) =
      (if i \<in> set T then None else first_row (\<lambda>r. ob_id r = i) xs)" for i xs
    by (induction xs) (auto simp: del_rows_def row_simps simp del: first_row_None)
  have "phases (db_outbox (snd (cleanup_outbox (os_now s) (os_db s)))) =
      (\<lambda>i. if i \<in> set T then None else phases (db_outbox (os_db s)) i)"
    by (simp add: rows phases_def fun_eq_iff fr del: first_row_None)
  with forget_many [of "set T" "mail_of s"] gone show ?thesis
    by (simp add: mail_of_def op_next cong: if_cong)
qed

lemma ox_step_refines:
  assumes "ox_step s t" and "ox_inv s" and "claims_accepted s"
  shows "mail_step\<^sup>*\<^sup>* (mail_of s) (mail_of t)"
proof -
  from assms(1,2) have t: "table_ok (os_now t) (os_delivered t) (os_db t)"
    using ox_step_inv ox_inv_table by blast
  show ?thesis
    using assms t
  proof cases
    case (claim_one locked oid found dp dead d)
    with t show ?thesis
      using op_ids(1) [of locked oid "os_now s" "os_db s"] op_next(1) [of locked oid "os_now s" "os_db s"]
      by (intro refine_same_ids [of d]) simp_all
  next
    case (claim_batch locked batch n dps dead d)
    with t show ?thesis
      using op_ids(2) [of locked batch "os_now s" "os_db s"] op_next(2) [of locked batch "os_now s" "os_db s"]
      by (intro refine_same_ids [of d]) simp_all
  next
    case (arrive pl et c poid py sg)
    with refine_arrive [OF assms(2)] show ?thesis by (simp add: r_into_rtranclp)
  next
    case (broker_takes dp)
    with assms(3) have "dp_outbox_id dp < ml_next (mail_of s)" by (simp add: claims_accepted_def mail_of_def)
    from mail_step.deliver [OF this] broker_takes show ?thesis by (simp add: mail_of_def r_into_rtranclp)
  next
    case clean
    with refine_clean [OF assms(2)] show ?thesis by simp
  next
    case (record_ok dp)
    with t show ?thesis by (intro refine_same_ids [OF op_ids(3) op_next(3)]) simp_all
  next
    case (record_fail dp err)
    with t show ?thesis by (intro refine_same_ids [OF op_ids(4) op_next(4)]) simp_all
  next
    case (consumer_rejects oid pl poid sku)
    with t show ?thesis by (intro refine_same_ids [OF op_ids(5) op_next(5)]) simp_all
  next
    case (operator_retries oid)
    with t show ?thesis by (intro refine_same_ids [OF op_ids(6) op_next(6)]) simp_all
  qed (simp_all add: mail_of_frame)
qed

interpretation outbox_refinement: forward_simulation ox_step "\<lambda>s. ox_inv s \<and> claims_accepted s" mail_step mail_of
  by unfold_locales (auto intro: ox_step_inv claims_accepted_step ox_step_refines)

lemma mail_of_init: "mail_of (ox_init now) = mail_init"
  by (simp add: mail_of_def mail_init_def ox_init_def empty_db_def phases_def fun_eq_iff)

text \<open>C2: the outbox refines the specification of a reliable mailbox: every interleaving of
  publishers, crashes, consumers, operators and cleanups is a run of \<open>mail_step\<close>, in which a
  message is taken only after the broker took it and leaves the table only then. So an accepted
  event is never dropped: its row is in the table, or the broker has taken it.\<close>

theorem outbox_refines_mail:
  assumes "ox_run (ox_init now) s"
  shows "mail_step\<^sup>*\<^sup>* mail_init (mail_of s) \<and>
    (1 \<le> i \<and> i < db_next_id (os_db s) \<longrightarrow> i \<in> os_delivered s \<or> i \<in> ob_id ` set (db_outbox (os_db s)))"
proof -
  have "claims_accepted (ox_init now)" by (simp add: claims_accepted_def ox_init_def)
  with outbox_refinement.steps_simulated [OF ox_run_steps [OF assms]] ox_inv_init
  have run: "mail_step\<^sup>*\<^sup>* mail_init (mail_of s)" by (simp add: mail_of_init)
  from mail_system.steps_inv [OF run mail_inv_init] have "mail_inv (mail_of s)" .
  then have "1 \<le> i \<and> i < db_next_id (os_db s) \<longrightarrow> i \<in> os_delivered s \<or> phases (db_outbox (os_db s)) i \<noteq> None"
    by (auto simp: mail_inv_def mail_of_def)
  with run phases_None [of "db_outbox (os_db s)" i] show ?thesis by simp
qed

theorem outbox_refines_mail_witness:
  "\<exists>s. ox_run (ox_init 0) s \<and> db_next_id (os_db s) = 2 \<and> os_delivered s = {} \<and> 1 \<in> ob_id ` set (db_outbox (os_db s))"
proof -
  define s where "s = (ox_init 0)\<lparr>os_db := snd (add_outbox ''shopee'' ''order'' PNone None PNone None
    (os_now (ox_init 0)) (os_db (ox_init 0)))\<rparr>"
  have run: "ox_run (ox_init 0) s"
    unfolding s_def by (rule ox_run.more [OF ox_run.stop ox_step.arrive])
  have n: "db_next_id (os_db s) = 2" "os_delivered s = {}"
    by (simp_all add: s_def add_outbox_def ox_init_def empty_db_def)
  from outbox_refines_mail [OF run, of 1] n have "1 \<in> ob_id ` set (db_outbox (os_db s))" by simp
  with run n show ?thesis by blast
qed

end
