(* ===== verification/Schema.thy ===== *)
theory Schema
  imports Http
begin

text \<open>
  The schema migrations of \<open>migrations/versions/\<close>: tables, indexes, database roles and their
  privileges, as commands on a catalogue. A command that the server would refuse (a name taken or
  missing, a table still referenced, a role that does not exist) is an error and stops the
  migration. The tables of the ORM classes in \<open>src/models/\<close> are written down beside them. Alembic's own
  version table is left out, and so are the index methods, \<open>CONCURRENTLY\<close> and the names of constraints.
\<close>

section \<open>Catalogue\<close>

datatype coltype =
    Integer | BigInteger | String nat | Text | Boolean | JSONB | TimestampTZ | Date | Numeric nat nat
  | INET | LargeBinary

text \<open>A foreign key names its table and says whether a deletion cascades.\<close>

record column =
  co_name :: string
  co_type :: coltype
  co_nullable :: bool
  co_default :: "string option"
  co_fk :: "(string \<times> bool) option"

record table =
  tb_name :: string
  tb_columns :: "column list"
  tb_unique :: "string list list"

record index =
  ix_name :: string
  ix_table :: string
  ix_columns :: "string list"
  ix_where :: "string option"

datatype privilege = Select | Insert | Update | Delete | Usage | Connect

datatype target = OnTable string | OnSequences | OnSchema | OnDatabase

record catalogue =
  ct_tables :: "table list"
  ct_indexes :: "index list"
  ct_roles :: "(string \<times> string) list"
  ct_grants :: "(string \<times> privilege \<times> target) list"
  ct_extensions :: "string list"

definition empty_catalogue :: catalogue where
  "empty_catalogue = \<lparr>ct_tables = [], ct_indexes = [], ct_roles = [], ct_grants = [], ct_extensions = []\<rparr>"

definition pk :: "string \<Rightarrow> coltype \<Rightarrow> column" where
  "pk n t = \<lparr>co_name = n, co_type = t, co_nullable = False, co_default = None, co_fk = None\<rparr>"

definition col :: "string \<Rightarrow> coltype \<Rightarrow> column" where
  "col n t = \<lparr>co_name = n, co_type = t, co_nullable = True, co_default = None, co_fk = None\<rparr>"

definition req :: "string \<Rightarrow> coltype \<Rightarrow> column" where
  "req n t = (col n t)\<lparr>co_nullable := False\<rparr>"

definition req_default :: "string \<Rightarrow> coltype \<Rightarrow> string \<Rightarrow> column" where
  "req_default n t d = (req n t)\<lparr>co_default := Some d\<rparr>"

definition stamp :: "string \<Rightarrow> column" where
  "stamp n = req_default n TimestampTZ ''now()''"

definition refers :: "column \<Rightarrow> string \<Rightarrow> bool \<Rightarrow> column" where
  "refers c t cascade = c\<lparr>co_fk := Some (t, cascade)\<rparr>"

definition on_index :: "string \<Rightarrow> string \<Rightarrow> string list \<Rightarrow> string option \<Rightarrow> index" where
  "on_index n t cs p = \<lparr>ix_name = n, ix_table = t, ix_columns = cs, ix_where = p\<rparr>"

section \<open>Commands\<close>

datatype ddl =
    CreateExtension string
  | CreateTable table
  | DropTable string
  | CreateIndex bool index
  | DropIndex bool string
  | SetRole string string
  | Grant "privilege list" target string
  | GrantAllTables "privilege list" string
  | Revoke "privilege list" target string
  | RevokeAllTables string
  | RevokeAll target string

definition sql_error :: "string \<Rightarrow> exc" where
  "sql_error m = PyError CDatabaseError m"

definition tables_of :: "catalogue \<Rightarrow> string list" where
  "tables_of s = map tb_name (ct_tables s)"

definition references :: "table \<Rightarrow> string list" where
  "references t = concat (map (\<lambda>c. case co_fk c of None \<Rightarrow> [] | Some (u, _) \<Rightarrow> [u]) (tb_columns t))"

definition add_grants :: "(string \<times> privilege \<times> target) list \<Rightarrow> catalogue \<Rightarrow> catalogue" where
  "add_grants gs s = s\<lparr>ct_grants := ct_grants s @ gs\<rparr>"

definition drop_grants :: "(string \<times> privilege \<times> target \<Rightarrow> bool) \<Rightarrow> catalogue \<Rightarrow> catalogue" where
  "drop_grants p s = s\<lparr>ct_grants := [g \<leftarrow> ct_grants s. \<not> p g]\<rparr>"

text \<open>Whether a grant may be given: the role is there, and so is the table.\<close>

definition grantable :: "string \<Rightarrow> target \<Rightarrow> catalogue \<Rightarrow> bool" where
  "grantable role t s \<longleftrightarrow> role \<in> set (map fst (ct_roles s)) \<and>
     (case t of OnTable n \<Rightarrow> n \<in> set (tables_of s) | _ \<Rightarrow> True)"

fun apply_ddl :: "ddl \<Rightarrow> catalogue \<Rightarrow> exc + catalogue" where
  "apply_ddl (CreateExtension e) s =
     Inr (if e \<in> set (ct_extensions s) then s else s\<lparr>ct_extensions := ct_extensions s @ [e]\<rparr>)"
| "apply_ddl (CreateTable t) s =
     (if tb_name t \<in> set (tables_of s) then Inl (sql_error ''relation already exists'')
      else if \<not> list_all (\<lambda>u. u = tb_name t \<or> u \<in> set (tables_of s)) (references t)
      then Inl (sql_error ''referenced relation does not exist'')
      else Inr (s\<lparr>ct_tables := ct_tables s @ [t]\<rparr>))"
| "apply_ddl (DropTable n) s =
     (if n \<notin> set (tables_of s) then Inl (sql_error ''table does not exist'')
      else if list_ex (\<lambda>t. tb_name t \<noteq> n \<and> n \<in> set (references t)) (ct_tables s)
      then Inl (sql_error ''other objects depend on it'')
      else Inr (drop_grants (\<lambda>(_, _, t). t = OnTable n)
        (s\<lparr>ct_tables := [t \<leftarrow> ct_tables s. tb_name t \<noteq> n], ct_indexes := [i \<leftarrow> ct_indexes s. ix_table i \<noteq> n]\<rparr>)))"
| "apply_ddl (CreateIndex if_not_exists i) s =
     (if ix_name i \<in> set (map ix_name (ct_indexes s))
      then if if_not_exists then Inr s else Inl (sql_error ''relation already exists'')
      else if \<not> list_ex (\<lambda>t. tb_name t = ix_table i \<and>
          list_all (\<lambda>c. c \<in> set (map co_name (tb_columns t))) (ix_columns i)) (ct_tables s)
      then Inl (sql_error ''no such table or column'')
      else Inr (s\<lparr>ct_indexes := ct_indexes s @ [i]\<rparr>))"
| "apply_ddl (DropIndex if_exists n) s =
     (if n \<notin> set (map ix_name (ct_indexes s))
      then if if_exists then Inr s else Inl (sql_error ''index does not exist'')
      else Inr (s\<lparr>ct_indexes := [i \<leftarrow> ct_indexes s. ix_name i \<noteq> n]\<rparr>))"
| "apply_ddl (SetRole r p) s =
     Inr (s\<lparr>ct_roles := (if r \<in> set (map fst (ct_roles s))
            then map (\<lambda>(q, old). if q = r then (q, p) else (q, old)) (ct_roles s) else ct_roles s @ [(r, p)])\<rparr>)"
| "apply_ddl (Grant ps t r) s =
     (if grantable r t s then Inr (add_grants [(r, p, t). p \<leftarrow> ps] s)
      else Inl (sql_error ''role or relation does not exist''))"
| "apply_ddl (GrantAllTables ps r) s =
     (if grantable r OnSchema s then Inr (add_grants [(r, p, OnTable n). n \<leftarrow> tables_of s, p \<leftarrow> ps] s)
      else Inl (sql_error ''role does not exist''))"
| "apply_ddl (Revoke ps t r) s =
     (if grantable r t s then Inr (drop_grants (\<lambda>(q, p, u). q = r \<and> p \<in> set ps \<and> u = t) s)
      else Inl (sql_error ''role or relation does not exist''))"
| "apply_ddl (RevokeAllTables r) s =
     (if grantable r OnSchema s
      then Inr (drop_grants (\<lambda>(q, p, u). q = r \<and> (case u of OnTable _ \<Rightarrow> True | _ \<Rightarrow> False)) s)
      else Inl (sql_error ''role does not exist''))"
| "apply_ddl (RevokeAll t r) s =
     (if grantable r t s then Inr (drop_grants (\<lambda>(q, p, u). q = r \<and> u = t) s)
      else Inl (sql_error ''role or relation does not exist''))"

fun run_ddl :: "ddl list \<Rightarrow> catalogue \<Rightarrow> exc + catalogue" where
  "run_ddl [] s = Inr s"
| "run_ddl (c # cs) s = sbnd (apply_ddl c s) (run_ddl cs)"

section \<open>Tables and indexes: 001 to 004\<close>

definition platform_config_table :: table where
  "platform_config_table = \<lparr>tb_name = ''platform_config'', tb_columns =
     [pk ''id'' Integer, req ''platform'' (String 20), col ''shop_id'' (String 100), col ''credentials'' JSONB,
      req_default ''is_active'' Boolean ''true'', req_default ''dry_run'' Boolean ''false'',
      req_default ''price_master'' (String 20) ''platform'', col ''extra_config'' JSONB,
      stamp ''created_at'', stamp ''updated_at''],
     tb_unique = [[''platform'']]\<rparr>"

definition order_mapping_table :: table where
  "order_mapping_table = \<lparr>tb_name = ''order_mapping'', tb_columns =
     [pk ''id'' Integer, req ''platform'' (String 20), req ''platform_order_id'' (String 100),
      col ''platform_order_sn'' (String 100), col ''odoo_order_id'' Integer, col ''odoo_order_name'' (String 50),
      req_default ''status'' (String 20) ''pending'', req_default ''retry_count'' Integer ''0'',
      col ''last_error'' Text, col ''synced_at'' TimestampTZ, stamp ''created_at'', stamp ''updated_at''],
     tb_unique = [[''platform'', ''platform_order_id'']]\<rparr>"

definition order_sync_log_table :: table where
  "order_sync_log_table = \<lparr>tb_name = ''order_sync_log'', tb_columns =
     [pk ''id'' Integer, refers (col ''order_mapping_id'' Integer) ''order_mapping'' False,
      req ''action'' (String 50), req ''status'' (String 20), col ''request_payload'' JSONB,
      col ''response_payload'' JSONB, col ''error_message'' Text, col ''duration_ms'' Integer, stamp ''created_at''],
     tb_unique = []\<rparr>"

definition product_mapping_table :: table where
  "product_mapping_table = \<lparr>tb_name = ''product_mapping'', tb_columns =
     [pk ''id'' Integer, req ''platform'' (String 20), req ''platform_product_id'' (String 100),
      col ''platform_sku_id'' (String 100), req ''odoo_product_id'' Integer, req ''odoo_sku'' (String 100),
      req_default ''mapping_type'' (String 20) ''simple'', req_default ''is_active'' Boolean ''true'',
      stamp ''created_at''],
     tb_unique = [[''platform'', ''platform_sku_id'']]\<rparr>"

definition bundle_components_table :: table where
  "bundle_components_table = \<lparr>tb_name = ''product_bundle_components'', tb_columns =
     [pk ''id'' Integer, refers (req ''mapping_id'' Integer) ''product_mapping'' True, req ''odoo_sku'' (String 100),
      req_default ''quantity'' Integer ''1''],
     tb_unique = []\<rparr>"

definition stock_config_table :: table where
  "stock_config_table = \<lparr>tb_name = ''stock_allocation_config'', tb_columns =
     [pk ''id'' Integer, req ''odoo_sku'' (String 100), req ''platform'' (String 20),
      req ''allocation_pct'' (Numeric 5 2), req_default ''buffer_pct'' (Numeric 5 2) ''10.00'',
      req_default ''is_active'' Boolean ''true''],
     tb_unique = [[''odoo_sku'', ''platform'']]\<rparr>"

definition up_001 :: "ddl list" where
  "up_001 =
     [CreateExtension ''pg_trgm'', CreateTable platform_config_table, CreateTable order_mapping_table,
      CreateIndex False (on_index ''idx_order_platform_status_created'' ''order_mapping''
        [''platform'', ''status'', ''created_at''] None),
      CreateIndex False (on_index ''idx_order_status_updated'' ''order_mapping'' [''status'', ''updated_at'']
        (Some ''status IN (failed, dead_letter)'')),
      CreateIndex False (on_index ''idx_order_mapping_pid_trgm'' ''order_mapping'' [''platform_order_id''] None),
      CreateTable order_sync_log_table,
      CreateIndex False (on_index ''idx_sync_log_mapping_created'' ''order_sync_log''
        [''order_mapping_id'', ''created_at''] None),
      CreateTable product_mapping_table,
      CreateIndex False (on_index ''idx_product_odoo_sku_active'' ''product_mapping'' [''odoo_sku'']
        (Some ''is_active = true'')),
      CreateTable bundle_components_table,
      CreateIndex False (on_index ''idx_bundle_mapping'' ''product_bundle_components'' [''mapping_id''] None),
      CreateIndex False (on_index ''idx_bundle_odoo_sku'' ''product_bundle_components'' [''odoo_sku''] None),
      CreateTable stock_config_table]"

definition down_001 :: "ddl list" where
  "down_001 =
     [DropTable ''stock_allocation_config'', DropIndex False ''idx_bundle_odoo_sku'', DropIndex False ''idx_bundle_mapping'',
      DropTable ''product_bundle_components'', DropIndex False ''idx_product_odoo_sku_active'',
      DropTable ''product_mapping'', DropIndex False ''idx_sync_log_mapping_created'', DropTable ''order_sync_log'',
      DropIndex True ''idx_order_mapping_pid_trgm'', DropIndex False ''idx_order_status_updated'',
      DropIndex False ''idx_order_platform_status_created'', DropTable ''order_mapping'', DropTable ''platform_config'']"

definition outbox_table :: table where
  "outbox_table = \<lparr>tb_name = ''webhook_outbox'', tb_columns =
     [pk ''id'' BigInteger, req ''platform'' (String 20), req ''event_type'' (String 50), col ''event_code'' Integer,
      col ''platform_order_id'' (String 100), req ''payload'' JSONB, col ''signature'' (String 255),
      req_default ''status'' (String 20) ''pending'', req_default ''retry_count'' Integer ''0'',
      req_default ''max_retries'' Integer ''5'', col ''last_error'' Text, stamp ''process_after'',
      col ''published_at'' TimestampTZ, stamp ''created_at'', stamp ''updated_at''],
     tb_unique = []\<rparr>"

definition event_log_table :: table where
  "event_log_table = \<lparr>tb_name = ''webhook_event_log'', tb_columns =
     [pk ''id'' BigInteger, req ''platform'' (String 20), stamp ''received_at'', col ''source_ip'' INET,
      col ''signature'' (String 255), req ''signature_valid'' Boolean, col ''headers'' JSONB, col ''body_raw'' LargeBinary,
      col ''body_size'' Integer, col ''event_code'' Integer, col ''platform_order_id'' (String 100),
      refers (col ''outbox_id'' BigInteger) ''webhook_outbox'' False,
      refers (col ''duplicate_of'' BigInteger) ''webhook_event_log'' False, col ''parse_error'' Text],
     tb_unique = []\<rparr>"

definition outbox_pending_index :: "string \<Rightarrow> index" where
  "outbox_pending_index states = on_index ''idx_outbox_pending'' ''webhook_outbox'' [''status'', ''process_after'']
     (Some (''status IN ('' @ states @ '')''))"

definition up_002 :: "ddl list" where
  "up_002 =
     [CreateTable outbox_table, CreateIndex False (outbox_pending_index ''pending, failed''),
      CreateIndex False (on_index ''idx_outbox_platform_order'' ''webhook_outbox'' [''platform'', ''platform_order_id''] None),
      CreateTable event_log_table,
      CreateIndex False (on_index ''idx_webhook_event_received'' ''webhook_event_log'' [''received_at''] None),
      CreateIndex False (on_index ''idx_webhook_event_platform_order'' ''webhook_event_log''
        [''platform'', ''platform_order_id''] None),
      CreateIndex False (on_index ''idx_webhook_event_porder_id'' ''webhook_event_log'' [''platform_order_id''] None)]"

definition down_002 :: "ddl list" where
  "down_002 =
     [DropIndex False ''idx_webhook_event_porder_id'', DropIndex False ''idx_webhook_event_platform_order'',
      DropIndex False ''idx_webhook_event_received'', DropTable ''webhook_event_log'',
      DropIndex False ''idx_outbox_platform_order'', DropIndex False ''idx_outbox_pending'', DropTable ''webhook_outbox'']"

definition reconciliation_table :: table where
  "reconciliation_table = \<lparr>tb_name = ''reconciliation_log'', tb_columns =
     [pk ''id'' Integer, req ''platform'' (String 20), req ''run_date'' Date,
      req_default ''orders_checked'' Integer ''0'', req_default ''orders_matched'' Integer ''0'',
      req_default ''orders_missing'' Integer ''0'', req_default ''orders_extra'' Integer ''0'',
      req_default ''auto_fixed'' Integer ''0'', req_default ''needs_review'' Integer ''0'',
      col ''details'' JSONB, stamp ''created_at''],
     tb_unique = []\<rparr>"

definition price_sync_table :: table where
  "price_sync_table = \<lparr>tb_name = ''price_sync_log'', tb_columns =
     [pk ''id'' Integer, req ''platform'' (String 20), req ''odoo_sku'' (String 100), col ''old_price'' (Numeric 15 2),
      col ''new_price'' (Numeric 15 2), req ''status'' (String 20), col ''error_message'' Text, stamp ''created_at''],
     tb_unique = []\<rparr>"

definition up_003 :: "ddl list" where
  "up_003 =
     [CreateTable reconciliation_table,
      CreateIndex False (on_index ''idx_reconciliation_platform_date'' ''reconciliation_log'' [''platform'', ''run_date''] None),
      CreateTable price_sync_table,
      CreateIndex False (on_index ''idx_price_sync_sku_platform'' ''price_sync_log'' [''odoo_sku'', ''platform''] None)]"

definition down_003 :: "ddl list" where
  "down_003 =
     [DropIndex False ''idx_price_sync_sku_platform'', DropTable ''price_sync_log'',
      DropIndex False ''idx_reconciliation_platform_date'', DropTable ''reconciliation_log'']"

definition audit_table :: table where
  "audit_table = \<lparr>tb_name = ''audit_log'', tb_columns =
     [pk ''id'' BigInteger, req ''actor'' (String 100), req ''action'' (String 50), col ''target'' (String 200), col ''ip'' INET,
      col ''user_agent'' Text, col ''payload'' JSONB, req_default ''success'' Boolean ''true'', col ''error'' Text,
      stamp ''created_at''],
     tb_unique = []\<rparr>"

definition up_004 :: "ddl list" where
  "up_004 =
     [CreateTable audit_table,
      CreateIndex False (on_index ''idx_audit_actor_time'' ''audit_log'' [''actor'', ''created_at''] None),
      CreateIndex False (on_index ''idx_audit_action_time'' ''audit_log'' [''action'', ''created_at''] None)]"

definition down_004 :: "ddl list" where
  "down_004 =
     [DropIndex False ''idx_audit_action_time'', DropIndex False ''idx_audit_actor_time'', DropTable ''audit_log'']"

section \<open>Roles: 005 and 006\<close>

definition ROLE_ENV_VARS :: "(string \<times> string) list" where
  "ROLE_ENV_VARS = [(''mw_api'', ''MW_API_PASSWORD''), (''mw_worker'', ''MW_WORKER_PASSWORD''),
     (''mw_readonly'', ''MW_READONLY_PASSWORD'')]"

definition is_production :: "(string \<Rightarrow> string option) \<Rightarrow> bool" where
  "is_production env \<longleftrightarrow>
     py_lower (if str_truthy (env ''ENVIRONMENT'') then opt_text (env ''ENVIRONMENT'') else ''development'') = ''production''"

text \<open>What one role gets: a password, none (leave the role as it is), or, in the error, the name of
  the missing variable. \<open>generated\<close> is \<open>secrets.token_urlsafe\<close>.\<close>

definition resolve_one ::
  "(string \<Rightarrow> string option) \<Rightarrow> (string \<Rightarrow> string) \<Rightarrow> string list \<Rightarrow> string \<times> string \<Rightarrow> string + string option" where
  "resolve_one env generated existing = (\<lambda>(role, var).
     if str_truthy (env var) then Inr (env var)
     else if is_production env then Inl var
     else if role \<in> set existing then Inr None
     else Inr (Some (generated role)))"

definition resolve_role_passwords ::
  "(string \<Rightarrow> string option) \<Rightarrow> (string \<Rightarrow> string) \<Rightarrow> string list \<Rightarrow> exc + (string \<times> string option) list" where
  "resolve_role_passwords env generated existing =
     (let missing = [var. (role, var) \<leftarrow> ROLE_ENV_VARS,
            (case resolve_one env generated existing (role, var) of Inl _ \<Rightarrow> True | Inr _ \<Rightarrow> False)]
      in if missing \<noteq> [] then
           Inl (PyError CException (''Refusing to create DB roles with placeholder passwords in '' @
             ''ENVIRONMENT=production. Missing: '' @ join '', '' missing @
             ''. Set these environment variables before running migrations.''))
         else Inr (concat (map (\<lambda>rv. case resolve_one env generated existing rv of
                Inl _ \<Rightarrow> [] | Inr p \<Rightarrow> [(fst rv, p)]) ROLE_ENV_VARS)))"

definition role_grants :: "ddl list" where
  "role_grants =
     [Grant [Connect] OnDatabase r. r \<leftarrow> map fst ROLE_ENV_VARS] @ [Grant [Usage] OnSchema r. r \<leftarrow> map fst ROLE_ENV_VARS] @
     [Grant [Insert, Select] (OnTable ''webhook_outbox'') ''mw_api'',
      Grant [Insert, Select] (OnTable ''webhook_event_log'') ''mw_api'',
      Grant [Select] (OnTable ''order_mapping'') ''mw_api'', Grant [Select] (OnTable ''platform_config'') ''mw_api'',
      Grant [Select] (OnTable ''product_mapping'') ''mw_api'', Grant [Insert] (OnTable ''audit_log'') ''mw_api'',
      Grant [Usage, Select] OnSequences ''mw_api'',
      GrantAllTables [Select, Insert, Update] ''mw_worker'', Grant [Usage, Select] OnSequences ''mw_worker'',
      GrantAllTables [Select] ''mw_readonly'']"

definition upgrade_005 ::
  "(string \<Rightarrow> string option) \<Rightarrow> (string \<Rightarrow> string) \<Rightarrow> catalogue \<Rightarrow> exc + catalogue" where
  "upgrade_005 env generated s =
     sbnd (resolve_role_passwords env generated [r \<leftarrow> map fst (ct_roles s). r \<in> set (map fst ROLE_ENV_VARS)]) (\<lambda>pws.
       run_ddl (concat (map (\<lambda>(r, p). case p of None \<Rightarrow> [] | Some t \<Rightarrow> [SetRole r t]) pws) @ role_grants) s)"

definition down_005 :: "ddl list" where
  "down_005 = [RevokeAllTables r. r \<leftarrow> map fst ROLE_ENV_VARS] @ [RevokeAll OnSchema r. r \<leftarrow> map fst ROLE_ENV_VARS]"

definition admin_privileges :: "(privilege list \<times> string) list" where
  "admin_privileges =
     [([Insert, Update, Delete], ''platform_config''), ([Insert, Update, Delete], ''product_mapping''),
      ([Update], ''order_mapping''), ([Update], ''webhook_outbox''),
      ([Select, Insert, Update, Delete], ''product_bundle_components''),
      ([Select, Insert, Update, Delete], ''stock_allocation_config''), ([Select], ''audit_log'')]"

definition up_006 :: "ddl list" where
  "up_006 = [Grant ps (OnTable t) ''mw_api''. (ps, t) \<leftarrow> admin_privileges]"

definition down_006 :: "ddl list" where
  "down_006 = [Revoke ps (OnTable t) ''mw_api''. (ps, t) \<leftarrow> admin_privileges]"

section \<open>Partial indexes: 007 and 008\<close>

definition up_007 :: "ddl list" where
  "up_007 = [CreateIndex True (on_index ''idx_webhook_event_signature_valid'' ''webhook_event_log'' [''signature'']
     (Some ''signature_valid''))]"

definition down_007 :: "ddl list" where
  "down_007 = [DropIndex True ''idx_webhook_event_signature_valid'']"

definition up_008 :: "ddl list" where
  "up_008 = [DropIndex True ''idx_outbox_pending'', CreateIndex True (outbox_pending_index ''pending, failed, processing'')]"

definition down_008 :: "ddl list" where
  "down_008 = [DropIndex True ''idx_outbox_pending'', CreateIndex True (outbox_pending_index ''pending, failed'')]"

section \<open>The chain of revisions\<close>

record migration =
  mg_revision :: string
  mg_down_revision :: "string option"
  mg_upgrade :: "catalogue \<Rightarrow> exc + catalogue"
  mg_downgrade :: "catalogue \<Rightarrow> exc + catalogue"

definition migrations :: "(string \<Rightarrow> string option) \<Rightarrow> (string \<Rightarrow> string) \<Rightarrow> migration list" where
  "migrations env generated =
     [\<lparr>mg_revision = ''001_initial'', mg_down_revision = None, mg_upgrade = run_ddl up_001, mg_downgrade = run_ddl down_001\<rparr>,
      \<lparr>mg_revision = ''002_outbox'', mg_down_revision = Some ''001_initial'', mg_upgrade = run_ddl up_002,
       mg_downgrade = run_ddl down_002\<rparr>,
      \<lparr>mg_revision = ''003_reconciliation'', mg_down_revision = Some ''002_outbox'', mg_upgrade = run_ddl up_003,
       mg_downgrade = run_ddl down_003\<rparr>,
      \<lparr>mg_revision = ''004_audit_log'', mg_down_revision = Some ''003_reconciliation'', mg_upgrade = run_ddl up_004,
       mg_downgrade = run_ddl down_004\<rparr>,
      \<lparr>mg_revision = ''005_db_roles'', mg_down_revision = Some ''004_audit_log'', mg_upgrade = upgrade_005 env generated,
       mg_downgrade = run_ddl down_005\<rparr>,
      \<lparr>mg_revision = ''006_admin_grants'', mg_down_revision = Some ''005_db_roles'', mg_upgrade = run_ddl up_006,
       mg_downgrade = run_ddl down_006\<rparr>,
      \<lparr>mg_revision = ''007_webhook_signature_index'', mg_down_revision = Some ''006_admin_grants'',
       mg_upgrade = run_ddl up_007, mg_downgrade = run_ddl down_007\<rparr>,
      \<lparr>mg_revision = ''008_outbox_proc_idx'', mg_down_revision = Some ''007_webhook_signature_index'',
       mg_upgrade = run_ddl up_008, mg_downgrade = run_ddl down_008\<rparr>]"

text \<open>\<open>alembic upgrade head\<close>, with the catalogue before each revision.\<close>

fun upgrade_all :: "migration list \<Rightarrow> catalogue \<Rightarrow> exc + (migration \<times> catalogue) list \<times> catalogue" where
  "upgrade_all [] s = Inr ([], s)"
| "upgrade_all (m # ms) s =
     sbnd (mg_upgrade m s) (\<lambda>t. sbnd (upgrade_all ms t) (\<lambda>(done_before, u). Inr ((m, s) # done_before, u)))"

definition upgrade_head :: "(string \<Rightarrow> string option) \<Rightarrow> (string \<Rightarrow> string) \<Rightarrow> exc + catalogue" where
  "upgrade_head env generated = sbnd (upgrade_all (migrations env generated) empty_catalogue) (\<lambda>(_, s). Inr s)"

section \<open>The ORM\<close>

text \<open>The tables the classes of \<open>src/models/\<close> declare. Their defaults are filled in by the client or
  by the server and are left out.\<close>

definition bare :: "table \<Rightarrow> table" where
  "bare t = t\<lparr>tb_columns := map (\<lambda>c. c\<lparr>co_default := None\<rparr>) (tb_columns t)\<rparr>"

definition orm_audit_log :: table where
  "orm_audit_log = \<lparr>tb_name = ''audit_log'', tb_columns =
     [pk ''id'' BigInteger, req ''actor'' (String 100), req ''action'' (String 50), col ''target'' (String 200),
      col ''ip'' INET, col ''user_agent'' Text, col ''payload'' JSONB, req ''success'' Boolean, col ''error'' Text,
      req ''created_at'' TimestampTZ], tb_unique = []\<rparr>"

definition timestamp_mixin :: "column list" where
  "timestamp_mixin = [req ''created_at'' TimestampTZ, req ''updated_at'' TimestampTZ]"

definition orm_order_mapping :: table where
  "orm_order_mapping = \<lparr>tb_name = ''order_mapping'', tb_columns =
     [pk ''id'' Integer, req ''platform'' (String 20), req ''platform_order_id'' (String 100),
      col ''platform_order_sn'' (String 100), col ''odoo_order_id'' Integer, col ''odoo_order_name'' (String 50),
      req ''status'' (String 20), req ''retry_count'' Integer, col ''last_error'' Text, col ''synced_at'' TimestampTZ] @
      timestamp_mixin, tb_unique = [[''platform'', ''platform_order_id'']]\<rparr>"

definition orm_order_sync_log :: table where
  "orm_order_sync_log = \<lparr>tb_name = ''order_sync_log'', tb_columns =
     [pk ''id'' Integer, refers (col ''order_mapping_id'' Integer) ''order_mapping'' False, req ''action'' (String 50),
      req ''status'' (String 20), col ''request_payload'' JSONB, col ''response_payload'' JSONB,
      col ''error_message'' Text, col ''duration_ms'' Integer, req ''created_at'' TimestampTZ], tb_unique = []\<rparr>"

definition orm_outbox :: table where
  "orm_outbox = \<lparr>tb_name = ''webhook_outbox'', tb_columns =
     [pk ''id'' BigInteger, req ''platform'' (String 20), req ''event_type'' (String 50), col ''event_code'' Integer,
      col ''platform_order_id'' (String 100), req ''payload'' JSONB, col ''signature'' (String 255),
      req ''status'' (String 20), req ''retry_count'' Integer, req ''max_retries'' Integer, col ''last_error'' Text,
      req ''process_after'' TimestampTZ, col ''published_at'' TimestampTZ, req ''created_at'' TimestampTZ,
      req ''updated_at'' TimestampTZ], tb_unique = []\<rparr>"

definition orm_platform_config :: table where
  "orm_platform_config = \<lparr>tb_name = ''platform_config'', tb_columns =
     [pk ''id'' Integer, req ''platform'' (String 20), col ''shop_id'' (String 100), col ''credentials'' JSONB,
      req ''is_active'' Boolean, req ''dry_run'' Boolean, req ''price_master'' (String 20), col ''extra_config'' JSONB,
      req ''created_at'' TimestampTZ, req ''updated_at'' TimestampTZ], tb_unique = [[''platform'']]\<rparr>"

definition orm_price_sync_log :: table where
  "orm_price_sync_log = \<lparr>tb_name = ''price_sync_log'', tb_columns =
     [pk ''id'' Integer, req ''platform'' (String 20), req ''odoo_sku'' (String 100), col ''old_price'' (Numeric 15 2),
      col ''new_price'' (Numeric 15 2), req ''status'' (String 20), col ''error_message'' Text,
      req ''created_at'' TimestampTZ], tb_unique = []\<rparr>"

definition orm_product_mapping :: table where
  "orm_product_mapping = \<lparr>tb_name = ''product_mapping'', tb_columns =
     [pk ''id'' Integer, req ''platform'' (String 20), req ''platform_product_id'' (String 100),
      col ''platform_sku_id'' (String 100), req ''odoo_product_id'' Integer, req ''odoo_sku'' (String 100),
      req ''mapping_type'' (String 20), req ''is_active'' Boolean, req ''created_at'' TimestampTZ],
     tb_unique = [[''platform'', ''platform_sku_id'']]\<rparr>"

definition orm_bundle_component :: table where
  "orm_bundle_component = \<lparr>tb_name = ''product_bundle_components'', tb_columns =
     [pk ''id'' Integer, refers (req ''mapping_id'' Integer) ''product_mapping'' True, req ''odoo_sku'' (String 100),
      req ''quantity'' Integer], tb_unique = []\<rparr>"

definition orm_reconciliation_log :: table where
  "orm_reconciliation_log = \<lparr>tb_name = ''reconciliation_log'', tb_columns =
     [pk ''id'' Integer, req ''platform'' (String 20), req ''run_date'' Date, req ''orders_checked'' Integer,
      req ''orders_matched'' Integer, req ''orders_missing'' Integer, req ''orders_extra'' Integer,
      req ''auto_fixed'' Integer, req ''needs_review'' Integer, col ''details'' JSONB, req ''created_at'' TimestampTZ],
     tb_unique = []\<rparr>"

definition orm_stock_config :: table where
  "orm_stock_config = \<lparr>tb_name = ''stock_allocation_config'', tb_columns =
     [pk ''id'' Integer, req ''odoo_sku'' (String 100), req ''platform'' (String 20), req ''allocation_pct'' (Numeric 5 2),
      req ''buffer_pct'' (Numeric 5 2), req ''is_active'' Boolean], tb_unique = [[''odoo_sku'', ''platform'']]\<rparr>"

definition orm_event_log :: table where
  "orm_event_log = \<lparr>tb_name = ''webhook_event_log'', tb_columns =
     [pk ''id'' BigInteger, req ''platform'' (String 20), req ''received_at'' TimestampTZ, col ''source_ip'' INET,
      col ''signature'' (String 255), req ''signature_valid'' Boolean, col ''headers'' JSONB, col ''body_raw'' LargeBinary,
      col ''body_size'' Integer, col ''event_code'' Integer, col ''platform_order_id'' (String 100),
      refers (col ''outbox_id'' BigInteger) ''webhook_outbox'' False,
      refers (col ''duplicate_of'' BigInteger) ''webhook_event_log'' False, col ''parse_error'' Text], tb_unique = []\<rparr>"

definition orm_tables :: "table list" where
  "orm_tables = [orm_audit_log, orm_order_mapping, orm_order_sync_log, orm_outbox, orm_platform_config,
     orm_price_sync_log, orm_product_mapping, orm_bundle_component, orm_reconciliation_log, orm_stock_config, orm_event_log]"

section \<open>The catalogue after each revision\<close>

text \<open>Whether a downgrade brings back the tables, the indexes and the privileges on tables.\<close>

definition on_tables :: "catalogue \<Rightarrow> (string \<times> privilege \<times> target) list" where
  "on_tables s = [g \<leftarrow> ct_grants s. case snd (snd g) of OnTable _ \<Rightarrow> True | _ \<Rightarrow> False]"

definition same_objects :: "catalogue \<Rightarrow> catalogue \<Rightarrow> bool" where
  "same_objects s t \<longleftrightarrow> ct_tables s = ct_tables t \<and> set (ct_indexes s) = set (ct_indexes t) \<and>
     on_tables s = on_tables t"

definition undone :: "exc + catalogue \<Rightarrow> catalogue \<Rightarrow> bool" where
  "undone r before = (case r of Inl _ \<Rightarrow> False | Inr t \<Rightarrow> same_objects t before)"

definition granted :: "catalogue \<Rightarrow> string \<Rightarrow> privilege \<Rightarrow> string \<Rightarrow> bool" where
  "granted s role p t \<longleftrightarrow> (role, p, OnTable t) \<in> set (ct_grants s)"

text \<open>The privileges on every table, as the migrations leave them.\<close>

definition privileges :: "catalogue \<Rightarrow> string \<Rightarrow> (string \<times> privilege list) list" where
  "privileges s role = [(t, [p. p \<leftarrow> [Select, Insert, Update, Delete], granted s role p t]). t \<leftarrow> tables_of s]"

definition set_roles :: "string \<Rightarrow> string \<Rightarrow> string \<Rightarrow> ddl list" where
  "set_roles a b c = [SetRole ''mw_api'' a, SetRole ''mw_worker'' b, SetRole ''mw_readonly'' c]"

text \<open>The eight revisions with three passwords, and what is checked of the catalogues between.\<close>

fun chain_from :: "ddl list list \<Rightarrow> catalogue \<Rightarrow> exc + catalogue list" where
  "chain_from [] s = Inr []"
| "chain_from (u # us) s =
     (case run_ddl u s of Inl e \<Rightarrow> Inl e | Inr t \<Rightarrow> map_sum id ((#) t) (chain_from us t))"

definition chain :: "string \<Rightarrow> string \<Rightarrow> string \<Rightarrow> exc + catalogue list" where
  "chain a b c = chain_from [up_001, up_002, up_003, up_004, set_roles a b c @ role_grants, up_006, up_007, up_008]
     empty_catalogue"

definition verdict :: "catalogue list \<Rightarrow> bool" where
  "verdict ss = (case ss of
     [s1, s2, s3, s4, s5, s6, s7, s8] \<Rightarrow>
       ct_roles s4 = [] \<and>
       undone (run_ddl down_001 s1) empty_catalogue \<and> undone (run_ddl down_002 s2) s1 \<and>
       undone (run_ddl down_003 s3) s2 \<and> undone (run_ddl down_004 s4) s3 \<and> undone (run_ddl down_005 s5) s4 \<and>
       undone (run_ddl down_006 s6) s5 \<and> undone (run_ddl down_007 s7) s6 \<and> undone (run_ddl down_008 s8) s7 \<and>
       set (map bare (ct_tables s8)) = set orm_tables \<and> distinct (tables_of s8) \<and>
       privileges s8 ''mw_api'' =
         [(''platform_config'', [Select, Insert, Update, Delete]), (''order_mapping'', [Select, Update]),
          (''order_sync_log'', []), (''product_mapping'', [Select, Insert, Update, Delete]),
          (''product_bundle_components'', [Select, Insert, Update, Delete]),
          (''stock_allocation_config'', [Select, Insert, Update, Delete]),
          (''webhook_outbox'', [Select, Insert, Update]), (''webhook_event_log'', [Select, Insert]),
          (''reconciliation_log'', []), (''price_sync_log'', []), (''audit_log'', [Select, Insert])] \<and>
       privileges s8 ''mw_worker'' = map (\<lambda>t. (t, [Select, Insert, Update])) (tables_of s8) \<and>
       privileges s8 ''mw_readonly'' = map (\<lambda>t. (t, [Select])) (tables_of s8)
   | _ \<Rightarrow> False)"

lemma chain_verdict: "case chain a b c of Inl _ \<Rightarrow> False | Inr ss \<Rightarrow> verdict ss"
  by code_simp

lemma map_sum_eq_Inr: "map_sum f g r = Inr y \<longleftrightarrow> (\<exists>x. r = Inr x \<and> y = g x)"
  by (cases r) auto

lemma resolve_fresh:
  assumes "resolve_role_passwords env generated [] = Inr pws"
  shows "\<exists>a b c. pws = [(''mw_api'', Some a), (''mw_worker'', Some b), (''mw_readonly'', Some c)]"
  using assms
  by (auto simp: resolve_role_passwords_def resolve_one_def ROLE_ENV_VARS_def str_truthy_def Let_def
      split: if_splits option.splits)

lemma upgrade_005_fresh:
  assumes "upgrade_005 env generated s = Inr t" and "ct_roles s = []"
  shows "\<exists>a b c. run_ddl (set_roles a b c @ role_grants) s = Inr t"
proof -
  from assms obtain pws where p: "resolve_role_passwords env generated [] = Inr pws"
    "run_ddl (concat (map (\<lambda>(r, p). case p of None \<Rightarrow> [] | Some t \<Rightarrow> [SetRole r t]) pws) @ role_grants) s = Inr t"
    by (auto simp: upgrade_005_def sbnd_eq_Inr)
  from resolve_fresh [OF p(1)] obtain a b c where
    "pws = [(''mw_api'', Some a), (''mw_worker'', Some b), (''mw_readonly'', Some c)]" by blast
  with p(2) have "run_ddl (set_roles a b c @ role_grants) s = Inr t" by (simp add: set_roles_def)
  then show ?thesis by blast
qed

lemma chain_no_roles:
  assumes "run_ddl up_001 empty_catalogue = Inr s1" "run_ddl up_002 s1 = Inr s2" "run_ddl up_003 s2 = Inr s3"
    "run_ddl up_004 s3 = Inr s4"
  shows "ct_roles s4 = []"
proof -
  obtain ss where ss: "chain [] [] [] = Inr ss" "verdict ss"
    using chain_verdict [of "[]" "[]" "[]"] by (cases "chain [] [] []") auto
  then obtain t5 t6 t7 t8 where "ss = [s1, s2, s3, s4, t5, t6, t7, t8]"
    using assms by (auto simp: chain_def map_sum_eq_Inr split: sum.splits)
  with ss(2) show ?thesis by (simp add: verdict_def)
qed

text \<open>Every successful upgrade of an empty database is such a chain.\<close>

lemma head_states:
  assumes "upgrade_all (migrations env generated) empty_catalogue = Inr (steps, s)"
  shows "\<exists>s1 s2 s3 s4 s5 s6 s7. verdict [s1, s2, s3, s4, s5, s6, s7, s] \<and>
    steps = zip (migrations env generated) [empty_catalogue, s1, s2, s3, s4, s5, s6, s7]"
proof -
  from assms obtain s1 s2 s3 s4 s5 s6 s7 where u:
    "run_ddl up_001 empty_catalogue = Inr s1" "run_ddl up_002 s1 = Inr s2" "run_ddl up_003 s2 = Inr s3"
    "run_ddl up_004 s3 = Inr s4" "upgrade_005 env generated s4 = Inr s5" "run_ddl up_006 s5 = Inr s6"
    "run_ddl up_007 s6 = Inr s7" "run_ddl up_008 s7 = Inr s"
    "steps = zip (migrations env generated) [empty_catalogue, s1, s2, s3, s4, s5, s6, s7]"
    by (auto simp: migrations_def sbnd_eq_Inr)
  have "ct_roles s4 = []" by (rule chain_no_roles [OF u(1-4)])
  from upgrade_005_fresh [OF u(5) this] obtain a b c where "run_ddl (set_roles a b c @ role_grants) s4 = Inr s5"
    by (elim exE)
  with u(1-4,6-8) have "chain a b c = Inr [s1, s2, s3, s4, s5, s6, s7, s]" by (simp add: chain_def)
  with chain_verdict [of a b c] have "verdict [s1, s2, s3, s4, s5, s6, s7, s]" by simp
  with u(9) show ?thesis by (intro exI conjI)
qed

lemma head_verdict:
  assumes "upgrade_head env generated = Inr s"
  obtains s1 s2 s3 s4 s5 s6 s7 where "verdict [s1, s2, s3, s4, s5, s6, s7, s]"
proof -
  from assms obtain steps where "upgrade_all (migrations env generated) empty_catalogue = Inr (steps, s)"
    by (auto simp: upgrade_head_def sbnd_eq_Inr)
  from head_states [OF this] show thesis using that by blast
qed

section \<open>Properties\<close>


text \<open>An environment without any of the variables, as on a development machine.\<close>

lemma dev_passwords: "resolve_role_passwords (\<lambda>_. None) (\<lambda>r. r) [] =
    Inr [(''mw_api'', Some ''mw_api''), (''mw_worker'', Some ''mw_worker''), (''mw_readonly'', Some ''mw_readonly'')]"
  by code_simp

lemma dev_upgrade: "\<exists>s. upgrade_head (\<lambda>_. None) (\<lambda>r. r) = Inr s"
proof -
  obtain ss where ss: "chain ''mw_api'' ''mw_worker'' ''mw_readonly'' = Inr ss" "verdict ss"
    using chain_verdict [of "''mw_api''" "''mw_worker''" "''mw_readonly''"]
    by (cases "chain ''mw_api'' ''mw_worker'' ''mw_readonly''") auto
  then obtain s1 s2 s3 s4 s5 s6 s7 s8 where c:
    "run_ddl up_001 empty_catalogue = Inr s1" "run_ddl up_002 s1 = Inr s2" "run_ddl up_003 s2 = Inr s3"
    "run_ddl up_004 s3 = Inr s4" "run_ddl (set_roles ''mw_api'' ''mw_worker'' ''mw_readonly'' @ role_grants) s4 = Inr s5"
    "run_ddl up_006 s5 = Inr s6" "run_ddl up_007 s6 = Inr s7" "run_ddl up_008 s7 = Inr s8"
    by (auto simp: chain_def map_sum_eq_Inr split: sum.splits)
  have "ct_roles s4 = []" by (rule chain_no_roles [OF c(1-4)])
  with c(5) have "upgrade_005 (\<lambda>_. None) (\<lambda>r. r) s4 = Inr s5"
    by (simp add: upgrade_005_def dev_passwords set_roles_def)
  with c show ?thesis by (simp add: upgrade_head_def migrations_def)
qed


text \<open>C39: every revision can be taken back: after the upgrade its downgrade succeeds and leaves the
  tables, the indexes and the privileges on tables as they were before. The login roles
  stay, with what they may do on the database and its sequences.\<close>

theorem migrations_reversible:
  assumes "upgrade_all (migrations env generated) empty_catalogue = Inr (steps, s)"
  shows "list_all2 (\<lambda>(m, before) after. undone (mg_downgrade m after) before) steps (tl (map snd steps) @ [s])"
proof -
  from head_states [OF assms] obtain s1 s2 s3 s4 s5 s6 s7 where
    v: "verdict [s1, s2, s3, s4, s5, s6, s7, s]" and
    st: "steps = zip (migrations env generated) [empty_catalogue, s1, s2, s3, s4, s5, s6, s7]" by blast
  from v show ?thesis unfolding st by (simp add: migrations_def verdict_def)
qed

theorem migrations_reversible_witness:
  "\<exists>steps s. upgrade_all (migrations (\<lambda>_. None) (\<lambda>r. r)) empty_catalogue = Inr (steps, s) \<and>
     list_all2 (\<lambda>(m, before) after. undone (mg_downgrade m after) before) steps (tl (map snd steps) @ [s])"
proof -
  from dev_upgrade obtain steps s where "upgrade_all (migrations (\<lambda>_. None) (\<lambda>r. r)) empty_catalogue = Inr (steps, s)"
    by (auto simp: upgrade_head_def sbnd_eq_Inr)
  with migrations_reversible [OF this] show ?thesis by blast
qed



end
