(* ===== verification/Operations.thy ===== *)
theory Operations
  imports Pystr Config
begin

text \<open>
  What runs beside the services: the redaction of log events (\<open>src/core/logging.py\<close>), the load test
  verifier (\<open>scripts/verify_load_test.py\<close>) and the check of the migration files
  (\<open>scripts/check_migration_safety.py\<close>). Prometheus is a parameter, its answer to a query as a JSON
  value or the exception of the request.
\<close>

section \<open>Redaction\<close>

definition SENSITIVE_KEYS :: "string list" where
  "SENSITIVE_KEYS =
     [''password'', ''access_token'', ''refresh_token'', ''partner_key'', ''partner_secret'', ''credentials'',
      ''x-shopee-signature'', ''signature'', ''api_key'', ''secret_key'', ''admin_secret_token'', ''authorization'',
      ''cookie'', ''set-cookie'']"

definition redact_processor :: "(string \<times> pyval) list \<Rightarrow> (string \<times> pyval) list" where
  "redact_processor event =
     fold (\<lambda>k ev. if py_lower k \<in> set SENSITIVE_KEYS then dict_set ev k (PStr ''***REDACTED***'') else ev)
       (map fst event) event"

lemma redact_fold:
  "map_of (fold (\<lambda>k ev. if py_lower k \<in> set SENSITIVE_KEYS then dict_set ev k (PStr ''***REDACTED***'') else ev) ks ev) k =
     (if k \<in> set ks \<and> py_lower k \<in> set SENSITIVE_KEYS then Some (PStr ''***REDACTED***'') else map_of ev k)"
  by (induction ks arbitrary: ev) (auto simp: map_of_dict_set)

text \<open>The value of every sensitive key of an event is hidden, in whatever case the key is written,
  and no other entry changes. (A sensitive key inside a value is not looked for.)\<close>

theorem redaction_exact:
  "map_of (redact_processor event) k =
     (if py_lower k \<in> set SENSITIVE_KEYS then map_option (\<lambda>_. PStr ''***REDACTED***'') (map_of event k)
      else map_of event k)"
proof -
  have "k \<in> set (map fst event) \<longleftrightarrow> map_of event k \<noteq> None"
    by (simp add: map_of_eq_None_iff)
  then show ?thesis unfolding redact_processor_def redact_fold by (cases "map_of event k") simp_all
qed

section \<open>The load test verifier\<close>

text \<open>A float that may be one of the special values, as Prometheus prints them.\<close>

datatype sample = Num rat | NaN | Infinite bool

text \<open>\<open>float(v)\<close>.\<close>

definition float_of_str :: "string \<Rightarrow> sample option" where
  "float_of_str s =
     (let t = py_lower (py_strip s);
          neg = (t \<noteq> [] \<and> hd t = CHR ''-'');
          u = (if t \<noteq> [] \<and> (hd t = CHR ''-'' \<or> hd t = CHR ''+'') then tl t else t)
      in if u = ''nan'' then Some NaN
         else if u \<in> {''inf'', ''infinity''} then Some (Infinite neg)
         else map_option (\<lambda>q. if \<bar>fl q\<bar> < 2 ^ 1024 then Num (fl q) else Infinite neg) (dec_of_str s))"

definition float_sample :: "pyval \<Rightarrow> exc + sample" where
  "float_sample v =
     (case v of
        PStr s \<Rightarrow> (case float_of_str s of
            None \<Rightarrow> Inl (PyError CValueError ''could not convert string to float'') | Some x \<Rightarrow> Inr x)
      | PFloat q \<Rightarrow> Inr (Num q)
      | PInt n \<Rightarrow> if \<bar>fl (of_int n)\<bar> < 2 ^ 1024 then Inr (Num (fl (of_int n)))
                  else Inl (PyError COverflowError ''int too large to convert to float'')
      | PBool b \<Rightarrow> Inr (Num (if b then 1 else 0))
      | _ \<Rightarrow> Inl (PyError CTypeError (type_name v)))"

text \<open>\<open>v[n]\<close> with a literal number.\<close>

definition py_nth :: "pyval \<Rightarrow> nat \<Rightarrow> exc + pyval" where
  "py_nth v n =
     (case v of
        PList xs \<Rightarrow> if n < length xs then Inr (xs ! n) else Inl (PyError CIndexError ''list index out of range'')
      | PStr s \<Rightarrow> if n < length s then Inr (PStr [s ! n]) else Inl (PyError CIndexError ''string index out of range'')
      | PDict _ \<Rightarrow> Inl (PyError CKeyError (int_str (int n)))
      | _ \<Rightarrow> Inl (PyError CTypeError (type_name v)))"

definition read_sample :: "pyval \<Rightarrow> exc + sample" where
  "read_sample res =
     sbnd (py_nth res 0) (\<lambda>r. sbnd (py_item r ''value'') (\<lambda>v. sbnd (py_nth v 1) float_sample))"

text \<open>\<open>fetch\<close> is \<open>urlopen\<close> of the quoted query with \<open>json.loads\<close>.\<close>

definition query_prom :: "(string \<Rightarrow> exc + pyval) \<Rightarrow> string \<Rightarrow> exc + sample option" where
  "query_prom fetch q =
     (case fetch q of
        Inl e \<Rightarrow> Inr None
      | Inr body \<Rightarrow>
          sbnd (py_get body ''data'' (PDict [])) (\<lambda>d. sbnd (py_get d ''result'' (PList [])) (\<lambda>res.
            if \<not> truthy res then Inr (Some (Num 0))
            else (case read_sample res of
                    Inr x \<Rightarrow> Inr (Some x)
                  | Inl e \<Rightarrow> if isinstance e CKeyError \<or> isinstance e CValueError \<or> isinstance e CIndexError
                             then Inr None else Inl e))))"

fun above :: "sample \<Rightarrow> rat \<Rightarrow> bool" where
  "above (Num x) limit = (x > limit)"
| "above NaN limit = False"
| "above (Infinite neg) limit = (\<not> neg)"

text \<open>The two kinds of test. The first formats the value in its success line, which raises on \<open>None\<close>.\<close>

definition limit_check :: "(string \<Rightarrow> exc + pyval) \<Rightarrow> string \<Rightarrow> rat \<Rightarrow> exc + nat" where
  "limit_check fetch q limit =
     sbnd (query_prom fetch q) (\<lambda>v. case v of
       None \<Rightarrow> Inl (PyError CTypeError ''unsupported operand or format: NoneType'')
     | Some x \<Rightarrow> Inr (if above x limit then 1 else 0))"

definition increase_check :: "(string \<Rightarrow> exc + pyval) \<Rightarrow> string \<Rightarrow> exc + nat" where
  "increase_check fetch q =
     sbnd (query_prom fetch q) (\<lambda>v. case v of
       None \<Rightarrow> Inr 0
     | Some x \<Rightarrow> Inr (if above x 0 then 1 else 0))"

definition dead_letter_query :: "int \<Rightarrow> string" where
  "dead_letter_query window = ''increase(mw_outbox_dead_letter_total['' @ int_str window @ ''s])''"

definition error_rate_query :: "int \<Rightarrow> string" where
  "error_rate_query window =
     ''sum(rate(mw_webhook_response_seconds_count{status_code=~'' @ [CHR 0x22] @ ''5..'' @ [CHR 0x22] @ ''}['' @
     int_str window @ ''s])) / sum(rate(mw_webhook_response_seconds_count['' @ int_str window @ ''s]))''"

definition quantile_query :: "string \<Rightarrow> int \<Rightarrow> string" where
  "quantile_query metric window =
     ''histogram_quantile(0.95, rate('' @ metric @ ''['' @ int_str window @ ''s]))''"

definition check_normal :: "(string \<Rightarrow> exc + pyval) \<Rightarrow> int \<Rightarrow> rat \<Rightarrow> exc + nat" where
  "check_normal fetch window max_error_rate =
     sbnd (limit_check fetch (error_rate_query window) max_error_rate) (\<lambda>a.
     sbnd (limit_check fetch (quantile_query ''mw_webhook_response_seconds_bucket'' window) (1 / 2)) (\<lambda>b.
     sbnd (increase_check fetch (dead_letter_query window)) (\<lambda>c.
     sbnd (limit_check fetch ''mw_outbox_oldest_pending_age_seconds'' 120) (\<lambda>d.
       Inr (a + b + c + d)))))"

definition check_flashsale :: "(string \<Rightarrow> exc + pyval) \<Rightarrow> int \<Rightarrow> exc + nat" where
  "check_flashsale fetch window =
     sbnd (limit_check fetch (quantile_query ''mw_odoo_request_duration_seconds_bucket'' window) 3) (\<lambda>a.
     sbnd (increase_check fetch (dead_letter_query window)) (\<lambda>b. Inr (a + b)))"

definition check_recovery :: "(string \<Rightarrow> exc + pyval) \<Rightarrow> int \<Rightarrow> exc + nat" where
  "check_recovery fetch window =
     sbnd (increase_check fetch (dead_letter_query window)) (\<lambda>a.
     sbnd (limit_check fetch ''sum(mw_outbox_pending_count)'' 10) (\<lambda>b. Inr (a + b)))"

definition verify_load_test :: "(string \<Rightarrow> exc + pyval) \<Rightarrow> string \<Rightarrow> int \<Rightarrow> rat \<Rightarrow> exc + int" where
  "verify_load_test fetch scenario since max_error_rate =
     sbnd (if scenario = ''normal'' then check_normal fetch since max_error_rate
           else if scenario = ''flashsale'' then check_flashsale fetch since
           else check_recovery fetch since)
       (\<lambda>fails. Inr (if fails > 0 then 1 else 0))"

text \<open>The answer of Prometheus to a query that no series matches.\<close>

definition empty_vector :: pyval where
  "empty_vector = PDict [(''status'', PStr ''success''),
     (''data'', PDict [(''resultType'', PStr ''vector''), (''result'', PList [])])]"

lemma query_empty [simp]: "query_prom (\<lambda>_. Inr empty_vector) q = Inr (Some (Num 0))"
  by (simp add: query_prom_def empty_vector_def py_get_def)

text \<open>A program that exports none of the metrics passes every scenario, because a missing series
  reads as 0. The counters, gauges and histograms the verifier asks for are declared
  in \<open>src/monitoring/metrics.py\<close> and set nowhere.\<close>

theorem verifier_passes_without_metrics:
  assumes "0 \<le> max_error_rate"
  shows "verify_load_test (\<lambda>_. Inr empty_vector) scenario since max_error_rate = Inr 0"
  using assms
  by (simp add: verify_load_test_def check_normal_def check_flashsale_def check_recovery_def limit_check_def
      increase_check_def)

text \<open>A failed dead letter query counts as no dead letter, where every other failed query
  stops the verifier with a \<open>TypeError\<close>.\<close>

theorem failed_query_verdict:
  assumes "fetch q = Inl e"
  shows "increase_check fetch q = Inr 0 \<and> (\<exists>m. limit_check fetch q limit = Inl (PyError CTypeError m))"
  using assms by (simp add: increase_check_def limit_check_def query_prom_def)

section \<open>The check of the migrations\<close>

text \<open>What follows each occurrence of \<open>p\<close> in \<open>s\<close>, whatever the case of the letters.\<close>

fun after_each :: "string \<Rightarrow> string \<Rightarrow> string list" where
  "after_each p [] = (if p = [] then [[]] else [])"
| "after_each p (c # s) =
     (if startswith (py_lower (c # s)) (py_lower p) then [drop (length p) (c # s)] else []) @ after_each p s"

definition has :: "string \<Rightarrow> string \<Rightarrow> bool" where
  "has p s \<longleftrightarrow> after_each p s \<noteq> []"

text \<open>\<open>p(?!q)\<close>\<close>

definition has_without :: "string \<Rightarrow> string \<Rightarrow> string \<Rightarrow> bool" where
  "has_without p q s \<longleftrightarrow> list_ex (\<lambda>t. \<not> startswith (py_lower t) (py_lower q)) (after_each p s)"

text \<open>\<open>p.*r\<close>, where the dot stops at the end of the line.\<close>

definition has_then :: "string \<Rightarrow> (string \<Rightarrow> bool) \<Rightarrow> string \<Rightarrow> bool" where
  "has_then p r s \<longleftrightarrow> list_ex (\<lambda>t. r (takeWhile (\<lambda>c. c \<noteq> CHR ''\<newline>'') t)) (after_each p s)"

definition UNSAFE :: "((string \<Rightarrow> bool) \<times> string) list" where
  "UNSAFE =
     [(has_then ''ADD COLUMN '' (has_without '' NOT NULL'' '' DEFAULT''), ''Add NOT NULL column without DEFAULT''),
      (has ''DROP COLUMN'', ''DROP COLUMN''),
      (has_then ''ALTER COLUMN '' (has '' TYPE''), ''ALTER COLUMN TYPE''),
      (has_without ''CREATE INDEX'' '' CONCURRENTLY'', ''CREATE INDEX without CONCURRENTLY''),
      (has_without ''DROP INDEX'' '' CONCURRENTLY'', ''DROP INDEX without CONCURRENTLY''),
      (has ''LOCK TABLE'', ''Explicit LOCK TABLE'')]"

text \<open>The printed errors and the exit code, on the files with their contents.\<close>

definition check_migration_safety :: "(string \<times> string) list \<Rightarrow> (string \<times> string) list \<times> int" where
  "check_migration_safety files =
     (let errors = [(path, msg). (path, content) \<leftarrow> files, (pattern, msg) \<leftarrow> UNSAFE, pattern content]
      in (errors, if errors \<noteq> [] then 1 else 0))"

lemma startswith_append [simp]: "startswith (p @ s) p"
  by (simp add: startswith_def)

lemma py_lower_append [simp]: "py_lower (a @ b) = py_lower a @ py_lower b"
  by (simp add: py_lower_def)

lemma after_each_occurrence:
  assumes "p \<noteq> []"
  shows "s \<in> set (after_each p (a @ p @ s))"
proof (induction a)
  case Nil
  from assms obtain c t where "p = c # t" by (cases p) auto
  then have "startswith (py_lower (c # t @ s)) (py_lower (c # t))"
    using py_lower_append [of "c # t" s] by (simp del: py_lower_append)
  with \<open>p = c # t\<close> show ?case by simp
qed simp

text \<open>Nothing in a file makes up for an unsafe command: the safety annotation the script
  advertises is not read. The file of the first revision drops an index without \<open>CONCURRENTLY\<close> and
  so fails the check in whatever text stands around it.\<close>

theorem unsafe_drop_always_fails:
  "snd (check_migration_safety ((path, before @ ''DROP INDEX IF EXISTS '' @ rest) # files)) = 1"
proof -
  have "'' IF EXISTS '' @ rest \<in> set (after_each ''DROP INDEX'' (before @ ''DROP INDEX IF EXISTS '' @ rest))"
    using after_each_occurrence [of "''DROP INDEX''" "'' IF EXISTS '' @ rest" before] by simp
  moreover have "\<not> startswith (py_lower ('' IF EXISTS '' @ rest)) (py_lower '' CONCURRENTLY'')"
    by (simp add: startswith_def py_lower_def lower_char_def)
  ultimately have "has_without ''DROP INDEX'' '' CONCURRENTLY'' (before @ ''DROP INDEX IF EXISTS '' @ rest)"
    unfolding has_without_def list_ex_iff by blast
  then show ?thesis by (simp add: check_migration_safety_def UNSAFE_def)
qed

end
