(* ===== verification/App.thy ===== *)
theory App
  imports Scheduled Status
begin

text \<open>
  The two processes put together. The API process is \<open>src/api/main.py\<close>: the routes of the five routers
  (\<open>endpoint\<close>, with their paths and methods) behind the middlewares of \<open>src/api/middleware.py\<close>. The
  worker process is the registry of \<open>src/workers/app.py\<close>: what task a message of the broker runs, with
  which arguments. What the environment brings beside the services is the record \<open>env\<close>: Fernet, URL
  encoding, the broker's queue lengths, the health probes, rows locked by others, fuel.
\<close>

record 'x env =
  en_services :: "'x services"
  en_settings :: settings
  en_fernet :: "string list \<Rightarrow> exc + fernet"
  en_url_encode :: "(string \<times> pyval) list \<Rightarrow> string"
  en_llen :: "string \<Rightarrow> ('x, exc, int) eff"
  en_session :: "('x, exc, unit) eff"
  en_ping :: "('x, exc, bool) eff"
  en_ms :: "string \<Rightarrow> rat"
  en_locked :: "int \<Rightarrow> bool"
  en_dec_text :: "rat \<Rightarrow> string"
  en_fuel :: nat

section \<open>Routes\<close>

text \<open>A route with the parameters FastAPI hands to its handler. Random tokens are parameters too.\<close>

datatype endpoint =
    Health
  | Ready
  | Metrics
  | ShopeeWebhook "char list" "string option" "string option" "string option"
  | Dashboard request string
  | RetryOrder request int
  | AuthStatus request "string option"
  | AuthUrl request string string
  | Callback "string option" "string option" "string option"
  | PlatformsList request string
  | PlatformsNew request string
  | PlatformsEdit request string string
  | PlatformsSave request platform_form
  | PlatformsDelete request string
  | ShopeeSetup request string string string
  | ProductsList request string "string option" "string option" nat
  | ProductsNew request string
  | ProductsEdit request string int
  | ProductsSave request product_form
  | ProductsDelete request int
  | StockList request string
  | StockSave request stock_form
  | StockDelete request int
  | OpenApi request
  | Docs request

fun path_of :: "endpoint \<Rightarrow> string" where
  "path_of Health = ''/health''"
| "path_of Ready = ''/ready''"
| "path_of Metrics = ''/metrics''"
| "path_of (ShopeeWebhook _ _ _ _) = ''/webhook/shopee''"
| "path_of (Dashboard _ _) = ''/admin/''"
| "path_of (RetryOrder _ i) = ''/admin/orders/'' @ int_str i @ ''/retry''"
| "path_of (AuthStatus _ _) = ''/admin/shopee/auth-status''"
| "path_of (AuthUrl _ _ _) = ''/admin/shopee/auth-url''"
| "path_of (Callback _ _ _) = ''/admin/shopee/callback''"
| "path_of (PlatformsList _ _) = ''/admin/config/platforms''"
| "path_of (PlatformsNew _ _) = ''/admin/config/platforms/new''"
| "path_of (PlatformsEdit _ _ p) = ''/admin/config/platforms/'' @ p"
| "path_of (PlatformsSave _ _) = ''/admin/config/platforms''"
| "path_of (PlatformsDelete _ p) = ''/admin/config/platforms/'' @ p @ ''/delete''"
| "path_of (ShopeeSetup _ _ _ _) = ''/admin/config/shopee''"
| "path_of (ProductsList _ _ _ _ _) = ''/admin/config/products''"
| "path_of (ProductsNew _ _) = ''/admin/config/products/new''"
| "path_of (ProductsEdit _ _ i) = ''/admin/config/products/'' @ int_str i"
| "path_of (ProductsSave _ _) = ''/admin/config/products''"
| "path_of (ProductsDelete _ i) = ''/admin/config/products/'' @ int_str i @ ''/delete''"
| "path_of (StockList _ _) = ''/admin/config/stock''"
| "path_of (StockSave _ _) = ''/admin/config/stock''"
| "path_of (StockDelete _ i) = ''/admin/config/stock/'' @ int_str i @ ''/delete''"
| "path_of (OpenApi _) = ''/admin/openapi.json''"
| "path_of (Docs _) = ''/admin/docs''"

fun is_post :: "endpoint \<Rightarrow> bool" where
  "is_post (ShopeeWebhook _ _ _ _) = True"
| "is_post (RetryOrder _ _) = True"
| "is_post (PlatformsSave _ _) = True"
| "is_post (PlatformsDelete _ _) = True"
| "is_post (ProductsSave _ _) = True"
| "is_post (ProductsDelete _ _) = True"
| "is_post (StockSave _ _) = True"
| "is_post (StockDelete _ _) = True"
| "is_post _ = False"

text \<open>What the guards see of a request.\<close>

fun credentials :: "endpoint \<Rightarrow> request option" where
  "credentials (Dashboard rq _) = Some rq"
| "credentials (RetryOrder rq _) = Some rq"
| "credentials (AuthStatus rq _) = Some rq"
| "credentials (AuthUrl rq _ _) = Some rq"
| "credentials (PlatformsList rq _) = Some rq"
| "credentials (PlatformsNew rq _) = Some rq"
| "credentials (PlatformsEdit rq _ _) = Some rq"
| "credentials (PlatformsSave rq _) = Some rq"
| "credentials (PlatformsDelete rq _) = Some rq"
| "credentials (ShopeeSetup rq _ _ _) = Some rq"
| "credentials (ProductsList rq _ _ _ _) = Some rq"
| "credentials (ProductsNew rq _) = Some rq"
| "credentials (ProductsEdit rq _ _) = Some rq"
| "credentials (ProductsSave rq _) = Some rq"
| "credentials (ProductsDelete rq _) = Some rq"
| "credentials (StockList rq _) = Some rq"
| "credentials (StockSave rq _) = Some rq"
| "credentials (StockDelete rq _) = Some rq"
| "credentials (OpenApi rq) = Some rq"
| "credentials (Docs rq) = Some rq"
| "credentials _ = None"

definition reply_status :: "'v reply \<Rightarrow> int" where
  "reply_status r = (case r of Page _ \<Rightarrow> 200 | Json _ \<Rightarrow> 200 | Redirect _ \<Rightarrow> 303 | HttpError n \<Rightarrow> n)"

definition answered :: "('x world, exc, 'v reply) eff \<Rightarrow> ('x world, exc, int) eff" where
  "answered m = bnd m (\<lambda>r. ret (reply_status r))"

text \<open>The documentation routes are registered outside production only.\<close>

definition documentation :: "settings \<Rightarrow> request \<Rightarrow> ('x world, exc, int) eff" where
  "documentation cfg rq =
     (if ENVIRONMENT cfg = Production then ret 404 else answered (admin_get cfg rq (ret (Json ()))))"

definition callback_status :: "callback_reply \<Rightarrow> int" where
  "callback_status r = (case r of Refused n \<Rightarrow> n | Failed e \<Rightarrow> 502 | Completed s \<Rightarrow> 200)"

text \<open>The status code a route answers with.\<close>

fun serve :: "'x env \<Rightarrow> endpoint \<Rightarrow> ('x world, exc, int) eff" where
  "serve E Health = ret 200"
| "serve E Metrics = ret 200"
| "serve E Ready = bnd (ready (en_services E) (en_session E) (en_ping E) (en_ms E)) (\<lambda>(n, checks). ret n)"
| "serve E (ShopeeWebhook body auth sig client) =
     bnd (shopee_webhook_request (en_services E) (en_settings E) (en_locked E) body auth sig client) (\<lambda>r. ret 200)"
| "serve E (Dashboard rq csrf) = answered (dashboard (en_services E) (en_settings E) (en_llen E) rq csrf)"
| "serve E (RetryOrder rq i) = answered (retry_order (en_services E) (en_settings E) rq i)"
| "serve E (AuthStatus rq shop) = answered (auth_status_endpoint (en_services E) (en_settings E) rq shop)"
| "serve E (AuthUrl rq random redirect) =
     answered (auth_url_endpoint (en_services E) (en_settings E) (en_url_encode E) rq random redirect)"
| "serve E (Callback code shop state) =
     bnd (oauth_callback (en_services E) (en_settings E) (en_fernet E) code shop state) (\<lambda>r. ret (callback_status r))"
| "serve E (PlatformsList rq csrf) = answered (platforms_list (en_services E) (en_settings E) rq csrf)"
| "serve E (PlatformsNew rq csrf) = answered (platforms_new_form (en_settings E) rq csrf)"
| "serve E (PlatformsEdit rq csrf p) = answered (platforms_edit_form (en_settings E) rq csrf p)"
| "serve E (PlatformsSave rq f) = answered (platforms_save (en_services E) (en_settings E) rq f)"
| "serve E (PlatformsDelete rq p) = answered (platforms_delete (en_services E) (en_settings E) rq p)"
| "serve E (ShopeeSetup rq csrf random redirect) =
     answered (shopee_setup (en_services E) (en_settings E) (en_url_encode E) rq csrf random redirect)"
| "serve E (ProductsList rq csrf p q page) = answered (products_list (en_settings E) rq csrf p q page)"
| "serve E (ProductsNew rq csrf) = answered (products_new_form (en_settings E) rq csrf)"
| "serve E (ProductsEdit rq csrf i) = answered (products_edit_form (en_settings E) rq csrf i)"
| "serve E (ProductsSave rq f) = answered (products_save (en_services E) (en_settings E) rq f)"
| "serve E (ProductsDelete rq i) = answered (products_delete (en_services E) (en_settings E) rq i)"
| "serve E (StockList rq csrf) = answered (stock_list (en_settings E) rq csrf)"
| "serve E (StockSave rq f) = answered (stock_save (en_services E) (en_settings E) rq f)"
| "serve E (StockDelete rq i) = answered (stock_delete (en_services E) (en_settings E) rq i)"
| "serve E (OpenApi rq) = documentation (en_settings E) rq"
| "serve E (Docs rq) = documentation (en_settings E) rq"

section \<open>Middlewares\<close>

record response =
  rs_status :: int
  rs_trace_id :: "string option"

definition limit_body :: "string option \<Rightarrow> ('x world, exc, int) eff \<Rightarrow> ('x world, exc, int) eff" where
  "limit_body content_length call_next =
     bnd (of_sum (body_too_large content_length)) (\<lambda>big. if big then ret 413 else call_next)"

text \<open>\<open>TraceMiddleware\<close>; \<open>uuid\<close> is the fresh identifier. Its log entries are not modelled.\<close>

definition trace :: "string \<Rightarrow> string option \<Rightarrow> ('x world, exc, int) eff \<Rightarrow> ('x world, exc, response) eff" where
  "trace uuid header call_next =
     (let trace_id = opt_text (opt_or header (Some uuid))
      in bnd call_next (\<lambda>n. ret \<lparr>rs_status = n, rs_trace_id = Some trace_id\<rparr>))"

text \<open>The stack, the middleware added last outermost; \<open>slow\<close> is the one of the rate limiter. An
  exception that passes them all is answered with status 500.\<close>

definition app ::
  "'x env \<Rightarrow> (('x world, exc, int) eff \<Rightarrow> ('x world, exc, int) eff) \<Rightarrow> string \<Rightarrow> string option \<Rightarrow> string option \<Rightarrow>
     endpoint \<Rightarrow> ('x world, exc, response) eff" where
  "app E slow uuid trace_header content_length e =
     catching (trace uuid trace_header (limit_body content_length (slow (serve E e))))
       (\<lambda>exc. ret \<lparr>rs_status = 500, rs_trace_id = None\<rparr>)"

section \<open>Tasks\<close>

datatype task =
    ProcessWebhookEvent int string string "string option" pyval
  | SyncOrderToOdoo int
  | SyncStockForSku string "string list option"
  | ConfirmShipment string string string
  | SyncPriceForSku string string
  | RelayOutbox
  | CleanupOutbox
  | RefreshShopeeToken
  | RunReconciliation
  | StockSafetyNet
  | PollingFallback
  | RetentionCleanup

text \<open>The arguments of a message, as the parameters are declared.\<close>

definition int_arg :: "(string \<times> pyval) list \<Rightarrow> string \<Rightarrow> int option" where
  "int_arg kw k = (case map_of kw k of Some (PInt n) \<Rightarrow> Some n | _ \<Rightarrow> None)"

definition text_arg :: "(string \<times> pyval) list \<Rightarrow> string \<Rightarrow> string option" where
  "text_arg kw k = (case map_of kw k of Some (PStr s) \<Rightarrow> Some s | _ \<Rightarrow> None)"

definition opt_text_arg :: "(string \<times> pyval) list \<Rightarrow> string \<Rightarrow> string option option" where
  "opt_text_arg kw k =
     (case map_of kw k of Some (PStr s) \<Rightarrow> Some (Some s) | Some PNone \<Rightarrow> Some None | _ \<Rightarrow> None)"

fun texts :: "pyval list \<Rightarrow> string list option" where
  "texts [] = Some []"
| "texts (v # vs) = (case v of PStr s \<Rightarrow> map_option ((#) s) (texts vs) | _ \<Rightarrow> None)"

definition texts_arg :: "(string \<times> pyval) list \<Rightarrow> string \<Rightarrow> string list option option" where
  "texts_arg kw k =
     (case map_of kw k of None \<Rightarrow> Some None | Some PNone \<Rightarrow> Some None
      | Some (PList vs) \<Rightarrow> map_option Some (texts vs) | _ \<Rightarrow> None)"

text \<open>No key beside the parameters.\<close>

definition only_keys :: "(string \<times> pyval) list \<Rightarrow> string list \<Rightarrow> bool" where
  "only_keys kw ks \<longleftrightarrow> list_all (\<lambda>k. k \<in> set ks) (map fst kw)"

definition periodic :: "(string \<times> task) list" where
  "periodic =
     [(''scheduled.relay_outbox'', RelayOutbox), (''scheduled.cleanup_outbox'', CleanupOutbox),
      (''scheduled.refresh_shopee_token'', RefreshShopeeToken),
      (''scheduled.run_reconciliation'', RunReconciliation),
      (''scheduled.stock_safety_net'', StockSafetyNet),
      (''scheduled.polling_fallback'', PollingFallback),
      (''scheduled.retention_cleanup'', RetentionCleanup)]"

text \<open>The task a message runs: \<open>None\<close> when no task has the name or the arguments do not fit.\<close>

definition bind_task :: "string \<Rightarrow> (string \<times> pyval) list \<Rightarrow> task option" where
  "bind_task name kw =
     (if name = ''workers.process_webhook_event'' then
        (if only_keys kw [''outbox_id'', ''platform'', ''event_type'', ''platform_order_id'', ''payload''] then
           (case int_arg kw ''outbox_id'' of None \<Rightarrow> None | Some i \<Rightarrow>
            case text_arg kw ''platform'' of None \<Rightarrow> None | Some pl \<Rightarrow>
            case text_arg kw ''event_type'' of None \<Rightarrow> None | Some et \<Rightarrow>
            case opt_text_arg kw ''platform_order_id'' of None \<Rightarrow> None | Some poid \<Rightarrow>
            map_option (ProcessWebhookEvent i pl et poid) (map_of kw ''payload''))
         else None)
      else if name = ''workers.sync_order_to_odoo'' then
        (if only_keys kw [''order_mapping_id''] then map_option SyncOrderToOdoo (int_arg kw ''order_mapping_id'')
         else None)
      else if name = ''workers.sync_stock_for_sku'' then
        (if only_keys kw [''odoo_sku'', ''platforms''] then
           (case text_arg kw ''odoo_sku'' of None \<Rightarrow> None | Some sku \<Rightarrow>
            map_option (SyncStockForSku sku) (texts_arg kw ''platforms''))
         else None)
      else if name = ''workers.confirm_shipment'' then
        (if only_keys kw [''platform'', ''platform_order_id'', ''tracking_no''] then
           (case text_arg kw ''platform'' of None \<Rightarrow> None | Some pl \<Rightarrow>
            case text_arg kw ''platform_order_id'' of None \<Rightarrow> None | Some poid \<Rightarrow>
            map_option (ConfirmShipment pl poid) (text_arg kw ''tracking_no''))
         else None)
      else if name = ''workers.sync_price_for_sku'' then
        (if only_keys kw [''sku'', ''platform''] then
           (case text_arg kw ''sku'' of None \<Rightarrow> None | Some sku \<Rightarrow>
            map_option (SyncPriceForSku sku)
              (case map_of kw ''platform'' of None \<Rightarrow> Some ''shopee'' | Some v \<Rightarrow> text_arg kw ''platform''))
         else None)
      else if kw = [] then map_of periodic name else None)"

text \<open>A run of a task: \<open>Some (e, countdown)\<close> when it asks to be run again.\<close>

definition asks :: "('x world, exc, 'a task_outcome) eff \<Rightarrow> ('x world, exc, (exc \<times> int option) option) eff" where
  "asks m = bnd m (\<lambda>r. ret (case r of Finished a \<Rightarrow> None | RetryAsked e n \<Rightarrow> Some (e, n)))"

definition ends :: "('x world, exc, 'a) eff \<Rightarrow> ('x world, exc, (exc \<times> int option) option) eff" where
  "ends m = bnd m (\<lambda>r. ret None)"

fun run_task :: "'x env \<Rightarrow> nat \<Rightarrow> task \<Rightarrow> ('x world, exc, (exc \<times> int option) option) eff" where
  "run_task E c (ProcessWebhookEvent i pl et poid payload) =
     asks (process_webhook_event (en_services E) (en_settings E) c i pl et poid payload)"
| "run_task E c (SyncOrderToOdoo i) = asks (sync_order_to_odoo (en_services E) (en_settings E) c i)"
| "run_task E c (SyncStockForSku sku pls) = asks (sync_stock_for_sku (en_services E) (en_settings E) c sku pls)"
| "run_task E c (ConfirmShipment pl poid tn) = asks (confirm_shipment_task (en_services E) (en_settings E) pl poid tn)"
| "run_task E c (SyncPriceForSku sku pl) = ends (sync_price_for_sku (en_services E) (en_settings E) c sku pl)"
| "run_task E c RelayOutbox = ends (relay_outbox (en_services E) (en_settings E) (en_locked E))"
| "run_task E c CleanupOutbox = ends (txn (en_services E) cleanup_outbox)"
| "run_task E c RefreshShopeeToken = ends (refresh_shopee_token (en_services E) (en_settings E))"
| "run_task E c RunReconciliation =
     ends (run_reconciliation (en_services E) (en_settings E) c (en_dec_text E) (en_fuel E))"
| "run_task E c StockSafetyNet = ends (stock_safety_net (en_services E) (en_settings E))"
| "run_task E c PollingFallback = ends (polling_fallback (en_services E) (en_settings E) (en_fuel E))"
| "run_task E c RetentionCleanup = ends (txn (en_services E) retention_cleanup)"

section \<open>What a request can do\<close>


text \<open>Refused: nothing changes, and the answer is 401, 403, 404 for a route that is not there, or the
  exception of comparing a token that is not ASCII.\<close>

definition refused :: "('x world, exc, int) eff \<Rightarrow> 'x world \<Rightarrow> bool" where
  "refused m w \<longleftrightarrow> snd (m w) = w \<and>
     fst (m w) \<in> {Inr 401, Inr 403, Inr 404} \<union> {Inl x |x. class_of x = CTypeError}"

lemma digest_error: "compare_digest s t = Inl x \<Longrightarrow> class_of x = CTypeError"
  by (auto simp: compare_digest_def split: if_splits)

lemma refused_get:
  assumes "require_admin_token cfg rq \<noteq> Inr True" shows "refused (answered (admin_get cfg rq h)) w"
proof (cases "require_admin_token cfg rq")
  case (Inl x)
  then have "class_of x = CTypeError" by (simp add: require_admin_token_def digest_error)
  with Inl show ?thesis by (simp add: refused_def answered_def admin_get_def bnd_def)
next
  case (Inr b)
  with assms show ?thesis by (simp add: refused_def answered_def admin_get_def bnd_def reply_status_def)
qed

lemma refused_post:
  assumes "require_admin_token cfg rq \<noteq> Inr True \<or> verify_csrf rq \<noteq> Inr True"
  shows "refused (answered (admin_post cfg rq h)) w"
proof (cases "require_admin_token cfg rq = Inr True")
  case True
  show ?thesis
  proof (cases "verify_csrf rq")
    case (Inl x)
    then have "class_of x = CTypeError"
      by (auto simp: verify_csrf_def verify_csrf_token_def intro: digest_error split: if_splits)
    with Inl True show ?thesis by (simp add: refused_def answered_def admin_post_def admin_get_def bnd_def)
  next
    case (Inr b)
    with True assms show ?thesis
      by (simp add: refused_def answered_def admin_post_def admin_get_def bnd_def reply_status_def)
  qed
qed (simp add: admin_post_def refused_get)

lemmas handler_defs = dashboard_def retry_order_def auth_status_endpoint_def auth_url_endpoint_def platforms_list_def
  platforms_new_form_def platforms_edit_form_def platforms_save_def platforms_delete_def shopee_setup_def
  products_list_def products_new_form_def products_edit_form_def products_save_def products_delete_def
  stock_list_def stock_save_def stock_delete_def documentation_def

text \<open>C23: no route under \<open>/admin/\<close> but the OAuth callback does anything for a request without the admin
  secret, and none that writes does anything for one without the CSRF token: it is refused, and the
  tables, the breakers, Redis, the broker and the other systems are as they were.\<close>

theorem admin_surface_closed:
  assumes "take 7 (path_of e) = ''/admin/''" and "path_of e \<noteq> ''/admin/shopee/callback''"
    and "\<And>rq. credentials e = Some rq \<Longrightarrow> require_admin_token (en_settings E) rq \<noteq> Inr True \<or>
      is_post e \<and> verify_csrf rq \<noteq> Inr True"
  shows "refused (serve E e) w"
proof -
  have missing: "refused (ret 404) w" by (simp add: refused_def ret_def)
  show ?thesis
    using assms by (cases e) (simp_all add: handler_defs refused_get refused_post missing)
qed

lemma keeps_answered [keeps_intros]: "keeps P m \<Longrightarrow> keeps P (answered m)"
  unfolding answered_def by (intro keeps_intros)

lemma keeps_admin_get [keeps_intros]: "keeps P h \<Longrightarrow> keeps P (admin_get cfg rq h)"
  unfolding admin_get_def by (intro keeps_intros)

lemma keeps_oauth [keeps_intros]:
  "keeps (on_db P) (auth_status S cfg shop)"
  "keeps (on_db P) (exchange_code_for_tokens S cfg code shop)"
  "keeps (on_db P) (consume_oauth_state S state)"
  "keeps (on_db P) (auth_link S cfg url_encode random redirect)"
  unfolding auth_status_def exchange_code_for_tokens_def consume_oauth_state_def auth_link_def issue_oauth_state_def
  by (auto intro!: keeps_intros simp: Let_def split: option.split sum.split prod.split)

lemma keeps_ready [keeps_intros]: "keeps (on_db P) (ready S session ping ms)"
  unfolding ready_def check_all_def timed_def check_postgres_def check_redis_def check_outbox_lag_def
  by (auto intro!: keeps_intros split: prod.split)

lemma keeps_get:
  assumes "\<not> is_post e" and "path_of e \<noteq> ''/admin/shopee/callback''"
  shows "keeps (on_db P) (serve E e)"
  using assms by (cases e) (auto simp: handler_defs intro!: keeps_intros split: prod.split option.split)

text \<open>C24: reading is safe. A request that is no POST leaves every table as it found it, the callback of the
  platform apart.\<close>

theorem get_requests_safe:
  assumes "\<not> is_post e" and "path_of e \<noteq> ''/admin/shopee/callback''"
  shows "touches_no_table (serve E e)"
  by (rule touches_no_tableI) (rule keeps_get [OF assms])

section \<open>A concrete environment\<close>

definition null_env :: "rat env" where
  "null_env = \<lparr>en_services = null_services, en_settings = dev_settings, en_fernet = (\<lambda>_. Inl db_error),
     en_url_encode = (\<lambda>_. []), en_llen = (\<lambda>_ x. (Inr 0, x)), en_session = (\<lambda>x. (Inr (), x)),
     en_ping = (\<lambda>x. (Inr True, x)), en_ms = (\<lambda>_. 0), en_locked = (\<lambda>_. False), en_dec_text = (\<lambda>_. []), en_fuel = 0\<rparr>"

definition stranger :: request where
  "stranger = sample_request\<lparr>rq_admin_cookie := None\<rparr>"

theorem admin_surface_closed_witness:
  "refused (serve null_env (PlatformsDelete stranger ''shopee'')) (null_world empty_db 0)"
  by (rule admin_surface_closed)
    (simp_all add: require_admin_token_True stranger_def sample_request_def null_env_def dev_settings_def opt_or_def
      opt_text_def str_truthy_def)

theorem get_requests_safe_witness: "touches_no_table (serve null_env (StockList stranger ''t''))"
  by (rule get_requests_safe) simp_all

section \<open>Messages\<close>

text \<open>A broker that refuses a message no task takes.\<close>

definition strict_broker :: "'x services \<Rightarrow> 'x services" where
  "strict_broker S = S\<lparr>sv_send_task := \<lambda>name kw queue task_id x.
     if bind_task name kw = None then (Inl (PyError CTypeError ''unexpected message''), x)
     else sv_send_task S name kw queue task_id x\<rparr>"

lemma strict_simps [simp]:
  "txn (strict_broker S) = txn S" "post_slack (strict_broker S) = post_slack S"
  by (simp_all add: fun_eq_iff txn_def post_slack_def strict_broker_def split: option.split)

lemma strict_send:
  "bind_task name kw \<noteq> None \<Longrightarrow>
   sv_send_task (strict_broker S) name kw queue task_id = sv_send_task S name kw queue task_id"
  by (auto simp: strict_broker_def)

lemmas bind_defs = bind_task_def only_keys_def int_arg_def text_arg_def opt_text_arg_def texts_arg_def

lemma prepared_binds:
  assumes "prepare_publish now r = (Some dp, r')"
  shows "bind_task ''workers.process_webhook_event'' (dp_kwargs dp) =
    Some (ProcessWebhookEvent (ob_id r) (ob_platform r) (ob_event_type r) (ob_platform_order_id r) (ob_payload r))"
proof -
  have kw: "dp_kwargs dp = [(''outbox_id'', PInt (ob_id r)), (''platform'', PStr (ob_platform r)),
      (''event_type'', PStr (ob_event_type r)), (''platform_order_id'', opt_val (ob_platform_order_id r)),
      (''payload'', ob_payload r)]"
    using assms by (auto simp: prepare_publish_def split: option.splits)
  have poid: "(case opt_val z of PStr s \<Rightarrow> Some (Some s) | PNone \<Rightarrow> Some None | _ \<Rightarrow> None) = Some z" for z
    by (simp add: opt_val_def split: option.split)
  show ?thesis unfolding kw by (simp add: bind_defs poid)
qed

definition sendable :: "dispatch \<Rightarrow> bool" where
  "sendable dp \<longleftrightarrow> bind_task ''workers.process_webhook_event'' (dp_kwargs dp) \<noteq> None"

lemma strict_dispatch:
  assumes "sendable dp" shows "dispatch_row (strict_broker S) dp = dispatch_row S dp"
  unfolding dispatch_row_def strict_send [OF assms [unfolded sendable_def]] strict_simps by (rule refl)

lemma strict_alerts: "fire_dead_letter_alerts (strict_broker S) cfg ids = fire_dead_letter_alerts S cfg ids"
  unfolding fire_dead_letter_alerts_def send_dead_letter_alert_def strict_simps by (rule refl)

lemma claimed_sendable:
  "claim_pending locked oid now d = ((found, Some dp, dead), d') \<Longrightarrow> sendable dp"
  "claim_due locked batch now d = ((n, dps, dead), d') \<Longrightarrow> list_all sendable dps"
proof -
  have s: "sendable dp" if "fst (prepare_publish now r) = Some dp" for dp r
    using prepared_binds [of now r dp "snd (prepare_publish now r)"] that by (simp add: sendable_def prod_eq_iff)
  show "claim_pending locked oid now d = ((found, Some dp, dead), d') \<Longrightarrow> sendable dp"
    using s by (auto simp: claim_pending_def split: option.splits prod.splits) (metis fst_conv)
  show "claim_due locked batch now d = ((n, dps, dead), d') \<Longrightarrow> list_all sendable dps"
    using s by (auto simp: claim_due_def Let_def list_all_iff List.map_filter_def)
qed

lemma strict_publish: "try_publish_immediately (strict_broker S) cfg locked oid = try_publish_immediately S cfg locked oid"
proof
  fix w
  obtain found dp dead d where c: "claim_pending locked oid (now_w S w) (w_db w) = ((found, dp, dead), d)"
    by (metis prod.exhaust)
  have "\<And>x. dp = Some x \<Longrightarrow> dispatch_row (strict_broker S) x = dispatch_row S x"
    using claimed_sendable(1) c strict_dispatch by blast
  moreover have "txn S (claim_pending locked oid) w = (Inr (found, dp, dead), w\<lparr>w_db := d\<rparr>)"
    using c by (simp add: txn_eq)
  ultimately show "try_publish_immediately (strict_broker S) cfg locked oid w = try_publish_immediately S cfg locked oid w"
    by (simp add: try_publish_immediately_def bnd_def strict_alerts split: option.split)
qed

lemma strict_relay: "relay_outbox (strict_broker S) cfg locked = relay_outbox S cfg locked"
proof
  fix w
  obtain n dps dead d where c: "claim_due locked 200 (now_w S w) (w_db w) = ((n, dps, dead), d)"
    by (metis prod.exhaust)
  have one: "relay_one (strict_broker S) dp = relay_one S dp" if "sendable dp" for dp
    using that by (simp add: relay_one_def strict_dispatch)
  have "fold_eff (relay_one (strict_broker S)) ds = fold_eff (relay_one S) ds" if "list_all sendable ds" for ds
    using that
  proof (induction ds)
    case (Cons dp ds)
    then have "fold_eff (relay_one (strict_broker S)) ds = fold_eff (relay_one S) ds" by simp
    with Cons.prems show ?case by (intro ext) (simp add: one)
  qed (simp add: fun_eq_iff)
  with claimed_sendable(2) [OF c] have f: "fold_eff (relay_one (strict_broker S)) dps = fold_eff (relay_one S) dps"
    by blast
  have "txn S (claim_due locked 200) w = (Inr (n, dps, dead), w\<lparr>w_db := d\<rparr>)"
    using c by (simp add: txn_eq)
  then show "relay_outbox (strict_broker S) cfg locked w = relay_outbox S cfg locked w"
    by (simp add: relay_outbox_def relay_pending_def bnd_def f strict_alerts)
qed

text \<open>C6: producers and tasks agree on their messages. The message of an outbox row runs the webhook
  task on the row's columns, the retry of an order runs the sync of that order, the safety net the
  stock sync of the SKU on its platform, and each entry of the schedule runs a task; against a
  broker that takes only messages that fit a task, the publishers, the relay, the retry and the safety
  net behave the same, so they send no other.\<close>

theorem messages_fit_tasks:
  "(case prepare_publish now r of (None, r') \<Rightarrow> True | (Some dp, r') \<Rightarrow>
      bind_task ''workers.process_webhook_event'' (dp_kwargs dp) =
        Some (ProcessWebhookEvent (ob_id r) (ob_platform r) (ob_event_type r) (ob_platform_order_id r) (ob_payload r))) \<and>
   bind_task ''workers.sync_order_to_odoo'' [(''order_mapping_id'', PInt i)] = Some (SyncOrderToOdoo i) \<and>
   bind_task ''workers.sync_stock_for_sku'' [(''odoo_sku'', PStr sku), (''platforms'', PList [PStr platform])] =
     Some (SyncStockForSku sku (Some [platform])) \<and>
   list_all (\<lambda>(entry, name, times). bind_task name [] \<noteq> None) beat_schedule \<and>
   try_publish_immediately (strict_broker S) cfg locked oid = try_publish_immediately S cfg locked oid \<and>
   relay_outbox (strict_broker S) cfg locked = relay_outbox S cfg locked \<and>
   retry_order (strict_broker S) cfg rq i = retry_order S cfg rq i \<and>
   enqueue_sku (strict_broker S) platform (PStr sku) queued = enqueue_sku S platform (PStr sku) queued"
proof (intro conjI)
  show "case prepare_publish now r of (None, r') \<Rightarrow> True | (Some dp, r') \<Rightarrow>
      bind_task ''workers.process_webhook_event'' (dp_kwargs dp) =
        Some (ProcessWebhookEvent (ob_id r) (ob_platform r) (ob_event_type r) (ob_platform_order_id r) (ob_payload r))"
    by (auto split: prod.split option.split intro: prepared_binds)
  show o: "bind_task ''workers.sync_order_to_odoo'' [(''order_mapping_id'', PInt i)] = Some (SyncOrderToOdoo i)"
    by (simp add: bind_defs)
  show s: "bind_task ''workers.sync_stock_for_sku'' [(''odoo_sku'', PStr sku), (''platforms'', PList [PStr platform])] =
     Some (SyncStockForSku sku (Some [platform]))"
    by (simp add: bind_defs)
  show "list_all (\<lambda>(entry, name, times). bind_task name [] \<noteq> None) beat_schedule"
    by (simp add: beat_schedule_def bind_defs periodic_def)
  show "retry_order (strict_broker S) cfg rq i = retry_order S cfg rq i"
    unfolding retry_order_def strict_simps by (subst strict_send) (simp_all add: o)
  show "enqueue_sku (strict_broker S) platform (PStr sku) queued = enqueue_sku S platform (PStr sku) queued"
    by (simp add: enqueue_sku_def strict_send s)
qed (rule strict_publish strict_relay)+

end
