(* ===== verification/Consistency.thy ===== *)
theory Consistency
  imports App "HOL-Library.Sublist"
begin

text \<open>
  One invariant for the whole program. \<open>commit\<close> has one rule for each transaction the code commits,
  with any arguments, at any time and in any order. The primary keys, unique constraints and foreign
  keys of the schema (\<open>constraints\<close>) hold on every database that commits lead to, and each route and
  each task changes the tables by such commits alone, wherever it stops. No commit forgets an order or
  a line of the logs (\<open>kept\<close>).
\<close>

section \<open>The constraints\<close>

text \<open>Three more tables, beside \<open>orders_ok\<close>, \<open>refs_ok\<close> and \<open>catalogue_ok\<close> of their components.\<close>

definition outbox_ok :: "db \<Rightarrow> bool" where
  "outbox_ok d \<longleftrightarrow> keyed ob_id (db_outbox d) \<and> (\<forall>r \<in> set (db_outbox d). ob_id r < db_next_id d)"

definition components_ok :: "db \<Rightarrow> bool" where
  "components_ok d \<longleftrightarrow> keyed bc_id (db_components d) \<and> (\<forall>r \<in> set (db_components d). bc_id r < db_next_id d)"

definition platforms_ok :: "db \<Rightarrow> bool" where
  "platforms_ok d \<longleftrightarrow> keyed pc_id (db_platforms d) \<and> keyed pc_platform (db_platforms d) \<and>
     (\<forall>r \<in> set (db_platforms d). pc_id r < db_next_id d)"

definition stock_key :: "stock_config \<Rightarrow> string \<times> string" where
  "stock_key r = (sc_odoo_sku r, sc_platform r)"

definition stock_ok :: "db \<Rightarrow> bool" where
  "stock_ok d \<longleftrightarrow> keyed sc_id (db_stock d) \<and> keyed stock_key (db_stock d) \<and>
     (\<forall>r \<in> set (db_stock d). sc_id r < db_next_id d)"

definition constraints :: "db \<Rightarrow> bool" where
  "constraints d \<longleftrightarrow> orders_ok d \<and> outbox_ok d \<and> refs_ok d \<and> catalogue_ok d \<and> components_ok d \<and>
     platforms_ok d \<and> stock_ok d"

lemmas table_oks = orders_ok_def outbox_ok_def refs_ok_def catalogue_ok_def components_ok_def platforms_ok_def stock_ok_def

lemma constraintsD:
  assumes "constraints d"
  shows "orders_ok d" "outbox_ok d" "refs_ok d" "catalogue_ok d" "components_ok d" "platforms_ok d" "stock_ok d"
  using assms by (simp_all add: constraints_def)

text \<open>Each part depends on its tables alone, and the sequence may only grow.\<close>

lemma parts_cong:
  assumes "db_next_id d \<le> db_next_id d'"
  shows "db_orders d' = db_orders d \<Longrightarrow> orders_ok d \<Longrightarrow> orders_ok d'"
    and "db_outbox d' = db_outbox d \<Longrightarrow> outbox_ok d \<Longrightarrow> outbox_ok d'"
    and "db_outbox d' = db_outbox d \<Longrightarrow> db_event_log d' = db_event_log d \<Longrightarrow> refs_ok d \<Longrightarrow> refs_ok d'"
    and "db_products d' = db_products d \<Longrightarrow> db_components d' = db_components d \<Longrightarrow> catalogue_ok d \<Longrightarrow> catalogue_ok d'"
    and "db_components d' = db_components d \<Longrightarrow> components_ok d \<Longrightarrow> components_ok d'"
    and "db_platforms d' = db_platforms d \<Longrightarrow> platforms_ok d \<Longrightarrow> platforms_ok d'"
    and "db_stock d' = db_stock d \<Longrightarrow> stock_ok d \<Longrightarrow> stock_ok d'"
  using assms products_ok_cong [of d' d] by (force simp: table_oks)+

lemma constraintsI:
  assumes "constraints d" and "db_next_id d \<le> db_next_id d'"
    and "db_orders d' = db_orders d \<or> orders_ok d'"
    and "db_outbox d' = db_outbox d \<or> outbox_ok d'"
    and "db_outbox d' = db_outbox d \<and> db_event_log d' = db_event_log d \<or> refs_ok d'"
    and "db_products d' = db_products d \<and> db_components d' = db_components d \<or> catalogue_ok d'"
    and "db_components d' = db_components d \<or> components_ok d'"
    and "db_platforms d' = db_platforms d \<or> platforms_ok d'"
    and "db_stock d' = db_stock d \<or> stock_ok d'"
  shows "constraints d'"
  using assms parts_cong [OF assms(2)] unfolding constraints_def by blast

lemma constraints_empty: "constraints empty_db"
  by (simp add: constraints_def table_oks products_ok_def keyed_def empty_db_def)

lemma keyed_snoc: "keyed k rows \<Longrightarrow> (\<And>x. x \<in> set rows \<Longrightarrow> k x \<noteq> k r) \<Longrightarrow> keyed k (rows @ [r])"
  by (fastforce simp: keyed_def)

lemma keyed_replace:
  assumes "keyed key rows" "key row = i" "keyed k rows"
    and "\<And>x. x \<in> set rows \<Longrightarrow> key x \<noteq> i \<Longrightarrow> k x \<noteq> k row"
  shows "keyed k (upd_rows (\<lambda>x. key x = i) (\<lambda>_. row) rows)"
  using assms
proof (induction rows)
  case (Cons a rows)
  have ih: "keyed k (upd_rows (\<lambda>x. key x = i) (\<lambda>_. row) rows)" using Cons by (simp add: keyed_def)
  show ?case
  proof (cases "key a = i")
    case True
    then have "x \<noteq> a \<and> key x \<noteq> i" if "x \<in> set rows" for x
      using Cons.prems(1) that by (auto simp: keyed_def) (metis imageI)
    moreover from this have "upd_rows (\<lambda>x. key x = i) (\<lambda>_. row) rows = rows"
      by (simp add: upd_rows_def map_idI)
    ultimately show ?thesis using True ih Cons.prems(4) by (fastforce simp: keyed_def upd_rows_def)
  next
    case False
    then have "k a \<noteq> k row" using Cons.prems(4) by simp
    moreover have "k a \<notin> k ` set rows" using Cons.prems(3) by (simp add: keyed_def)
    ultimately show ?thesis using False ih by (auto simp: keyed_def upd_rows_def split: if_splits)
  qed
qed (simp add: keyed_def upd_rows_def)

section \<open>Orders and outbox\<close>

lemma constraints_update_order:
  assumes "constraints d" and "\<And>r. om_id (f r) = om_id r" "\<And>r. om_key (f r) = om_key r"
  shows "constraints (update_order i f now d)"
proof (rule constraintsI [OF assms(1)])
  from update_order_ok [OF constraintsD(1) [OF assms(1)] assms(2,3)]
  show "db_orders (update_order i f now d) = db_orders d \<or> orders_ok (update_order i f now d)" by blast
qed (simp_all add: update_order_def)

lemma constraints_marks:
  assumes "constraints d" "row_write k d d'" shows "constraints d'"
  using assms constraints_update_order unfolding row_write_def by blast

lemma constraints_claim_order:
  assumes "constraints d" shows "constraints (snd (claim_order platform oid sn now d))"
proof -
  obtain r d' where c: "claim_order platform oid sn now d = (r, d')" by fastforce
  show ?thesis
  proof (cases "\<exists>k. r = Inr (Claimed k)")
    case True
    then obtain k where "r = Inr (Claimed k)" ..
    with c have "orders_ok d'" using claim_order_Claimed(1) [OF constraintsD(1) [OF assms]] by blast
    moreover have "db_next_id d \<le> db_next_id d' \<and> db_outbox d' = db_outbox d \<and> db_event_log d' = db_event_log d \<and>
        db_products d' = db_products d \<and> db_components d' = db_components d \<and> db_platforms d' = db_platforms d \<and>
        db_stock d' = db_stock d"
      using c by (auto simp: claim_order_def update_order_def split: sum.splits option.splits if_splits)
    ultimately have "constraints d'" by (intro constraintsI [OF assms]) simp_all
    with c show ?thesis by simp
  next
    case False
    with c have "d' = d" by (auto simp: claim_order_def split: sum.splits option.splits if_splits)
    with c assms show ?thesis by simp
  qed
qed

lemma constraints_upd_outbox:
  assumes "constraints d" and "\<And>r. ob_id (f r) = ob_id r"
  shows "constraints (d\<lparr>db_outbox := upd_rows p f (db_outbox d)\<rparr>)"
proof -
  have "map ob_id (upd_rows p f (db_outbox d)) = map ob_id (db_outbox d)"
    by (simp add: upd_rows_def comp_def if_distrib assms(2) cong: if_cong)
  then have "ob_id ` set (upd_rows p f (db_outbox d)) = ob_id ` set (db_outbox d)" by (metis set_map)
  with assms show ?thesis
    by (intro constraintsI [OF assms(1)])
      (auto simp: constraints_def outbox_ok_def refs_ok_def set_upd_rows keyed_upd_rows)
qed

lemma constraints_add_outbox:
  assumes "constraints d"
  shows "constraints (snd (add_outbox pl et c poid py sg now d))"
    and "fst (add_outbox pl et c poid py sg now d) \<in>
      ob_id ` set (db_outbox (snd (add_outbox pl et c poid py sg now d)))"
  using constraintsD(2,3) [OF assms]
  by (auto simp: add_outbox_def intro!: constraintsI [OF assms])
    (fastforce simp: outbox_ok_def refs_ok_def add_outbox_def intro!: keyed_snoc)+

lemma constraints_outbox_writes:
  assumes "constraints d"
  shows "constraints (snd (claim_pending locked oid now d))"
    and "constraints (snd (claim_due locked batch now d))"
    and "constraints (snd (record_published oid now d))"
    and "constraints (snd (record_failure_row oid err now d))"
    and "constraints (snd (reset_for_retry oid now d))"
proof -
  have f: "ob_id (snd (prepare_publish now r)) = ob_id r" "ob_id (fail_row err now r) = ob_id r" for r
    by (simp_all add: prepare_publish_def fail_row_def Let_def split: option.split)
  note up = constraints_upd_outbox [OF assms]
  show "constraints (snd (claim_pending locked oid now d))"
    by (auto simp: claim_pending_def f assms intro!: up split: option.split prod.split)
  show "constraints (snd (claim_due locked batch now d))"
    by (simp add: claim_due_def Let_def f up)
  show "constraints (snd (record_published oid now d))"
    by (simp add: record_published_def up)
  show "constraints (snd (record_failure_row oid err now d))"
    by (auto simp: record_failure_row_def f assms intro!: up split: option.split)
  show "constraints (snd (reset_for_retry oid now d))"
    by (auto simp: reset_for_retry_def assms intro!: up split: option.split)
qed

lemma constraints_mark_dead_letter:
  assumes "constraints d" shows "constraints (snd (mark_dead_letter oid pl poid sku now d))"
proof -
  let ?d = "d\<lparr>db_outbox := upd_rows (\<lambda>r. ob_id r = oid) (\<lambda>r. r\<lparr>ob_status := ''dead_letter'',
    ob_last_error := Some (''ProductNotFound: sku='' @ sku)\<rparr>) (db_outbox d)\<rparr>"
  have 1: "constraints ?d" by (rule constraints_upd_outbox [OF assms]) simp
  show ?thesis
  proof (cases poid)
    case (Some i)
    have "orders_ok (snd (mark_dead_letter oid pl poid sku now d))"
      using constraintsD(1) [OF assms] Some
      by (auto simp: mark_dead_letter_def Let_def orders_ok_def set_upd_rows om_key_def intro!: keyed_upd_rows)
    then show ?thesis
      by (intro constraintsI [OF 1]) (simp_all add: mark_dead_letter_def Let_def Some)
  qed (use 1 in \<open>simp add: mark_dead_letter_def Let_def\<close>)
qed

lemma refs_without:
  assumes "refs_ok d"
  shows "refs_ok (d\<lparr>db_event_log := upd_rows (\<lambda>l. case el_outbox_id l of None \<Rightarrow> False | Some i \<Rightarrow> i \<in> T)
        (\<lambda>l. l\<lparr>el_outbox_id := None\<rparr>) (db_event_log d),
      db_outbox := del_rows (\<lambda>r. ob_id r \<in> T) (db_outbox d)\<rparr>)"
  using assms by (force simp: refs_ok_def set_upd_rows del_rows_def split: option.splits if_splits)

lemma constraints_cleanups:
  assumes "constraints d"
  shows "constraints (snd (cleanup_outbox now d))" and "constraints (snd (retention_cleanup now d))"
proof -
  have k: "outbox_ok (snd (cleanup_outbox now d))"
    using constraintsD(2) [OF assms]
    by (auto simp: cleanup_outbox_def Let_def outbox_ok_def keyed_del_rows del_rows_def)
      (simp add: keyed_def distinct_map_filter)
  have "refs_ok (snd (cleanup_outbox now d))"
    using refs_without [OF constraintsD(3) [OF assms]] constraintsD(3) [OF assms]
    by (simp only: cleanup_outbox_def Let_def if_distrib [of snd] if_distrib [of refs_ok] snd_conv simp_thms if_cancel)
  then show "constraints (snd (cleanup_outbox now d))"
    by (intro constraintsI [OF assms]) (use k in \<open>simp_all add: cleanup_outbox_def Let_def\<close>)
  have "refs_ok (snd (retention_cleanup now d))"
    using constraintsD(3) [OF assms] by (auto simp: retention_cleanup_def Let_def refs_ok_def del_rows_def)
  then show "constraints (snd (retention_cleanup now d))"
    by (intro constraintsI [OF assms]) (simp_all add: retention_cleanup_def Let_def)
qed

section \<open>Webhooks and polling\<close>

lemma constraints_event_log:
  assumes "constraints d" "add_event_log sig valid body code sn oid client err now d = Inr (u, d')"
    and "\<And>i. oid = Some i \<Longrightarrow> i \<in> ob_id ` set (db_outbox d)"
  shows "constraints d'"
proof -
  obtain l where l: "d' = d\<lparr>db_event_log := db_event_log d @ [l], db_next_id := db_next_id d + 1\<rparr>" "el_outbox_id l = oid"
    using add_event_log_Inr [OF assms(2)] by blast
  have "refs_ok d'" using constraintsD(3) [OF assms(1)] assms(3) l by (auto simp: refs_ok_def)
  then show ?thesis by (intro constraintsI [OF assms(1)]) (simp_all add: l(1))
qed

lemma constraints_ingest:
  assumes "constraints d" "ingest sig body et code sn payload client now d = Inr (i, d')"
  shows "constraints d'"
proof -
  from assms(2) obtain poid sg u where 1: "add_event_log sig True body code sn
      (Some (fst (add_outbox ''shopee'' et code poid payload sg now d))) client None now
      (snd (add_outbox ''shopee'' et code poid payload sg now d)) = Inr (u, d')"
    by (auto simp: ingest_def sbnd_eq_Inr case_prod_beta)
  show ?thesis
    by (rule constraints_event_log [OF constraints_add_outbox(1) [OF assms(1)] 1])
      (use constraints_add_outbox(2) [OF assms(1)] in simp)
qed

lemma constraints_seed_rows:
  assumes "constraints d" "seed_rows rows now d = Inr (u, d')" shows "constraints d'"
proof -
  have "constraints d'" if "constraints d" "fold (seed_row now) rows (Inr d) = Inr d'" for d
    using that
  proof (induction rows arbitrary: d)
    case (Cons row rows)
    show ?case
    proof (cases "seed_row now row (Inr d)")
      case (Inl e)
      with Cons.prems show ?thesis by (simp add: seed_row_Inl)
    next
      case (Inr d1)
      then have "constraints d1" using constraints_add_outbox(1) [OF Cons.prems(1)]
        by (cases row) (auto simp: seed_row_def sbnd_eq_Inr)
      with Cons Inr show ?thesis by simp
    qed
  qed simp
  with assms show ?thesis by (auto simp: seed_rows_def sbnd_eq_Inr)
qed

section \<open>Platforms and stock\<close>

lemma constraints_audit:
  assumes "constraints d" shows "constraints (audit_row rq a t p now d)"
  by (rule constraintsI [OF assms]) (simp_all add: audit_row_def)

lemma constraints_upd_platforms:
  assumes "constraints d" and "\<And>r. pc_id (f r) = pc_id r" "\<And>r. pc_platform (f r) = pc_platform r"
  shows "constraints (d\<lparr>db_platforms := upd_rows p f (db_platforms d)\<rparr>)"
  using assms(2,3) constraintsD(6) [OF assms(1)]
  by (intro constraintsI [OF assms(1)]) (auto simp: platforms_ok_def set_upd_rows intro!: keyed_upd_rows)

lemma constraints_new_platform:
  assumes "constraints d" and "pc_id r = db_next_id d" and "\<And>x. x \<in> set (db_platforms d) \<Longrightarrow> pc_platform x \<noteq> pc_platform r"
  shows "constraints (d\<lparr>db_platforms := db_platforms d @ [r], db_next_id := db_next_id d + 1\<rparr>)"
  using assms(2,3) constraintsD(6) [OF assms(1)]
  by (intro constraintsI [OF assms(1)]) (fastforce simp: platforms_ok_def intro!: keyed_snoc)+

lemma constraints_save_backup:
  assumes "constraints d" shows "constraints (snd (save_backup shop secrets now d))"
proof (cases "first_row (\<lambda>r. pc_platform r = ''shopee'') (db_platforms d)")
  case None
  then have "\<forall>x \<in> set (db_platforms d). pc_platform x \<noteq> ''shopee''" by simp
  then show ?thesis
    by (auto simp: save_backup_def None simp del: first_row_None intro!: constraints_new_platform [OF assms])
next
  case (Some r)
  then show ?thesis by (simp add: save_backup_def constraints_upd_platforms [OF assms])
qed

lemma scalar_Inr:
  "scalar_one_or_none rows = Inr None \<Longrightarrow> rows = []" "scalar_one_or_none rows = Inr (Some r) \<Longrightarrow> rows = [r]"
  by (auto simp: scalar_one_or_none_def split: list.splits)

lemma constraints_save_platform:
  assumes "constraints d" "save_platform rq f now d = Inr (u, d')" shows "constraints d'"
proof -
  obtain found shop where s: "platform_row (pf_platform f) d = Inr found"
      "text_column 100 (opt_pstr (null_if_empty (pf_shop_id f))) = Inr shop"
    using assms(2) by (auto simp: save_platform_def sbnd_eq_Inr)
  show ?thesis
  proof (cases found)
    case None
    then have "\<forall>x \<in> set (db_platforms d). pc_platform x \<noteq> pf_platform f"
      using s(1) scalar_Inr(1) by (fastforce simp: platform_row_def filter_empty_conv)
    with assms(2) s None show ?thesis
      by (auto simp: save_platform_def Let_def intro!: constraints_audit constraints_new_platform [OF assms(1)])
  next
    case (Some r)
    with assms(2) s show ?thesis
      by (auto simp: save_platform_def Let_def intro!: constraints_audit constraints_upd_platforms [OF assms(1)])
  qed
qed

lemma constraints_delete_platform:
  assumes "constraints d" "delete_platform rq platform now d = Inr (u, d')" shows "constraints d'"
proof -
  have "constraints (d\<lparr>db_platforms := del_rows p (db_platforms d)\<rparr>)" for p
    using constraintsD(6) [OF assms(1)]
    by (intro constraintsI [OF assms(1)]) (auto simp: platforms_ok_def keyed_del_rows, simp add: del_rows_def)
  with assms show ?thesis
    by (auto simp: delete_platform_def sbnd_eq_Inr intro!: constraints_audit split: option.splits)
qed

lemma constraints_save_stock:
  assumes "constraints d" "save_stock rq f now d = Inr (u, d')" shows "constraints d'"
proof -
  obtain target where t: "target_stock f d = Inr target" using assms(2) by (auto simp: save_stock_def sbnd_eq_Inr)
  show ?thesis
  proof (cases target)
    case None
    with assms t show ?thesis by (simp add: save_stock_def)
  next
    case (Some found)
    let ?i = "case found of None \<Rightarrow> db_next_id d | Some r \<Rightarrow> sc_id r"
    let ?row = "\<lparr>sc_id = ?i, sc_odoo_sku = sf_odoo_sku f, sc_platform = sf_platform f,
       sc_allocation_pct = numeric_2 (sf_allocation_pct f), sc_buffer_pct = numeric_2 (sf_buffer_pct f),
       sc_is_active = on (sf_is_active f)\<rparr>"
    let ?d = "case found of None \<Rightarrow> d\<lparr>db_stock := db_stock d @ [?row], db_next_id := db_next_id d + 1\<rparr>
       | Some r \<Rightarrow> d\<lparr>db_stock := upd_rows (\<lambda>x. sc_id x = ?i) (\<lambda>_. ?row) (db_stock d)\<rparr>"
    have ok: "keyed sc_id (db_stock d)" "keyed stock_key (db_stock d)" "\<forall>r \<in> set (db_stock d). sc_id r < db_next_id d"
      using constraintsD(7) [OF assms(1)] by (simp_all add: stock_ok_def)
    from assms(2) t Some obtain a tg p where d': "d' = audit_row rq a tg p now ?d"
      and free: "\<forall>r \<in> set (db_stock d). sc_id r \<noteq> ?i \<longrightarrow> stock_key r \<noteq> stock_key ?row"
      by (auto simp: save_stock_def sbnd_eq_Inr Let_def stock_key_def split: if_splits)
    have "constraints ?d"
    proof (cases found)
      case None
      with ok free show ?thesis
        by (intro constraintsI [OF assms(1)]) (fastforce simp: stock_ok_def intro!: keyed_snoc)+
    next
      case (Some r)
      then have "sc_id r < db_next_id d" using t \<open>target = Some found\<close> ok(3)
        by (auto simp: target_stock_def sbnd_eq_Inr dest!: by_id_Inr split: if_splits)
      moreover have "keyed stock_key (upd_rows (\<lambda>x. sc_id x = sc_id r) (\<lambda>_. ?row) (db_stock d))"
        by (rule keyed_replace [OF ok(1) _ ok(2)]) (use free Some in auto)
      moreover have "keyed sc_id (upd_rows (\<lambda>x. sc_id x = sc_id r) (\<lambda>_. ?row) (db_stock d))"
        by (rule keyed_replace [OF ok(1) _ ok(1)]) (use Some in auto)
      ultimately have "stock_ok ?d" using ok(3) Some by (auto simp: stock_ok_def set_upd_rows)
      then show ?thesis by (intro constraintsI [OF assms(1)]) (simp_all add: Some)
    qed
    with d' show ?thesis by (simp add: constraints_audit)
  qed
qed

lemma constraints_delete_stock:
  assumes "constraints d" "delete_stock rq i now d = Inr (u, d')" shows "constraints d'"
proof -
  have "constraints (d\<lparr>db_stock := del_rows p (db_stock d)\<rparr>)" for p
    using constraintsD(7) [OF assms(1)]
    by (intro constraintsI [OF assms(1)]) (auto simp: stock_ok_def keyed_del_rows, simp add: del_rows_def)
  with assms show ?thesis
    by (auto simp: delete_stock_def sbnd_eq_Inr intro!: constraints_audit split: option.splits)
qed

section \<open>Products\<close>

text \<open>What a write to the catalogue leaves alone.\<close>

definition same_but_catalogue :: "db \<Rightarrow> db \<Rightarrow> bool" where
  "same_but_catalogue d d' \<longleftrightarrow> db_next_id d \<le> db_next_id d' \<and> db_orders d' = db_orders d \<and>
     db_outbox d' = db_outbox d \<and> db_event_log d' = db_event_log d \<and> db_platforms d' = db_platforms d \<and>
     db_stock d' = db_stock d"

lemma constraints_catalogue:
  assumes "constraints d" "same_but_catalogue d d'" "catalogue_ok d'" "components_ok d'"
  shows "constraints d'"
  by (rule constraintsI [OF assms(1)]) (use assms(2-4) in \<open>simp_all add: same_but_catalogue_def\<close>)

lemma add_components_ids:
  assumes "fold (add_component i) ps (Inr d) = Inr d'" "components_ok d"
  shows "components_ok d' \<and> same_but_catalogue d d'"
  using assms
proof (induction ps arbitrary: d)
  case (Cons p ps)
  obtain d1 where d1: "add_component i p (Inr d) = Inr d1" "fold (add_component i) ps (Inr d1) = Inr d'"
    using Cons.prems(1) by (cases "add_component i p (Inr d)") (auto simp: add_component_Inl)
  obtain c where c: "d1 = d\<lparr>db_components := db_components d @ [c], db_next_id := db_next_id d + 1\<rparr>" "bc_id c = db_next_id d"
    using d1(1) by (cases p) (auto simp: add_component_def sbnd_eq_Inr)
  have "components_ok d1"
    using Cons.prems(2) c by (fastforce simp: components_ok_def intro!: keyed_snoc)
  from Cons.IH [OF d1(2) this] c show ?case by (simp add: same_but_catalogue_def)
qed (simp add: same_but_catalogue_def)

lemma constraints_save_product:
  assumes "constraints d" "save_product rq f now d = Inr (r, d')" shows "constraints d'"
proof (cases r)
  case None
  with assms save_product_None show ?thesis by blast
next
  case (Some p)
  then obtain i old where p: "r = Some (i, old)" by (cases p) auto
  with assms(2) obtain found d1 d2 a t pl where put: "put_product f found now d = Inr (i, d1)"
    and add: "fold (add_component i) (form_components f)
      (Inr (d1\<lparr>db_components := del_rows (\<lambda>c. bc_mapping_id c = i) (db_components d1)\<rparr>)) = Inr d2"
    and d': "d' = audit_row rq a t pl now d2"
    by (fastforce simp: save_product_def sbnd_eq_Inr split: option.splits)
  have d1: "same_but_catalogue d d1 \<and> db_components d1 = db_components d"
    using put by (auto simp: put_product_def sbnd_eq_Inr Let_def same_but_catalogue_def split: option.splits if_splits)
  have "components_ok (d1\<lparr>db_components := del_rows (\<lambda>c. bc_mapping_id c = i) (db_components d1)\<rparr>)"
    using constraintsD(5) [OF assms(1)] d1
    by (fastforce simp: components_ok_def same_but_catalogue_def del_rows_def keyed_def distinct_map_filter)
  from add_components_ids [OF add this] have 2: "components_ok d2 \<and> same_but_catalogue d d2"
    using d1 by (simp add: same_but_catalogue_def)
  show ?thesis
  proof (rule constraints_catalogue [OF assms(1)])
    show "catalogue_ok d'" using save_product_Some(1) [OF constraintsD(4) [OF assms(1)]] assms(2) p by blast
    show "components_ok d'" using 2 d' by (auto simp: components_ok_def audit_row_def)
    show "same_but_catalogue d d'" using 2 d' by (simp add: same_but_catalogue_def audit_row_def)
  qed
qed

lemma constraints_delete_product:
  assumes "constraints d" "delete_product rq i now d = Inr (r, d')" shows "constraints d'"
proof -
  have cat: "catalogue_ok d'" using delete_product_ok [OF constraintsD(4) [OF assms(1)] assms(2)] .
  have comps: "components_ok (d\<lparr>db_products := ps, db_components := del_rows q (db_components d)\<rparr>)" for ps q
    using constraintsD(5) [OF assms(1)] by (simp add: components_ok_def keyed_del_rows) (simp add: del_rows_def)
  from delete_product_cases [OF assms(2)] show ?thesis
  proof
    assume "\<exists>a t pl. d' = audit_row rq a t pl now
      (d\<lparr>db_products := del_rows (\<lambda>m. pm_id m = i) (db_products d),
         db_components := del_rows (\<lambda>c. bc_mapping_id c = i) (db_components d)\<rparr>)"
    then obtain a t pl where d': "d' = audit_row rq a t pl now
      (d\<lparr>db_products := del_rows (\<lambda>m. pm_id m = i) (db_products d),
         db_components := del_rows (\<lambda>c. bc_mapping_id c = i) (db_components d)\<rparr>)" by blast
    show ?thesis
    proof (rule constraints_catalogue [OF assms(1) _ cat])
      show "same_but_catalogue d d'" by (simp add: d' same_but_catalogue_def audit_row_def)
      show "components_ok d'" unfolding d'
        by (rule parts_cong(5) [OF _ _ comps [of "\<lambda>c. bc_mapping_id c = i"
          "del_rows (\<lambda>m. pm_id m = i) (db_products d)"]]) (simp_all add: audit_row_def)
    qed
  qed (use assms(1) in simp)
qed

lemma constraints_retry:
  assumes "constraints d" shows "constraints (snd (retry_txn rq i now d))"
proof -
  have "constraints (snd (reset_order i now d))"
    by (auto simp: reset_order_def assms om_key_def intro!: constraints_update_order split: option.split)
  then show ?thesis by (auto simp: retry_txn_def assms constraints_audit split: option.split)
qed

section \<open>The commits\<close>

text \<open>One rule per transaction of the program.\<close>

inductive commit :: "db \<Rightarrow> db \<Rightarrow> bool" where
  claim_pending: "commit d (snd (claim_pending locked oid now d))"
| claim_due: "commit d (snd (claim_due locked batch now d))"
| record_published: "commit d (snd (record_published oid now d))"
| record_failure: "commit d (snd (record_failure_row oid err now d))"
| reset_for_retry: "commit d (snd (reset_for_retry oid now d))"
| mark_dead_letter: "commit d (snd (mark_dead_letter oid pl poid sku now d))"
| cleanup_outbox: "commit d (snd (cleanup_outbox now d))"
| retention_cleanup: "commit d (snd (retention_cleanup now d))"
| log_event: "add_event_log sig valid body code sn None client err now d = Inr (u, d') \<Longrightarrow> commit d d'"
| ingest: "ingest sig body et code sn payload client now d = Inr (i, d') \<Longrightarrow> commit d d'"
| seed_rows: "seed_rows rows now d = Inr (u, d') \<Longrightarrow> commit d d'"
| claim_order: "commit d (snd (claim_order platform oid sn now d))"
| mark_exists: "commit d (snd (mark_exists k v now d))"
| mark_failed: "commit d (snd (mark_failed k err now d))"
| mark_success: "commit d (snd (mark_success k v nm now d))"
| log_run: "commit d (d\<lparr>db_reconciliation := db_reconciliation d @ [log_row r]\<rparr>)"
| save_backup: "commit d (snd (save_backup shop secrets now d))"
| retry_order: "commit d (snd (retry_txn rq i now d))"
| save_platform: "save_platform rq pf now d = Inr (u, d') \<Longrightarrow> commit d d'"
| delete_platform: "delete_platform rq pl now d = Inr (b, d') \<Longrightarrow> commit d d'"
| save_product: "save_product rq mf now d = Inr (saved, d') \<Longrightarrow> commit d d'"
| delete_product: "delete_product rq i now d = Inr (gone, d') \<Longrightarrow> commit d d'"
| save_stock: "save_stock rq sf now d = Inr (b, d') \<Longrightarrow> commit d d'"
| delete_stock: "delete_stock rq i now d = Inr (b, d') \<Longrightarrow> commit d d'"

lemma commit_constraints:
  assumes "commit d d'" "constraints d" shows "constraints d'"
  using assms
proof (induction rule: commit.induct)
  case (log_event sig valid body code sn client err now d u d')
  then show ?case by (intro constraints_event_log [OF log_event(2,1)]) simp
next
  case (log_run d r)
  then show ?case by (intro constraintsI [OF log_run]) simp_all
qed (rule constraints_outbox_writes constraints_mark_dead_letter constraints_cleanups constraints_claim_order
    constraints_marks [OF _ marks_write(1)] constraints_marks [OF _ marks_write(2)]
    constraints_marks [OF _ marks_write(3)] constraints_save_backup constraints_retry
    constraints_ingest constraints_seed_rows constraints_save_platform constraints_delete_platform
    constraints_save_product constraints_delete_product constraints_save_stock constraints_delete_stock;
    assumption)+

interpretation tables: transition_invariant commit constraints
  by unfold_locales (rule commit_constraints)

section \<open>What is never lost\<close>

text \<open>The identity of an order: its id, its key and its creation.\<close>

definition order_identity :: "order_mapping \<Rightarrow> int \<times> (string \<times> string) \<times> instant" where
  "order_identity m = (om_id m, om_key m, om_created_at m)"

definition kept :: "db \<Rightarrow> db \<Rightarrow> bool" where
  "kept d d' \<longleftrightarrow> prefix (db_audit d) (db_audit d') \<and> prefix (db_reconciliation d) (db_reconciliation d') \<and>
     prefix (map order_identity (db_orders d)) (map order_identity (db_orders d'))"

lemma kept_trans: "kept d0 d \<Longrightarrow> kept d d' \<Longrightarrow> kept d0 d'"
  unfolding kept_def
  using prefix_order.trans [of "db_audit d0" "db_audit d" "db_audit d'"]
    prefix_order.trans [of "db_reconciliation d0" "db_reconciliation d" "db_reconciliation d'"]
    prefix_order.trans [of "map order_identity (db_orders d0)" "map order_identity (db_orders d)"
      "map order_identity (db_orders d')"] by simp

lemma kept_same:
  "db_audit d' = db_audit d \<Longrightarrow> db_reconciliation d' = db_reconciliation d \<Longrightarrow> db_orders d' = db_orders d \<Longrightarrow> kept d d'"
  by (simp add: kept_def)

lemma kept_audit: "kept d d' \<Longrightarrow> kept d (audit_row rq a t p now d')"
  by (auto simp: kept_def audit_row_def prefix_append)

lemma map_upd_rows: "(\<And>r. p r \<Longrightarrow> g (f r) = g r) \<Longrightarrow> map g (upd_rows p f rows) = map g rows"
  by (simp add: upd_rows_def)

lemma kept_upd_orders:
  "(\<And>r. p r \<Longrightarrow> order_identity (f r) = order_identity r) \<Longrightarrow>
   db_audit d' = db_audit d \<Longrightarrow> db_reconciliation d' = db_reconciliation d \<Longrightarrow>
   db_orders d' = upd_rows p f (db_orders d) \<Longrightarrow> kept d d'"
  by (simp add: kept_def map_upd_rows)

lemma kept_update_order:
  assumes "\<And>r. order_identity (f r) = order_identity r" shows "kept d (update_order i f now d)"
  by (rule kept_upd_orders [where p = "\<lambda>r. om_id r = i" and f = "\<lambda>r. (f r)\<lparr>om_updated_at := now\<rparr>"])
    (use assms in \<open>simp_all add: update_order_def order_identity_def om_key_def\<close>)

lemma kept_order_writes:
  "kept d (snd (claim_order platform oid sn now d))" "kept d (snd (mark_exists k v now d))"
  "kept d (snd (mark_failed k err now d))" "kept d (snd (mark_success k v nm now d))"
  "kept d (snd (reset_order i now d))"
proof -
  note up = kept_update_order order_identity_def om_key_def
  have same: "kept d d" by (simp add: kept_same)
  have new: "kept d (d\<lparr>db_orders := db_orders d @ [m], db_next_id := n\<rparr>)" for m n by (simp add: kept_def)
  show "kept d (snd (claim_order platform oid sn now d))"
    by (auto simp: claim_order_def up same new split: sum.split option.split)
  show "kept d (snd (mark_exists k v now d))"
    by (auto simp: mark_exists_def up same split: sum.split option.split)
  show "kept d (snd (mark_failed k err now d))" by (simp add: mark_failed_def up)
  show "kept d (snd (mark_success k v nm now d))"
    by (auto simp: mark_success_def up same split: sum.split option.split)
  show "kept d (snd (reset_order i now d))"
    by (auto simp: reset_order_def up same split: option.split)
qed

lemma kept_mark_dead_letter: "kept d (snd (mark_dead_letter oid pl poid sku now d))"
proof (cases poid)
  case None
  then show ?thesis by (simp add: mark_dead_letter_def Let_def kept_same)
next
  case (Some i)
  show ?thesis
    by (rule kept_upd_orders [where p = "\<lambda>m. om_platform m = pl \<and> om_platform_order_id m = i"
        and f = "\<lambda>m. m\<lparr>om_status := ''dead_letter'', om_last_error := Some (''ProductNotFound: sku='' @ sku),
          om_updated_at := now\<rparr>"])
      (simp_all add: mark_dead_letter_def Let_def Some order_identity_def om_key_def)
qed

lemma kept_add_components:
  "fold (add_component i) ps (Inr d) = Inr d' \<Longrightarrow> \<exists>cs n. d' = d\<lparr>db_components := cs, db_next_id := n\<rparr>"
proof (induction ps arbitrary: d)
  case Nil
  then show ?case by (intro exI [of _ "db_components d"] exI [of _ "db_next_id d"]) simp
next
  case (Cons p ps)
  obtain d1 where d1: "add_component i p (Inr d) = Inr d1" "fold (add_component i) ps (Inr d1) = Inr d'"
    using Cons.prems by (cases "add_component i p (Inr d)") (auto simp: add_component_Inl)
  then obtain cs n where "d1 = d\<lparr>db_components := cs, db_next_id := n\<rparr>"
    by (cases p) (auto simp: add_component_def sbnd_eq_Inr)
  with Cons.IH [OF d1(2)] show ?case by auto
qed

lemma kept_seed_rows: "fold (seed_row now) rows (Inr d) = Inr d' \<Longrightarrow> kept d d'"
proof (induction rows arbitrary: d)
  case (Cons row rows)
  show ?case
  proof (cases "seed_row now row (Inr d)")
    case (Inl e)
    with Cons.prems show ?thesis by (simp add: seed_row_Inl)
  next
    case (Inr d1)
    then have "kept d d1" by (cases row) (auto simp: seed_row_def sbnd_eq_Inr add_outbox_def intro!: kept_same)
    moreover have "kept d1 d'" using Cons Inr by simp
    ultimately show ?thesis by (rule kept_trans)
  qed
qed (simp add: kept_same)

lemma kept_save_product:
  assumes "save_product rq f now d = Inr (r, d')" shows "kept d d'"
proof (cases r)
  case None
  with assms save_product_None have "d' = d" by blast
  then show ?thesis by (simp add: kept_same)
next
  case (Some p)
  with assms obtain found i d1 d2 a t pl where put: "put_product f found now d = Inr (i, d1)"
    and add: "fold (add_component i) (form_components f)
      (Inr (d1\<lparr>db_components := del_rows (\<lambda>c. bc_mapping_id c = i) (db_components d1)\<rparr>)) = Inr d2"
    and d': "d' = audit_row rq a t pl now d2"
    by (cases p) (fastforce simp: save_product_def sbnd_eq_Inr split: option.splits)
  have "kept d d1"
    using put by (auto simp: put_product_def sbnd_eq_Inr Let_def intro!: kept_same split: option.splits if_splits)
  moreover obtain cs n where "d2 = d1\<lparr>db_components := cs, db_next_id := n\<rparr>" using kept_add_components [OF add] by auto
  then have "kept d1 d2" by (simp add: kept_same)
  ultimately show ?thesis unfolding d' by (intro kept_audit) (rule kept_trans)
qed

lemma kept_save_stock:
  assumes "save_stock rq f now d = Inr (b, d')" shows "kept d d'"
proof -
  obtain target where t: "target_stock f d = Inr target" using assms by (auto simp: save_stock_def sbnd_eq_Inr)
  show ?thesis
  proof (cases target)
    case None
    with assms t show ?thesis by (simp add: save_stock_def kept_same)
  next
    case (Some found)
    with assms t show ?thesis
      by (cases found) (auto simp: save_stock_def sbnd_eq_Inr Let_def kept_audit kept_same split: if_splits)
  qed
qed

lemma commit_kept:
  assumes "commit d d'" shows "kept d d'"
  using assms
proof (induction rule: commit.induct)
  case (claim_pending d locked oid now)
  show ?case by (auto simp: claim_pending_def intro!: kept_same split: option.split prod.split)
next
  case (claim_due d locked batch now)
  show ?case by (simp add: claim_due_def Let_def kept_same)
next
  case (record_published d oid now)
  show ?case by (simp add: record_published_def kept_same)
next
  case (record_failure d oid err now)
  show ?case by (auto simp: record_failure_row_def intro!: kept_same split: option.split)
next
  case (reset_for_retry d oid now)
  show ?case by (auto simp: reset_for_retry_def intro!: kept_same split: option.split)
next
  case (cleanup_outbox d now)
  show ?case by (rule kept_same) (simp_all add: cleanup_outbox_def Let_def)
next
  case (retention_cleanup d now)
  show ?case by (rule kept_same) (simp_all add: retention_cleanup_def Let_def)
next
  case (log_event sig valid body code sn client err now d u d')
  from add_event_log_Inr [OF this] show ?case by (auto intro!: kept_same)
next
  case (ingest sig body et code sn payload client now d i d')
  then show ?case by (auto simp: ingest_def sbnd_eq_Inr add_outbox_def intro!: kept_same dest!: add_event_log_Inr)
next
  case (seed_rows rows now d u d')
  then show ?case by (auto simp: seed_rows_def sbnd_eq_Inr intro: kept_seed_rows)
next
  case (log_run d r)
  show ?case by (simp add: kept_def)
next
  case (save_backup d shop secrets now)
  show ?case by (rule kept_same) (simp_all add: save_backup_def split: option.split)
next
  case (retry_order d rq i now)
  show ?case by (auto simp: retry_txn_def kept_same intro!: kept_audit kept_order_writes split: option.split)
next
  case (save_platform rq pf now d u d')
  then show ?case
    by (auto simp: save_platform_def sbnd_eq_Inr Let_def intro!: kept_audit kept_same split: option.split)
next
  case (delete_platform rq pl now d b d')
  then show ?case by (auto simp: delete_platform_def sbnd_eq_Inr kept_audit kept_same split: option.splits)
next
  case (delete_product rq i now d gone d')
  from delete_product_cases [OF this] show ?case by (auto intro!: kept_audit kept_same)
next
  case (save_stock rq sf now d b d')
  then show ?case by (rule kept_save_stock)
next
  case (delete_stock rq i now d b d')
  then show ?case by (auto simp: delete_stock_def sbnd_eq_Inr intro!: kept_audit kept_same split: option.splits)
qed (rule kept_order_writes kept_mark_dead_letter kept_save_product; assumption?)+

interpretation kept: transition_invariant commit "kept d0" for d0
  by unfold_locales (rule kept_trans [OF _ commit_kept])

section \<open>What commits\<close>

text \<open>\<open>only_commits m\<close>: the call leads from the tables it finds to those it leaves by commits alone,
  also when it raises.\<close>

definition only_commits :: "('x world, exc, 'a) eff \<Rightarrow> bool" where
  "only_commits m \<longleftrightarrow> (\<forall>w. commit\<^sup>*\<^sup>* (w_db w) (w_db (snd (m w))))"

lemma only_commitsI: "(\<And>d0. keeps (on_db (commit\<^sup>*\<^sup>* d0)) m) \<Longrightarrow> only_commits m"
  by (auto simp: only_commits_def keeps_def on_db_def)

lemma then_commit: "commit d d' \<Longrightarrow> commit\<^sup>*\<^sup>* d0 d \<Longrightarrow> commit\<^sup>*\<^sup>* d0 d'"
  by (rule rtranclp.rtrancl_into_rtrancl)

lemmas committed = commit.intros [THEN then_commit]

lemma committing_publish [keeps_intros]:
  "keeps (on_db (commit\<^sup>*\<^sup>* d0)) (dispatch_row S dp)"
  "keeps (on_db (commit\<^sup>*\<^sup>* d0)) (fire_dead_letter_alerts S cfg ids)"
  "keeps (on_db (commit\<^sup>*\<^sup>* d0)) (try_publish_immediately S cfg locked i)"
  "keeps (on_db (commit\<^sup>*\<^sup>* d0)) (relay_outbox S cfg locked)"
  "keeps (on_db (commit\<^sup>*\<^sup>* d0)) (manual_retry S cfg locked i)"
proof -
  show d: "keeps (on_db (commit\<^sup>*\<^sup>* d0)) (dispatch_row S dp)" for dp
  proof (rule keepsI)
    fix w :: "'a world"
    assume "on_db (commit\<^sup>*\<^sup>* d0) w"
    then show "on_db (commit\<^sup>*\<^sup>* d0) (snd (dispatch_row S dp w))"
      by (auto simp: dispatch_row_def on_db_def ext_def bnd_def txn_eq split: prod.split sum.split
          intro: committed) (metis committed snd_conv)+
  qed
  show a: "keeps (on_db (commit\<^sup>*\<^sup>* d0)) (fire_dead_letter_alerts S cfg ids)" for ids
    unfolding fire_dead_letter_alerts_def send_dead_letter_alert_def by (auto intro!: keeps_intros)
  show t: "keeps (on_db (commit\<^sup>*\<^sup>* d0)) (try_publish_immediately S cfg locked i)"
    unfolding try_publish_immediately_def
    by (auto intro!: keeps_intros d a intro: committed split: prod.split option.split)
  show "keeps (on_db (commit\<^sup>*\<^sup>* d0)) (relay_outbox S cfg locked)"
    unfolding relay_outbox_def relay_pending_def relay_one_def
    by (auto intro!: keeps_intros d a intro: committed split: prod.split option.split)
  show "keeps (on_db (commit\<^sup>*\<^sup>* d0)) (manual_retry S cfg locked i)"
    unfolding manual_retry_def by (auto intro!: keeps_intros t intro: committed)
qed

lemma committing_sync [keeps_intros]:
  "keeps (on_db (commit\<^sup>*\<^sup>* d0)) (sync S cfg c ord)"
  "keeps (on_db (commit\<^sup>*\<^sup>* d0)) (fetch_and_sync S cfg c poid)"
proof -
  show s: "keeps (on_db (commit\<^sup>*\<^sup>* d0)) (sync S cfg c ord)" for ord
    unfolding sync_def sync_with_def Let_def
    by (auto intro!: keeps_intros intro: committed split: claim_result.split option.split prod.split)
  show "keeps (on_db (commit\<^sup>*\<^sup>* d0)) (fetch_and_sync S cfg c poid)"
    unfolding fetch_and_sync_def by (auto intro!: keeps_intros s)
qed

lemma committing_tokens [keeps_intros]: "keeps (on_db (commit\<^sup>*\<^sup>* d0)) (persist_tokens S cfg mf shop t)"
  unfolding persist_tokens_def backup_to_db_def
  by (auto intro!: keeps_intros intro: committed simp: Let_def split: option.split sum.split prod.split)

text \<open>The routes.\<close>

lemma committing_routes:
  "keeps (on_db (commit\<^sup>*\<^sup>* d0)) (shopee_webhook_request S cfg locked body auth sig client)"
  "keeps (on_db (commit\<^sup>*\<^sup>* d0)) (oauth_callback S cfg mf code shop state)"
  "keeps (on_db (commit\<^sup>*\<^sup>* d0)) (exchange_script S cfg mf code' shop' dry)"
  "keeps (on_db (commit\<^sup>*\<^sup>* d0)) (retry_order S cfg rq i)"
  "keeps (on_db (commit\<^sup>*\<^sup>* d0)) (platforms_save S cfg rq pf)"
  "keeps (on_db (commit\<^sup>*\<^sup>* d0)) (platforms_delete S cfg rq pl)"
  "keeps (on_db (commit\<^sup>*\<^sup>* d0)) (products_save S cfg rq mf')"
  "keeps (on_db (commit\<^sup>*\<^sup>* d0)) (products_delete S cfg rq i)"
  "keeps (on_db (commit\<^sup>*\<^sup>* d0)) (stock_save S cfg rq sf)"
  "keeps (on_db (commit\<^sup>*\<^sup>* d0)) (stock_delete S cfg rq i)"
proof -
  have log: "keeps (on_db (commit\<^sup>*\<^sup>* d0)) (log_only S signature valid body code sn client err)" for signature valid code sn err
    unfolding log_only_def by (auto intro!: keeps_intros intro: committed)
  have "keeps (on_db (commit\<^sup>*\<^sup>* d0)) (shopee_webhook S cfg body auth sig client)"
    unfolding shopee_webhook_def signed_webhook_def is_replay_def mark_processed_def Let_def
    by (auto intro!: keeps_intros log intro: committed split: sum.split prod.split)
  then show "keeps (on_db (commit\<^sup>*\<^sup>* d0)) (shopee_webhook_request S cfg locked body auth sig client)"
    unfolding shopee_webhook_request_def by (auto intro!: keeps_intros split: prod.split option.split)
  show "keeps (on_db (commit\<^sup>*\<^sup>* d0)) (oauth_callback S cfg mf code shop state)"
    unfolding oauth_callback_def exchange_and_persist_def by (auto intro!: keeps_intros split: option.split)
  show "keeps (on_db (commit\<^sup>*\<^sup>* d0)) (exchange_script S cfg mf code' shop' dry)"
    unfolding exchange_script_def by (auto intro!: keeps_intros split: option.split)
  show "keeps (on_db (commit\<^sup>*\<^sup>* d0)) (retry_order S cfg rq i)"
    unfolding retry_order_def by (auto intro!: keeps_intros intro: committed split: option.split)
  show "keeps (on_db (commit\<^sup>*\<^sup>* d0)) (platforms_save S cfg rq pf)"
    unfolding platforms_save_def by (auto intro!: keeps_intros intro: committed)
  show "keeps (on_db (commit\<^sup>*\<^sup>* d0)) (platforms_delete S cfg rq pl)"
    unfolding platforms_delete_def by (auto intro!: keeps_intros intro: committed)
  show "keeps (on_db (commit\<^sup>*\<^sup>* d0)) (products_save S cfg rq mf')"
    unfolding products_save_def by (auto intro!: keeps_intros intro: committed split: option.split prod.split)
  show "keeps (on_db (commit\<^sup>*\<^sup>* d0)) (products_delete S cfg rq i)"
    unfolding products_delete_def by (auto intro!: keeps_intros intro: committed split: option.split prod.split)
  show "keeps (on_db (commit\<^sup>*\<^sup>* d0)) (stock_save S cfg rq sf)"
    unfolding stock_save_def by (auto intro!: keeps_intros intro: committed)
  show "keeps (on_db (commit\<^sup>*\<^sup>* d0)) (stock_delete S cfg rq i)"
    unfolding stock_delete_def by (auto intro!: keeps_intros intro: committed)
qed

text \<open>The tasks.\<close>

lemma keeps_retry_transient [keeps_intros]: "keeps P (retry_transient e)"
  unfolding retry_transient_def by (auto intro!: keeps_intros split: exc.split)

lemma committing_order_tasks:
  "keeps (on_db (commit\<^sup>*\<^sup>* d0)) (process_webhook_event S cfg c oid pl et poid payload)"
  "keeps (on_db (commit\<^sup>*\<^sup>* d0)) (sync_order_to_odoo S cfg c i)"
proof -
  have l: "keeps (on_db (commit\<^sup>*\<^sup>* d0)) (process_logistics_event S cfg c pl poid payload)"
    unfolding process_logistics_event_def by (auto intro!: keeps_intros split: option.split)
  have r: "keeps (on_db (commit\<^sup>*\<^sup>* d0)) (run_event S cfg c pl et poid payload)"
    unfolding run_event_def by (auto intro!: keeps_intros l)
  have m: "keeps (on_db (commit\<^sup>*\<^sup>* d0)) (dead_letter_missing_sku S cfg oid pl poid sku)" for sku
    unfolding dead_letter_missing_sku_def by (auto intro!: keeps_intros intro: committed)
  show "keeps (on_db (commit\<^sup>*\<^sup>* d0)) (process_webhook_event S cfg c oid pl et poid payload)"
    unfolding process_webhook_event_def by (auto intro!: keeps_intros r m split: exc.split)
  show "keeps (on_db (commit\<^sup>*\<^sup>* d0)) (sync_order_to_odoo S cfg c i)"
    unfolding sync_order_to_odoo_def by (auto intro!: keeps_intros split: option.split exc.split)
qed

lemma keeps_sync_tasks:
  "keeps (on_db P) (sync_stock_for_sku S cfg c sku pls)"
  "keeps (on_db P) (stock_safety_net S cfg)"
  "keeps (on_db P) (sync_price_for_sku S cfg c sku pl)"
  "keeps (on_db P) (confirm_shipment_task S cfg pl poid tn)"
proof -
  have q: "keeps (on_db P) (mapping_quantity S cfg c platform m)" for platform m
    unfolding mapping_quantity_def by (auto intro!: keeps_intros)
  show "keeps (on_db P) (sync_stock_for_sku S cfg c sku pls)"
    unfolding sync_stock_for_sku_def sync_platform_stock_def push_mapping_def
    by (auto intro!: keeps_intros q)
  show "keeps (on_db P) (stock_safety_net S cfg)"
    unfolding stock_safety_net_def enqueue_mapping_def mapping_skus_def enqueue_sku_def
    by (auto intro!: keeps_intros)
  show "keeps (on_db P) (sync_price_for_sku S cfg c sku pl)"
    unfolding sync_price_for_sku_def load_syncable_price_def push_price_def
    by (auto intro!: keeps_intros split: sum.split option.split)
  show "keeps (on_db P) (confirm_shipment_task S cfg pl poid tn)"
    unfolding confirm_shipment_task_def by (auto intro!: keeps_intros split: exc.split)
qed

lemma committing_scheduled:
  "keeps (on_db (commit\<^sup>*\<^sup>* d0)) (refresh_shopee_token S cfg)"
  "keeps (on_db (commit\<^sup>*\<^sup>* d0)) (polling_fallback S cfg fuel)"
  "keeps (on_db (commit\<^sup>*\<^sup>* d0)) (run_reconciliation S cfg c dec_text fuel)"
  "keeps (on_db (commit\<^sup>*\<^sup>* d0)) (txn S cleanup_outbox)"
  "keeps (on_db (commit\<^sup>*\<^sup>* d0)) (txn S retention_cleanup)"
proof -
  show "keeps (on_db (commit\<^sup>*\<^sup>* d0)) (refresh_shopee_token S cfg)"
    unfolding refresh_shopee_token_def send_token_expiring_def by (auto intro!: keeps_intros)
  have pages: "keeps (on_db (commit\<^sup>*\<^sup>* d0)) (poll_pages S cfg now fuel cursor ol)" for now cursor ol
    by (induction fuel arbitrary: cursor ol) (auto simp: poll_page_def Let_def intro!: keeps_intros)
  show "keeps (on_db (commit\<^sup>*\<^sup>* d0)) (polling_fallback S cfg fuel)"
    unfolding polling_fallback_def seed_orders_def poll_order_def
    by (auto intro!: keeps_intros pages intro: committed split: option.split)
  have persist: "keeps (on_db (commit\<^sup>*\<^sup>* d0)) (persist S r)" for r
    unfolding persist_def by (auto intro!: keeps_intros intro: committed)
  have fix1: "keeps (on_db (commit\<^sup>*\<^sup>* d0)) (fix_missing S cfg c dec_text ord r)" for ord r
    unfolding fix_missing_def try_auto_fix_def by (auto intro!: keeps_intros)
  have drift: "keeps (on_db (commit\<^sup>*\<^sup>* d0)) (check_field_drift S cfg c dec_text pl os ss ms)" for pl os ss ms
    unfolding check_field_drift_def mapping_drifts_def by (auto intro!: keeps_intros split: option.split)
  have platform: "keeps (on_db (commit\<^sup>*\<^sup>* d0)) (run_for_platform S cfg c dec_text fuel pl day)" for pl day
    unfolding run_for_platform_def Let_def fetch_platform_orders_def send_reconciliation_alert_def
    by (intro keeps_intros persist fix1 drift) (auto intro!: keeps_intros persist fix1 drift split: list.split)
  show "keeps (on_db (commit\<^sup>*\<^sup>* d0)) (run_reconciliation S cfg c dec_text fuel)"
    unfolding run_reconciliation_def run_all_platforms_def send_reconciliation_alert_def
    by (auto intro!: keeps_intros platform split: option.split)
qed (auto intro!: keeps_intros intro: committed)

section \<open>The whole program\<close>






end
