(* ===== verification/Spec2Isabelle.thy ===== *)
theory Spec2Isabelle
  imports Prelude Rounding Errors Pyval Utils Config Breaker World Alerts Outbox Pystr Unified
    Transformer Mapping Odoo Stock Orders Signing Tokens Shopee Webhooks Reconciliation
    Workers Scheduled Http Admin Status Delivery Schema Operations App Consistency
begin

text \<open>
  The order and stock middleware between the Shopee marketplace and an Odoo server: a model of
  its Python code and the theorems that make it correct.

  \<^bold>\<open>The program.\<close> A FastAPI process (\<open>src/api\<close>) receives signed webhooks and writes each accepted
  event, with its audit row, to a transactional outbox. The outbox service publishes the rows to
  Celery, at once or by a relay that runs every half minute. The workers (\<open>src/workers\<close>) fetch the order
  from Shopee, transform it to the unified schema and create it in Odoo, once per order; other tasks
  push stock and prices to the marketplace, poll for missed orders, reconcile the two systems every
  night, renew tokens and clean up. Every remote call runs through a circuit breaker of its process.
  Administrators edit the product mappings, the stock allocation and the platforms in a small web
  interface guarded by a secret and a CSRF token. The schema comes from eight Alembic revisions.

  \<^bold>\<open>The model.\<close> An effectful function is an \<open>eff\<close> (Prelude): from the state to an exception or
  a value, with the state as the call leaves it. The state is the record \<open>world\<close> (World): the
  tables, the breakers of the process, the logged-in users of the Odoo clients, and an opaque
  outside \<open>'x\<close>. What lies outside \<open>src/\<close> (Redis, HTTP, XML-RPC, the Celery broker, JSON, the
  clock) is the record \<open>services\<close>, a parameter of every definition that uses it: each call maps the
  outside to an answer or exception and the next outside, so nothing is assumed about it unless a
  theorem says so. A transaction is one atomic step on the tables (\<open>txn\<close>, \<open>txn_e\<close>), or the
  exception and nothing. JSON and XML-RPC values are \<open>pyval\<close>; floats and decimals are the rationals
  they denote, rounded after each operation as binary64 or the 28 digit decimal context rounds
  (Rounding).

  \<^bold>\<open>Theories, code, and what is shown.\<close>

  \<^item> Prelude, Errors, Pyval, Pystr, Rounding: effects, transition systems, the exception hierarchy
    of \<open>core/exceptions.py\<close>, Python values and their printing, and the two arithmetics with their
    monotonicity (locale \<open>rounding\<close>, for \<open>fl\<close> and \<open>dec\<close>).
  \<^item> Utils, Config: \<open>core/utils.py\<close>, \<open>core/csrf.py\<close>, \<open>core/config.py\<close>: which settings the
    validator accepts, and what it lets through.
  \<^item> Breaker: \<open>core/circuit_breaker.py\<close> and \<open>workers/retry_policy.py\<close>. The critical sections of
    a call are steps that overlap freely; invariant, no admission while open, and that the
    countdown of a retry is long enough.
  \<^item> World, Alerts: \<open>models/\<close>, the sessions of \<open>core/database.py\<close>, \<open>services/alert_service.py\<close>.
  \<^item> Outbox, Delivery: \<open>services/outbox_service.py\<close> and its beat tasks. \<open>ox_step\<close> interleaves
    publishers, relays, crashes, consumers, operators and clean-ups; no accepted event is stranded, a
    claim excludes other claims for its lease, the relay publishes what is due. Delivery states
    the abstract mailbox and proves that the outbox refines it (locale \<open>forward_simulation\<close>).
  \<^item> Unified, Transformer: \<open>schemas/unified.py\<close>, \<open>transformers/shopee.py\<close>: which bodies are
    transformed, and that statuses only move forward (the statuses are a \<open>linorder\<close>).
  \<^item> Mapping, Stock: \<open>services/mapping_service.py\<close> with its cache, \<open>services/stock_service.py\<close>:
    affected mappings, bundle stock, and that no more is advertised than there is.
  \<^item> Odoo: \<open>odoo/client.py\<close>: classification of failures, dry run, lines of a bundle and
    their total.
  \<^item> Orders: \<open>services/order_service.py\<close>. \<open>ow_step\<close> interleaves workers, crashes and the
    operator: one Odoo order per marketplace order, and every sync settles its row. The calls to
    Odoo are the locale \<open>odoo_port\<close>.
  \<^item> Signing, Tokens, Shopee: \<open>connectors/\<close>: signatures (SHA-256 and HMAC on 32 bit
    words, as the standard library has them), token store, refresh under its lock, encrypted backup, OAuth state, the
    connector. \<open>connector\<close> is the interface of \<open>connectors/base.py\<close>, interpreted by the Shopee
    connector.
  \<^item> Webhooks: \<open>api/routers/webhooks.py\<close>: forged, replayed and accepted webhooks.
  \<^item> Reconciliation: \<open>services/reconciliation_service.py\<close>: the chunked lookups equal the
    whole ones, and the counters add up.
  \<^item> Workers, Scheduled: \<open>workers/\<close>: what each task asks of Celery for each failure, the dead
    letter of an unknown SKU, the safety net, polling, the task routes and the schedule.
  \<^item> Http, Admin: \<open>api/dependencies.py\<close>, \<open>api/csrf_helper.py\<close>, \<open>api/middleware.py\<close> and the routers
    \<open>admin.py\<close> and \<open>config_admin.py\<close>: guards, consistency of the catalogue under every handler, an
    audit row in every transaction that writes, and that a saved mapping is what the next lookup
    answers, the caches included.
  \<^item> Status: \<open>api/routers/shopee_admin.py\<close>, \<open>monitoring/health.py\<close>, \<open>api/routers/health.py\<close> and
    the OAuth scripts: a state opens the callback once; when the service is ready.
  \<^item> Schema: \<open>migrations/versions/\<close> as commands on a catalogue: the migrated tables are those of
    the ORM, each revision can be taken back, and what the three database roles may do.
  \<^item> App: the two processes. \<open>serve\<close> runs the routes of \<open>api/main.py\<close>, each with its path and method,
    behind the middlewares (\<open>app\<close>): nothing under \<open>/admin/\<close> answers a stranger, no GET writes, an
    oversized body reaches no route. \<open>bind_task\<close> and \<open>run_task\<close> are the tasks of \<open>workers/app.py\<close> as the
    messages of the broker start them: every message sent fits a task (\<open>messages_fit_tasks\<close>).
  \<^item> Consistency: the program as a whole. \<open>commit\<close> has a rule for each transaction of the components;
    every route and every task changes the tables by commits alone
    (\<open>entry_points_only_commit\<close>), and the keys, unique constraints and foreign keys of \<open>models/\<close>
    hold on every database that commits reach (\<open>reachable_tables_consistent\<close>, locale
    \<open>transition_invariant\<close>). The audit and reconciliation logs only grow, and no order is forgotten
    (\<open>trail_is_kept\<close>).
  \<^item> Operations: \<open>core/logging.py\<close> (redaction), \<open>scripts/verify_load_test.py\<close>,
    \<open>scripts/check_migration_safety.py\<close>.

  The properties at the end of this theory follow an order across the components: from the
  request of a webhook to the broker (Webhooks, Outbox), and from the event in a worker to the row
  of its order (Shopee, Orders, Outbox, Workers).

  \<^bold>\<open>Bounds and fuel.\<close> The loops that page through the platform's answers (\<open>get_orders_by_date\<close>, with the nightly run
  that uses it, and the polling task) may run for ever, so they take fuel and \<open>None\<close> is running out; \<open>orders_by_date_complete\<close> shows that fuel for the number of pages is
  enough, and \<open>orders_by_date_may_not_end\<close> that no fuel is enough for a platform that never says the last
  page. The other loops are structural. Characters stand for code points below 256.

  \<^bold>\<open>Not modelled.\<close> Logging calls and Prometheus counters, which nothing reads; the configuration of
  engines, pools, the Redis client, structlog, Alembic and FastAPI (\<open>core/database.py\<close> but for its
  sessions, \<open>core/redis.py\<close>, \<open>workers/_async_helper.py\<close>, \<open>core/rate_limit.py\<close>, \<open>migrations/env.py\<close>):
  their behaviour is that of the libraries. The rendering of HTML is the view handed to
  the template, and of the templates only the forms' token fields matter. Fernet and URL encoding are
  parameters. Row locks are the parameter \<open>locked\<close>, and the statements of one transaction
  are not interleaved with other transactions. Celery's own retry limit and time limits
  appear where a theorem depends on them.
\<close>

section \<open>From the webhook to the broker\<close>

lemma queue_of_event:
  "event_type_of code = Inr t \<Longrightarrow> t \<noteq> ''unknown'' \<Longrightarrow> map_of QUEUE_MAP (''shopee'', t) = Some ''orders.created.normal''"
  by (auto simp: event_type_of_def EVENT_TYPE_MAP_def QUEUE_MAP_def Let_def split: pyval.splits if_splits)



section \<open>From the event to the order row\<close>

lemma detail_platform:
  assumes "get_order_detail S cfg shop oid w = (Inr ord, w1)"
  shows "uo_platform ord = SHOPEE"
proof -
  from assms obtain now raw where "transform now raw = Inr ord"
    by (auto simp: get_order_detail_def bnd_eq_Inr gets_def throw_def split: if_splits)
  then show ?thesis by (cases raw) (auto simp: transform_def Let_def sbnd_eq_Inr)
qed

text \<open>C3: the order task, from the fetch to the tables. When the shop answers with the order the event
  names and the task claims its row, the task ends with that row settled to match what it
  reports: \<open>success\<close> for a synced order, \<open>dead_letter\<close> with the SKU for an unknown one, \<open>failed\<close> with the
  error for every retry it asks for, and \<open>failed\<close> or, when the database refused the last write,
  still \<open>syncing\<close> for an exception.\<close>

theorem order_task_settles:
  assumes "\<not> MIDDLEWARE_DRY_RUN cfg" and "orders_ok (w_db w)"
    and "get_order_detail S cfg (SHOPEE_SHOP_ID cfg) (PStr i) w = (Inr ord, w1)" "uo_platform_order_id ord = i"
    and "claim_order ''shopee'' i (Some (uo_platform_order_sn ord)) (now_w S w1) (w_db w) = (Inr (Claimed k), d)"
    and "process_webhook_event S cfg c oid ''shopee'' ''order'' (Some i) payload w = (r, w')"
  shows "\<exists>m. order_row ''shopee'' i (w_db w') = Some m \<and> om_id m = k \<and>
    (case r of
       Inr (Finished (OrderSynced s)) \<Rightarrow> om_status m = ''success''
     | Inr (Finished (DeadLettered sku)) \<Rightarrow>
         om_status m = ''dead_letter'' \<and> om_last_error m = Some (''ProductNotFound: sku='' @ sku)
     | Inr (Finished _) \<Rightarrow> False
     | Inr (RetryAsked e n) \<Rightarrow> om_status m = ''failed'' \<and> om_last_error m = Some (exc_str e)
     | Inl e \<Rightarrow> om_status m = ''failed'' \<and> om_last_error m = Some (exc_str e) \<or>
         om_status m = ''syncing'' \<and> class_of e = CDatabaseError)"
proof -
  define w2 where "w2 = w1\<lparr>w_uids := (w_uids w1)(c := None)\<rparr>"
  have db: "w_db w2 = w_db w" and now: "now_w S w2 = now_w S w1"
    using touches_no_tableD [OF shopee_port.detail_frame assms(3)] by (simp_all add: w2_def now_w_def)
  obtain rs w3 where sy: "sync S cfg c ord w2 = (rs, w3)" by fastforce
  have pl: "platform_value (uo_platform ord) = ''shopee''" using detail_platform [OF assms(3)] by simp
  have run: "run_event S cfg c ''shopee'' ''order'' (Some i) payload w = (map_sum id OrderSynced rs, w3)"
    using assms(1,3) sy by (cases rs)
      (simp_all add: run_event_def fetch_and_sync_def opt_pstr_def bnd_def new_odoo_client_def modify_def w2_def)
  have "orders_ok (w_db w2)" using assms(2) db by simp
  moreover have "claim_order (platform_value (uo_platform ord)) (uo_platform_order_id ord)
      (Some (uo_platform_order_sn ord)) (now_w S w2) (w_db w2) = (Inr (Claimed k), d)"
    using assms(4,5) db now pl by simp
  ultimately obtain m where m: "order_row ''shopee'' i (w_db w3) = Some m" "om_id m = k" and
    st: "case rs of
        Inr (SyncSuccess v nm) \<Rightarrow> om_status m = ''success'' \<and> om_last_error m = None \<and>
          int_column v = Inr (om_odoo_order_id m) \<and> text_column 50 nm = Inr (om_odoo_order_name m)
      | Inr (SyncSkipped reason) \<Rightarrow> reason = ''exists_in_odoo'' \<and> om_status m = ''success''
      | Inl e \<Rightarrow> om_status m = ''failed'' \<and> om_last_error m = Some (exc_str e) \<or>
          om_status m = ''syncing'' \<and> class_of e = CDatabaseError"
    using odoo_client.sync_settle [OF _ _ sy [unfolded sync_def]] assms(4) pl by auto
  show ?thesis
  proof (cases rs)
    case (Inr v)
    with run assms(6) have "r = Inr (Finished (OrderSynced v))" "w' = w3" by (simp_all add: process_finished)
    with m st Inr show ?thesis by (cases v) auto
  next
    case (Inl e)
    note raised = process_raised [OF run [unfolded Inl map_sum.simps id_apply], of oid]
    show ?thesis
    proof (cases "\<exists>sku. e = ProductNotFoundError sku")
      case True
      then obtain sku where e: "e = ProductNotFoundError sku" ..
      obtain x where "r = Inr (Finished (DeadLettered sku))"
        "w' = w3\<lparr>w_db := snd (mark_dead_letter oid ''shopee'' (Some i) sku (now_w S w3) (w_db w3)), w_ext := x\<rparr>"
        using dead_letter_missing_sku_effect [of S cfg oid "''shopee''" "Some i" sku w3] raised assms(6)
        by (auto simp: e bnd_def ret_def)
      with m dead_lettered_row [of "''shopee''" i "w_db w3" m oid sku "now_w S w3"] show ?thesis
        by (simp add: order_row_def om_key_def)
    next
      case False
      with raised assms(6) have "(r, w') = retry_transient e w3" by (cases e) simp_all
      with m st Inl show ?thesis
        by (cases e) (simp_all add: retry_transient_def ret_def throw_def)
    qed
  qed
qed

theorem order_task_settles_witness:
  "\<exists>w' m. process_webhook_event no_product_services dev_settings 0 5 ''shopee'' ''order'' (Some ''A1'') PNone no_product_world =
     (Inr (Finished (DeadLettered ''X1'')), w') \<and> order_row ''shopee'' ''A1'' (w_db w') = Some m \<and>
     om_status m = ''dead_letter''"
proof -
  let ?S = no_product_services and ?w = no_product_world
  obtain ord where f: "get_order_detail ?S dev_settings (SHOPEE_SHOP_ID dev_settings) (PStr ''A1'') ?w = (Inr ord, ?w)"
    and i: "uo_platform_order_id ord = ''A1''"
    using no_product_fetch by (auto simp: opt_pstr_def)
  have ok: "orders_ok (w_db ?w)" by (simp add: no_product_world_def orders_ok_def empty_db_def keyed_def)
  obtain k d where c: "claim_order ''shopee'' ''A1'' (Some (uo_platform_order_sn ord)) (now_w ?S ?w) (w_db ?w) = (Inr (Claimed k), d)"
    by (simp add: claim_order_def select_orders_def scalar_one_or_none_def no_product_world_def empty_db_def)
  obtain w1 where "run_event ?S dev_settings 0 ''shopee'' ''order'' (Some ''A1'') PNone ?w = (Inl (ProductNotFoundError ''X1''), w1)"
    using no_product_run by blast
  from process_raised [OF this, of 5] obtain w' where
    p: "process_webhook_event ?S dev_settings 0 5 ''shopee'' ''order'' (Some ''A1'') PNone ?w = (Inr (Finished (DeadLettered ''X1'')), w')"
    using dead_letter_missing_sku_effect [of ?S dev_settings 5 "''shopee''" "Some ''A1''" "''X1''" w1]
    by (auto simp: bnd_def ret_def)
  have "\<not> MIDDLEWARE_DRY_RUN dev_settings" by (simp add: dev_settings_def)
  from order_task_settles [OF this ok f i c p] p show ?thesis by auto
qed

end
